(* ===== verification/Prelude.thy ===== *)
theory Prelude
  imports "HOL-Library.Word"
begin

text \<open>
  The shared vocabulary of the development: Rust's machine integers, Rust's \<open>Result\<close> and the
  \<open>?\<close> operator, and the little-endian data fields of a Cap'n Proto struct.

  A struct's data section is a list of bytes.  The field with index \<open>i\<close> of a type that is
  \<open>w\<close> bytes wide occupies the bytes \<open>i * w\<close> up to \<open>i * w + w - 1\<close>, least significant byte
  first.  \<open>get_field\<close> and \<open>put_field\<close> read and write such a field; the lemmas in the collection
  \<open>field_simps_le\<close> say when a write is seen by a read and when it is not.
\<close>

unbundle bit_operations_syntax

section \<open>Rust's primitive types\<close>

type_synonym u8 = "8 word"
type_synonym u16 = "16 word"
type_synonym u32 = "32 word"
type_synonym u64 = "64 word"

text \<open>An \<open>i32\<close> is its two's complement bit pattern: \<open>sint\<close> reads it.\<close>

type_synonym i32 = "32 word"

text \<open>An \<open>f64\<close> is its IEEE 754 binary64 bit pattern.\<close>

type_synonym f64 = "64 word"

section \<open>Result and the question mark operator\<close>

datatype ('a, 'e) result = Ok (ok_of: 'a) | Err (err_of: 'e)

fun result_bind :: "('a, 'e) result \<Rightarrow> ('a \<Rightarrow> ('b, 'e) result) \<Rightarrow> ('b, 'e) result" where
  "result_bind (Ok a) f = f a"
| "result_bind (Err e) f = Err e"

fun is_ok :: "('a, 'e) result \<Rightarrow> bool" where
  "is_ok (Ok a) = True"
| "is_ok (Err e) = False"

lemma result_bind_eq_Ok [simp]:
  "result_bind r f = Ok b \<longleftrightarrow> (\<exists>a. r = Ok a \<and> f a = Ok b)"
  by (cases r) auto

lemma result_bind_assoc:
  "result_bind (result_bind r f) g = result_bind r (\<lambda>x. result_bind (f x) g)"
  by (cases r) auto

lemma result_bind_map: "result_bind r (\<lambda>a. Ok (f a)) = map_result f id r"
  by (cases r) simp_all

lemma map_result_eq_Ok [simp]:
  "map_result f g r = Ok b \<longleftrightarrow> (\<exists>a. r = Ok a \<and> b = f a)"
  by (cases r) auto

lemma is_ok_iff: "is_ok r \<longleftrightarrow> (\<exists>a. r = Ok a)"
  by (cases r) auto

section \<open>Words\<close>

lemma unat_of_nat_small: "n < 2 ^ LENGTH('a) \<Longrightarrow> unat (of_nat n :: 'a::len word) = n"
  by (simp add: unsigned_of_nat take_bit_nat_eq_self)

section \<open>Little-endian fields\<close>

named_theorems field_simps_le

definition byte_width :: "'a::len itself \<Rightarrow> nat" where
  "byte_width _ = LENGTH('a) div 8"

fun le_word :: "u8 list \<Rightarrow> 'a::len word" where
  "le_word [] = 0"
| "le_word (b # bs) = ucast b OR push_bit 8 (le_word bs)"

definition word_le :: "'a::len word \<Rightarrow> u8 list" where
  "word_le w = map (\<lambda>k. ucast (drop_bit (8 * k) w)) [0..<LENGTH('a) div 8]"

definition get_field :: "u8 list \<Rightarrow> nat \<Rightarrow> 'a::len word" where
  "get_field bs i =
     (let w = byte_width TYPE('a) in le_word (take w (drop (i * w) bs)))"

definition put_field :: "u8 list \<Rightarrow> nat \<Rightarrow> 'a::len word \<Rightarrow> u8 list" where
  "put_field bs i v =
     (let w = byte_width TYPE('a) in take (i * w) bs @ word_le v @ drop (i * w + w) bs)"

text \<open>The field lies inside the section.\<close>

definition field_in :: "'a::len itself \<Rightarrow> nat \<Rightarrow> u8 list \<Rightarrow> bool" where
  "field_in T i bs \<longleftrightarrow> (i + 1) * byte_width T \<le> length bs"

lemma byte_width_simps [simp]:
  "byte_width TYPE(16) = 2" "byte_width TYPE(32) = 4" "byte_width TYPE(64) = 8"
  by (simp_all add: byte_width_def)

lemma bit_le_word:
  "bit (le_word bs :: 'a::len word) n \<longleftrightarrow>
     n < LENGTH('a) \<and> n div 8 < length bs \<and> bit (bs ! (n div 8)) (n mod 8)"
proof (induction bs arbitrary: n)
  case Nil
  then show ?case by simp
next
  case (Cons b bs)
  show ?case
  proof (cases "n < 8")
    case True
    then show ?thesis
      by (auto simp: bit_or_iff bit_ucast_iff bit_push_bit_iff)
  next
    case False
    then have "n div 8 = Suc ((n - 8) div 8)" and "(n - 8) mod 8 = n mod 8"
      by (simp_all add: le_div_geq le_mod_geq)
    moreover have "\<not> bit b n"
      using False bit_imp_le_length [of b n] by auto
    ultimately show ?thesis
      using False Cons.IH [of "n - 8"]
      by (auto simp: bit_or_iff bit_ucast_iff bit_push_bit_iff)
  qed
qed

lemma length_word_le [simp]: "length (word_le (w :: 'a::len word)) = byte_width TYPE('a)"
  by (simp add: word_le_def byte_width_def)

lemma le_word_word_le:
  assumes "8 dvd LENGTH('a)"
  shows "le_word (word_le w) = (w :: 'a::len word)"
proof (rule bit_word_eqI)
  fix n
  assume n: "n < LENGTH('a)"
  with assms have "n div 8 < LENGTH('a) div 8"
    by (auto elim!: dvdE)
  then show "bit (le_word (word_le w) :: 'a word) n = bit w n"
    using n by (simp add: bit_le_word word_le_def byte_width_def bit_ucast_iff bit_drop_bit_eq)
qed

lemma le_word_zero: "le_word (replicate n 0) = 0"
  by (induction n) simp_all


lemma length_put_field [simp]:
  "field_in TYPE('a::len) i bs \<Longrightarrow> length (put_field bs i (v :: 'a word)) = length bs"
  by (auto simp: put_field_def field_in_def Let_def)

lemma field_in_put [simp]:
  assumes "field_in TYPE('a::len) i bs"
  shows "field_in T j (put_field bs i (v :: 'a word)) \<longleftrightarrow> field_in T j bs"
  using assms by (simp add: field_in_def [of T])

lemma get_put_same [field_simps_le]:
  assumes "8 dvd LENGTH('a::len)" and "field_in TYPE('a) i bs"
  shows "get_field (put_field bs i v) i = (v :: 'a word)"
proof -
  let ?w = "byte_width TYPE('a)"
  have "i * ?w \<le> length bs"
    using assms(2) by (simp add: field_in_def)
  then have "take ?w (drop (i * ?w) (put_field bs i v)) = word_le v"
    by (simp add: put_field_def Let_def)
  then show ?thesis
    using assms(1) by (simp add: get_field_def Let_def le_word_word_le)
qed

text \<open>A read that starts after the written field, or ends before it, does not see the write.\<close>

definition apart :: "'a::len itself \<Rightarrow> nat \<Rightarrow> 'b::len itself \<Rightarrow> nat \<Rightarrow> bool" where
  "apart T i U j \<longleftrightarrow>
     (j + 1) * byte_width U \<le> i * byte_width T \<or> (i + 1) * byte_width T \<le> j * byte_width U"

lemma get_put_apart [field_simps_le]:
  assumes "field_in TYPE('a::len) i bs" and "apart TYPE('a) i TYPE('b::len) j"
  shows "(get_field (put_field bs i (v :: 'a word)) j :: 'b word) = get_field bs j"
proof -
  let ?w = "byte_width TYPE('a)" and ?u = "byte_width TYPE('b)"
  have len: "i * ?w + ?w \<le> length bs"
    using assms(1) by (simp add: field_in_def)
  have "take ?u (drop (j * ?u) (put_field bs i v)) = take ?u (drop (j * ?u) bs)"
  proof (cases "j * ?u + ?u \<le> i * ?w")
    case True
    then have "j * ?u \<le> i * ?w" and "?u \<le> i * ?w - j * ?u" and "i * ?w \<le> length bs"
      using len by linarith+
    then show ?thesis
      by (simp add: put_field_def Let_def take_drop)
  next
    case False
    then have ge: "i * ?w + ?w \<le> j * ?u"
      using assms(2) by (auto simp: apart_def algebra_simps)
    have "drop (j * ?u) (put_field bs i v) = drop (j * ?u) bs"
      using ge len by (simp add: put_field_def Let_def drop_append)
    then show ?thesis by simp
  qed
  then show ?thesis
    by (simp add: get_field_def Let_def)
qed

lemma get_field_zero [simp]: "get_field (replicate n 0) i = 0"
  by (simp add: get_field_def Let_def le_word_zero take_replicate)

text \<open>Two fields that overlap: a 32-bit write into the low half of a 64-bit field.\<close>

lemma get64_put32_low:
  assumes "8 \<le> length bs"
  shows "(get_field (put_field bs 0 (v :: 32 word)) 0 :: 64 word) =
           ucast v OR (get_field bs 0 AND NOT (mask 32))"
proof (rule bit_word_eqI)
  fix n :: nat
  assume n: "n < LENGTH(64)"
  have d: "n div 8 < 8" using n by simp
  have w: "take 8 (put_field bs 0 v) = word_le v @ take 4 (drop 4 bs)"
    by (simp add: put_field_def Let_def)
  have hi: "4 + (n div 8 - 4) = n div 8" if "\<not> n < 32"
    using that by simp
  have lo: "n div 8 < 4" if "n < 32"
    using that by simp
  show "bit (get_field (put_field bs 0 v) 0 :: 64 word) n =
        bit (ucast v OR (get_field bs 0 AND NOT (mask 32)) :: 64 word) n"
  proof (cases "n < 32")
    case True
    have "bit (word_le v ! (n div 8)) (n mod 8) = bit v n"
      using True by (simp add: word_le_def lo bit_ucast_iff bit_drop_bit_eq)
    then show ?thesis
      using True assms d n lo
      by (simp add: get_field_def Let_def w bit_le_word nth_append bit_or_iff bit_and_iff
          bit_not_iff bit_mask_iff bit_ucast_iff)
  next
    case False
    then have "\<not> bit v n"
      using bit_imp_le_length [of v n] by auto
    moreover have "\<not> n div 8 < 4" and "n div 8 - 4 < 4"
      using False d by auto
    ultimately show ?thesis
      using False assms d n
      by (simp add: get_field_def Let_def w bit_le_word nth_append bit_or_iff bit_and_iff
          bit_not_iff bit_mask_iff bit_ucast_iff hi)
  qed
qed

end
