(* ===== verification/Capnp_Runtime.thy ===== *)
theory Capnp_Runtime
  imports Prelude
begin

text \<open>
  The interface of the \<open>capnp\<close> crate that the generated code is written against
  (\<open>capnp::private::layout\<close>, \<open>capnp::traits\<close>, \<open>capnp::any_pointer\<close>, \<open>capnp::capability\<close>).
  The crate is not part of the repository, so it is a parameter: the record \<open>capnp\<close> has one field
  per function of the crate that \<open>rust/src\<close> calls, and every definition of the model takes such a
  record \<open>L\<close>.

  A message under construction is a value of the type variable \<open>'m\<close>, threaded through the builder
  functions.  Builder values (\<open>StructBuilder\<close>, \<open>PointerBuilder\<close>, \<dots>) are handles into it: the raw
  numbers of a handle have no meaning here except through the functions of \<open>L\<close>.  A reader borrows
  the message immutably for its whole life, so it is a handle together with the message it borrows.

  What the crate documents is stated by the locales \<open>capnp_reader\<close> and \<open>capnp_builder\<close> through a
  view \<open>V\<close> of readers, builders and messages: a reader sees a tree of Cap'n Proto objects, a
  builder sees a heap of structs whose pointer slots refer to other objects.
\<close>

section \<open>Types of the crate\<close>

datatype 'm StructReader = StructReader 'm "nat list"
datatype 'm PointerReader = PointerReader 'm "nat list"
datatype 'm StructListReader = StructListReader 'm "nat list"
datatype 'm F64ListReader = F64ListReader 'm "nat list"

datatype StructBuilder = StructBuilder "nat list"
datatype PointerBuilder = PointerBuilder "nat list"
datatype StructListBuilder = StructListBuilder "nat list"
datatype F64ListBuilder = F64ListBuilder "nat list"
datatype DataBuilder = DataBuilder "nat list"
datatype AnyPipeline = AnyPipeline "nat list"

record StructSize =
  ss_data :: u16
  ss_pointers :: u16

record MessageSize =
  word_count :: u64
  cap_count :: u32

type_synonym 'h CapTable = "'h option list"

datatype NotInSchema = NotInSchema u16

section \<open>Functions of the crate\<close>

record ('m, 'h, 'e) capnp_readers =
  sr_total_size :: "'m StructReader \<Rightarrow> (MessageSize, 'e) result"
  sr_imbue :: "'m StructReader \<Rightarrow> 'h CapTable \<Rightarrow> 'm StructReader"
  sr_get_u16 :: "'m StructReader \<Rightarrow> nat \<Rightarrow> u16"
  sr_get_u32 :: "'m StructReader \<Rightarrow> nat \<Rightarrow> u32"
  sr_get_i32 :: "'m StructReader \<Rightarrow> nat \<Rightarrow> i32"
  sr_get_f64 :: "'m StructReader \<Rightarrow> nat \<Rightarrow> f64"
  sr_get_pointer_field :: "'m StructReader \<Rightarrow> nat \<Rightarrow> 'm PointerReader"
  pr_is_null :: "'m PointerReader \<Rightarrow> bool"
  pr_get_struct :: "'m PointerReader \<Rightarrow> ('m StructReader, 'e) result"
  pr_get_data :: "'m PointerReader \<Rightarrow> (u8 list, 'e) result"
  pr_get_capability :: "'m PointerReader \<Rightarrow> ('h, 'e) result"
  pr_get_struct_list :: "'m PointerReader \<Rightarrow> ('m StructListReader, 'e) result"
  pr_get_f64_list :: "'m PointerReader \<Rightarrow> ('m F64ListReader, 'e) result"
  slr_len :: "'m StructListReader \<Rightarrow> u32"
  slr_get :: "'m StructListReader \<Rightarrow> u32 \<Rightarrow> 'm StructReader"

record ('m, 'h, 'e) capnp_structs = "('m, 'h, 'e) capnp_readers" +
  sb_into_reader :: "StructBuilder \<Rightarrow> 'm \<Rightarrow> 'm StructReader"
  sb_imbue :: "StructBuilder \<Rightarrow> 'h CapTable \<Rightarrow> StructBuilder"
  sb_get_u16 :: "StructBuilder \<Rightarrow> nat \<Rightarrow> 'm \<Rightarrow> u16"
  sb_get_u32 :: "StructBuilder \<Rightarrow> nat \<Rightarrow> 'm \<Rightarrow> u32"
  sb_get_i32 :: "StructBuilder \<Rightarrow> nat \<Rightarrow> 'm \<Rightarrow> i32"
  sb_get_f64 :: "StructBuilder \<Rightarrow> nat \<Rightarrow> 'm \<Rightarrow> f64"
  sb_set_u16 :: "StructBuilder \<Rightarrow> nat \<Rightarrow> u16 \<Rightarrow> 'm \<Rightarrow> 'm"
  sb_set_u32 :: "StructBuilder \<Rightarrow> nat \<Rightarrow> u32 \<Rightarrow> 'm \<Rightarrow> 'm"
  sb_set_i32 :: "StructBuilder \<Rightarrow> nat \<Rightarrow> i32 \<Rightarrow> 'm \<Rightarrow> 'm"
  sb_set_f64 :: "StructBuilder \<Rightarrow> nat \<Rightarrow> f64 \<Rightarrow> 'm \<Rightarrow> 'm"
  sb_get_pointer_field :: "StructBuilder \<Rightarrow> nat \<Rightarrow> PointerBuilder"

record ('m, 'h, 'e) capnp = "('m, 'h, 'e) capnp_structs" +
  pb_is_null :: "PointerBuilder \<Rightarrow> 'm \<Rightarrow> bool"
  pb_clear :: "PointerBuilder \<Rightarrow> 'm \<Rightarrow> 'm"
  pb_init_struct :: "PointerBuilder \<Rightarrow> StructSize \<Rightarrow> 'm \<Rightarrow> StructBuilder \<times> 'm"
  pb_get_struct :: "PointerBuilder \<Rightarrow> StructSize \<Rightarrow> 'm \<Rightarrow> (StructBuilder, 'e) result \<times> 'm"
  pb_set_struct :: "PointerBuilder \<Rightarrow> 'm StructReader \<Rightarrow> bool \<Rightarrow> 'm \<Rightarrow> (unit, 'e) result \<times> 'm"
  pb_init_data :: "PointerBuilder \<Rightarrow> u32 \<Rightarrow> 'm \<Rightarrow> DataBuilder \<times> 'm"
  pb_get_data :: "PointerBuilder \<Rightarrow> 'm \<Rightarrow> (DataBuilder, 'e) result \<times> 'm"
  pb_set_data :: "PointerBuilder \<Rightarrow> u8 list \<Rightarrow> 'm \<Rightarrow> 'm"
  pb_get_capability :: "PointerBuilder \<Rightarrow> 'm \<Rightarrow> ('h, 'e) result"
  pb_set_capability :: "PointerBuilder \<Rightarrow> 'h \<Rightarrow> 'm \<Rightarrow> 'm"
  pb_init_struct_list :: "StructSize \<Rightarrow> PointerBuilder \<Rightarrow> u32 \<Rightarrow> 'm \<Rightarrow> StructListBuilder \<times> 'm"
  pb_get_struct_list ::
    "StructSize \<Rightarrow> PointerBuilder \<Rightarrow> 'm \<Rightarrow> (StructListBuilder, 'e) result \<times> 'm"
  pb_set_struct_list ::
    "PointerBuilder \<Rightarrow> 'm StructListReader \<Rightarrow> bool \<Rightarrow> 'm \<Rightarrow> (unit, 'e) result \<times> 'm"
  slb_get :: "StructListBuilder \<Rightarrow> u32 \<Rightarrow> StructBuilder"
  pb_init_f64_list :: "PointerBuilder \<Rightarrow> u32 \<Rightarrow> 'm \<Rightarrow> F64ListBuilder \<times> 'm"
  pb_get_f64_list :: "PointerBuilder \<Rightarrow> 'm \<Rightarrow> (F64ListBuilder, 'e) result \<times> 'm"
  pb_set_f64_list ::
    "PointerBuilder \<Rightarrow> 'm F64ListReader \<Rightarrow> bool \<Rightarrow> 'm \<Rightarrow> (unit, 'e) result \<times> 'm"
  pl_get_pointer_field :: "AnyPipeline \<Rightarrow> nat \<Rightarrow> AnyPipeline"
  pl_as_cap :: "AnyPipeline \<Rightarrow> 'h"
  hook_add_ref :: "'h \<Rightarrow> 'h"

section \<open>What readers and builders see\<close>

text \<open>
  A reader sees a tree.  \<open>OBad e\<close> is a pointer that the crate refuses to follow with the error
  \<open>e\<close> (out of bounds, nesting too deep, read limit).
\<close>

datatype ('h, 'e) obj =
    ONull
  | OStruct "u8 list" "('h, 'e) obj list"
  | OList "('h, 'e) obj list"
  | OData "u8 list"
  | OF64s "f64 list"
  | OCap 'h
  | OBad 'e

fun is_struct :: "('h, 'e) obj \<Rightarrow> bool" where
  "is_struct (OStruct d ps) = True"
| "is_struct _ = False"

text \<open>A list of structs that fits the 29-bit element count of a list pointer.\<close>

definition list_ok :: "('h, 'e) obj list \<Rightarrow> bool" where
  "list_ok xs \<longleftrightarrow> list_all is_struct xs \<and> length xs < 2 ^ 29"

fun sound :: "('h, 'e) obj \<Rightarrow> bool" where
  "sound (OStruct d ps) = list_all sound ps"
| "sound (OList xs) = (list_ok xs \<and> list_all sound xs)"
| "sound (OBad e) = False"
| "sound _ = True"

text \<open>A pointer slot of a builder holds one of these.\<close>

datatype 'h content =
    CNull
  | CStruct StructBuilder
  | CStructs StructListBuilder
  | CData "u8 list"
  | CF64s "f64 list"
  | CCap 'h

fun leaf :: "'h content \<Rightarrow> bool" where
  "leaf (CStruct sb) = False"
| "leaf (CStructs lb) = False"
| "leaf _ = True"

record ('m, 'h, 'e) view =
  rdata :: "'m StructReader \<Rightarrow> u8 list"
  rptrs :: "'m StructReader \<Rightarrow> ('h, 'e) obj list"
  robj :: "'m PointerReader \<Rightarrow> ('h, 'e) obj"
  rstructs :: "'m StructListReader \<Rightarrow> ('h, 'e) obj list"
  rf64s :: "'m F64ListReader \<Rightarrow> f64 list"
  live :: "'m \<Rightarrow> StructBuilder \<Rightarrow> bool"
  sdata :: "'m \<Rightarrow> StructBuilder \<Rightarrow> u8 list"
  sptrs :: "'m \<Rightarrow> StructBuilder \<Rightarrow> nat"
  plive :: "'m \<Rightarrow> PointerBuilder \<Rightarrow> bool"
  content :: "'m \<Rightarrow> PointerBuilder \<Rightarrow> 'h content"
  inside :: "'m \<Rightarrow> PointerBuilder \<Rightarrow> StructBuilder \<Rightarrow> bool"
  pinside :: "'m \<Rightarrow> PointerBuilder \<Rightarrow> PointerBuilder \<Rightarrow> bool"
  lblen :: "StructListBuilder \<Rightarrow> nat"
  preader :: "PointerBuilder \<Rightarrow> 'm \<Rightarrow> 'm PointerReader"

definition struct_obj :: "('m, 'h, 'e) view \<Rightarrow> 'm StructReader \<Rightarrow> ('h, 'e) obj" where
  "struct_obj V sr = OStruct (rdata V sr) (rptrs V sr)"

text \<open>The tree below a pointer slot.\<close>

definition cobj ::
  "('m, 'h, 'e) capnp \<Rightarrow> ('m, 'h, 'e) view \<Rightarrow> 'm \<Rightarrow> 'h content \<Rightarrow> ('h, 'e) obj" where
  "cobj L V m c = (case c of
     CNull \<Rightarrow> ONull
   | CStruct sb \<Rightarrow> struct_obj V (sb_into_reader L sb m)
   | CStructs lb \<Rightarrow>
       OList (map (\<lambda>i. struct_obj V (sb_into_reader L (slb_get L lb (of_nat i)) m)) [0..<lblen V lb])
   | CData bs \<Rightarrow> OData bs
   | CF64s xs \<Rightarrow> OF64s xs
   | CCap h \<Rightarrow> OCap h)"

text \<open>A data field as a reader gets it: zero where the struct is too short to hold the field.\<close>

definition read_field :: "u8 list \<Rightarrow> nat \<Rightarrow> 'a::len word" where
  "read_field bs i = (if field_in TYPE('a) i bs then get_field bs i else 0)"

text \<open>
  What a step of a builder leaves as it was: the structs in \<open>S\<close> and the pointer slots in \<open>P\<close>
  that were there before, and the whole trees below the slots in \<open>T\<close>.
\<close>

definition keeps ::
  "('m, 'h, 'e) view \<Rightarrow> 'm \<Rightarrow> 'm \<Rightarrow> (StructBuilder \<Rightarrow> bool) \<Rightarrow> (PointerBuilder \<Rightarrow> bool) \<Rightarrow>
     (PointerBuilder \<Rightarrow> bool) \<Rightarrow> bool" where
  "keeps V m m' S P T \<longleftrightarrow>
     (\<forall>sb. live V m sb \<and> S sb \<longrightarrow>
        live V m' sb \<and> sdata V m' sb = sdata V m sb \<and> sptrs V m' sb = sptrs V m sb \<and>
        (\<forall>pb. inside V m' pb sb \<longleftrightarrow> inside V m pb sb)) \<and>
     (\<forall>pb. plive V m pb \<and> P pb \<longrightarrow>
        plive V m' pb \<and> content V m' pb = content V m pb \<and>
        (\<forall>qb. pinside V m' qb pb \<longleftrightarrow> pinside V m qb pb)) \<and>
     (\<forall>pb. plive V m pb \<and> T pb \<longrightarrow> robj V (preader V pb m') = robj V (preader V pb m))"

text \<open>The data section of one struct becomes \<open>bs\<close>, and nothing else changes.\<close>

definition data_write ::
  "('m, 'h, 'e) view \<Rightarrow> 'm \<Rightarrow> 'm \<Rightarrow> StructBuilder \<Rightarrow> u8 list \<Rightarrow> bool" where
  "data_write V m m' sb bs \<longleftrightarrow>
     live V m' sb \<and> sdata V m' sb = bs \<and> sptrs V m' sb = sptrs V m sb \<and>
     (\<forall>pb. inside V m' pb sb \<longleftrightarrow> inside V m pb sb) \<and>
     keeps V m m' (\<lambda>s. s \<noteq> sb) (\<lambda>_. True) (\<lambda>p. \<not> inside V m p sb)"

text \<open>Only what lies below the pointer slot \<open>pb\<close>, and the slot itself, may change.\<close>

definition within :: "('m, 'h, 'e) view \<Rightarrow> 'm \<Rightarrow> 'm \<Rightarrow> PointerBuilder \<Rightarrow> bool" where
  "within V m m' pb \<longleftrightarrow>
     plive V m' pb \<and> (\<forall>qb. pinside V m' qb pb \<longleftrightarrow> pinside V m qb pb) \<and>
     keeps V m m' (\<lambda>s. \<not> inside V m pb s) (\<lambda>p. p \<noteq> pb \<and> \<not> pinside V m pb p)
       (\<lambda>p. p \<noteq> pb \<and> \<not> pinside V m pb p \<and> \<not> pinside V m p pb)"

text \<open>One pointer slot becomes \<open>c\<close>; what was inside the slot's old object is given up.\<close>

definition slot_write ::
  "('m, 'h, 'e) view \<Rightarrow> 'm \<Rightarrow> 'm \<Rightarrow> PointerBuilder \<Rightarrow> 'h content \<Rightarrow> bool" where
  "slot_write V m m' pb c \<longleftrightarrow> within V m m' pb \<and> content V m' pb = c"

text \<open>A struct just allocated with the size \<open>sz\<close>: all data zero, all pointers null.\<close>

definition fresh_struct ::
  "('m, 'h, 'e) capnp \<Rightarrow> ('m, 'h, 'e) view \<Rightarrow> 'm \<Rightarrow> StructBuilder \<Rightarrow> StructSize \<Rightarrow> bool" where
  "fresh_struct L V m sb sz \<longleftrightarrow>
     live V m sb \<and> sdata V m sb = replicate (8 * unat (ss_data sz)) 0 \<and>
     sptrs V m sb = unat (ss_pointers sz) \<and>
     (\<forall>i < unat (ss_pointers sz). content V m (sb_get_pointer_field L sb i) = CNull)"

text \<open>The handle refers to a struct with room for the size \<open>sz\<close>.\<close>

definition struct_ok ::
  "('m, 'h, 'e) view \<Rightarrow> 'm \<Rightarrow> StructBuilder \<Rightarrow> StructSize \<Rightarrow> bool" where
  "struct_ok V m sb sz \<longleftrightarrow>
     live V m sb \<and> 8 * unat (ss_data sz) \<le> length (sdata V m sb) \<and>
     unat (ss_pointers sz) \<le> sptrs V m sb"

section \<open>The documented behaviour of readers\<close>

locale capnp_reader =
  fixes L :: "('m, 'h, 'e) capnp"
    and V :: "('m, 'h, 'e) view"
  assumes get_u16: "sr_get_u16 L sr i = read_field (rdata V sr) i"
    and get_u32: "sr_get_u32 L sr i = read_field (rdata V sr) i"
    and get_i32: "sr_get_i32 L sr i = read_field (rdata V sr) i"
    and get_f64: "sr_get_f64 L sr i = read_field (rdata V sr) i"
    and get_pointer:
      "robj V (sr_get_pointer_field L sr i) =
         (if i < length (rptrs V sr) then rptrs V sr ! i else ONull)"
    and is_null: "pr_is_null L pr \<longleftrightarrow> robj V pr = ONull"
    and get_struct_null: "robj V pr = ONull \<Longrightarrow>
      \<exists>sr. pr_get_struct L pr = Ok sr \<and> rdata V sr = [] \<and> rptrs V sr = []"
    and get_struct: "robj V pr = OStruct d ps \<Longrightarrow>
      \<exists>sr. pr_get_struct L pr = Ok sr \<and> rdata V sr = d \<and> rptrs V sr = ps"
    and get_struct_bad: "robj V pr = OBad e \<Longrightarrow> pr_get_struct L pr = Err e"
    and get_struct_kind:
      "robj V pr \<noteq> ONull \<Longrightarrow> \<not> is_struct (robj V pr) \<Longrightarrow> \<not> is_ok (pr_get_struct L pr)"
    and get_data_null: "robj V pr = ONull \<Longrightarrow> pr_get_data L pr = Ok []"
    and get_data: "robj V pr = OData bs \<Longrightarrow> pr_get_data L pr = Ok bs"
    and get_data_bad: "robj V pr = OBad e \<Longrightarrow> pr_get_data L pr = Err e"
    and get_data_cong: "robj V pr = robj V pr' \<Longrightarrow> pr_get_data L pr = pr_get_data L pr'"
    and get_cap_cong: "robj V pr = robj V pr' \<Longrightarrow> pr_get_capability L pr = pr_get_capability L pr'"
    and get_struct_cong: "robj V pr = robj V pr' \<Longrightarrow>
      map_result (struct_obj V) id (pr_get_struct L pr) =
      map_result (struct_obj V) id (pr_get_struct L pr')"
    and get_structs_cong: "robj V pr = robj V pr' \<Longrightarrow>
      map_result (rstructs V) id (pr_get_struct_list L pr) =
      map_result (rstructs V) id (pr_get_struct_list L pr')"
    and get_f64s_cong: "robj V pr = robj V pr' \<Longrightarrow>
      map_result (rf64s V) id (pr_get_f64_list L pr) =
      map_result (rf64s V) id (pr_get_f64_list L pr')"
    and get_cap: "robj V pr = OCap h \<Longrightarrow> pr_get_capability L pr = Ok h"
    and get_cap_bad: "robj V pr = OBad e \<Longrightarrow> pr_get_capability L pr = Err e"
    and get_cap_kind: "(\<And>h. robj V pr \<noteq> OCap h) \<Longrightarrow> \<not> is_ok (pr_get_capability L pr)"
    and get_structs_null: "robj V pr = ONull \<Longrightarrow>
      \<exists>lr. pr_get_struct_list L pr = Ok lr \<and> rstructs V lr = []"
    and get_structs: "robj V pr = OList xs \<Longrightarrow> list_ok xs \<Longrightarrow>
      \<exists>lr. pr_get_struct_list L pr = Ok lr \<and> rstructs V lr = xs"
    and get_structs_bad: "robj V pr = OBad e \<Longrightarrow> pr_get_struct_list L pr = Err e"
    and get_f64s_null: "robj V pr = ONull \<Longrightarrow>
      \<exists>fl. pr_get_f64_list L pr = Ok fl \<and> rf64s V fl = []"
    and get_f64s: "robj V pr = OF64s fs \<Longrightarrow>
      \<exists>fl. pr_get_f64_list L pr = Ok fl \<and> rf64s V fl = fs"
    and get_f64s_bad: "robj V pr = OBad e \<Longrightarrow> pr_get_f64_list L pr = Err e"
    and list_len: "pr_get_struct_list L pr = Ok lr \<Longrightarrow> unat (slr_len L lr) = length (rstructs V lr)"
    and list_get: "pr_get_struct_list L pr = Ok lr \<Longrightarrow> i < length (rstructs V lr) \<Longrightarrow>
      struct_obj V (slr_get L lr (of_nat i)) = rstructs V lr ! i"

section \<open>The documented behaviour of builders\<close>

locale capnp_builder = capnp_reader L V
  for L :: "('m, 'h, 'e) capnp" and V :: "('m, 'h, 'e) view" +
  assumes bget_u16: "live V m sb \<Longrightarrow> field_in TYPE(16) i (sdata V m sb) \<Longrightarrow>
      sb_get_u16 L sb i m = get_field (sdata V m sb) i"
    and bget_u32: "live V m sb \<Longrightarrow> field_in TYPE(32) i (sdata V m sb) \<Longrightarrow>
      sb_get_u32 L sb i m = get_field (sdata V m sb) i"
    and bget_i32: "live V m sb \<Longrightarrow> field_in TYPE(32) i (sdata V m sb) \<Longrightarrow>
      sb_get_i32 L sb i m = get_field (sdata V m sb) i"
    and bget_f64: "live V m sb \<Longrightarrow> field_in TYPE(64) i (sdata V m sb) \<Longrightarrow>
      sb_get_f64 L sb i m = get_field (sdata V m sb) i"
    and bset_u16: "live V m sb \<Longrightarrow> field_in TYPE(16) i (sdata V m sb) \<Longrightarrow>
      data_write V m (sb_set_u16 L sb i v16 m) sb (put_field (sdata V m sb) i v16)"
    and bset_u32: "live V m sb \<Longrightarrow> field_in TYPE(32) i (sdata V m sb) \<Longrightarrow>
      data_write V m (sb_set_u32 L sb i v32 m) sb (put_field (sdata V m sb) i v32)"
    and bset_i32: "live V m sb \<Longrightarrow> field_in TYPE(32) i (sdata V m sb) \<Longrightarrow>
      data_write V m (sb_set_i32 L sb i v32 m) sb (put_field (sdata V m sb) i v32)"
    and bset_f64: "live V m sb \<Longrightarrow> field_in TYPE(64) i (sdata V m sb) \<Longrightarrow>
      data_write V m (sb_set_f64 L sb i v64 m) sb (put_field (sdata V m sb) i v64)"
    and slot_plive: "live V m sb \<Longrightarrow> i < sptrs V m sb \<Longrightarrow>
      plive V m (sb_get_pointer_field L sb i)"
    and slot_inj: "live V m sb \<Longrightarrow> live V m sb' \<Longrightarrow> i < sptrs V m sb \<Longrightarrow> j < sptrs V m sb' \<Longrightarrow>
      sb_get_pointer_field L sb i = sb_get_pointer_field L sb' j \<Longrightarrow> sb = sb' \<and> i = j"
    and slot_outside: "live V m sb \<Longrightarrow> i < sptrs V m sb \<Longrightarrow>
      \<not> inside V m (sb_get_pointer_field L sb i) sb"
    and slot_pinside: "live V m sb \<Longrightarrow> j < sptrs V m sb \<Longrightarrow>
      pinside V m pb (sb_get_pointer_field L sb j) \<longleftrightarrow> inside V m pb sb"
    and leaf_inside: "plive V m pb \<Longrightarrow> leaf (content V m pb) \<Longrightarrow>
      \<not> inside V m pb sb \<and> \<not> pinside V m pb pb'"
    and content_live: "plive V m pb \<Longrightarrow> content V m pb = CStruct sb \<Longrightarrow> live V m sb"
    and content_list_live: "plive V m pb \<Longrightarrow> content V m pb = CStructs lb \<Longrightarrow> i < lblen V lb \<Longrightarrow>
      live V m (slb_get L lb (of_nat i))"
    and bis_null: "plive V m pb \<Longrightarrow> pb_is_null L pb m \<longleftrightarrow> content V m pb = CNull"
    and bclear: "plive V m pb \<Longrightarrow> slot_write V m (pb_clear L pb m) pb CNull"
    and bset_cap: "plive V m pb \<Longrightarrow> slot_write V m (pb_set_capability L pb h m) pb (CCap h)"
    and bget_cap: "plive V m pb \<Longrightarrow> content V m pb = CCap h \<Longrightarrow> pb_get_capability L pb m = Ok h"
    and bget_cap_kind: "plive V m pb \<Longrightarrow> (\<And>h. content V m pb \<noteq> CCap h) \<Longrightarrow>
      \<not> is_ok (pb_get_capability L pb m)"
    and bset_data: "plive V m pb \<Longrightarrow> length bs < 2 ^ 29 \<Longrightarrow>
      slot_write V m (pb_set_data L pb bs m) pb (CData bs)"
    and binit_data: "plive V m pb \<Longrightarrow> unat n < 2 ^ 29 \<Longrightarrow> pb_init_data L pb n m = (db, m') \<Longrightarrow>
      slot_write V m m' pb (CData (replicate (unat n) 0))"
    and bget_data: "plive V m pb \<Longrightarrow> content V m pb = CNull \<or> content V m pb = CData bs \<Longrightarrow>
      \<exists>db. pb_get_data L pb m = (Ok db, m)"
    and bget_f64s: "plive V m pb \<Longrightarrow> content V m pb = CF64s fs \<Longrightarrow>
      \<exists>fb. pb_get_f64_list L pb m = (Ok fb, m)"
    and binit_struct: "plive V m pb \<Longrightarrow> pb_init_struct L pb sz m = (sb, m') \<Longrightarrow>
      slot_write V m m' pb (CStruct sb) \<and> fresh_struct L V m' sb sz \<and>
      (live V m sb \<longrightarrow> inside V m pb sb)"
    and bget_struct_null: "plive V m pb \<Longrightarrow> content V m pb = CNull \<Longrightarrow>
      pb_get_struct L pb sz m = (case pb_init_struct L pb sz m of (sb, m') \<Rightarrow> (Ok sb, m'))"
    and bget_struct: "plive V m pb \<Longrightarrow> content V m pb = CStruct sb \<Longrightarrow> struct_ok V m sb sz \<Longrightarrow>
      pb_get_struct L pb sz m = (Ok sb, m)"
    and bset_struct: "plive V m pb \<Longrightarrow> sound (struct_obj V sr) \<Longrightarrow>
      pb_set_struct L pb sr canon m = (r, m') \<Longrightarrow> \<not> canon \<Longrightarrow>
      r = Ok () \<and> (\<exists>sb. slot_write V m m' pb (CStruct sb) \<and>
        struct_obj V (sb_into_reader L sb m') = struct_obj V sr)"
    and binit_structs: "plive V m pb \<Longrightarrow> unat n < 2 ^ 29 \<Longrightarrow>
      pb_init_struct_list L sz pb n m = (lb, m') \<Longrightarrow>
      slot_write V m m' pb (CStructs lb) \<and> lblen V lb = unat n \<and>
      (\<forall>i < unat n. fresh_struct L V m' (slb_get L lb (of_nat i)) sz \<and>
        (live V m (slb_get L lb (of_nat i)) \<longrightarrow> inside V m pb (slb_get L lb (of_nat i)))) \<and>
      inj_on (\<lambda>i. slb_get L lb (of_nat i)) {..<unat n}"
    and bget_structs: "plive V m pb \<Longrightarrow> content V m pb = CStructs lb \<Longrightarrow>
      \<forall>i < lblen V lb. struct_ok V m (slb_get L lb (of_nat i)) sz \<Longrightarrow>
      pb_get_struct_list L sz pb m = (Ok lb, m)"
    and bset_structs: "plive V m pb \<Longrightarrow> sound (OList (rstructs V lr)) \<Longrightarrow>
      pb_set_struct_list L pb lr canon m = (r, m') \<Longrightarrow> \<not> canon \<Longrightarrow>
      r = Ok () \<and> (\<exists>lb. slot_write V m m' pb (CStructs lb) \<and>
        cobj L V m' (CStructs lb) = OList (rstructs V lr))"
    and binit_f64s: "plive V m pb \<Longrightarrow> unat n < 2 ^ 29 \<Longrightarrow>
      pb_init_f64_list L pb n m = (fb, m') \<Longrightarrow>
      slot_write V m m' pb (CF64s (replicate (unat n) 0))"
    and bset_f64s: "plive V m pb \<Longrightarrow> length (rf64s V fl) < 2 ^ 29 \<Longrightarrow>
      pb_set_f64_list L pb fl canon m = (r, m') \<Longrightarrow>
      r = Ok () \<and> slot_write V m m' pb (CF64s (rf64s V fl))"
    and into_reader_data: "live V m sb \<Longrightarrow> rdata V (sb_into_reader L sb m) = sdata V m sb"
    and into_reader_ptrs: "live V m sb \<Longrightarrow>
      rptrs V (sb_into_reader L sb m) =
        map (\<lambda>i. robj V (preader V (sb_get_pointer_field L sb i) m)) [0..<sptrs V m sb]"
    and preader_obj: "plive V m pb \<Longrightarrow> robj V (preader V pb m) = cobj L V m (content V m pb)"
    and content_inside: "plive V m pb \<Longrightarrow> content V m pb = CStruct sb \<Longrightarrow> inside V m pb sb"
    and content_list_inside: "plive V m pb \<Longrightarrow> content V m pb = CStructs lb \<Longrightarrow> i < lblen V lb \<Longrightarrow>
      inside V m pb (slb_get L lb (of_nat i))"
    and list_apart: "plive V m pb \<Longrightarrow> content V m pb = CStructs lb \<Longrightarrow>
      i < lblen V lb \<Longrightarrow> j < lblen V lb \<Longrightarrow> i \<noteq> j \<Longrightarrow>
      \<not> inside V m (sb_get_pointer_field L (slb_get L lb (of_nat i)) k) (slb_get L lb (of_nat j)) \<and>
      slb_get L lb (of_nat i) \<noteq> slb_get L lb (of_nat j)"
    and inside_trans: "pinside V m pb qb \<Longrightarrow> inside V m qb sb \<Longrightarrow> inside V m pb sb"
    and pinside_trans: "pinside V m pb qb \<Longrightarrow> pinside V m qb rb \<Longrightarrow> pinside V m pb rb"
    and inside_linear: "plive V m pb \<Longrightarrow> plive V m qb \<Longrightarrow> inside V m pb sb \<Longrightarrow> inside V m qb sb \<Longrightarrow>
      pb = qb \<or> pinside V m pb qb \<or> pinside V m qb pb"

section \<open>Derived facts\<close>

text \<open>A struct field lies inside every struct that has room for its size.\<close>

lemma field_in_struct:
  "struct_ok V m sb sz \<Longrightarrow> (i + 1) * byte_width T \<le> 8 * unat (ss_data sz) \<Longrightarrow> field_in T i (sdata V m sb)"
  by (auto simp: struct_ok_def field_in_def)

lemma read_field_in: "field_in TYPE('a) i bs \<Longrightarrow> read_field bs i = (get_field bs i :: 'a::len word)"
  by (simp add: read_field_def)

lemma read_field_nil [simp]: "read_field [] i = (0 :: 'a::len word)"
  by (simp add: read_field_def get_field_def Let_def)

lemma read_field_replicate [simp]: "read_field (replicate n 0) i = (0 :: 'a::len word)"
  by (simp add: read_field_def)

lemma read_put_same:
  assumes "8 dvd LENGTH('a::len)" and "field_in TYPE('a) i bs"
  shows "read_field (put_field bs i v) i = (v :: 'a word)"
  using assms by (simp add: read_field_def get_put_same)

lemma read_put_apart:
  assumes "field_in TYPE('a::len) i bs" and "apart TYPE('a) i TYPE('b::len) j"
  shows "(read_field (put_field bs i (v :: 'a word)) j :: 'b word) = read_field bs j"
  using assms by (simp add: read_field_def get_put_apart)

lemma fresh_struct_ok: "fresh_struct L V m sb sz \<Longrightarrow> struct_ok V m sb sz"
  by (simp add: fresh_struct_def struct_ok_def)

lemma struct_ok_data_write:
  "data_write V m m' sb bs \<Longrightarrow> struct_ok V m sb sz \<Longrightarrow> length bs = length (sdata V m sb) \<Longrightarrow>
     struct_ok V m' sb sz"
  by (simp add: data_write_def struct_ok_def)

lemma data_write_other:
  "data_write V m m' sb bs \<Longrightarrow> live V m sb' \<Longrightarrow> sb' \<noteq> sb \<Longrightarrow>
     live V m' sb' \<and> sdata V m' sb' = sdata V m sb' \<and> sptrs V m' sb' = sptrs V m sb'"
  by (simp add: data_write_def keeps_def)

lemma data_write_slot:
  "data_write V m m' sb bs \<Longrightarrow> plive V m pb \<Longrightarrow>
     plive V m' pb \<and> content V m' pb = content V m pb"
  by (simp add: data_write_def keeps_def)

context capnp_reader
begin

lemma get_struct_Ok_obj:
  "pr_get_struct L pr = Ok sr \<Longrightarrow>
     robj V pr = ONull \<and> rdata V sr = [] \<and> rptrs V sr = [] \<or> robj V pr = struct_obj V sr"
  using get_struct_null [of pr] get_struct [of pr] get_struct_kind [of pr]
  by (cases "robj V pr") (auto simp: struct_obj_def)

end

context capnp_builder
begin

lemma slot_outside_slot:
  "live V m sb \<Longrightarrow> i < sptrs V m sb \<Longrightarrow> j < sptrs V m sb \<Longrightarrow>
     \<not> pinside V m (sb_get_pointer_field L sb i) (sb_get_pointer_field L sb j)"
  using slot_pinside slot_outside by blast

lemma slot_write_own:
  assumes w: "slot_write V m m' (sb_get_pointer_field L sb i) c"
    and sb: "live V m sb" "i < sptrs V m sb"
  shows "live V m' sb" "sdata V m' sb = sdata V m sb" "sptrs V m' sb = sptrs V m sb"
    and "j < sptrs V m sb \<Longrightarrow>
      content V m' (sb_get_pointer_field L sb j) =
        (if j = i then c else content V m (sb_get_pointer_field L sb j))"
proof -
  show "live V m' sb" "sdata V m' sb = sdata V m sb" "sptrs V m' sb = sptrs V m sb"
    using w sb slot_outside [OF sb] by (auto simp: slot_write_def within_def keeps_def)
  assume j: "j < sptrs V m sb"
  show "content V m' (sb_get_pointer_field L sb j) =
        (if j = i then c else content V m (sb_get_pointer_field L sb j))"
  proof (cases "j = i")
    case True
    then show ?thesis using w by (simp add: slot_write_def)
  next
    case False
    then have "sb_get_pointer_field L sb j \<noteq> sb_get_pointer_field L sb i"
      using slot_inj [OF sb(1) sb(1) j sb(2)] by blast
    then show ?thesis
      using False w slot_outside_slot [OF sb j] slot_plive [OF sb(1) j]
      by (auto simp: slot_write_def within_def keeps_def)
  qed
qed

lemma struct_ok_slot_write:
  "slot_write V m m' (sb_get_pointer_field L sb i) c \<Longrightarrow> struct_ok V m sb sz \<Longrightarrow>
     i < unat (ss_pointers sz) \<Longrightarrow> struct_ok V m' sb sz"
  using slot_write_own [of m m' sb i c] by (auto simp: struct_ok_def)

text \<open>What a reader of the struct sees after a data write and after a pointer write.\<close>

lemma reader_data_write:
  assumes "data_write V m m' sb bs" and "live V m sb"
  shows "rdata V (sb_into_reader L sb m') = bs"
    and "rptrs V (sb_into_reader L sb m') = rptrs V (sb_into_reader L sb m)"
proof -
  have l: "live V m' sb" "sptrs V m' sb = sptrs V m sb"
    using assms(1) by (simp_all add: data_write_def)
  then show "rdata V (sb_into_reader L sb m') = bs"
    using assms(1) by (simp add: into_reader_data data_write_def)
  have "robj V (preader V (sb_get_pointer_field L sb i) m') =
      robj V (preader V (sb_get_pointer_field L sb i) m)" if "i < sptrs V m sb" for i
    using assms that slot_plive slot_outside by (auto simp: data_write_def keeps_def)
  then show "rptrs V (sb_into_reader L sb m') = rptrs V (sb_into_reader L sb m)"
    using l assms(2) by (simp add: into_reader_ptrs)
qed

lemma reader_slot_write:
  assumes w: "slot_write V m m' (sb_get_pointer_field L sb i) c"
    and sb: "live V m sb" "i < sptrs V m sb"
  shows "rdata V (sb_into_reader L sb m') = rdata V (sb_into_reader L sb m)"
    and "rptrs V (sb_into_reader L sb m') = (rptrs V (sb_into_reader L sb m))[i := cobj L V m' c]"
proof -
  note own = slot_write_own [OF w sb]
  show "rdata V (sb_into_reader L sb m') = rdata V (sb_into_reader L sb m)"
    using own sb by (simp add: into_reader_data)
  have "robj V (preader V (sb_get_pointer_field L sb j) m') =
      (if j = i then cobj L V m' c else robj V (preader V (sb_get_pointer_field L sb j) m))"
    if j: "j < sptrs V m sb" for j
  proof (cases "j = i")
    case True
    then show ?thesis
      using own j sb slot_plive [of m' sb i] by (simp add: preader_obj)
  next
    case False
    then have "sb_get_pointer_field L sb j \<noteq> sb_get_pointer_field L sb i"
      using slot_inj [OF sb(1) sb(1) j sb(2)] by blast
    then show ?thesis
      using False w slot_outside_slot [OF sb j] slot_outside_slot [OF sb(1) j sb(2)]
        slot_plive [OF sb(1) j]
      by (auto simp: slot_write_def within_def keeps_def)
  qed
  then show "rptrs V (sb_into_reader L sb m') =
      (rptrs V (sb_into_reader L sb m))[i := cobj L V m' c]"
    using own sb by (auto simp: into_reader_ptrs list_eq_iff_nth_eq nth_list_update)
qed

lemma reader_fresh:
  assumes "fresh_struct L V m sb sz"
  shows "rdata V (sb_into_reader L sb m) = replicate (8 * unat (ss_data sz)) 0"
    and "rptrs V (sb_into_reader L sb m) = replicate (unat (ss_pointers sz)) ONull"
proof -
  have sb: "live V m sb" "sptrs V m sb = unat (ss_pointers sz)"
    using assms by (simp_all add: fresh_struct_def)
  show "rdata V (sb_into_reader L sb m) = replicate (8 * unat (ss_data sz)) 0"
    using assms by (simp add: into_reader_data fresh_struct_def)
  have "robj V (preader V (sb_get_pointer_field L sb i) m) = ONull" if "i < sptrs V m sb" for i
    using assms that sb slot_plive [OF sb(1) that]
    by (simp add: preader_obj fresh_struct_def cobj_def)
  then show "rptrs V (sb_into_reader L sb m) = replicate (unat (ss_pointers sz)) ONull"
    using sb by (auto simp: into_reader_ptrs list_eq_iff_nth_eq)
qed

lemma length_rptrs: "live V m sb \<Longrightarrow> length (rptrs V (sb_into_reader L sb m)) = sptrs V m sb"
  by (simp add: into_reader_ptrs)

end

end
