(* ===== verification/Capnp_Tree.thy ===== *)
theory Capnp_Tree
  imports Capnp_Runtime "HOL-Library.Sublist"
begin

text \<open>
  A message as an object tree, and an instance of the \<open>capnp\<close> interface on it: a handle is the path
  from the root pointer to an object.  It shows that the laws of \<open>capnp_reader\<close> and
  \<open>capnp_builder\<close> can hold together, and it makes the whole model executable: the witnesses of
  the properties run the program on this instance.
\<close>

section \<open>Paths in a tree\<close>

fun kids :: "('h, 'e) obj \<Rightarrow> ('h, 'e) obj list" where
  "kids (OStruct d ps) = ps"
| "kids (OList xs) = xs"
| "kids _ = []"

fun with_kids :: "('h, 'e) obj \<Rightarrow> ('h, 'e) obj list \<Rightarrow> ('h, 'e) obj" where
  "with_kids (OStruct d ps) ks = OStruct d ks"
| "with_kids (OList xs) ks = OList ks"
| "with_kids x ks = x"

fun obj_at :: "nat list \<Rightarrow> ('h, 'e) obj \<Rightarrow> ('h, 'e) obj" where
  "obj_at [] x = x"
| "obj_at (i # p) x = (if i < length (kids x) then obj_at p (kids x ! i) else ONull)"

fun put_at :: "nat list \<Rightarrow> ('h, 'e) obj \<Rightarrow> ('h, 'e) obj \<Rightarrow> ('h, 'e) obj" where
  "put_at [] new x = new"
| "put_at (i # p) new x =
     (if i < length (kids x) then with_kids x ((kids x)[i := put_at p new (kids x ! i)]) else x)"

text \<open>The path leads somewhere, and the path leads to a pointer slot (not to a list element).\<close>

fun path_ok :: "nat list \<Rightarrow> ('h, 'e) obj \<Rightarrow> bool" where
  "path_ok [] x = True"
| "path_ok (i # p) x = (i < length (kids x) \<and> path_ok p (kids x ! i))"

fun slot_ok :: "nat list \<Rightarrow> ('h, 'e) obj \<Rightarrow> bool" where
  "slot_ok [] x = True"
| "slot_ok [i] x = (is_struct x \<and> i < length (kids x))"
| "slot_ok (i # p) x = (i < length (kids x) \<and> slot_ok p (kids x ! i))"

lemma kids_with_kids [simp]: "kids (with_kids x ((kids x)[i := k])) = (kids x)[i := k]"
  by (cases x) auto

lemma slot_path: "slot_ok p x \<Longrightarrow> path_ok p x"
  by (induction p x rule: slot_ok.induct) auto

lemma path_append: "path_ok (p @ q) x \<longleftrightarrow> path_ok p x \<and> path_ok q (obj_at p x)"
  by (induction p arbitrary: x) auto

lemma at_append: "path_ok p x \<Longrightarrow> obj_at (p @ q) x = obj_at q (obj_at p x)"
  by (induction p arbitrary: x) auto

lemma slot_append1:
  "slot_ok (p @ [i]) x \<longleftrightarrow> path_ok p x \<and> is_struct (obj_at p x) \<and> i < length (kids (obj_at p x))"
proof (induction p arbitrary: x)
  case Nil
  then show ?case by simp
next
  case (Cons j p)
  then show ?case by (cases p) auto
qed

lemma path_put_same: "path_ok p x \<Longrightarrow> path_ok p (put_at p n x)"
  by (induction p arbitrary: x) auto

lemma at_put_same: "path_ok p x \<Longrightarrow> obj_at p (put_at p n x) = n"
  by (induction p arbitrary: x) auto

lemma at_put_above: "path_ok (q @ r) x \<Longrightarrow> obj_at q (put_at (q @ r) n x) = put_at r n (obj_at q x)"
  by (induction q arbitrary: x) auto

lemma path_put_above: "path_ok (q @ r) x \<Longrightarrow> path_ok q (put_at (q @ r) n x)"
  by (induction q arbitrary: x) auto

lemma at_put_beside:
  assumes "\<not> prefix p q" and "\<not> prefix q p" and "path_ok p x"
  shows "obj_at q (put_at p n x) = obj_at q x"
  using assms
proof (induction p arbitrary: q x)
  case Nil
  then show ?case by simp
next
  case (Cons i p)
  then obtain j r where q: "q = j # r"
    by (cases q) auto
  show ?case
  proof (cases "i = j")
    case True
    with Cons q show ?thesis by simp
  next
    case False
    with Cons.prems q show ?thesis by simp
  qed
qed

lemma path_put_beside:
  assumes "\<not> prefix p q" and "\<not> prefix q p" and "path_ok p x" and "path_ok q x"
  shows "path_ok q (put_at p n x)"
  using assms
proof (induction p arbitrary: q x)
  case Nil
  then show ?case by simp
next
  case (Cons i p)
  then obtain j r where q: "q = j # r"
    by (cases q) auto
  show ?case
  proof (cases "i = j")
    case True
    with Cons q show ?thesis by simp
  next
    case False
    with Cons.prems q show ?thesis by simp
  qed
qed

lemma is_struct_put: "r \<noteq> [] \<Longrightarrow> is_struct (put_at r n x) = is_struct x"
  by (cases r; cases x) auto

lemma length_kids_put: "r \<noteq> [] \<Longrightarrow> length (kids (put_at r n x)) = length (kids x)"
  by (cases r) auto

text \<open>Soundness survives a replacement that keeps list elements structs.\<close>

lemma sound_struct_kids: "is_struct x \<Longrightarrow> sound x \<longleftrightarrow> list_all sound (kids x)"
  by (cases x) auto

lemma sound_at: "sound x \<Longrightarrow> sound (obj_at p x)"
proof (induction p arbitrary: x)
  case Nil
  then show ?case by simp
next
  case (Cons i p)
  then show ?case by (cases x) (auto simp: list_all_length)
qed

lemma sound_put:
  assumes "sound x" and "sound n" and "path_ok p x" and "is_struct n \<or> slot_ok p x"
  shows "sound (put_at p n x)"
  using assms
proof (induction p arbitrary: x)
  case Nil
  then show ?case by simp
next
  case (Cons i p)
  let ?k = "kids x ! i"
  have i: "i < length (kids x)" and p: "path_ok p ?k"
    using Cons.prems by auto
  have k: "sound ?k"
    using Cons.prems(1) i by (cases x) (auto simp: list_all_length)
  have "is_struct n \<or> slot_ok p ?k"
    using Cons.prems(4) by (cases p) auto
  then have put: "sound (put_at p n ?k)"
    using Cons.IH k Cons.prems(2) p by blast
  show ?case
  proof (cases x)
    case (OStruct d ps)
    then show ?thesis
      using Cons.prems(1) i put
      by (auto simp: list_all_length nth_list_update)
  next
    case (OList xs)
    have "is_struct ?k"
      using Cons.prems(1) OList i by (auto simp: list_all_length list_ok_def)
    then have "is_struct (put_at p n ?k)"
      using Cons.prems(4) OList by (cases "p = []") (auto simp: is_struct_put)
    then show ?thesis
      using Cons.prems(1) i put OList
      by (auto simp: list_all_length nth_list_update list_ok_def)
  qed (use i in auto)
qed

section \<open>The instance\<close>

fun struct_data :: "('h, 'e) obj \<Rightarrow> u8 list" where
  "struct_data (OStruct d ps) = d"
| "struct_data _ = []"

fun struct_ptrs :: "('h, 'e) obj \<Rightarrow> ('h, 'e) obj list" where
  "struct_ptrs (OStruct d ps) = ps"
| "struct_ptrs _ = []"

fun list_elems :: "('h, 'e) obj \<Rightarrow> ('h, 'e) obj list" where
  "list_elems (OList xs) = xs"
| "list_elems _ = []"

fun f64_elems :: "('h, 'e) obj \<Rightarrow> f64 list" where
  "f64_elems (OF64s xs) = xs"
| "f64_elems _ = []"

fun words :: "('h, 'e) obj \<Rightarrow> nat" where
  "words (OStruct d ps) = length d div 8 + length ps + sum_list (map words ps)"
| "words (OList xs) = 1 + sum_list (map words xs)"
| "words (OData bs) = (length bs + 7) div 8"
| "words (OF64s xs) = length xs"
| "words _ = 0"

fun caps :: "('h, 'e) obj \<Rightarrow> nat" where
  "caps (OStruct d ps) = sum_list (map caps ps)"
| "caps (OList xs) = sum_list (map caps xs)"
| "caps (OCap h) = 1"
| "caps _ = 0"

type_synonym 'h tree = "('h, string) obj"

fun tree_sr :: "'h tree StructReader \<Rightarrow> 'h tree" where
  "tree_sr (StructReader m p) = obj_at p m"

fun tree_pr :: "'h tree PointerReader \<Rightarrow> 'h tree" where
  "tree_pr (PointerReader m p) = obj_at p m"

fun tree_lr :: "'h tree StructListReader \<Rightarrow> 'h tree" where
  "tree_lr (StructListReader m p) = obj_at p m"

fun tree_fr :: "'h tree F64ListReader \<Rightarrow> 'h tree" where
  "tree_fr (F64ListReader m p) = obj_at p m"

definition zero_struct :: "StructSize \<Rightarrow> 'h tree" where
  "zero_struct sz =
     OStruct (replicate (8 * unat (ss_data sz)) 0) (replicate (unat (ss_pointers sz)) ONull)"

fun tree_struct_ptr :: "'h tree StructReader \<Rightarrow> nat \<Rightarrow> 'h tree PointerReader" where
  "tree_struct_ptr (StructReader m p) i =
     (if is_struct (obj_at p m) then PointerReader m (p @ [i]) else PointerReader ONull [])"

fun tree_get_struct :: "'h tree PointerReader \<Rightarrow> ('h tree StructReader, string) result" where
  "tree_get_struct (PointerReader m p) = (case obj_at p m of
     ONull \<Rightarrow> Ok (StructReader m p)
   | OStruct d ps \<Rightarrow> Ok (StructReader m p)
   | OBad e \<Rightarrow> Err e
   | _ \<Rightarrow> Err ''not a struct pointer'')"

fun tree_get_structs :: "'h tree PointerReader \<Rightarrow> ('h tree StructListReader, string) result" where
  "tree_get_structs (PointerReader m p) = (case obj_at p m of
     ONull \<Rightarrow> Ok (StructListReader m p)
   | OList xs \<Rightarrow> (if list_ok xs then Ok (StructListReader m p) else Err ''not a list of structs'')
   | OBad e \<Rightarrow> Err e
   | _ \<Rightarrow> Err ''not a list pointer'')"

fun tree_get_f64s :: "'h tree PointerReader \<Rightarrow> ('h tree F64ListReader, string) result" where
  "tree_get_f64s (PointerReader m p) = (case obj_at p m of
     ONull \<Rightarrow> Ok (F64ListReader m p)
   | OF64s xs \<Rightarrow> Ok (F64ListReader m p)
   | OBad e \<Rightarrow> Err e
   | _ \<Rightarrow> Err ''not a list pointer'')"

definition tree_get_data :: "'h tree PointerReader \<Rightarrow> (u8 list, string) result" where
  "tree_get_data pr = (case tree_pr pr of
     ONull \<Rightarrow> Ok [] | OData bs \<Rightarrow> Ok bs | OBad e \<Rightarrow> Err e | _ \<Rightarrow> Err ''not a data pointer'')"

definition tree_cap :: "'h tree \<Rightarrow> ('h, string) result" where
  "tree_cap x = (case x of
     OCap h \<Rightarrow> Ok h | OBad e \<Rightarrow> Err e | _ \<Rightarrow> Err ''not a capability pointer'')"

fun tree_slr_get :: "'h tree StructListReader \<Rightarrow> u32 \<Rightarrow> 'h tree StructReader" where
  "tree_slr_get (StructListReader m p) i = StructReader m (p @ [unat i])"

fun sb_path :: "StructBuilder \<Rightarrow> nat list" where
  "sb_path (StructBuilder p) = p"

fun pb_path :: "PointerBuilder \<Rightarrow> nat list" where
  "pb_path (PointerBuilder p) = p"

fun slb_len :: "StructListBuilder \<Rightarrow> nat" where
  "slb_len (StructListBuilder []) = 0"
| "slb_len (StructListBuilder (n # p)) = n"

fun slb_path :: "StructListBuilder \<Rightarrow> nat list" where
  "slb_path (StructListBuilder []) = []"
| "slb_path (StructListBuilder (n # p)) = p"

definition tree_set :: "StructBuilder \<Rightarrow> nat \<Rightarrow> 'a::len word \<Rightarrow> 'h tree \<Rightarrow> 'h tree" where
  "tree_set sb i v m =
     (let x = obj_at (sb_path sb) m
      in put_at (sb_path sb) (OStruct (put_field (struct_data x) i v) (struct_ptrs x)) m)"

definition tree_get :: "StructBuilder \<Rightarrow> nat \<Rightarrow> 'h tree \<Rightarrow> 'a::len word" where
  "tree_get sb i m = get_field (struct_data (obj_at (sb_path sb) m)) i"

definition tree_put :: "PointerBuilder \<Rightarrow> 'h tree \<Rightarrow> 'h tree \<Rightarrow> 'h tree" where
  "tree_put pb x m = put_at (pb_path pb) x m"

definition tree_init_struct :: "PointerBuilder \<Rightarrow> StructSize \<Rightarrow> 'h tree \<Rightarrow> StructBuilder \<times> 'h tree" where
  "tree_init_struct pb sz m = (StructBuilder (pb_path pb), tree_put pb (zero_struct sz) m)"

definition tree_bget_struct ::
  "PointerBuilder \<Rightarrow> StructSize \<Rightarrow> 'h tree \<Rightarrow> (StructBuilder, string) result \<times> 'h tree" where
  "tree_bget_struct pb sz m = (case obj_at (pb_path pb) m of
     ONull \<Rightarrow> (Ok (StructBuilder (pb_path pb)), tree_put pb (zero_struct sz) m)
   | OStruct d ps \<Rightarrow> (Ok (StructBuilder (pb_path pb)), m)
   | _ \<Rightarrow> (Err ''not a struct pointer'', m))"

definition tree_set_struct ::
  "PointerBuilder \<Rightarrow> 'h tree StructReader \<Rightarrow> bool \<Rightarrow> 'h tree \<Rightarrow> (unit, string) result \<times> 'h tree" where
  "tree_set_struct pb sr canon m =
     (let x = OStruct (struct_data (tree_sr sr)) (struct_ptrs (tree_sr sr))
      in if sound x then (Ok (), tree_put pb x m) else (Err ''malformed value'', m))"

definition tree_init_structs ::
  "StructSize \<Rightarrow> PointerBuilder \<Rightarrow> u32 \<Rightarrow> 'h tree \<Rightarrow> StructListBuilder \<times> 'h tree" where
  "tree_init_structs sz pb n m =
     (StructListBuilder (unat n # pb_path pb),
      tree_put pb (OList (replicate (unat n) (zero_struct sz))) m)"

definition tree_bget_structs ::
  "StructSize \<Rightarrow> PointerBuilder \<Rightarrow> 'h tree \<Rightarrow> (StructListBuilder, string) result \<times> 'h tree" where
  "tree_bget_structs sz pb m = (case obj_at (pb_path pb) m of
     ONull \<Rightarrow> (Ok (StructListBuilder (0 # pb_path pb)), m)
   | OList xs \<Rightarrow> (Ok (StructListBuilder (length xs # pb_path pb)), m)
   | _ \<Rightarrow> (Err ''not a list pointer'', m))"

definition tree_set_structs ::
  "PointerBuilder \<Rightarrow> 'h tree StructListReader \<Rightarrow> bool \<Rightarrow> 'h tree \<Rightarrow> (unit, string) result \<times> 'h tree" where
  "tree_set_structs pb lr canon m =
     (let x = OList (list_elems (tree_lr lr))
      in if sound x then (Ok (), tree_put pb x m) else (Err ''malformed value'', m))"

definition tree_bget_data :: "PointerBuilder \<Rightarrow> 'h tree \<Rightarrow> (DataBuilder, string) result \<times> 'h tree" where
  "tree_bget_data pb m = (case obj_at (pb_path pb) m of
     ONull \<Rightarrow> (Ok (DataBuilder (pb_path pb)), m)
   | OData bs \<Rightarrow> (Ok (DataBuilder (pb_path pb)), m)
   | _ \<Rightarrow> (Err ''not a data pointer'', m))"

definition tree_bget_f64s :: "PointerBuilder \<Rightarrow> 'h tree \<Rightarrow> (F64ListBuilder, string) result \<times> 'h tree" where
  "tree_bget_f64s pb m = (case obj_at (pb_path pb) m of
     ONull \<Rightarrow> (Ok (F64ListBuilder (pb_path pb)), m)
   | OF64s xs \<Rightarrow> (Ok (F64ListBuilder (pb_path pb)), m)
   | _ \<Rightarrow> (Err ''not a list pointer'', m))"

definition tree_capnp :: "(nat tree, nat, string) capnp" where
  "tree_capnp = \<lparr>
     sr_total_size = (\<lambda>sr. Ok \<lparr>word_count = of_nat (words (tree_sr sr)),
                               cap_count = of_nat (caps (tree_sr sr))\<rparr>),
     sr_imbue = (\<lambda>sr ct. sr),
     sr_get_u16 = (\<lambda>sr i. read_field (struct_data (tree_sr sr)) i),
     sr_get_u32 = (\<lambda>sr i. read_field (struct_data (tree_sr sr)) i),
     sr_get_i32 = (\<lambda>sr i. read_field (struct_data (tree_sr sr)) i),
     sr_get_f64 = (\<lambda>sr i. read_field (struct_data (tree_sr sr)) i),
     sr_get_pointer_field = tree_struct_ptr,
     pr_is_null = (\<lambda>pr. (case tree_pr pr of ONull \<Rightarrow> True | _ \<Rightarrow> False)),
     pr_get_struct = tree_get_struct,
     pr_get_data = tree_get_data,
     pr_get_capability = (\<lambda>pr. tree_cap (tree_pr pr)),
     pr_get_struct_list = tree_get_structs,
     pr_get_f64_list = tree_get_f64s,
     slr_len = (\<lambda>lr. of_nat (length (list_elems (tree_lr lr)))),
     slr_get = tree_slr_get,
     sb_into_reader = (\<lambda>sb m. StructReader m (sb_path sb)),
     sb_imbue = (\<lambda>sb ct. sb),
     sb_get_u16 = tree_get, sb_get_u32 = tree_get, sb_get_i32 = tree_get, sb_get_f64 = tree_get,
     sb_set_u16 = tree_set, sb_set_u32 = tree_set, sb_set_i32 = tree_set, sb_set_f64 = tree_set,
     sb_get_pointer_field = (\<lambda>sb i. PointerBuilder (sb_path sb @ [i])),
     pb_is_null = (\<lambda>pb m. (case obj_at (pb_path pb) m of ONull \<Rightarrow> True | _ \<Rightarrow> False)),
     pb_clear = (\<lambda>pb m. tree_put pb ONull m),
     pb_init_struct = tree_init_struct,
     pb_get_struct = tree_bget_struct,
     pb_set_struct = tree_set_struct,
     pb_init_data = (\<lambda>pb n m. (DataBuilder (pb_path pb), tree_put pb (OData (replicate (unat n) 0)) m)),
     pb_get_data = tree_bget_data,
     pb_set_data = (\<lambda>pb bs m. tree_put pb (OData bs) m),
     pb_get_capability = (\<lambda>pb m. tree_cap (obj_at (pb_path pb) m)),
     pb_set_capability = (\<lambda>pb h m. tree_put pb (OCap h) m),
     pb_init_struct_list = tree_init_structs,
     pb_get_struct_list = tree_bget_structs,
     pb_set_struct_list = tree_set_structs,
     slb_get = (\<lambda>lb i. StructBuilder (slb_path lb @ [unat i])),
     pb_init_f64_list = (\<lambda>pb n m. (F64ListBuilder (pb_path pb),
                                   tree_put pb (OF64s (replicate (unat n) 0)) m)),
     pb_get_f64_list = tree_bget_f64s,
     pb_set_f64_list = (\<lambda>pb fl canon m. (Ok (), tree_put pb (OF64s (f64_elems (tree_fr fl))) m)),
     pl_get_pointer_field = (\<lambda>p i. case p of AnyPipeline q \<Rightarrow> AnyPipeline (q @ [i])),
     pl_as_cap = (\<lambda>p. case p of AnyPipeline q \<Rightarrow> length q),
     hook_add_ref = (\<lambda>h. h)\<rparr>"

fun tree_content :: "nat list \<Rightarrow> ('h, 'e) obj \<Rightarrow> 'h content" where
  "tree_content p (OStruct d ps) = CStruct (StructBuilder p)"
| "tree_content p (OList xs) = CStructs (StructListBuilder (length xs # p))"
| "tree_content p (OData bs) = CData bs"
| "tree_content p (OF64s xs) = CF64s xs"
| "tree_content p (OCap h) = CCap h"
| "tree_content p _ = CNull"

definition tree_live :: "'h tree \<Rightarrow> nat list \<Rightarrow> bool" where
  "tree_live m p \<longleftrightarrow> sound m \<and> path_ok p m \<and> is_struct (obj_at p m)"

definition tree_view :: "(nat tree, nat, string) view" where
  "tree_view = \<lparr>
     rdata = (\<lambda>sr. struct_data (tree_sr sr)),
     rptrs = (\<lambda>sr. struct_ptrs (tree_sr sr)),
     robj = tree_pr,
     rstructs = (\<lambda>lr. list_elems (tree_lr lr)),
     rf64s = (\<lambda>fl. f64_elems (tree_fr fl)),
     live = (\<lambda>m sb. tree_live m (sb_path sb)),
     sdata = (\<lambda>m sb. struct_data (obj_at (sb_path sb) m)),
     sptrs = (\<lambda>m sb. length (struct_ptrs (obj_at (sb_path sb) m))),
     plive = (\<lambda>m pb. sound m \<and> slot_ok (pb_path pb) m),
     content = (\<lambda>m pb. tree_content (pb_path pb) (obj_at (pb_path pb) m)),
     inside = (\<lambda>m pb sb. tree_live m (sb_path sb) \<and> prefix (pb_path pb) (sb_path sb)),
     pinside = (\<lambda>m pb pb'. slot_ok (pb_path pb') m \<and> strict_prefix (pb_path pb) (pb_path pb')),
     lblen = slb_len,
     preader = (\<lambda>pb m. PointerReader m (pb_path pb))\<rparr>"

section \<open>A replacement leaves the rest of the tree as it was\<close>

lemma put_below [simp]:
  assumes "r \<noteq> []"
  shows "struct_data (put_at r n x) = struct_data x"
    and "length (struct_ptrs (put_at r n x)) = length (struct_ptrs x)"
    and "tree_content p (put_at r n x) = tree_content p x"
  using assms by (cases r; cases x; simp)+

text \<open>The place \<open>q\<close> is not at or below the replaced place \<open>p\<close>.\<close>

lemma outside_cases:
  assumes "\<not> prefix p q" and "path_ok p m"
  obtains (above) r where "r \<noteq> []" "p = q @ r" "obj_at q (put_at p n m) = put_at r n (obj_at q m)"
  | (beside) "\<not> prefix q p" "obj_at q (put_at p n m) = obj_at q m"
proof (cases "prefix q p")
  case True
  then obtain r where r: "p = q @ r" by (auto simp: prefix_def)
  with assms have "r \<noteq> []" by auto
  then show ?thesis
    using r assms at_put_above [of q r m n] above by blast
next
  case False
  then show ?thesis
    using assms at_put_beside [of p q m n] beside by blast
qed

lemma outside_same:
  assumes "\<not> prefix p q" and "path_ok p m"
  shows "struct_data (obj_at q (put_at p n m)) = struct_data (obj_at q m)"
    and "length (struct_ptrs (obj_at q (put_at p n m))) = length (struct_ptrs (obj_at q m))"
    and "tree_content q (obj_at q (put_at p n m)) = tree_content q (obj_at q m)"
    and "is_struct (obj_at q (put_at p n m)) = is_struct (obj_at q m)"
    and "length (kids (obj_at q (put_at p n m))) = length (kids (obj_at q m))"
  using assms by (cases rule: outside_cases [where n = n]; simp add: is_struct_put length_kids_put)+

lemma path_outside:
  assumes "\<not> prefix p q" and "path_ok p m" and "path_ok q m"
  shows "path_ok q (put_at p n m)"
proof (cases "prefix q p")
  case True
  then show ?thesis
    using assms(2) by (auto simp: prefix_def path_put_above)
next
  case False
  then show ?thesis
    using assms by (rule_tac path_put_beside) auto
qed

lemma slot_outside_put:
  assumes "\<not> prefix p q" and "path_ok p m" and "slot_ok q m"
  shows "slot_ok q (put_at p n m)"
proof (cases q rule: rev_cases)
  case Nil
  then show ?thesis by simp
next
  case (snoc r i)
  have r: "\<not> prefix p r"
    using assms(1) snoc by (meson prefix_order.trans prefixI)
  show ?thesis
    using assms(2,3) snoc r path_outside [OF r assms(2)] outside_same [OF r assms(2)]
    by (simp add: slot_append1)
qed

lemma slot_put_same: "slot_ok p m \<Longrightarrow> slot_ok p (put_at p n m)"
proof (cases p rule: rev_cases)
  case (snoc r i)
  assume slot: "slot_ok p m"
  then have p: "path_ok p m" by (rule slot_path)
  have "\<not> prefix p r" using snoc by auto
  then show ?thesis
    using slot snoc path_put_above [of r "[i]" m n] p
      outside_same [OF \<open>\<not> prefix p r\<close> p, of n]
    by (simp add: slot_append1 path_append)
qed simp

lemma tree_view_simps [simp]:
  "rdata tree_view sr = struct_data (tree_sr sr)"
  "rptrs tree_view sr = struct_ptrs (tree_sr sr)"
  "robj tree_view pr = tree_pr pr"
  "rstructs tree_view lr = list_elems (tree_lr lr)"
  "rf64s tree_view fl = f64_elems (tree_fr fl)"
  "live tree_view m sb = tree_live m (sb_path sb)"
  "sdata tree_view m sb = struct_data (obj_at (sb_path sb) m)"
  "sptrs tree_view m sb = length (struct_ptrs (obj_at (sb_path sb) m))"
  "plive tree_view m pb = (sound m \<and> slot_ok (pb_path pb) m)"
  "content tree_view m pb = tree_content (pb_path pb) (obj_at (pb_path pb) m)"
  "inside tree_view m pb sb = (tree_live m (sb_path sb) \<and> prefix (pb_path pb) (sb_path sb))"
  "pinside tree_view m pb pb' =
     (slot_ok (pb_path pb') m \<and> strict_prefix (pb_path pb) (pb_path pb'))"
  "lblen tree_view = slb_len"
  "preader tree_view pb m = PointerReader m (pb_path pb)"
  by (simp_all add: tree_view_def)

lemma pb_path_inj: "pb_path pb = pb_path pb' \<longleftrightarrow> pb = pb'"
  by (cases pb; cases pb') simp

lemma sb_path_inj: "sb_path sb = sb_path sb' \<longleftrightarrow> sb = sb'"
  by (cases sb; cases sb') simp

lemma tree_slot_write:
  assumes m: "sound m" "slot_ok (pb_path pb) m" and x: "sound x"
  shows "slot_write tree_view m (tree_put pb x m) pb (tree_content (pb_path pb) x)"
proof -
  let ?p = "pb_path pb" and ?m' = "tree_put pb x m"
  have p: "path_ok ?p m"
    using m(2) by (rule slot_path)
  have s: "sound ?m'"
    using sound_put [OF m(1) x p] m(2) by (simp add: tree_put_def)
  have "slot_ok ?p ?m'" and "obj_at ?p ?m' = x"
    using m(2) p by (simp_all add: tree_put_def slot_put_same at_put_same)
  moreover have "keeps tree_view m ?m' (\<lambda>sb. \<not> inside tree_view m pb sb)
      (\<lambda>pb'. pb' \<noteq> pb \<and> \<not> pinside tree_view m pb pb')
      (\<lambda>pb'. pb' \<noteq> pb \<and> \<not> pinside tree_view m pb pb' \<and> \<not> pinside tree_view m pb' pb)"
    unfolding keeps_def
  proof (intro conjI allI impI)
    fix sb
    assume sb: "live tree_view m sb \<and> \<not> inside tree_view m pb sb"
    then have np: "\<not> prefix ?p (sb_path sb)" by simp
    show "live tree_view ?m' sb" "sdata tree_view ?m' sb = sdata tree_view m sb"
      "sptrs tree_view ?m' sb = sptrs tree_view m sb"
      "inside tree_view ?m' qb sb \<longleftrightarrow> inside tree_view m qb sb" for qb
      using sb s path_outside [OF np p] outside_same [OF np p]
      by (auto simp: tree_live_def tree_put_def)
  next
    fix pb'
    assume pb': "plive tree_view m pb' \<and> pb' \<noteq> pb \<and> \<not> pinside tree_view m pb pb'"
    then have np: "\<not> prefix ?p (pb_path pb')"
      by (auto simp: strict_prefix_def pb_path_inj)
    show "plive tree_view ?m' pb'" "content tree_view ?m' pb' = content tree_view m pb'"
      "pinside tree_view ?m' qb pb' \<longleftrightarrow> pinside tree_view m qb pb'" for qb
      using pb' s slot_outside_put [OF np p] outside_same [OF np p]
      by (auto simp: tree_put_def)
  next
    fix pb'
    assume pb': "plive tree_view m pb' \<and> pb' \<noteq> pb \<and> \<not> pinside tree_view m pb pb' \<and>
      \<not> pinside tree_view m pb' pb"
    then have "\<not> prefix ?p (pb_path pb')" "\<not> prefix (pb_path pb') ?p"
      using m by (auto simp: strict_prefix_def pb_path_inj)
    then show "robj tree_view (preader tree_view pb' ?m') = robj tree_view (preader tree_view pb' m)"
      using p by (simp add: tree_put_def at_put_beside)
  qed
  ultimately show ?thesis
    using s m(2) by (simp add: slot_write_def within_def)
qed

lemma tree_data_write:
  assumes sb: "tree_live m (sb_path sb)" and f: "field_in TYPE('a) i (struct_data (obj_at (sb_path sb) m))"
  shows "data_write tree_view m (tree_set sb i (v :: 'a::len word) m) sb
           (put_field (struct_data (obj_at (sb_path sb) m)) i v)"
proof -
  let ?p = "sb_path sb" and ?m' = "tree_set sb i v m"
  obtain d ps where x: "obj_at ?p m = OStruct d ps"
    using sb by (cases "obj_at ?p m") (auto simp: tree_live_def)
  let ?x = "OStruct (put_field d i v) ps"
  have m': "?m' = put_at ?p ?x m"
    by (simp add: tree_set_def x)
  have p: "path_ok ?p m" and m: "sound m"
    using sb by (auto simp: tree_live_def)
  have "sound ?x"
    using sound_at [OF m, of ?p] x by simp
  then have s: "sound ?m'"
    using sound_put [OF m _ p] by (simp add: m')
  have at: "obj_at ?p ?m' = ?x"
    using p by (simp add: m' at_put_same)
  have "tree_live ?m' ?p"
    using s p at by (simp add: tree_live_def m' path_put_same)
  moreover have "keeps tree_view m ?m' (\<lambda>s. s \<noteq> sb) (\<lambda>_. True) (\<lambda>q. \<not> inside tree_view m q sb)"
    unfolding keeps_def
  proof (intro conjI allI impI)
    fix sb'
    assume sb': "live tree_view m sb' \<and> sb' \<noteq> sb"
    then have ne: "sb_path sb' \<noteq> ?p" by (simp add: sb_path_inj)
    have "path_ok (sb_path sb') ?m' \<and>
        is_struct (obj_at (sb_path sb') ?m') \<and>
        struct_data (obj_at (sb_path sb') ?m') = struct_data (obj_at (sb_path sb') m) \<and>
        length (struct_ptrs (obj_at (sb_path sb') ?m')) = length (struct_ptrs (obj_at (sb_path sb') m))"
    proof (cases "prefix ?p (sb_path sb')")
      case True
      then obtain r where r: "sb_path sb' = ?p @ r" and "r \<noteq> []"
        using ne by (auto simp: prefix_def)
      then obtain j q where jq: "r = j # q" by (cases r) auto
      show ?thesis
        using sb' r jq p x at path_put_same [OF p, of ?x]
        by (auto simp: m' tree_live_def path_append at_append)
    next
      case False
      show ?thesis
        using sb' path_outside [OF False p] outside_same [OF False p]
        by (auto simp: m' tree_live_def)
    qed
    then show "live tree_view ?m' sb'" "sdata tree_view ?m' sb' = sdata tree_view m sb'"
      "sptrs tree_view ?m' sb' = sptrs tree_view m sb'"
      "inside tree_view ?m' qb sb' \<longleftrightarrow> inside tree_view m qb sb'" for qb
      using s sb' by (auto simp: tree_live_def)
  next
    fix pb
    assume pb: "plive tree_view m pb \<and> True"
    let ?q = "pb_path pb"
    have "slot_ok ?q ?m' \<and> tree_content ?q (obj_at ?q ?m') = tree_content ?q (obj_at ?q m)"
    proof (cases "prefix ?p ?q")
      case True
      then obtain r where r: "?q = ?p @ r" by (auto simp: prefix_def)
      show ?thesis
      proof (cases r rule: rev_cases)
        case Nil
        have "slot_ok ?p m" using pb r Nil by simp
        then show ?thesis
          using r Nil at x by (simp add: m' slot_put_same)
      next
        case (snoc r' j)
        then have rr: "?q = (?p @ r') @ [j]" using r by simp
        have sl: "slot_ok ((?p @ r') @ [j]) m" using pb rr by simp
        have eq: "obj_at (?p @ r' @ [j]) ?m' = obj_at (?p @ r' @ [j]) m"
          using p x at path_put_same [OF p, of ?x]
          by (cases r') (auto simp: m' at_append)
        have "slot_ok ((?p @ r') @ [j]) ?m'"
          using sl p x at path_put_same [OF p, of ?x]
          unfolding slot_append1 by (cases r') (auto simp: m' path_append at_append)
        then show ?thesis using rr eq by simp
      qed
    next
      case False
      show ?thesis
        using pb slot_outside_put [OF False p] outside_same [OF False p]
        by (simp add: m')
    qed
    then show "plive tree_view ?m' pb" "content tree_view ?m' pb = content tree_view m pb"
      "pinside tree_view ?m' qb pb \<longleftrightarrow> pinside tree_view m qb pb" for qb
      using s pb by auto
  next
    fix pb
    assume pb: "plive tree_view m pb \<and> \<not> inside tree_view m pb sb"
    let ?q = "pb_path pb"
    have np: "\<not> prefix ?q ?p" using pb sb by simp
    have "obj_at ?q ?m' = obj_at ?q m"
    proof (cases "prefix ?p ?q")
      case True
      then obtain j r where r: "?q = ?p @ j # r"
        using np by (auto simp: prefix_def neq_Nil_conv)
      then show ?thesis
        using p x at path_put_same [OF p, of ?x] by (simp add: m' at_append)
    next
      case False
      then show ?thesis
        using np p by (simp add: m' at_put_beside)
    qed
    then show "robj tree_view (preader tree_view pb ?m') = robj tree_view (preader tree_view pb m)"
      by simp
  qed
  ultimately show ?thesis
    using at x sb by (simp add: data_write_def)
qed

section \<open>The instance keeps the laws\<close>

lemma tree_struct_obj: "struct_obj tree_view sr = OStruct (struct_data (tree_sr sr)) (struct_ptrs (tree_sr sr))"
  by (simp add: struct_obj_def)

lemma is_struct_eq: "is_struct x \<Longrightarrow> OStruct (struct_data x) (struct_ptrs x) = x"
  by (cases x) auto

lemma kids_struct: "is_struct x \<Longrightarrow> kids x = struct_ptrs x"
  by (cases x) auto

lemma tree_ptr: "tree_pr (tree_struct_ptr sr i) =
    (if i < length (struct_ptrs (tree_sr sr)) then struct_ptrs (tree_sr sr) ! i else ONull)"
proof (cases sr)
  case (StructReader m p)
  show ?thesis
  proof (cases "is_struct (obj_at p m)")
    case True
    then obtain d ps where x: "obj_at p m = OStruct d ps" by (cases "obj_at p m") auto
    have "obj_at (p @ [i]) m = (if i < length ps then ps ! i else ONull)"
      using x by (induction p arbitrary: m) (auto split: if_splits)
    then show ?thesis using StructReader x by simp
  next
    case False
    then show ?thesis using StructReader by (cases "obj_at p m") auto
  qed
qed

lemma tree_structs_ok:
  assumes "tree_get_structs pr = Ok lr"
  shows "list_ok (list_elems (tree_lr lr))"
    and "i < length (list_elems (tree_lr lr)) \<Longrightarrow>
      tree_sr (tree_slr_get lr (of_nat i)) = list_elems (tree_lr lr) ! i"
proof -
  obtain m p where pr: "pr = PointerReader m p" by (cases pr)
  have lr: "lr = StructListReader m p"
    using assms pr by (auto split: obj.splits if_splits)
  show ok: "list_ok (list_elems (tree_lr lr))"
    using assms pr by (auto simp: list_ok_def split: obj.splits if_splits)
  assume i: "i < length (list_elems (tree_lr lr))"
  then have "i < 2 ^ 29" using ok by (simp add: list_ok_def)
  then have u: "unat (of_nat i :: u32) = i"
    by (intro unat_of_nat_small) simp
  obtain xs where xs: "obj_at p m = OList xs"
    using i lr by (cases "obj_at p m") auto
  have "obj_at (p @ [i]) m = xs ! i" if "i < length xs"
    using xs that by (induction p arbitrary: m) (auto split: if_splits)
  then show "tree_sr (tree_slr_get lr (of_nat i)) = list_elems (tree_lr lr) ! i"
    using i lr xs u by simp
qed

interpretation tree_reader: capnp_reader tree_capnp tree_view
proof (unfold_locales, goal_cases)
  case (7 pr)
  then show ?case by (cases pr) (auto simp: tree_capnp_def)
next
  case (8 pr)
  then show ?case by (cases pr) (auto simp: tree_capnp_def)
next
  case (9 pr)
  then show ?case by (cases pr) (auto simp: tree_capnp_def)
next
  case (10 pr)
  then show ?case by (cases pr) (auto simp: tree_capnp_def split: obj.splits)
next
  case (16 pr pr')
  then show ?case
    by (cases pr; cases pr') (auto simp: tree_capnp_def tree_struct_obj split: obj.splits)
next
  case (17 pr pr')
  then show ?case by (cases pr; cases pr') (auto simp: tree_capnp_def split: obj.splits)
next
  case (18 pr pr')
  then show ?case by (cases pr; cases pr') (auto simp: tree_capnp_def split: obj.splits)
next
  case (21 pr)
  then show ?case
    by (cases "tree_pr pr") (auto simp: tree_capnp_def tree_cap_def)
next
  case (22 pr)
  then show ?case by (cases pr) (auto simp: tree_capnp_def)
next
  case (23 pr)
  then show ?case by (cases pr) (auto simp: tree_capnp_def)
next
  case (24 pr)
  then show ?case by (cases pr) (auto simp: tree_capnp_def)
next
  case (25 pr)
  then show ?case by (cases pr) (auto simp: tree_capnp_def)
next
  case (26 pr)
  then show ?case by (cases pr) (auto simp: tree_capnp_def)
next
  case (27 pr)
  then show ?case by (cases pr) (auto simp: tree_capnp_def)
next
  case (28 pr lr)
  then have "list_ok (list_elems (tree_lr lr))"
    by (intro tree_structs_ok(1)) (simp add: tree_capnp_def)
  then have "length (list_elems (tree_lr lr)) < 2 ^ LENGTH(32)"
    by (simp add: list_ok_def)
  then show ?case
    by (simp add: tree_capnp_def unat_of_nat_small)
next
  case (29 pr lr i)
  then have g: "tree_get_structs pr = Ok lr" and i: "i < length (list_elems (tree_lr lr))"
    by (simp_all add: tree_capnp_def)
  have "is_struct (list_elems (tree_lr lr) ! i)"
    using tree_structs_ok(1) [OF g] i by (simp add: list_ok_def list_all_length)
  then show ?case
    using tree_structs_ok(2) [OF g i] by (simp add: tree_capnp_def struct_obj_def is_struct_eq)
qed (auto simp: tree_capnp_def tree_ptr tree_get_data_def tree_cap_def split: obj.splits)

lemma sound_zero_struct [simp]: "sound (zero_struct sz)" "is_struct (zero_struct sz)"
  "tree_content p (zero_struct sz) = CStruct (StructBuilder p)"
  by (simp_all add: zero_struct_def list_all_length)

lemma tree_fresh:
  assumes "tree_live m' p" and "obj_at p m' = zero_struct sz"
  shows "fresh_struct tree_capnp tree_view m' (StructBuilder p) sz"
proof -
  have p: "path_ok p m'" using assms(1) by (simp add: tree_live_def)
  have "obj_at (p @ [i]) m' = ONull" if "i < unat (ss_pointers sz)" for i
    using that assms(2) p by (simp add: at_append zero_struct_def)
  then show ?thesis
    using assms by (auto simp: fresh_struct_def tree_capnp_def zero_struct_def)
qed

lemma tree_leaf:
  assumes "leaf (tree_content p (obj_at p m))" and "sound m" and "path_ok p m"
    and "path_ok q m" and "prefix p q"
  shows "p = q \<and> \<not> is_struct (obj_at q m)"
proof -
  obtain r where q: "q = p @ r" using assms(5) by (auto simp: prefix_def)
  have "kids (obj_at p m) = []" and "\<not> is_struct (obj_at p m)"
    using assms(1) by (cases "obj_at p m"; simp)+
  then show ?thesis
    using assms(4) q by (cases r) (auto simp: path_append)
qed

lemma tree_init_structs_ok:
  assumes "sound m" "slot_ok (pb_path pb) m" "unat n < 2 ^ 29"
    and m': "m' = tree_put pb (OList (replicate (unat n) (zero_struct sz))) m"
    and i: "i < unat n"
  shows "fresh_struct tree_capnp tree_view m' (StructBuilder (pb_path pb @ [i])) sz"
proof -
  let ?p = "pb_path pb" and ?x = "OList (replicate (unat n) (zero_struct sz)) :: nat tree"
  have p: "path_ok ?p m" using assms(2) by (rule slot_path)
  have "sound ?x"
    using assms(3) by (simp add: list_ok_def list_all_length)
  then have "sound m'"
    using sound_put [OF assms(1) _ p] assms(2) by (simp add: m' tree_put_def)
  moreover have p': "path_ok ?p m'" "obj_at ?p m' = ?x"
    using p by (simp_all add: m' tree_put_def path_put_same at_put_same)
  then have "path_ok (?p @ [i]) m'" "obj_at (?p @ [i]) m' = zero_struct sz"
    using i by (simp_all add: path_append at_append)
  ultimately show ?thesis
    by (intro tree_fresh) (simp_all add: tree_live_def)
qed

text \<open>The tree of a slot's content, as readers see it, is the tree at that slot.\<close>

lemma tree_cobj:
  assumes "sound m" and "path_ok p m" and x: "obj_at p m = x"
  shows "cobj tree_capnp tree_view m (tree_content p x) = x"
proof -
  have sx: "sound x" using sound_at [OF assms(1)] x by blast
  show ?thesis
  proof (cases x)
    case (OList xs)
    have ok: "list_ok xs" using sx OList by simp
    have "obj_at (p @ [i]) m = xs ! i" if "i < length xs" for i
      using that assms(2) x OList by (simp add: at_append)
    moreover have "unat (of_nat i :: u32) = i" if "i < length xs" for i
      using that ok by (intro unat_of_nat_small) (simp add: list_ok_def)
    moreover have "is_struct (xs ! i)" if "i < length xs" for i
      using that ok by (simp add: list_ok_def list_all_length)
    ultimately have "map (\<lambda>i. struct_obj tree_view (sb_into_reader tree_capnp
        (slb_get tree_capnp (StructListBuilder (length xs # p)) (of_nat i)) m)) [0..<length xs] = xs"
      by (intro nth_equalityI) (simp_all add: tree_capnp_def tree_struct_obj is_struct_eq)
    then show ?thesis
      using OList by (simp add: cobj_def)
  qed (use sx x in \<open>simp_all add: cobj_def tree_capnp_def tree_struct_obj\<close>)
qed

lemma tree_ops [simp]:
  "sb_get_pointer_field tree_capnp sb i = PointerBuilder (sb_path sb @ [i])"
  "sb_into_reader tree_capnp sb m = StructReader m (sb_path sb)"
  "slb_get tree_capnp lb n = StructBuilder (slb_path lb @ [unat n])"
  "pb_init_struct tree_capnp = tree_init_struct"
  "pb_get_struct tree_capnp = tree_bget_struct"
  "pb_set_struct tree_capnp = tree_set_struct"
  "pb_init_struct_list tree_capnp = tree_init_structs"
  "pb_get_struct_list tree_capnp = tree_bget_structs"
  "pb_set_struct_list tree_capnp = tree_set_structs"
  by (simp_all add: tree_capnp_def)

lemma tree_live_slot:
  "tree_live m p \<Longrightarrow> i < length (struct_ptrs (obj_at p m)) \<Longrightarrow> slot_ok (p @ [i]) m"
  by (simp add: tree_live_def slot_append1 kids_struct)

lemma tree_list_live:
  assumes "sound m" "slot_ok (pb_path pb) m"
    and "tree_content (pb_path pb) (obj_at (pb_path pb) m) = CStructs lb" and "i < slb_len lb"
  shows "tree_live m (slb_path lb @ [i])" and "slb_path lb = pb_path pb"
    and "unat (of_nat i :: u32) = i"
proof -
  obtain xs where xs: "obj_at (pb_path pb) m = OList xs"
    using assms(3) by (cases "obj_at (pb_path pb) m") auto
  then have lb: "lb = StructListBuilder (length xs # pb_path pb)"
    using assms by simp
  then show "slb_path lb = pb_path pb" by simp
  have p: "path_ok (pb_path pb) m" using assms by (simp add: slot_path)
  have ok: "list_ok xs"
    using sound_at [of m "pb_path pb"] assms xs by simp
  show "unat (of_nat i :: u32) = i"
    using assms lb ok by (intro unat_of_nat_small) (simp add: list_ok_def)
  show "tree_live m (slb_path lb @ [i])"
    using assms lb ok p xs
    by (simp add: tree_live_def path_append at_append list_ok_def list_all_length)
qed

interpretation tree_builder: capnp_builder tree_capnp tree_view
proof (unfold_locales, goal_cases)
  case (9 m sb i)
  then show ?case by (simp add: tree_live_slot) (simp add: tree_live_def)
next
  case (10 m sb sb' i j)
  then show ?case by (simp add: sb_path_inj)
next
  case (12 m sb j pb)
  then show ?case by (auto simp: tree_live_slot strict_prefix_def)
next
  case (13 m pb sb pb')
  then show ?case
    using tree_leaf [of "pb_path pb" m] slot_path [of "pb_path pb" m] slot_path [of "pb_path pb'" m]
    by (auto simp: tree_live_def strict_prefix_def)
next
  case (14 m pb sb)
  then show ?case
    using slot_path by (cases "obj_at (pb_path pb) m") (auto simp: tree_live_def)
next
  case (15 m pb lb i)
  then show ?case using tree_list_live [of m pb lb i] by simp
next
  case (16 m pb)
  then show ?case
    using sound_at [of m "pb_path pb"]
    by (cases "obj_at (pb_path pb) m") (auto simp: tree_capnp_def)
next
  case (17 m pb)
  then show ?case
    using tree_slot_write [of m pb ONull] by (simp add: tree_capnp_def)
next
  case (18 m pb h)
  then show ?case
    using tree_slot_write [of m pb "OCap h"] by (simp add: tree_capnp_def)
next
  case (19 m pb h)
  then show ?case
    by (cases "obj_at (pb_path pb) m") (auto simp: tree_capnp_def tree_cap_def)
next
  case (20 m pb)
  then show ?case
    by (cases "obj_at (pb_path pb) m") (auto simp: tree_capnp_def tree_cap_def)
next
  case (21 m pb bs)
  then show ?case
    using tree_slot_write [of m pb "OData bs"] by (simp add: tree_capnp_def)
next
  case (22 m pb n db m')
  then show ?case
    using tree_slot_write [of m pb "OData (replicate (unat n) 0)"]
    by (auto simp: tree_capnp_def)
next
  case (23 m pb bs)
  then show ?case
    using sound_at [of m "pb_path pb"]
    by (cases "obj_at (pb_path pb) m") (auto simp: tree_capnp_def tree_bget_data_def)
next
  case (24 m pb fs)
  then show ?case
    by (cases "obj_at (pb_path pb) m") (auto simp: tree_capnp_def tree_bget_f64s_def)
next
  case (25 m pb sz sb m')
  then have m': "sb = StructBuilder (pb_path pb)" "m' = tree_put pb (zero_struct sz) m"
    by (auto simp: tree_init_struct_def)
  have sw: "slot_write tree_view m m' pb (CStruct sb)"
    using tree_slot_write [of m pb "zero_struct sz"] 25 m' by simp
  then have "tree_live m' (pb_path pb)" "obj_at (pb_path pb) m' = zero_struct sz"
    using 25 m' slot_path [of "pb_path pb" m]
    by (auto simp: tree_live_def slot_write_def within_def tree_put_def path_put_same at_put_same)
  then show ?case
    using sw m' tree_fresh [of m' "pb_path pb" sz] by simp
next
  case (26 m pb sz)
  then show ?case
    using sound_at [of m "pb_path pb"]
    by (cases "obj_at (pb_path pb) m") (auto simp: tree_bget_struct_def tree_init_struct_def)
next
  case (27 m pb sb sz)
  then show ?case
    by (cases "obj_at (pb_path pb) m") (auto simp: tree_bget_struct_def)
next
  case (28 m pb sr canon r m')
  let ?x = "struct_obj tree_view sr"
  have m': "r = Ok ()" "m' = tree_put pb ?x m"
    using 28 by (auto simp: tree_set_struct_def Let_def struct_obj_def)
  have "slot_write tree_view m m' pb (CStruct (StructBuilder (pb_path pb)))"
    using tree_slot_write [of m pb ?x] 28 m' by (simp add: tree_struct_obj)
  moreover have "obj_at (pb_path pb) m' = ?x"
    using 28 m' slot_path [of "pb_path pb" m] by (auto simp: tree_put_def at_put_same)
  ultimately show ?case
    using m' by (auto simp: tree_struct_obj)
next
  case (29 m pb n sz lb m')
  let ?x = "OList (replicate (unat n) (zero_struct sz)) :: nat tree"
  have m': "lb = StructListBuilder (unat n # pb_path pb)" "m' = tree_put pb ?x m"
    using 29 by (auto simp: tree_init_structs_def)
  have u: "unat (of_nat i :: u32) = i" if "i < unat n" for i
    using that 29(2) by (intro unat_of_nat_small) simp
  have "sound ?x"
    using 29(2) by (simp add: list_ok_def list_all_length)
  then have "slot_write tree_view m m' pb (CStructs lb)"
    using tree_slot_write [of m pb ?x] 29 m' by simp
  moreover have "fresh_struct tree_capnp tree_view m' (slb_get tree_capnp lb (of_nat i)) sz"
    if "i < unat n" for i
    using tree_init_structs_ok [OF _ _ 29(2) m'(2) that] 29(1) m'(1) u that by simp
  ultimately show ?case
    using m'(1) u by (auto simp: inj_on_def)
next
  case (30 m pb lb sz)
  then show ?case
    by (cases "obj_at (pb_path pb) m") (auto simp: tree_bget_structs_def)
next
  case (31 m pb lr canon r m')
  let ?x = "OList (rstructs tree_view lr)" and ?p = "pb_path pb"
  let ?lb = "StructListBuilder (length (rstructs tree_view lr) # ?p)"
  have m': "r = Ok ()" "m' = tree_put pb ?x m"
    using 31 by (auto simp: tree_set_structs_def Let_def)
  have "slot_write tree_view m m' pb (CStructs ?lb)"
    using tree_slot_write [of m pb ?x] 31 m' by simp
  moreover have "cobj tree_capnp tree_view m' (tree_content ?p ?x) = ?x"
    using calculation 31 m' slot_path [of ?p m]
    by (intro tree_cobj) (auto simp: slot_write_def within_def tree_put_def path_put_same at_put_same)
  ultimately show ?case
    using m' by auto
next
  case (32 m pb n fb m')
  then show ?case
    using tree_slot_write [of m pb "OF64s (replicate (unat n) 0)"]
    by (auto simp: tree_capnp_def)
next
  case (33 m pb fl canon r m')
  then show ?case
    using tree_slot_write [of m pb "OF64s (rf64s tree_view fl)"]
    by (auto simp: tree_capnp_def)
next
  case (35 m sb)
  then obtain d ps where x: "obj_at (sb_path sb) m = OStruct d ps"
    by (cases "obj_at (sb_path sb) m") (auto simp: tree_live_def)
  then show ?case
    using 35 by (intro nth_equalityI) (auto simp: tree_live_def at_append)
next
  case (36 m pb)
  then show ?case
    using tree_cobj [of m "pb_path pb"] slot_path [of "pb_path pb" m] by auto
next
  case (37 m pb sb)
  then show ?case
    using slot_path by (cases "obj_at (pb_path pb) m") (auto simp: tree_live_def)
next
  case (38 m pb lb i)
  then show ?case
    using tree_list_live [of m pb lb i] by simp
next
  case (39 m pb lb i j k)
  then show ?case
    using tree_list_live [of m pb lb i] tree_list_live [of m pb lb j] by (auto dest: prefix_length_le)
next
  case (42 m pb qb sb)
  then show ?case
    by (auto simp: strict_prefix_def pb_path_inj dest: prefix_same_cases)
qed (auto simp: tree_capnp_def tree_get_def tree_data_write)

text \<open>A message that holds one new struct, at its root.\<close>

lemma tree_root_fresh:
  "fresh_struct tree_capnp tree_view (zero_struct sz) (StructBuilder []) sz"
  by (simp add: fresh_struct_def tree_view_def tree_capnp_def tree_live_def zero_struct_def
      list_all_iff)

end
