(* ===== verification/Capnp_Traits.thy ===== *)
theory Capnp_Traits
  imports Capnp_Tree
begin

text \<open>
  The contract of a generated struct module.  Every struct of a schema becomes a Rust module whose
  \<open>Reader\<close> and \<open>Builder\<close> implement the traits \<open>FromStructReader\<close>, \<open>FromPointerReader\<close>,
  \<open>FromStructBuilder\<close>, \<open>HasStructSize\<close>, \<open>FromPointerBuilder\<close>, \<open>SetPointerBuilder\<close> and
  \<open>HasTypeId\<close> of the \<open>capnp\<close> crate.  The locale \<open>struct_module\<close> states what these
  implementations have to agree on; each module of the model is an interpretation of it, and the
  facts about initialising, reading back and copying a struct are proved here once, for every
  module, under the laws of \<open>capnp_builder\<close>.
\<close>

section \<open>Accessors of a struct with room for its fields\<close>

context capnp_builder
begin

lemma field_in_reader:
  "struct_ok V m sb sz \<Longrightarrow> (i + 1) * byte_width T \<le> 8 * unat (ss_data sz) \<Longrightarrow>
     field_in T i (rdata V (sb_into_reader L sb m))"
  using field_in_struct [of V m sb sz i T] by (simp add: into_reader_data struct_ok_def)

lemma data_write_field:
  assumes "data_write V m m' sb (put_field (sdata V m sb) i (v :: 'a::len word))"
    and "struct_ok V m sb sz" and "(i + 1) * byte_width TYPE('a) \<le> 8 * unat (ss_data sz)"
  shows "struct_ok V m' sb sz"
    and "rdata V (sb_into_reader L sb m') = put_field (rdata V (sb_into_reader L sb m)) i v"
    and "rptrs V (sb_into_reader L sb m') = rptrs V (sb_into_reader L sb m)"
proof -
  have l: "live V m sb" using assms(2) by (simp add: struct_ok_def)
  show "struct_ok V m' sb sz"
    using struct_ok_data_write [OF assms(1,2)] field_in_struct [OF assms(2,3)] by simp
  show "rdata V (sb_into_reader L sb m') = put_field (rdata V (sb_into_reader L sb m)) i v"
    and "rptrs V (sb_into_reader L sb m') = rptrs V (sb_into_reader L sb m)"
    using reader_data_write [OF assms(1) l] l by (simp_all add: into_reader_data)
qed

lemma write_u16:
  "struct_ok V m sb sz \<Longrightarrow> (i + 1) * 2 \<le> 8 * unat (ss_data sz) \<Longrightarrow>
     data_write V m (sb_set_u16 L sb i v m) sb (put_field (sdata V m sb) i v)"
  using field_in_struct [of V m sb sz i "TYPE(16)"] by (intro bset_u16) (auto simp: struct_ok_def)

lemma write_u32:
  "struct_ok V m sb sz \<Longrightarrow> (i + 1) * 4 \<le> 8 * unat (ss_data sz) \<Longrightarrow>
     data_write V m (sb_set_u32 L sb i v m) sb (put_field (sdata V m sb) i v)"
  using field_in_struct [of V m sb sz i "TYPE(32)"] by (intro bset_u32) (auto simp: struct_ok_def)

lemma write_i32:
  "struct_ok V m sb sz \<Longrightarrow> (i + 1) * 4 \<le> 8 * unat (ss_data sz) \<Longrightarrow>
     data_write V m (sb_set_i32 L sb i v m) sb (put_field (sdata V m sb) i v)"
  using field_in_struct [of V m sb sz i "TYPE(32)"] by (intro bset_i32) (auto simp: struct_ok_def)

lemma write_f64:
  "struct_ok V m sb sz \<Longrightarrow> (i + 1) * 8 \<le> 8 * unat (ss_data sz) \<Longrightarrow>
     data_write V m (sb_set_f64 L sb i v m) sb (put_field (sdata V m sb) i v)"
  using field_in_struct [of V m sb sz i "TYPE(64)"] by (intro bset_f64) (auto simp: struct_ok_def)

text \<open>The builder's own getters agree with the getters of a reader made from it.\<close>

lemma builder_reads:
  assumes "struct_ok V m sb sz"
  shows "(i + 1) * 2 \<le> 8 * unat (ss_data sz) \<Longrightarrow>
      sb_get_u16 L sb i m = sr_get_u16 L (sb_into_reader L sb m) i"
    and "(i + 1) * 4 \<le> 8 * unat (ss_data sz) \<Longrightarrow>
      sb_get_u32 L sb i m = sr_get_u32 L (sb_into_reader L sb m) i"
    and "(i + 1) * 4 \<le> 8 * unat (ss_data sz) \<Longrightarrow>
      sb_get_i32 L sb i m = sr_get_i32 L (sb_into_reader L sb m) i"
    and "(i + 1) * 8 \<le> 8 * unat (ss_data sz) \<Longrightarrow>
      sb_get_f64 L sb i m = sr_get_f64 L (sb_into_reader L sb m) i"
  using assms field_in_struct [OF assms, of i "TYPE(16)"] field_in_struct [OF assms, of i "TYPE(32)"]
    field_in_struct [OF assms, of i "TYPE(64)"]
  by (simp_all add: bget_u16 bget_u32 bget_i32 bget_f64 get_u16 get_u32 get_i32 get_f64
      into_reader_data read_field_in struct_ok_def)

lemma builder_is_null:
  assumes "struct_ok V m sb sz" and "i < unat (ss_pointers sz)"
  shows "pb_is_null L (sb_get_pointer_field L sb i) m \<longleftrightarrow>
    pr_is_null L (sr_get_pointer_field L (sb_into_reader L sb m) i)"
proof -
  have i: "live V m sb" "i < sptrs V m sb" using assms by (auto simp: struct_ok_def)
  then have "plive V m (sb_get_pointer_field L sb i)" by (rule slot_plive)
  moreover have "robj V (sr_get_pointer_field L (sb_into_reader L sb m) i) =
      robj V (preader V (sb_get_pointer_field L sb i) m)"
    using i by (simp add: get_pointer into_reader_ptrs)
  ultimately show ?thesis
    by (simp add: bis_null is_null preader_obj cobj_def struct_obj_def split: content.split)
qed

lemma pointer_obj:
  assumes "struct_ok V m sb sz" and "i < unat (ss_pointers sz)"
  shows "robj V (sr_get_pointer_field L (sb_into_reader L sb m) i) =
    cobj L V m (content V m (sb_get_pointer_field L sb i))"
  using assms slot_plive [of m sb i]
  by (simp add: struct_ok_def get_pointer into_reader_ptrs preader_obj)

lemma slot_ok: "struct_ok V m sb sz \<Longrightarrow> i < unat (ss_pointers sz) \<Longrightarrow>
    plive V m (sb_get_pointer_field L sb i)"
  by (simp add: struct_ok_def slot_plive)

lemma slot_write_pointer:
  assumes w: "slot_write V m m' (sb_get_pointer_field L sb i) c"
    and sb: "struct_ok V m sb sz" "i < unat (ss_pointers sz)"
  shows "struct_ok V m' sb sz"
    and "rdata V (sb_into_reader L sb m') = rdata V (sb_into_reader L sb m)"
    and "j < unat (ss_pointers sz) \<Longrightarrow>
      robj V (sr_get_pointer_field L (sb_into_reader L sb m') j) =
        (if j = i then cobj L V m' c else robj V (sr_get_pointer_field L (sb_into_reader L sb m) j))"
proof -
  have i: "live V m sb" "i < sptrs V m sb" using sb by (auto simp: struct_ok_def)
  show "struct_ok V m' sb sz" using struct_ok_slot_write [OF w sb] .
  show "rdata V (sb_into_reader L sb m') = rdata V (sb_into_reader L sb m)"
    using reader_slot_write [OF w i] by simp
  assume "j < unat (ss_pointers sz)"
  then have "j < sptrs V m sb" using sb by (simp add: struct_ok_def)
  then show "robj V (sr_get_pointer_field L (sb_into_reader L sb m') j) =
        (if j = i then cobj L V m' c else robj V (sr_get_pointer_field L (sb_into_reader L sb m) j))"
    using reader_slot_write [OF w i] length_rptrs [OF i(1)] by (simp add: get_pointer)
qed

lemma same_pointers:
  "rptrs V sr = rptrs V sr' \<Longrightarrow>
     robj V (sr_get_pointer_field L sr i) = robj V (sr_get_pointer_field L sr' i)"
  by (simp add: get_pointer)

end

section \<open>The contract of a scalar field\<close>

text \<open>
  A scalar field of a struct: a getter of the reader, a getter and a setter of the builder, which
  agree on the index \<open>i\<close> of the field in the data section, in units of the field's own width.
\<close>

locale data_field =
  fixes sz :: StructSize
    and i :: nat
    and r_raw :: "'r \<Rightarrow> 'm StructReader"
    and b_raw :: "'b \<Rightarrow> StructBuilder"
    and rget :: "('m, 'h, 'e) capnp \<Rightarrow> 'r \<Rightarrow> 'a::len word"
    and bget :: "('m, 'h, 'e) capnp \<Rightarrow> 'b \<Rightarrow> 'm \<Rightarrow> 'a word"
    and put :: "('m, 'h, 'e) capnp \<Rightarrow> 'b \<Rightarrow> 'a word \<Rightarrow> 'm \<Rightarrow> 'm"
  assumes whole: "8 dvd LENGTH('a)"
    and bound: "(i + 1) * byte_width TYPE('a) \<le> 8 * unat (ss_data sz)"
    and reads: "capnp_reader L V \<Longrightarrow> rget L r = read_field (rdata V (r_raw r)) i"
    and builder_gets: "capnp_builder L V \<Longrightarrow> struct_ok V m (b_raw b) sz \<Longrightarrow>
      bget L b m = read_field (sdata V m (b_raw b)) i"
    and writes: "capnp_builder L V \<Longrightarrow> struct_ok V m (b_raw b) sz \<Longrightarrow>
      data_write V m (put L b v m) (b_raw b) (put_field (sdata V m (b_raw b)) i v)"
begin

lemma put_facts:
  assumes L: "capnp_builder L V" and b: "struct_ok V m (b_raw b) sz"
  shows put_ok: "struct_ok V (put L b v m) (b_raw b) sz"
    and put_data: "rdata V (sb_into_reader L (b_raw b) (put L b v m)) =
      put_field (rdata V (sb_into_reader L (b_raw b) m)) i v"
    and put_ptrs: "rptrs V (sb_into_reader L (b_raw b) (put L b v m)) =
      rptrs V (sb_into_reader L (b_raw b) m)"
  using capnp_builder.data_write_field [OF L writes [OF L b] b bound] by simp_all

lemma put_pointer:
  assumes L: "capnp_builder L V" and b: "struct_ok V m (b_raw b) sz"
  shows "robj V (sr_get_pointer_field L (sb_into_reader L (b_raw b) (put L b v m)) k) =
      robj V (sr_get_pointer_field L (sb_into_reader L (b_raw b) m) k)"
  by (rule capnp_builder.same_pointers [OF L put_ptrs [OF L b]])

lemma put_content:
  assumes "capnp_builder L V" and "struct_ok V m (b_raw b) sz" and "plive V m pb"
  shows "content V (put L b v m) pb = content V m pb"
  using data_write_slot [OF writes [OF assms(1,2)] assms(3)] by simp

lemma put_same:
  assumes L: "capnp_builder L V" and b: "struct_ok V m (b_raw b) sz"
  shows "read_field (rdata V (sb_into_reader L (b_raw b) (put L b v m))) i = v"
  using capnp_builder.field_in_reader [OF L b bound]
  by (simp add: put_data [OF L b] read_put_same [OF whole])

lemma put_apart:
  assumes L: "capnp_builder L V" and b: "struct_ok V m (b_raw b) sz"
    and "apart TYPE('a) i TYPE('f::len) j"
  shows "(read_field (rdata V (sb_into_reader L (b_raw b) (put L b v m))) j :: 'f word) =
    read_field (rdata V (sb_into_reader L (b_raw b) m)) j"
  using capnp_builder.field_in_reader [OF L b bound] assms(3)
  by (simp add: put_data [OF L b] read_put_apart)

lemma get_agrees:
  assumes L: "capnp_builder L V" and b: "struct_ok V m (b_raw b) sz"
    and r: "r_raw r = sb_into_reader L (b_raw b) m"
  shows "bget L b m = rget L r"
  using b r by (simp add: builder_gets [OF L b] reads [OF capnp_builder.axioms(1) [OF L]]
      struct_ok_def capnp_builder.into_reader_data [OF L])

lemma put_then_get:
  assumes L: "capnp_builder L V" and b: "struct_ok V m (b_raw b) sz"
  shows "bget L b (put L b v m) = v"
  using put_ok [OF L b, of v] put_same [OF L b, of v]
  by (simp add: builder_gets [OF L] struct_ok_def capnp_builder.into_reader_data [OF L])

lemmas put_simps = put_ok put_same put_apart put_pointer

end

text \<open>A field is of this kind as soon as its three accessors call the crate with one index.\<close>

lemma u16_field:
  fixes bget :: "('m, 'h, 'e) capnp \<Rightarrow> 'b \<Rightarrow> 'm \<Rightarrow> u16"
  assumes "(i + 1) * 2 \<le> 8 * unat (ss_data sz)"
    and "\<And>L r. rget L r = sr_get_u16 L (r_raw r) i"
    and "\<And>L b m. bget L b m = sb_get_u16 L (b_raw b) i m"
    and "\<And>L b v m. put L b v m = sb_set_u16 L (b_raw b) i v m"
  shows "data_field sz i r_raw b_raw rget bget put"
proof
  fix L :: "('m, 'h, 'e) capnp" and V m b
  assume L: "capnp_builder L V" and b: "struct_ok V m (b_raw b) sz"
  show "bget L b m = read_field (sdata V m (b_raw b)) i"
    using L b field_in_struct [OF b, of i "TYPE(16)"] assms(1)
    by (simp add: assms capnp_builder.bget_u16 struct_ok_def read_field_in)
qed (use assms in \<open>simp_all add: capnp_reader.get_u16 capnp_builder.write_u16\<close>)

lemma u32_field:
  fixes bget :: "('m, 'h, 'e) capnp \<Rightarrow> 'b \<Rightarrow> 'm \<Rightarrow> u32"
  assumes "(i + 1) * 4 \<le> 8 * unat (ss_data sz)"
    and "\<And>L r. rget L r = sr_get_u32 L (r_raw r) i"
    and "\<And>L b m. bget L b m = sb_get_u32 L (b_raw b) i m"
    and "\<And>L b v m. put L b v m = sb_set_u32 L (b_raw b) i v m"
  shows "data_field sz i r_raw b_raw rget bget put"
proof
  fix L :: "('m, 'h, 'e) capnp" and V m b
  assume L: "capnp_builder L V" and b: "struct_ok V m (b_raw b) sz"
  show "bget L b m = read_field (sdata V m (b_raw b)) i"
    using L b field_in_struct [OF b, of i "TYPE(32)"] assms(1)
    by (simp add: assms capnp_builder.bget_u32 struct_ok_def read_field_in)
qed (use assms in \<open>simp_all add: capnp_reader.get_u32 capnp_builder.write_u32\<close>)

lemma i32_field:
  fixes bget :: "('m, 'h, 'e) capnp \<Rightarrow> 'b \<Rightarrow> 'm \<Rightarrow> i32"
  assumes "(i + 1) * 4 \<le> 8 * unat (ss_data sz)"
    and "\<And>L r. rget L r = sr_get_i32 L (r_raw r) i"
    and "\<And>L b m. bget L b m = sb_get_i32 L (b_raw b) i m"
    and "\<And>L b v m. put L b v m = sb_set_i32 L (b_raw b) i v m"
  shows "data_field sz i r_raw b_raw rget bget put"
proof
  fix L :: "('m, 'h, 'e) capnp" and V m b
  assume L: "capnp_builder L V" and b: "struct_ok V m (b_raw b) sz"
  show "bget L b m = read_field (sdata V m (b_raw b)) i"
    using L b field_in_struct [OF b, of i "TYPE(32)"] assms(1)
    by (simp add: assms capnp_builder.bget_i32 struct_ok_def read_field_in)
qed (use assms in \<open>simp_all add: capnp_reader.get_i32 capnp_builder.write_i32\<close>)

lemma f64_field:
  fixes bget :: "('m, 'h, 'e) capnp \<Rightarrow> 'b \<Rightarrow> 'm \<Rightarrow> f64"
  assumes "(i + 1) * 8 \<le> 8 * unat (ss_data sz)"
    and "\<And>L r. rget L r = sr_get_f64 L (r_raw r) i"
    and "\<And>L b m. bget L b m = sb_get_f64 L (b_raw b) i m"
    and "\<And>L b v m. put L b v m = sb_set_f64 L (b_raw b) i v m"
  shows "data_field sz i r_raw b_raw rget bget put"
proof
  fix L :: "('m, 'h, 'e) capnp" and V m b
  assume L: "capnp_builder L V" and b: "struct_ok V m (b_raw b) sz"
  show "bget L b m = read_field (sdata V m (b_raw b)) i"
    using L b field_in_struct [OF b, of i "TYPE(64)"] assms(1)
    by (simp add: assms capnp_builder.bget_f64 struct_ok_def read_field_in)
qed (use assms in \<open>simp_all add: capnp_reader.get_f64 capnp_builder.write_f64\<close>)

section \<open>The contracts of pointer fields\<close>

locale pointer_slot =
  fixes sz :: StructSize
    and k :: nat
    and b_raw :: "'b \<Rightarrow> StructBuilder"
  assumes slot_bound: "k < unat (ss_pointers sz)"
begin

lemma slot_is_live:
  "capnp_builder L V \<Longrightarrow> struct_ok V m (b_raw b) sz \<Longrightarrow>
     plive V m (sb_get_pointer_field L (b_raw b) k)"
  by (rule capnp_builder.slot_ok [OF _ _ slot_bound])

text \<open>After a write of the slot: the struct is as large as before, its data is the same, and a
  reader sees the new object in the slot and the old ones in all others.\<close>

lemma after_write:
  assumes L: "capnp_builder L V" and b: "struct_ok V m (b_raw b) sz"
    and w: "slot_write V m m' (sb_get_pointer_field L (b_raw b) k) c"
  shows write_ok: "struct_ok V m' (b_raw b) sz"
    and write_data: "rdata V (sb_into_reader L (b_raw b) m') = rdata V (sb_into_reader L (b_raw b) m)"
    and write_same: "robj V (sr_get_pointer_field L (sb_into_reader L (b_raw b) m') k) = cobj L V m' c"
    and write_other: "j < unat (ss_pointers sz) \<Longrightarrow> j \<noteq> k \<Longrightarrow>
      robj V (sr_get_pointer_field L (sb_into_reader L (b_raw b) m') j) =
      robj V (sr_get_pointer_field L (sb_into_reader L (b_raw b) m) j)"
  using capnp_builder.slot_write_pointer [OF L w b slot_bound] slot_bound by simp_all

lemma has_agrees:
  "capnp_builder L V \<Longrightarrow> struct_ok V m (b_raw b) sz \<Longrightarrow>
     pb_is_null L (sb_get_pointer_field L (b_raw b) k) m \<longleftrightarrow>
     pr_is_null L (sr_get_pointer_field L (sb_into_reader L (b_raw b) m) k)"
  by (rule capnp_builder.builder_is_null [OF _ _ slot_bound])

text \<open>Both find the same capability in the slot, or both an error.\<close>

lemma cap_agrees:
  assumes L: "capnp_builder L V" and b: "struct_ok V m (b_raw b) sz"
  shows "map_result f (\<lambda>_. ()) (pb_get_capability L (sb_get_pointer_field L (b_raw b) k) m) =
    map_result f (\<lambda>_. ()) (pr_get_capability L (sr_get_pointer_field L (sb_into_reader L (b_raw b) m) k))"
proof -
  let ?pb = "sb_get_pointer_field L (b_raw b) k"
    and ?pr = "sr_get_pointer_field L (sb_into_reader L (b_raw b) m) k"
  note R = capnp_builder.axioms(1) [OF L] and live = slot_is_live [OF L b]
  note obj = capnp_builder.pointer_obj [OF L b slot_bound]
  show ?thesis
  proof (cases "\<exists>h. content V m ?pb = CCap h")
    case True
    then obtain h where c: "content V m ?pb = CCap h" ..
    then show ?thesis
      using capnp_builder.bget_cap [OF L live c] capnp_reader.get_cap [OF R, of ?pr h] obj
      by (simp add: cobj_def)
  next
    case False
    then have "\<not> is_ok (pb_get_capability L ?pb m)"
      using capnp_builder.bget_cap_kind [OF L live] by blast
    moreover have "robj V ?pr \<noteq> OCap h" for h
      using False obj by (cases "content V m ?pb") (simp_all add: cobj_def struct_obj_def)
    then have "\<not> is_ok (pr_get_capability L ?pr)"
      using capnp_reader.get_cap_kind [OF R] by blast
    ultimately show ?thesis
      by (cases "pb_get_capability L ?pb m"; cases "pr_get_capability L ?pr") simp_all
  qed
qed

end

locale data_pointer = pointer_slot sz k b_raw
  for sz :: StructSize and k :: nat and b_raw :: "'b \<Rightarrow> StructBuilder" +
  fixes put :: "('m, 'h, 'e) capnp \<Rightarrow> 'b \<Rightarrow> u8 list \<Rightarrow> 'm \<Rightarrow> 'm"
    and init :: "('m, 'h, 'e) capnp \<Rightarrow> 'b \<Rightarrow> u32 \<Rightarrow> 'm \<Rightarrow> DataBuilder \<times> 'm"
  assumes puts: "put L b v m = pb_set_data L (sb_get_pointer_field L (b_raw b) k) v m"
    and inits: "init L b n m = pb_init_data L (sb_get_pointer_field L (b_raw b) k) n m"
begin

lemma put_write:
  "capnp_builder L V \<Longrightarrow> struct_ok V m (b_raw b) sz \<Longrightarrow> length bs < 2 ^ 29 \<Longrightarrow>
     slot_write V m (put L b bs m) (sb_get_pointer_field L (b_raw b) k) (CData bs)"
  by (simp add: puts capnp_builder.bset_data slot_is_live)

lemma init_write:
  assumes "capnp_builder L V" and "struct_ok V m (b_raw b) sz" and "unat n < 2 ^ 29"
  shows "slot_write V m (snd (init L b n m)) (sb_get_pointer_field L (b_raw b) k)
    (CData (replicate (unat n) 0))"
  using capnp_builder.binit_data
    [OF assms(1) slot_is_live [OF assms(1,2)] assms(3) prod.collapse [symmetric]]
  by (simp add: inits)

end

locale struct_pointer = pointer_slot sz k b_raw
  for sz :: StructSize and k :: nat and b_raw :: "'b \<Rightarrow> StructBuilder" +
  fixes csize :: StructSize
    and c_new :: "StructBuilder \<Rightarrow> 'c"
    and c_raw :: "'c \<Rightarrow> StructBuilder"
    and v_raw :: "'v \<Rightarrow> 'm StructReader"
    and put :: "('m, 'h, 'e) capnp \<Rightarrow> 'b \<Rightarrow> 'v \<Rightarrow> 'm \<Rightarrow> (unit, 'e) result \<times> 'm"
    and init :: "('m, 'h, 'e) capnp \<Rightarrow> 'b \<Rightarrow> 'm \<Rightarrow> 'c \<times> 'm"
  assumes child_raw: "c_raw (c_new s) = s"
    and puts: "put L b v m =
      pb_set_struct L (sb_get_pointer_field L (b_raw b) k) (v_raw v) False m"
    and inits: "init L b m =
      map_prod c_new id (pb_init_struct L (sb_get_pointer_field L (b_raw b) k) csize m)"
begin

lemma init_write:
  assumes L: "capnp_builder L V" and b: "struct_ok V m (b_raw b) sz" and i: "init L b m = (c, m')"
  shows "slot_write V m m' (sb_get_pointer_field L (b_raw b) k) (CStruct (c_raw c))"
    and "fresh_struct L V m' (c_raw c) csize"
    and "live V m (c_raw c) \<Longrightarrow> inside V m (sb_get_pointer_field L (b_raw b) k) (c_raw c)"
proof -
  obtain s where s: "pb_init_struct L (sb_get_pointer_field L (b_raw b) k) csize m = (s, m')"
    and "c = c_new s"
    using i by (auto simp: inits map_prod_def split: prod.splits)
  then show "slot_write V m m' (sb_get_pointer_field L (b_raw b) k) (CStruct (c_raw c))"
    and "fresh_struct L V m' (c_raw c) csize"
    and "live V m (c_raw c) \<Longrightarrow> inside V m (sb_get_pointer_field L (b_raw b) k) (c_raw c)"
    using capnp_builder.binit_struct [OF L slot_is_live [OF L b] s] by (simp_all add: child_raw)
qed

lemma put_write:
  assumes L: "capnp_builder L V" and b: "struct_ok V m (b_raw b) sz"
    and "sound (struct_obj V (v_raw v))"
  obtains sb m' where "put L b v m = (Ok (), m')"
    "slot_write V m m' (sb_get_pointer_field L (b_raw b) k) (CStruct sb)"
    "cobj L V m' (CStruct sb) = struct_obj V (v_raw v)"
proof -
  obtain res m' where p: "put L b v m = (res, m')" by fastforce
  then have "pb_set_struct L (sb_get_pointer_field L (b_raw b) k) (v_raw v) False m = (res, m')"
    by (simp add: puts)
  from capnp_builder.bset_struct [OF L slot_is_live [OF L b] assms(3) this] show ?thesis
    using that p by (auto simp: cobj_def)
qed

end

locale struct_list_pointer = pointer_slot sz k b_raw
  for sz :: StructSize and k :: nat and b_raw :: "'b \<Rightarrow> StructBuilder" +
  fixes esize :: StructSize
    and put :: "('m, 'h, 'e) capnp \<Rightarrow> 'b \<Rightarrow> 'm StructListReader \<Rightarrow> 'm \<Rightarrow> (unit, 'e) result \<times> 'm"
    and init :: "('m, 'h, 'e) capnp \<Rightarrow> 'b \<Rightarrow> u32 \<Rightarrow> 'm \<Rightarrow> StructListBuilder \<times> 'm"
  assumes puts: "put L b v m = pb_set_struct_list L (sb_get_pointer_field L (b_raw b) k) v False m"
    and inits: "init L b n m = pb_init_struct_list L esize (sb_get_pointer_field L (b_raw b) k) n m"
begin

lemma init_write:
  assumes L: "capnp_builder L V" and b: "struct_ok V m (b_raw b) sz" and n: "unat n < 2 ^ 29"
    and i: "init L b n m = (lb, m')"
  shows "slot_write V m m' (sb_get_pointer_field L (b_raw b) k) (CStructs lb)"
    and "lblen V lb = unat n"
    and "j < unat n \<Longrightarrow> fresh_struct L V m' (slb_get L lb (of_nat j)) esize"
  using capnp_builder.binit_structs [OF L slot_is_live [OF L b] n i [unfolded inits]] by simp_all

lemma put_write:
  assumes L: "capnp_builder L V" and b: "struct_ok V m (b_raw b) sz"
    and "sound (OList (rstructs V v))"
  obtains lb m' where "put L b v m = (Ok (), m')"
    "slot_write V m m' (sb_get_pointer_field L (b_raw b) k) (CStructs lb)"
    "cobj L V m' (CStructs lb) = OList (rstructs V v)"
proof -
  obtain res m' where p: "put L b v m = (res, m')" by fastforce
  then have "pb_set_struct_list L (sb_get_pointer_field L (b_raw b) k) v False m = (res, m')"
    by (simp add: puts)
  from capnp_builder.bset_structs [OF L slot_is_live [OF L b] assms(3) this] show ?thesis
    using that p by auto
qed

end

section \<open>Writes below a pointer slot\<close>

text \<open>
  A step that writes only inside the object of the slot \<open>pb\<close>: the slot refers to the same object
  as before, and everything outside of it is as before.
\<close>

definition below :: "('m, 'h, 'e) view \<Rightarrow> 'm \<Rightarrow> 'm \<Rightarrow> PointerBuilder \<Rightarrow> bool" where
  "below V m m' pb \<longleftrightarrow> within V m m' pb \<and> content V m' pb = content V m pb"

text \<open>A struct is as before, except for what a reader finds in the slot \<open>k\<close>.\<close>

definition same_but_slot ::
  "('m, 'h, 'e) capnp \<Rightarrow> ('m, 'h, 'e) view \<Rightarrow> StructSize \<Rightarrow> StructBuilder \<Rightarrow> nat \<Rightarrow> 'm \<Rightarrow> 'm \<Rightarrow> bool"
  where
  "same_but_slot L V sz sb k m m' \<longleftrightarrow>
     struct_ok V m' sb sz \<and>
     rdata V (sb_into_reader L sb m') = rdata V (sb_into_reader L sb m) \<and>
     (\<forall>j < unat (ss_pointers sz). j \<noteq> k \<longrightarrow>
        robj V (sr_get_pointer_field L (sb_into_reader L sb m') j) =
        robj V (sr_get_pointer_field L (sb_into_reader L sb m) j))"

lemma within_plive: "within V m m' pb \<Longrightarrow> plive V m' pb"
  by (simp add: within_def)

lemma within_struct:
  "within V m m' pb \<Longrightarrow> live V m sb \<Longrightarrow> \<not> inside V m pb sb \<Longrightarrow>
     live V m' sb \<and> sdata V m' sb = sdata V m sb \<and> sptrs V m' sb = sptrs V m sb \<and>
     (\<forall>qb. inside V m' qb sb \<longleftrightarrow> inside V m qb sb)"
  by (simp add: within_def keeps_def)

lemma within_slot:
  "within V m m' pb \<Longrightarrow> plive V m qb \<Longrightarrow> qb \<noteq> pb \<Longrightarrow> \<not> pinside V m pb qb \<Longrightarrow>
     plive V m' qb \<and> content V m' qb = content V m qb \<and>
     (\<forall>rb. pinside V m' rb qb \<longleftrightarrow> pinside V m rb qb)"
  by (simp add: within_def keeps_def)

lemma within_tree:
  "within V m m' pb \<Longrightarrow> plive V m qb \<Longrightarrow> qb \<noteq> pb \<Longrightarrow> \<not> pinside V m pb qb \<Longrightarrow>
     \<not> pinside V m qb pb \<Longrightarrow> robj V (preader V qb m') = robj V (preader V qb m)"
  by (simp add: within_def keeps_def)

lemma within_own: "within V m m' pb \<Longrightarrow> pinside V m' qb pb \<longleftrightarrow> pinside V m qb pb"
  by (simp add: within_def)

lemma withinI:
  assumes "plive V m' pb" and "\<And>qb. pinside V m' qb pb \<longleftrightarrow> pinside V m qb pb"
    and "\<And>sb. live V m sb \<Longrightarrow> \<not> inside V m pb sb \<Longrightarrow>
      live V m' sb \<and> sdata V m' sb = sdata V m sb \<and> sptrs V m' sb = sptrs V m sb \<and>
      (\<forall>qb. inside V m' qb sb \<longleftrightarrow> inside V m qb sb)"
    and "\<And>qb. plive V m qb \<Longrightarrow> qb \<noteq> pb \<Longrightarrow> \<not> pinside V m pb qb \<Longrightarrow>
      plive V m' qb \<and> content V m' qb = content V m qb \<and>
      (\<forall>rb. pinside V m' rb qb \<longleftrightarrow> pinside V m rb qb)"
    and "\<And>qb. plive V m qb \<Longrightarrow> qb \<noteq> pb \<Longrightarrow> \<not> pinside V m pb qb \<Longrightarrow> \<not> pinside V m qb pb \<Longrightarrow>
      robj V (preader V qb m') = robj V (preader V qb m)"
  shows "within V m m' pb"
  using assms by (simp add: within_def keeps_def)

lemma within_trans:
  assumes 1: "within V m m1 pb" and 2: "within V m1 m2 pb"
  shows "within V m m2 pb"
proof (rule withinI)
  show "plive V m2 pb" using 2 by (rule within_plive)
  show "pinside V m2 qb pb \<longleftrightarrow> pinside V m qb pb" for qb
    using within_own [OF 1] within_own [OF 2] by simp
  show "live V m2 sb \<and> sdata V m2 sb = sdata V m sb \<and> sptrs V m2 sb = sptrs V m sb \<and>
      (\<forall>qb. inside V m2 qb sb \<longleftrightarrow> inside V m qb sb)"
    if "live V m sb" "\<not> inside V m pb sb" for sb
    using within_struct [OF 1 that] within_struct [OF 2, of sb] that by simp
  show "plive V m2 qb \<and> content V m2 qb = content V m qb \<and>
      (\<forall>rb. pinside V m2 rb qb \<longleftrightarrow> pinside V m rb qb)"
    if "plive V m qb" "qb \<noteq> pb" "\<not> pinside V m pb qb" for qb
    using within_slot [OF 1 that] within_slot [OF 2, of qb] that by simp
  show "robj V (preader V qb m2) = robj V (preader V qb m)"
    if "plive V m qb" "qb \<noteq> pb" "\<not> pinside V m pb qb" "\<not> pinside V m qb pb" for qb
    using within_slot [OF 1 that(1,2,3)] within_tree [OF 1 that] within_tree [OF 2, of qb]
      within_own [OF 1] that by simp
qed

lemma within_refl: "plive V m pb \<Longrightarrow> within V m m pb"
  by (rule withinI) simp_all

lemma below_refl: "plive V m pb \<Longrightarrow> below V m m pb"
  by (simp add: below_def within_refl)

lemma below_trans: "below V m m1 pb \<Longrightarrow> below V m1 m2 pb \<Longrightarrow> below V m m2 pb"
  using within_trans by (auto simp: below_def)

lemma data_write_keeps:
  assumes "data_write V m m' sb bs"
  shows "live V m s \<Longrightarrow> s \<noteq> sb \<Longrightarrow>
      live V m' s \<and> sdata V m' s = sdata V m s \<and> sptrs V m' s = sptrs V m s"
    and "live V m s \<Longrightarrow> inside V m' qb s \<longleftrightarrow> inside V m qb s"
    and "plive V m pb \<Longrightarrow> plive V m' pb \<and> content V m' pb = content V m pb"
    and "plive V m pb \<Longrightarrow> pinside V m' qb pb \<longleftrightarrow> pinside V m qb pb"
    and "plive V m pb \<Longrightarrow> \<not> inside V m pb sb \<Longrightarrow> robj V (preader V pb m') = robj V (preader V pb m)"
  using assms by (cases "s = sb"; auto simp: data_write_def keeps_def)+

context capnp_builder
begin

lemma below_data_write:
  assumes pb: "plive V m pb" and c: "inside V m pb c" "live V m c" and w: "data_write V m m' c bs"
  shows "below V m m' pb" and "inside V m' pb c"
proof -
  note k = data_write_keeps [OF w]
  have "robj V (preader V qb m') = robj V (preader V qb m)"
    if "plive V m qb" "qb \<noteq> pb" "\<not> pinside V m pb qb" "\<not> pinside V m qb pb" for qb
    using k(5) [OF that(1)] inside_linear [OF that(1) pb _ c(1)] that by blast
  moreover have "sb \<noteq> c" if "\<not> inside V m pb sb" for sb using c that by auto
  ultimately show "below V m m' pb"
    using k pb by (auto simp: below_def intro!: withinI)
  show "inside V m' pb c" using k(2) c by simp
qed

lemma below_within:
  assumes pb: "plive V m pb" "\<not> pinside V m pb pb"
    and c: "inside V m pb c" "live V m c" "j < sptrs V m c"
    and wi: "within V m m' (sb_get_pointer_field L c j)"
  shows "below V m m' pb" and "inside V m' pb c"
proof -
  let ?q = "sb_get_pointer_field L c j"
  have q: "pinside V m pb ?q" using slot_pinside [OF c(2,3)] c(1) by blast
  have pbq: "pb \<noteq> ?q" "\<not> pinside V m ?q pb" using pb q pinside_trans by auto
  note own = within_slot [OF wi pb(1) pbq]
  have "within V m m' pb"
  proof (rule withinI)
    show "plive V m' pb" "pinside V m' qb pb \<longleftrightarrow> pinside V m qb pb" for qb using own by simp_all
    show "live V m' sb \<and> sdata V m' sb = sdata V m sb \<and> sptrs V m' sb = sptrs V m sb \<and>
        (\<forall>qb. inside V m' qb sb \<longleftrightarrow> inside V m qb sb)"
      if "live V m sb" "\<not> inside V m pb sb" for sb
      using within_struct [OF wi that(1)] inside_trans [OF q] that by blast
    show "plive V m' qb \<and> content V m' qb = content V m qb \<and>
        (\<forall>rb. pinside V m' rb qb \<longleftrightarrow> pinside V m rb qb)"
      if "plive V m qb" "qb \<noteq> pb" "\<not> pinside V m pb qb" for qb
      using within_slot [OF wi that(1)] pinside_trans [OF q] q that by blast
    show "robj V (preader V qb m') = robj V (preader V qb m)"
      if "plive V m qb" "qb \<noteq> pb" "\<not> pinside V m pb qb" "\<not> pinside V m qb pb" for qb
      using within_tree [OF wi that(1)] pinside_trans [OF q] q slot_pinside [OF c(2,3)]
        inside_linear [OF that(1) pb(1) _ c(1)] that by blast
  qed
  then show "below V m m' pb" using own by (simp add: below_def)
  show "inside V m' pb c"
    using within_struct [OF wi c(2) slot_outside [OF c(2,3)]] c(1) by simp
qed

lemma slot_irrefl:
  "struct_ok V m sb sz \<Longrightarrow> k < unat (ss_pointers sz) \<Longrightarrow>
     \<not> pinside V m (sb_get_pointer_field L sb k) (sb_get_pointer_field L sb k)"
  using slot_outside_slot by (simp add: struct_ok_def)

lemma within_parent:
  assumes sb: "struct_ok V m sb sz" and k: "k < unat (ss_pointers sz)"
    and w: "within V m m' (sb_get_pointer_field L sb k)"
  shows "same_but_slot L V sz sb k m m'"
proof -
  have l: "live V m sb" and i: "\<And>j. j < unat (ss_pointers sz) \<Longrightarrow> j < sptrs V m sb"
    using sb by (auto simp: struct_ok_def)
  note s = within_struct [OF w l slot_outside [OF l i [OF k]]]
  have "robj V (preader V (sb_get_pointer_field L sb j) m') =
      robj V (preader V (sb_get_pointer_field L sb j) m)"
    if j: "j < unat (ss_pointers sz)" "j \<noteq> k" for j
    using within_tree [OF w slot_plive [OF l i [OF j(1)]]] slot_inj [OF l l i [OF j(1)] i [OF k]] j
      slot_outside_slot [OF l i [OF j(1)] i [OF k]] slot_outside_slot [OF l i [OF k] i [OF j(1)]]
    by blast
  moreover have "struct_ok V m' sb sz" using sb s by (simp add: struct_ok_def)
  ultimately show ?thesis
    using s l i by (auto simp: same_but_slot_def into_reader_data get_pointer into_reader_ptrs)
qed

end

text \<open>The struct \<open>c\<close> is what the slot \<open>k\<close> of the struct \<open>sb\<close> refers to.\<close>

definition child ::
  "('m, 'h, 'e) capnp \<Rightarrow> ('m, 'h, 'e) view \<Rightarrow> StructSize \<Rightarrow> StructBuilder \<Rightarrow> nat \<Rightarrow>
     StructBuilder \<Rightarrow> 'm \<Rightarrow> bool" where
  "child L V sz sb k c m \<longleftrightarrow>
     struct_ok V m sb sz \<and> k < unat (ss_pointers sz) \<and>
     content V m (sb_get_pointer_field L sb k) = CStruct c"

context capnp_builder
begin

lemma child_obj:
  "child L V sz sb k c m \<Longrightarrow>
     robj V (sr_get_pointer_field L (sb_into_reader L sb m) k) = cobj L V m (CStruct c)"
  using pointer_obj [of m sb sz k] by (simp add: child_def)

lemma child_slot:
  assumes "child L V sz sb k c m"
  shows "plive V m (sb_get_pointer_field L sb k)"
    and "\<not> pinside V m (sb_get_pointer_field L sb k) (sb_get_pointer_field L sb k)"
    and "inside V m (sb_get_pointer_field L sb k) c"
  using assms slot_ok slot_irrefl content_inside by (auto simp: child_def)

lemma child_inside:
  assumes "child L V sz sb k c m" and "inside V m pb sb"
  shows "inside V m pb c"
proof -
  have "live V m sb" "k < sptrs V m sb" using assms(1) by (auto simp: child_def struct_ok_def)
  then show ?thesis
    using inside_trans [OF _ child_slot(3) [OF assms(1)]] slot_pinside assms(2) by blast
qed

lemma below_slot:
  assumes "below V m m' pb" and "\<not> pinside V m pb pb"
  shows "plive V m' pb" and "\<not> pinside V m' pb pb"
  using assms within_own [of V m m' pb pb] within_plive [of V m m' pb] by (auto simp: below_def)

lemma child_below:
  assumes "child L V sz sb k c m" and "below V m m' (sb_get_pointer_field L sb k)"
  shows "child L V sz sb k c m'" and "same_but_slot L V sz sb k m m'"
proof -
  show s: "same_but_slot L V sz sb k m m'"
    using within_parent assms by (simp add: child_def below_def)
  show "child L V sz sb k c m'"
    using assms s by (simp add: child_def below_def same_but_slot_def)
qed

end

section \<open>Elements of a list of structs\<close>

context capnp_builder
begin

lemma same_struct:
  assumes "live V m sb" "live V m' sb" "sdata V m' sb = sdata V m sb" "sptrs V m' sb = sptrs V m sb"
    and "\<And>k. k < sptrs V m sb \<Longrightarrow>
      robj V (preader V (sb_get_pointer_field L sb k) m') =
      robj V (preader V (sb_get_pointer_field L sb k) m)"
  shows "struct_obj V (sb_into_reader L sb m') = struct_obj V (sb_into_reader L sb m)"
  using assms by (simp add: struct_obj_def into_reader_data into_reader_ptrs)

text \<open>A write in one element, to its data or below one of its slots, is not seen in another.\<close>

lemma element_data_write:
  assumes pb: "plive V m pb" "content V m pb = CStructs lb"
    and ij: "i < lblen V lb" "j < lblen V lb" "i \<noteq> j"
    and w: "data_write V m m' (slb_get L lb (of_nat i)) bs"
  shows "struct_obj V (sb_into_reader L (slb_get L lb (of_nat j)) m') =
      struct_obj V (sb_into_reader L (slb_get L lb (of_nat j)) m)"
    and "struct_ok V m (slb_get L lb (of_nat j)) sz \<Longrightarrow> struct_ok V m' (slb_get L lb (of_nat j)) sz"
proof -
  let ?j = "slb_get L lb (of_nat j)"
  have l: "live V m ?j" by (rule content_list_live [OF pb ij(2)])
  have ne: "?j \<noteq> slb_get L lb (of_nat i)" using list_apart [OF pb ij, of 0] by auto
  note k = data_write_keeps [OF w]
  have "robj V (preader V (sb_get_pointer_field L ?j k) m') =
      robj V (preader V (sb_get_pointer_field L ?j k) m)" if "k < sptrs V m ?j" for k
    using k(5) [OF slot_plive [OF l that]] list_apart [OF pb ij(2,1)] ij(3) by simp
  then show "struct_obj V (sb_into_reader L ?j m') = struct_obj V (sb_into_reader L ?j m)"
    using same_struct [OF l] k(1) [OF l ne] by simp
  show "struct_ok V m' ?j sz" if "struct_ok V m ?j sz"
    using that k(1) [OF l ne] by (simp add: struct_ok_def)
qed

lemma element_slot_write:
  assumes pb: "plive V m pb" "content V m pb = CStructs lb"
    and ij: "i < lblen V lb" "j < lblen V lb" "i \<noteq> j"
    and w: "within V m m' (sb_get_pointer_field L (slb_get L lb (of_nat i)) k)"
    and k: "k < sptrs V m (slb_get L lb (of_nat i))"
  shows "struct_obj V (sb_into_reader L (slb_get L lb (of_nat j)) m') =
      struct_obj V (sb_into_reader L (slb_get L lb (of_nat j)) m)"
    and "struct_ok V m (slb_get L lb (of_nat j)) sz \<Longrightarrow> struct_ok V m' (slb_get L lb (of_nat j)) sz"
proof -
  let ?i = "slb_get L lb (of_nat i)" and ?j = "slb_get L lb (of_nat j)"
  have l: "live V m ?i" "live V m ?j" using content_list_live [OF pb] ij by auto
  have ne: "?j \<noteq> ?i" using list_apart [OF pb ij, of 0] by auto
  have out: "\<not> inside V m (sb_get_pointer_field L ?i k') ?j"
    "\<not> inside V m (sb_get_pointer_field L ?j k') ?i" for k'
    using list_apart [OF pb ij] list_apart [OF pb ij(2,1)] ij(3) by auto
  note s = within_struct [OF w l(2) out(1)]
  have "robj V (preader V (sb_get_pointer_field L ?j k') m') =
      robj V (preader V (sb_get_pointer_field L ?j k') m)" if k': "k' < sptrs V m ?j" for k'
    using within_tree [OF w slot_plive [OF l(2) k']] slot_inj [OF l(2,1) k' k] ne
      slot_pinside [OF l(2) k'] slot_pinside [OF l(1) k] out by blast
  then show "struct_obj V (sb_into_reader L ?j m') = struct_obj V (sb_into_reader L ?j m)"
    using same_struct [OF l(2)] s by simp
  show "struct_ok V m' ?j sz" if "struct_ok V m ?j sz"
    using that s by (simp add: struct_ok_def)
qed

end

section \<open>Steps of the builder of a struct\<close>

text \<open>
  What a builder of the struct \<open>sb\<close> can do to the message: write the data of the struct, or write
  one of its pointer slots and what lies below it.
\<close>

inductive struct_steps ::
  "('m, 'h, 'e) capnp \<Rightarrow> ('m, 'h, 'e) view \<Rightarrow> StructBuilder \<Rightarrow> 'm \<Rightarrow> 'm \<Rightarrow> bool"
  for L V sb where
  steps_refl: "struct_steps L V sb m m"
| steps_data: "struct_steps L V sb m m1 \<Longrightarrow> live V m1 sb \<Longrightarrow> data_write V m1 m2 sb bs \<Longrightarrow>
    struct_steps L V sb m m2"
| steps_slot: "struct_steps L V sb m m1 \<Longrightarrow> live V m1 sb \<Longrightarrow> k < sptrs V m1 sb \<Longrightarrow>
    within V m1 m2 (sb_get_pointer_field L sb k) \<Longrightarrow> struct_steps L V sb m m2"

lemma struct_steps_trans:
  "struct_steps L V sb m1 m2 \<Longrightarrow> struct_steps L V sb m m1 \<Longrightarrow> struct_steps L V sb m m2"
  by (induction rule: struct_steps.induct) (auto intro: struct_steps.intros)

lemma struct_steps_fold:
  assumes "\<And>m x. J m \<Longrightarrow> x \<in> set xs \<Longrightarrow> J (f x m) \<and> struct_steps L V sb m (f x m)" and "J m"
  shows "struct_steps L V sb m (fold f xs m)"
  using assms
proof (induction xs arbitrary: m)
  case Nil
  then show ?case by (simp add: steps_refl)
next
  case (Cons x xs)
  then have "J (f x m)" "struct_steps L V sb m (f x m)" by auto
  then show ?case using Cons struct_steps_trans by fastforce
qed

context capnp_builder
begin

text \<open>Such steps write below every slot that the struct lies below.\<close>

lemma struct_steps_below:
  assumes "struct_steps L V sb m m'"
    and "plive V m pb" and "\<not> pinside V m pb pb" and "inside V m pb sb"
  shows "below V m m' pb \<and> inside V m' pb sb"
  using assms
proof (induction rule: struct_steps.induct)
  case (steps_refl m)
  then show ?case by (simp add: below_refl)
next
  case (steps_data m m1 m2 bs)
  then have 1: "below V m m1 pb" "inside V m1 pb sb" by auto
  then have "plive V m1 pb" using within_plive by (auto simp: below_def)
  then show ?case
    using below_data_write [OF _ 1(2) steps_data(2,3)] below_trans [OF 1(1)] by blast
next
  case (steps_slot m m1 k m2)
  then have 1: "below V m m1 pb" "inside V m1 pb sb" by auto
  then have "plive V m1 pb" "\<not> pinside V m1 pb pb"
    using steps_slot(7) within_plive [of V m m1 pb] within_own [of V m m1 pb pb] by (auto simp: below_def)
  then show ?case
    using below_within [OF _ _ 1(2) steps_slot(2,3,4)] below_trans [OF 1(1)] by blast
qed

text \<open>Steps of the builder of one element are not seen in the other elements of its list.\<close>

lemma struct_steps_element:
  assumes "struct_steps L V (slb_get L lb (of_nat i)) m m'"
    and "plive V m pb" and "\<not> pinside V m pb pb" and "content V m pb = CStructs lb"
    and "i < lblen V lb" and "j < lblen V lb" and "i \<noteq> j"
  shows "struct_obj V (sb_into_reader L (slb_get L lb (of_nat j)) m') =
      struct_obj V (sb_into_reader L (slb_get L lb (of_nat j)) m) \<and>
    (struct_ok V m (slb_get L lb (of_nat j)) sz \<longrightarrow> struct_ok V m' (slb_get L lb (of_nat j)) sz)"
  using assms
proof (induction rule: struct_steps.induct)
  case (steps_refl m)
  then show ?case by simp
next
  case (steps_data m m1 m2 bs)
  have "below V m m1 pb"
    using struct_steps_below [OF steps_data(1,5,6) content_list_inside [OF steps_data(5,7,8)]] by simp
  then have "plive V m1 pb" "content V m1 pb = CStructs lb"
    using within_plive steps_data(7) by (auto simp: below_def)
  then show ?case
    using element_data_write [OF _ _ steps_data(8,9,10,3)] steps_data by auto
next
  case (steps_slot m m1 k m2)
  have "below V m m1 pb"
    using struct_steps_below [OF steps_slot(1,6,7) content_list_inside [OF steps_slot(6,8,9)]] by simp
  then have "plive V m1 pb" "content V m1 pb = CStructs lb"
    using within_plive steps_slot(8) by (auto simp: below_def)
  then show ?case
    using element_slot_write [OF _ _ steps_slot(9,10,11,4,3)] steps_slot by auto
qed

end

context capnp_builder
begin

text \<open>Steps of the builder of a child are steps of the builder of its owner.\<close>

lemma child_steps:
  assumes c: "child L V sz sb k c m" and st: "struct_steps L V c m m'"
  shows "struct_steps L V sb m m'"
proof -
  have "within V m m' (sb_get_pointer_field L sb k)"
    using struct_steps_below [OF st child_slot [OF c]] by (simp add: below_def)
  then show ?thesis
    using c by (intro steps_slot [OF steps_refl]) (auto simp: child_def struct_ok_def)
qed

end

context data_field
begin

lemma put_steps:
  assumes L: "capnp_builder L V" and b: "struct_ok V m (b_raw b) sz"
  shows "struct_steps L V (b_raw b) m (put L b v m)"
  using steps_data [OF steps_refl _ writes [OF L b]] b by (simp add: struct_ok_def)

end

context pointer_slot
begin

lemma write_steps:
  assumes b: "struct_ok V m (b_raw b) sz"
    and "slot_write V m m' (sb_get_pointer_field L (b_raw b) k) c"
  shows "struct_steps L V (b_raw b) m m'"
  using steps_slot [OF steps_refl, of V m "b_raw b" k m' L] b slot_bound assms(2)
  by (simp add: struct_ok_def slot_write_def)

end

section \<open>Reading a list of structs\<close>

text \<open>The elements of a list, each read by \<open>g\<close>, as its iterator yields them.\<close>

definition list_map ::
  "('m, 'h, 'e) capnp \<Rightarrow> ('m StructReader \<Rightarrow> 'v) \<Rightarrow> 'm StructListReader \<Rightarrow> 'v list" where
  "list_map L g lr = map (\<lambda>i. g (slr_get L lr (of_nat i))) [0..<unat (slr_len L lr)]"

lemma list_map_cong [fundef_cong]:
  "lr = lr' \<Longrightarrow> (\<And>sr. g sr = g' sr) \<Longrightarrow> list_map L g lr = list_map L g' lr'"
  by (simp add: list_map_def)

context capnp_reader
begin

lemma struct_list_map:
  assumes lr: "pr_get_struct_list L pr = Ok lr"
    and xs: "rstructs V lr = map (\<lambda>i. struct_obj V (f i)) [0..<n]"
    and g: "\<And>sr sr'. struct_obj V sr = struct_obj V sr' \<Longrightarrow> g sr = g sr'"
  shows "list_map L g lr = map (\<lambda>i. g (f i)) [0..<n]"
proof -
  have n: "unat (slr_len L lr) = n"
    using list_len [OF lr] xs by simp
  have "g (slr_get L lr (of_nat i)) = g (f i)" if "i < n" for i
    using list_get [OF lr, of i] xs that by (intro g) simp
  then show ?thesis by (simp add: list_map_def n)
qed

lemma struct_list_cong:
  assumes r: "robj V pr = robj V pr'"
    and g: "\<And>sr sr'. struct_obj V sr = struct_obj V sr' \<Longrightarrow> g sr = g sr'"
  shows "map_result (list_map L g) id (pr_get_struct_list L pr) =
    map_result (list_map L g) id (pr_get_struct_list L pr')"
proof (cases "pr_get_struct_list L pr")
  case (Ok lr)
  then obtain lr' where lr': "pr_get_struct_list L pr' = Ok lr'" "rstructs V lr' = rstructs V lr"
    using get_structs_cong [OF r] by (cases "pr_get_struct_list L pr'") simp_all
  let ?f = "\<lambda>i. slr_get L lr (of_nat i)"
  have "rstructs V lr = map (\<lambda>i. struct_obj V (?f i)) [0..<length (rstructs V lr)]"
    using list_get [OF Ok] by (intro nth_equalityI) simp_all
  then show ?thesis
    using struct_list_map [OF Ok _ g] struct_list_map [OF lr'(1) _ g] Ok lr' by simp
next
  case (Err e)
  then have "pr_get_struct_list L pr' = Err e"
    using get_structs_cong [OF r] by (cases "pr_get_struct_list L pr'") simp_all
  then show ?thesis using Err by simp
qed

text \<open>A pointer to a copy of a list.\<close>

lemma struct_list_copy:
  assumes lr: "pr_get_struct_list L pr' = Ok lr" and r: "robj V pr = OList (rstructs V lr)"
    and ok: "list_ok (rstructs V lr)"
    and g: "\<And>sr sr'. struct_obj V sr = struct_obj V sr' \<Longrightarrow> g sr = g sr'"
  shows "map_result (list_map L g) id (pr_get_struct_list L pr) = Ok (list_map L g lr)"
proof -
  obtain lr' where lr': "pr_get_struct_list L pr = Ok lr'" "rstructs V lr' = rstructs V lr"
    using get_structs [OF r ok] by blast
  have "rstructs V lr = map (\<lambda>i. struct_obj V (slr_get L lr (of_nat i))) [0..<length (rstructs V lr)]"
    using list_get [OF lr] by (intro nth_equalityI) simp_all
  then show ?thesis
    using struct_list_map [OF lr _ g] struct_list_map [OF lr'(1) _ g] lr' by simp
qed

lemma struct_list_null:
  assumes "robj V pr = ONull"
  shows "map_result (list_map L g) id (pr_get_struct_list L pr) = Ok []"
proof -
  obtain lr where lr: "pr_get_struct_list L pr = Ok lr" "rstructs V lr = []"
    using get_structs_null [OF assms] by blast
  then show ?thesis using list_len [OF lr(1)] by (simp add: list_map_def)
qed

end

context capnp_builder
begin

lemma struct_list_built:
  assumes sb: "struct_ok V m sb sz" "k < unat (ss_pointers sz)"
    and c: "content V m (sb_get_pointer_field L sb k) = CStructs lb" "lblen V lb < 2 ^ 29"
    and g: "\<And>sr sr'. struct_obj V sr = struct_obj V sr' \<Longrightarrow> g sr = g sr'"
  shows "map_result (list_map L g) id
      (pr_get_struct_list L (sr_get_pointer_field L (sb_into_reader L sb m) k)) =
    Ok (map (\<lambda>i. g (sb_into_reader L (slb_get L lb (of_nat i)) m)) [0..<lblen V lb])"
proof -
  let ?xs = "map (\<lambda>i. struct_obj V (sb_into_reader L (slb_get L lb (of_nat i)) m)) [0..<lblen V lb]"
  have "robj V (sr_get_pointer_field L (sb_into_reader L sb m) k) = OList ?xs"
    using pointer_obj [OF sb] c by (simp add: cobj_def)
  moreover have "list_ok ?xs"
    using c by (simp add: list_ok_def list_all_iff struct_obj_def)
  ultimately obtain lr where
    "pr_get_struct_list L (sr_get_pointer_field L (sb_into_reader L sb m) k) = Ok lr" "rstructs V lr = ?xs"
    using get_structs by blast
  then show ?thesis using struct_list_map [OF _ _ g] by simp
qed

end

section \<open>The contract of a struct module\<close>

definition struct_slot :: "('m, 'h, 'e) view \<Rightarrow> 'm \<Rightarrow> PointerBuilder \<Rightarrow> StructSize \<Rightarrow> bool" where
  "struct_slot V m pb sz \<longleftrightarrow>
     content V m pb = CNull \<or> (\<exists>sb. content V m pb = CStruct sb \<and> struct_ok V m sb sz)"

locale struct_module =
  fixes struct_size :: StructSize
    and r_type_id :: u64
    and b_type_id :: u64
    and r_new :: "'m StructReader \<Rightarrow> 'r"
    and r_raw :: "'r \<Rightarrow> 'm StructReader"
    and b_new :: "StructBuilder \<Rightarrow> 'b"
    and b_raw :: "'b \<Rightarrow> StructBuilder"
    and r_get_from_pointer :: "('m, 'h, 'e) capnp \<Rightarrow> 'm PointerReader \<Rightarrow> ('r, 'e) result"
    and b_init_pointer :: "('m, 'h, 'e) capnp \<Rightarrow> PointerBuilder \<Rightarrow> u32 \<Rightarrow> 'm \<Rightarrow> 'b \<times> 'm"
    and b_get_from_pointer ::
      "('m, 'h, 'e) capnp \<Rightarrow> PointerBuilder \<Rightarrow> 'm \<Rightarrow> ('b, 'e) result \<times> 'm"
    and set_pointer_builder ::
      "('m, 'h, 'e) capnp \<Rightarrow> PointerBuilder \<Rightarrow> 'r \<Rightarrow> bool \<Rightarrow> 'm \<Rightarrow> (unit, 'e) result \<times> 'm"
    and into_reader :: "('m, 'h, 'e) capnp \<Rightarrow> 'b \<Rightarrow> 'm \<Rightarrow> 'r"
    and r_total_size :: "('m, 'h, 'e) capnp \<Rightarrow> 'r \<Rightarrow> (MessageSize, 'e) result"
    and b_total_size :: "('m, 'h, 'e) capnp \<Rightarrow> 'b \<Rightarrow> 'm \<Rightarrow> (MessageSize, 'e) result"
  assumes type_id: "r_type_id = b_type_id"
    and r_raw_new: "r_raw (r_new sr) = sr"
    and b_raw_new: "b_raw (b_new sb) = sb"
    and r_get: "r_get_from_pointer L pr = map_result r_new id (pr_get_struct L pr)"
    and b_init: "b_init_pointer L pb n m = map_prod b_new id (pb_init_struct L pb struct_size m)"
    and b_get: "b_get_from_pointer L pb m =
      map_prod (map_result b_new id) id (pb_get_struct L pb struct_size m)"
    and set_pointer: "set_pointer_builder L pb r canon m = pb_set_struct L pb (r_raw r) canon m"
    and reader_of: "into_reader L b m = r_new (sb_into_reader L (b_raw b) m)"
    and total_size: "b_total_size L b m = r_total_size L (into_reader L b m)"
begin

lemma init_ok:
  assumes "capnp_builder L V" and "plive V m pb" and "b_init_pointer L pb n m = (b, m')"
  shows "fresh_struct L V m' (b_raw b) struct_size"
    and "slot_write V m m' pb (CStruct (b_raw b))"
    and "live V m (b_raw b) \<Longrightarrow> inside V m pb (b_raw b)"
proof -
  obtain sb where sb: "pb_init_struct L pb struct_size m = (sb, m')" and b: "b = b_new sb"
    using assms(3) by (auto simp: b_init map_prod_def split: prod.splits)
  note law = capnp_builder.binit_struct [OF assms(1,2) sb]
  show "fresh_struct L V m' (b_raw b) struct_size"
    and "slot_write V m m' pb (CStruct (b_raw b))"
    and "live V m (b_raw b) \<Longrightarrow> inside V m pb (b_raw b)"
    using law by (simp_all add: b b_raw_new)
qed

text \<open>After \<open>init_pointer\<close>, \<open>get_from_pointer\<close> returns the same builder and writes nothing.\<close>

lemma init_then_get:
  assumes "capnp_builder L V" and "plive V m pb" and "b_init_pointer L pb n m = (b, m')"
  shows "b_get_from_pointer L pb m' = (Ok b, m')"
proof -
  obtain sb where sb: "pb_init_struct L pb struct_size m = (sb, m')" and b: "b = b_new sb"
    using assms(3) by (auto simp: b_init map_prod_def split: prod.splits)
  have "plive V m' pb" and "content V m' pb = CStruct sb" and "struct_ok V m' sb struct_size"
    using init_ok [OF assms] b by (simp_all add: slot_write_def within_def b_raw_new fresh_struct_ok)
  then have "pb_get_struct L pb struct_size m' = (Ok sb, m')"
    by (rule capnp_builder.bget_struct [OF assms(1)])
  then show ?thesis by (simp add: b_get b)
qed

text \<open>A null pointer: \<open>get_from_pointer\<close> of a builder initialises it.\<close>

lemma get_null_inits:
  assumes "capnp_builder L V" and "plive V m pb" and "content V m pb = CNull"
  shows "b_get_from_pointer L pb m = (case b_init_pointer L pb 0 m of (b, m') \<Rightarrow> (Ok b, m'))"
  using capnp_builder.bget_struct_null [OF assms, of struct_size]
  by (simp add: b_get b_init map_prod_def split: prod.split)

text \<open>
  A pointer that is null or refers to a struct with room for the module's fields:
  \<open>get_from_pointer\<close> of a builder returns the struct that is there, or initialises one.
\<close>

lemma b_get_cases:
  assumes L: "capnp_builder L V" and pb: "plive V m pb" and s: "struct_slot V m pb struct_size"
  obtains (kept) b where "content V m pb = CStruct (b_raw b)" "b_get_from_pointer L pb m = (Ok b, m)"
  | (made) b m' where "content V m pb = CNull" "b_init_pointer L pb 0 m = (b, m')"
      "b_get_from_pointer L pb m = (Ok b, m')"
proof (cases "content V m pb = CNull")
  case True
  obtain b m' where "b_init_pointer L pb 0 m = (b, m')" by fastforce
  then show ?thesis using made [OF True] get_null_inits [OF L pb True] by simp
next
  case False
  then obtain sb where c: "content V m pb = CStruct sb" and "struct_ok V m sb struct_size"
    using s by (auto simp: struct_slot_def)
  then have "pb_get_struct L pb struct_size m = (Ok sb, m)"
    by (rule capnp_builder.bget_struct [OF L pb])
  then show ?thesis using kept [of "b_new sb"] c by (simp add: b_get b_raw_new)
qed

text \<open>A reader of an initialised pointer sees all data zero and all pointers null.\<close>

lemma init_then_read:
  assumes L: "capnp_builder L V" and "plive V m pb" and "b_init_pointer L pb n m = (b, m')"
  obtains r where "r_get_from_pointer L (preader V pb m') = Ok r"
    and "rdata V (r_raw r) = replicate (8 * unat (ss_data struct_size)) 0"
    and "rptrs V (r_raw r) = replicate (unat (ss_pointers struct_size)) ONull"
proof -
  note init = init_ok [OF assms]
  have "robj V (preader V pb m') = struct_obj V (sb_into_reader L (b_raw b) m')"
    using capnp_builder.preader_obj [OF L] init(2) by (simp add: slot_write_def within_def cobj_def)
  then have "robj V (preader V pb m') =
      OStruct (replicate (8 * unat (ss_data struct_size)) 0)
        (replicate (unat (ss_pointers struct_size)) ONull)"
    using capnp_builder.reader_fresh [OF L init(1)] by (simp add: struct_obj_def)
  then obtain sr where "pr_get_struct L (preader V pb m') = Ok sr"
    and "rdata V sr = replicate (8 * unat (ss_data struct_size)) 0"
    and "rptrs V sr = replicate (unat (ss_pointers struct_size)) ONull"
    using capnp_reader.get_struct [OF capnp_builder.axioms(1) [OF L]] by blast
  then show ?thesis
    using that [of "r_new sr"] by (simp add: r_get r_raw_new)
qed

text \<open>A null pointer reads as the struct with no data and no pointers.\<close>

lemma read_null:
  assumes "capnp_reader L V" and "robj V pr = ONull"
  obtains r where "r_get_from_pointer L pr = Ok r" "rdata V (r_raw r) = []" "rptrs V (r_raw r) = []"
proof -
  obtain sr where "pr_get_struct L pr = Ok sr" "rdata V sr = []" "rptrs V sr = []"
    using capnp_reader.get_struct_null [OF assms] by blast
  then show ?thesis using that [of "r_new sr"] by (simp add: r_get r_raw_new)
qed

lemma read_struct:
  assumes "capnp_reader L V" and "robj V pr = OStruct d ps"
  obtains r where "r_get_from_pointer L pr = Ok r" "rdata V (r_raw r) = d" "rptrs V (r_raw r) = ps"
proof -
  obtain sr where "pr_get_struct L pr = Ok sr" "rdata V sr = d" "rptrs V sr = ps"
    using capnp_reader.get_struct [OF assms] by blast
  then show ?thesis using that [of "r_new sr"] by (simp add: r_get r_raw_new)
qed

lemma read_bad:
  assumes "capnp_reader L V" and "robj V pr = OBad e"
  shows "r_get_from_pointer L pr = Err e"
  using capnp_reader.get_struct_bad [OF assms] by (simp add: r_get)

text \<open>Two pointers to equal trees read as equal structs.\<close>

lemma read_cong:
  assumes "capnp_reader L V" and "robj V pr = robj V pr'"
    and f: "\<And>r r'. struct_obj V (r_raw r) = struct_obj V (r_raw r') \<Longrightarrow> f r = f r'"
  shows "map_result f id (r_get_from_pointer L pr) = map_result f id (r_get_from_pointer L pr')"
proof -
  have t: "map_result (struct_obj V) id (pr_get_struct L pr) =
      map_result (struct_obj V) id (pr_get_struct L pr')"
    using capnp_reader.get_struct_cong [OF assms(1,2)] .
  show ?thesis
  proof (cases "pr_get_struct L pr")
    case (Ok sr)
    then obtain sr' where "pr_get_struct L pr' = Ok sr'" "struct_obj V sr = struct_obj V sr'"
      using t by (cases "pr_get_struct L pr'") simp_all
    then show ?thesis using Ok f [of "r_new sr" "r_new sr'"] by (simp add: r_get r_raw_new)
  next
    case (Err e)
    then have "pr_get_struct L pr' = Err e"
      using t by (cases "pr_get_struct L pr'") simp_all
    then show ?thesis using Err by (simp add: r_get)
  qed
qed

text \<open>A copied struct reads back as the tree of the value it was copied from.\<close>

lemma set_then_read:
  assumes L: "capnp_builder L V" and "plive V m pb" and "sound (struct_obj V (r_raw v))"
    and "set_pointer_builder L pb v False m = (res, m')"
  obtains r where "res = Ok ()" "r_get_from_pointer L (preader V pb m') = Ok r"
    "struct_obj V (r_raw r) = struct_obj V (r_raw v)"
proof -
  have "pb_set_struct L pb (r_raw v) False m = (res, m')"
    using assms(4) by (simp add: set_pointer)
  from capnp_builder.bset_struct [OF L assms(2,3) this]
  obtain sb where res: "res = Ok ()" and w: "slot_write V m m' pb (CStruct sb)"
    and t: "struct_obj V (sb_into_reader L sb m') = struct_obj V (r_raw v)"
    by auto
  have "robj V (preader V pb m') = struct_obj V (r_raw v)"
    using capnp_builder.preader_obj [OF L] w t by (simp add: slot_write_def within_def cobj_def)
  then have "robj V (preader V pb m') = OStruct (rdata V (r_raw v)) (rptrs V (r_raw v))"
    by (simp add: struct_obj_def)
  from read_struct [OF capnp_builder.axioms(1) [OF L] this]
  obtain r where "r_get_from_pointer L (preader V pb m') = Ok r"
    "rdata V (r_raw r) = rdata V (r_raw v)" "rptrs V (r_raw r) = rptrs V (r_raw v)"
    by blast
  then show ?thesis using that [of r] res by (simp add: struct_obj_def)
qed

end

text \<open>
  A module together with the value that its getters read from a struct.  The value depends on the
  tree the reader sees, and on nothing else of the message.
\<close>

locale struct_value = struct_module struct_size r_type_id b_type_id r_new r_raw b_new b_raw
    r_get_from_pointer b_init_pointer b_get_from_pointer set_pointer_builder into_reader
    r_total_size b_total_size
  for struct_size :: StructSize
    and r_type_id :: u64
    and b_type_id :: u64
    and r_new :: "'m StructReader \<Rightarrow> 'r"
    and r_raw :: "'r \<Rightarrow> 'm StructReader"
    and b_new :: "StructBuilder \<Rightarrow> 'b"
    and b_raw :: "'b \<Rightarrow> StructBuilder"
    and r_get_from_pointer :: "('m, 'h, 'e) capnp \<Rightarrow> 'm PointerReader \<Rightarrow> ('r, 'e) result"
    and b_init_pointer :: "('m, 'h, 'e) capnp \<Rightarrow> PointerBuilder \<Rightarrow> u32 \<Rightarrow> 'm \<Rightarrow> 'b \<times> 'm"
    and b_get_from_pointer ::
      "('m, 'h, 'e) capnp \<Rightarrow> PointerBuilder \<Rightarrow> 'm \<Rightarrow> ('b, 'e) result \<times> 'm"
    and set_pointer_builder ::
      "('m, 'h, 'e) capnp \<Rightarrow> PointerBuilder \<Rightarrow> 'r \<Rightarrow> bool \<Rightarrow> 'm \<Rightarrow> (unit, 'e) result \<times> 'm"
    and into_reader :: "('m, 'h, 'e) capnp \<Rightarrow> 'b \<Rightarrow> 'm \<Rightarrow> 'r"
    and r_total_size :: "('m, 'h, 'e) capnp \<Rightarrow> 'r \<Rightarrow> (MessageSize, 'e) result"
    and b_total_size :: "('m, 'h, 'e) capnp \<Rightarrow> 'b \<Rightarrow> 'm \<Rightarrow> (MessageSize, 'e) result" +
  fixes read :: "('m, 'h, 'e) capnp \<Rightarrow> 'r \<Rightarrow> 'v"
  assumes value_tree: "capnp_reader L V \<Longrightarrow>
    struct_obj V (r_raw r) = struct_obj V (r_raw r') \<Longrightarrow> read L r = read L r'"
begin

lemma value_cong:
  assumes "capnp_reader L V" and "robj V pr = robj V pr'"
  shows "map_result (read L) id (r_get_from_pointer L pr) =
    map_result (read L) id (r_get_from_pointer L pr')"
  using read_cong [OF assms value_tree [OF assms(1)]] .

lemma value_copy:
  assumes L: "capnp_reader L V" and "robj V pr = struct_obj V (r_raw v)"
  shows "map_result (read L) id (r_get_from_pointer L pr) = Ok (read L v)"
proof -
  obtain r where "r_get_from_pointer L pr = Ok r" "rdata V (r_raw r) = rdata V (r_raw v)"
    "rptrs V (r_raw r) = rptrs V (r_raw v)"
    using assms(2) by (auto simp: struct_obj_def elim: read_struct [OF L])
  then show ?thesis using value_tree [OF L, of r v] by (simp add: struct_obj_def)
qed

text \<open>A slot that holds the struct of a builder reads as the value of that builder.\<close>

lemma value_slot:
  assumes "capnp_reader L V" and "robj V pr = cobj L V m (CStruct (b_raw b))"
  shows "map_result (read L) id (r_get_from_pointer L pr) = Ok (read L (into_reader L b m))"
  using value_copy [OF assms(1), of pr "into_reader L b m"] assms(2)
  by (simp add: cobj_def reader_of r_raw_new)

text \<open>
  The builder that \<open>get_from_pointer\<close> returns has the value a reader of the pointer finds, also when the
  pointer is null, if an absent struct and a new one have the same value \<open>z\<close>.
\<close>

lemma b_get_value:
  assumes L: "capnp_builder L V" and pb: "plive V m pb" and s: "struct_slot V m pb struct_size"
    and pr: "robj V pr = cobj L V m (content V m pb)"
    and null: "robj V pr = ONull \<Longrightarrow> map_result (read L) id (r_get_from_pointer L pr) = Ok z"
    and fresh: "\<And>b m'. fresh_struct L V m' (b_raw b) struct_size \<Longrightarrow> read L (into_reader L b m') = z"
  shows "\<exists>b m'. b_get_from_pointer L pb m = (Ok b, m') \<and> content V m' pb = CStruct (b_raw b) \<and>
    map_result (read L) id (r_get_from_pointer L pr) = Ok (read L (into_reader L b m'))"
proof (cases rule: b_get_cases [OF L pb s, case_names kept made])
  case (kept b)
  then show ?thesis
    using value_slot [OF capnp_builder.axioms(1) [OF L], of pr m b] pr by auto
next
  case (made b m')
  then have "robj V pr = ONull" using pr by (simp add: cobj_def)
  moreover note init_ok [OF L pb made(2)]
  ultimately show ?thesis
    using made(3) null fresh by (auto simp: slot_write_def)
qed

end

section \<open>Refinement by sequences of operations\<close>

text \<open>
  Operations \<open>run\<close> on a message refine operations \<open>spec\<close> on a value: from a state that satisfies
  the invariant, an allowed operation leads to such a state, and the value read there is the
  value the specification gives.  Then every sequence of allowed operations refines its
  specification.
\<close>

locale op_refinement =
  fixes inv :: "('m, 'h, 'e) capnp \<Rightarrow> ('m, 'h, 'e) view \<Rightarrow> 'b \<Rightarrow> 'm \<Rightarrow> bool"
    and val :: "('m, 'h, 'e) capnp \<Rightarrow> 'b \<Rightarrow> 'm \<Rightarrow> 'v"
    and allowed :: "('m, 'h, 'e) view \<Rightarrow> 'o \<Rightarrow> bool"
    and run :: "('m, 'h, 'e) capnp \<Rightarrow> 'b \<Rightarrow> 'o \<Rightarrow> 'm \<Rightarrow> 'm"
    and spec :: "('m, 'h, 'e) capnp \<Rightarrow> 'o \<Rightarrow> 'v \<Rightarrow> 'v"
    and b_raw :: "'b \<Rightarrow> StructBuilder"
  assumes run_inv: "capnp_builder L V \<Longrightarrow> inv L V b m \<Longrightarrow> allowed V x \<Longrightarrow> inv L V b (run L b x m)"
    and run_val: "capnp_builder L V \<Longrightarrow> inv L V b m \<Longrightarrow> allowed V x \<Longrightarrow>
      val L b (run L b x m) = spec L x (val L b m)"
    and run_steps: "capnp_builder L V \<Longrightarrow> inv L V b m \<Longrightarrow> allowed V x \<Longrightarrow>
      struct_steps L V (b_raw b) m (run L b x m)"
begin

lemma runs_refine:
  assumes "capnp_builder L V" and "inv L V b m" and "list_all (allowed V) xs"
  shows "inv L V b (fold (run L b) xs m) \<and>
    val L b (fold (run L b) xs m) = fold (spec L) xs (val L b m)"
  using assms(2,3)
proof (induction xs arbitrary: m)
  case Nil
  then show ?case by simp
next
  case (Cons x xs)
  then show ?case using run_inv [OF assms(1)] run_val [OF assms(1)] by simp
qed

lemma runs_steps:
  assumes "capnp_builder L V" and "inv L V b m" and "list_all (allowed V) xs"
  shows "struct_steps L V (b_raw b) m (fold (run L b) xs m)"
  by (rule struct_steps_fold [where J = "inv L V b"])
    (use assms run_inv [OF assms(1)] run_steps [OF assms(1)] in \<open>auto simp: list_all_iff\<close>)

lemma runs_below:
  assumes "capnp_builder L V" and "inv L V b m" and "list_all (allowed V) xs"
    and "plive V m pb" and "\<not> pinside V m pb pb" and "inside V m pb (b_raw b)"
  shows "below V m (fold (run L b) xs m) pb \<and> inside V (fold (run L b) xs m) pb (b_raw b)"
  by (rule capnp_builder.struct_steps_below [OF assms(1) runs_steps [OF assms(1-3)] assms(4-)])

text \<open>Operations on the struct a slot refers to leave the slot's owner as it was otherwise.\<close>

lemma runs_in_child:
  assumes L: "capnp_builder L V" and "inv L V b m" and "list_all (allowed V) xs"
    and c: "child L V sz sb k (b_raw b) m"
  shows "child L V sz sb k (b_raw b) (fold (run L b) xs m)"
    and "same_but_slot L V sz sb k m (fold (run L b) xs m)"
  using capnp_builder.child_below [OF L c]
    runs_below [OF assms(1-3) capnp_builder.child_slot [OF L c]] by auto

end

end
