(* ===== verification/Rust_Effects.thy ===== *)
theory Rust_Effects
  imports Prelude
begin

text \<open>
  What a Rust function of this program does besides returning a value: it may panic, it may wait for
  ever, it prints lines, and \<open>?\<close> returns early with an error.  A program is the list of lines it prints
  together with its outcome; \<open>prog_bind\<close> is the sequence of two statements.
\<close>

section \<open>Outcomes\<close>

datatype panic =
    Unimplemented
  | Index_Out_Of_Bounds
  | Expect_Failed string
  | Explicit_Panic string

text \<open>\<open>Stuck\<close> is a call that never returns, such as \<open>block_on\<close> of a future that never resolves.\<close>

datatype 'a outcome = Returned 'a | Panicked panic | Stuck

section \<open>Printed lines\<close>

text \<open>
  A line is the literal text of a \<open>println!\<close> with its arguments in place, each with the way it is
  formatted; the digits that \<open>std::fmt\<close> chooses for a number are not spelled out.
\<close>

datatype 'e piece =
    Text string
  | Display_str string
  | Display_u16 u16
  | Display_u32 u32
  | Display_f64 f64
  | Debug_bytes "u8 list"
  | Display_error 'e

type_synonym 'e line = "'e piece list"

section \<open>Programs\<close>

type_synonym ('a, 'e, 'x) prog = "'e line list \<times> ('a, 'x) result outcome"

definition prog_return :: "'a \<Rightarrow> ('a, 'e, 'x) prog" where
  "prog_return a = ([], Returned (Ok a))"

definition prog_bind :: "('a, 'e, 'x) prog \<Rightarrow> ('a \<Rightarrow> ('b, 'e, 'x) prog) \<Rightarrow> ('b, 'e, 'x) prog" where
  "prog_bind p f = (case p of (out, oc) \<Rightarrow>
     (case oc of
        Returned (Ok a) \<Rightarrow> (out @ fst (f a), snd (f a))
      | Returned (Err x) \<Rightarrow> (out, Returned (Err x))
      | Panicked e \<Rightarrow> (out, Panicked e)
      | Stuck \<Rightarrow> (out, Stuck)))"

definition println :: "'e line \<Rightarrow> (unit, 'e, 'x) prog" where
  "println l = ([l], Returned (Ok ()))"

text \<open>The operator \<open>?\<close>: \<open>box\<close> is the conversion of the error into the boxed error of the function.\<close>

definition try_op :: "('i \<Rightarrow> 'x) \<Rightarrow> ('a, 'i) result \<Rightarrow> ('a, 'e, 'x) prog" where
  "try_op box r = ([], Returned (map_result id box r))"

definition expect_some :: "string \<Rightarrow> 'a option \<Rightarrow> ('a, 'e, 'x) prog" where
  "expect_some msg v = (case v of
     Some a \<Rightarrow> prog_return a
   | None \<Rightarrow> ([], Panicked (Expect_Failed msg)))"

named_theorems prog_simps

lemma prog_bind_simps [prog_simps]:
  "prog_bind (prog_return a) f = f a"
  "prog_bind (println l) g = (l # fst (g ()), snd (g ()))"
  "prog_bind (out, Returned (Ok a)) f = (out @ fst (f a), snd (f a))"
  "prog_bind (out, Returned (Err x)) f = (out, Returned (Err x))"
  "prog_bind (out, Panicked e) f = (out, Panicked e)"
  "prog_bind (out, Stuck) f = (out, Stuck)"
  by (simp_all add: prog_bind_def prog_return_def println_def)

lemma try_simps [prog_simps]:
  "prog_bind (try_op box (Ok a)) f = f a"
  "prog_bind (try_op box (Err i)) f = ([], Returned (Err (box i)))"
  by (simp_all add: try_op_def prog_bind_simps)

lemma expect_simps [prog_simps]:
  "prog_bind (expect_some msg (Some a)) f = f a"
  "prog_bind (expect_some msg None) f = ([], Panicked (Expect_Failed msg))"
  by (simp_all add: expect_some_def prog_bind_simps)

text \<open>Sequencing is associative, with \<open>prog_return\<close> as its unit.\<close>

lemma prog_bind_assoc: "prog_bind (prog_bind p f) g = prog_bind p (\<lambda>a. prog_bind (f a) g)"
  by (auto simp: prog_bind_def split: prod.splits outcome.splits result.splits)

lemma prog_bind_return: "prog_bind p prog_return = p"
  by (auto simp: prog_bind_def prog_return_def split: prod.splits outcome.splits result.splits)

text \<open>What was printed stays printed: the lines of a statement come first in the lines of the rest.\<close>

lemma prog_bind_prefix: "\<exists>ls. fst (prog_bind p f) = fst p @ ls"
  by (auto simp: prog_bind_def split: prod.splits outcome.splits result.splits)

end
