(* ===== verification/Capnp_Rpc.thy ===== *)
theory Capnp_Rpc
  imports Capnp_Traits Rust_Effects
begin

text \<open>
  The part of \<open>capnp::capability\<close> that the generated interface code of
  \<open>rust/src/schema/calculator_capnp.rs\<close> is written against, again as parameters, and the contracts of
  that code: a client type wraps a capability hook (\<open>client_type\<close>), capability fields store a hook
  (\<open>cap_pointer\<close>), and the dispatcher of an interface calls the method with the ordinal of the
  request (\<open>rpc_interface\<close>).
\<close>

section \<open>Types of the crate\<close>

text \<open>\<open>capnp::capability::Client\<close>, a wrapper of a hook, and its \<open>new\<close>.\<close>

datatype 'h cap_Client = cap_Client (hook: 'h)

text \<open>
  The functions of the crate behind requests and promises: \<open>'q\<close> stands for requests, \<open>'p\<close> and \<open>'r\<close> for the
  parameters and results of a call, \<open>'t\<close> for promises.  \<open>internal_get_typed_params\<close> and
  \<open>internal_get_typed_results\<close> change only the phantom type of their argument.
\<close>

record ('h, 'q, 'p, 'r, 't, 'e) rpc =
  new_call :: "'h cap_Client \<Rightarrow> u64 \<Rightarrow> u16 \<Rightarrow> MessageSize option \<Rightarrow> 'q"
  promise_err :: "'e \<Rightarrow> 't"
  error_unimplemented :: "string \<Rightarrow> 'e"
  internal_get_typed_params :: "'p \<Rightarrow> 'p"
  internal_get_typed_results :: "'r \<Rightarrow> 'r"

section \<open>The contract of a client type\<close>

locale client_type =
  fixes c_new :: "'h \<Rightarrow> 'c"
    and c_hook :: "'c \<Rightarrow> 'h"
    and r_get_from_pointer :: "('m, 'h, 'e) capnp \<Rightarrow> 'm PointerReader \<Rightarrow> ('c, 'e) result"
    and b_get_from_pointer :: "('m, 'h, 'e) capnp \<Rightarrow> PointerBuilder \<Rightarrow> 'm \<Rightarrow> ('c, 'e) result"
    and set_pointer_builder ::
      "('m, 'h, 'e) capnp \<Rightarrow> PointerBuilder \<Rightarrow> 'c \<Rightarrow> bool \<Rightarrow> 'm \<Rightarrow> (unit, 'e) result \<times> 'm"
    and clone :: "('m, 'h, 'e) capnp \<Rightarrow> 'c \<Rightarrow> 'c"
  assumes hook_new: "c_hook (c_new h) = h"
    and new_hook: "c_new (c_hook c) = c"
    and r_get: "r_get_from_pointer L pr = map_result c_new id (pr_get_capability L pr)"
    and b_get: "b_get_from_pointer L pb m = map_result c_new id (pb_get_capability L pb m)"
    and sets: "set_pointer_builder L pb c canon m = (Ok (), pb_set_capability L pb (c_hook c) m)"
    and clones: "clone L c = c_new (hook_add_ref L (c_hook c))"
begin

lemma set_then_get:
  assumes L: "capnp_builder L V" and "plive V m pb"
    and "set_pointer_builder L pb c canon m = (res, m')"
  shows "res = Ok ()" and "b_get_from_pointer L pb m' = Ok c"
    and "r_get_from_pointer L (preader V pb m') = Ok c"
proof -
  have m': "m' = pb_set_capability L pb (c_hook c) m" and "res = Ok ()"
    using assms(3) by (simp_all add: sets)
  then show "res = Ok ()" by simp
  have w: "slot_write V m m' pb (CCap (c_hook c))"
    using capnp_builder.bset_cap [OF L assms(2)] m' by simp
  then have p: "plive V m' pb" "content V m' pb = CCap (c_hook c)"
    by (simp_all add: slot_write_def within_def)
  then show "b_get_from_pointer L pb m' = Ok c"
    using capnp_builder.bget_cap [OF L p] by (simp add: b_get new_hook)
  have "robj V (preader V pb m') = OCap (c_hook c)"
    using capnp_builder.preader_obj [OF L p(1)] p(2) by (simp add: cobj_def)
  then show "r_get_from_pointer L (preader V pb m') = Ok c"
    using capnp_reader.get_cap [OF capnp_builder.axioms(1) [OF L]] by (simp add: r_get new_hook)
qed

lemma stored:
  assumes "capnp_builder L V" and "plive V m pb"
  shows "case set_pointer_builder L pb c canon m of (res, m') \<Rightarrow>
    res = Ok () \<and> b_get_from_pointer L pb m' = Ok c \<and> r_get_from_pointer L (preader V pb m') = Ok c"
  using set_then_get [OF assms] by (simp split: prod.splits)

end

section \<open>The contract of a capability field\<close>

locale cap_pointer = pointer_slot sz k b_raw
  for sz :: StructSize and k :: nat and b_raw :: "'b \<Rightarrow> StructBuilder" +
  fixes c_new :: "'h \<Rightarrow> 'c"
    and c_hook :: "'c \<Rightarrow> 'h"
    and r_raw :: "'r \<Rightarrow> 'm StructReader"
    and rget :: "('m, 'h, 'e) capnp \<Rightarrow> 'r \<Rightarrow> ('c, 'e) result"
    and bget :: "('m, 'h, 'e) capnp \<Rightarrow> 'b \<Rightarrow> 'm \<Rightarrow> ('c, 'e) result"
    and put :: "('m, 'h, 'e) capnp \<Rightarrow> 'b \<Rightarrow> 'c \<Rightarrow> 'm \<Rightarrow> 'm"
  assumes new_hook: "c_new (c_hook c) = c"
    and rgets: "rget L r = map_result c_new id (pr_get_capability L (sr_get_pointer_field L (r_raw r) k))"
    and bgets: "bget L b m =
      map_result c_new id (pb_get_capability L (sb_get_pointer_field L (b_raw b) k) m)"
    and puts: "put L b c m = pb_set_capability L (sb_get_pointer_field L (b_raw b) k) (c_hook c) m"
begin

lemma put_write:
  "capnp_builder L V \<Longrightarrow> struct_ok V m (b_raw b) sz \<Longrightarrow>
     slot_write V m (put L b c m) (sb_get_pointer_field L (b_raw b) k) (CCap (c_hook c))"
  by (simp add: puts capnp_builder.bset_cap slot_is_live)

lemma put_then_get:
  assumes L: "capnp_builder L V" and b: "struct_ok V m (b_raw b) sz"
    and r: "r_raw r = sb_into_reader L (b_raw b) (put L b c m)"
  shows "rget L r = Ok c"
proof -
  have "robj V (sr_get_pointer_field L (r_raw r) k) = OCap (c_hook c)"
    using write_same [OF L b put_write [OF L b, of c]] r by (simp add: cobj_def)
  then show "rget L r = Ok c"
    using capnp_reader.get_cap [OF capnp_builder.axioms(1) [OF L]] by (simp add: rgets new_hook)
qed

lemma put_then_bget:
  assumes L: "capnp_builder L V" and b: "struct_ok V m (b_raw b) sz"
  shows "bget L b (put L b c m) = Ok c"
proof -
  have "plive V (put L b c m) (sb_get_pointer_field L (b_raw b) k)"
    "content V (put L b c m) (sb_get_pointer_field L (b_raw b) k) = CCap (c_hook c)"
    using put_write [OF L b, of c] by (simp_all add: slot_write_def within_def)
  then show "bget L b (put L b c m) = Ok c"
    using capnp_builder.bget_cap [OF L] by (simp add: bgets new_hook)
qed

text \<open>A slot that holds no capability: the getter of a reader returns an error.\<close>

lemma get_other:
  assumes "capnp_reader L V" and "\<And>h. robj V (sr_get_pointer_field L (r_raw r) k) \<noteq> OCap h"
  shows "\<not> is_ok (rget L r)"
proof -
  have "\<not> is_ok (pr_get_capability L (sr_get_pointer_field L (r_raw r) k))"
    using capnp_reader.get_cap_kind [OF assms(1)] assms(2) by blast
  then show ?thesis
    by (cases "pr_get_capability L (sr_get_pointer_field L (r_raw r) k)") (simp_all add: rgets)
qed

end

section \<open>The contract of an interface\<close>

text \<open>
  The dispatcher of a server: a call for the interface's own id and a known ordinal runs that method
  on the server's state, with the parameters and results it was given; any other call gives a
  promise of an error and leaves the server's state alone.
\<close>

locale rpc_interface =
  fixes type_id :: u64
    and methods :: nat
    and dispatch :: "'s \<Rightarrow> 'd"
    and call :: "'srv \<Rightarrow> nat \<Rightarrow> 's \<Rightarrow> 'p \<Rightarrow> 'r \<Rightarrow> 't \<times> 's"
    and default :: "('h, 'q, 'p, 'r, 't, 'e) rpc \<Rightarrow> 'srv"
    and dispatch_call ::
      "('h, 'q, 'p, 'r, 't, 'e) rpc \<Rightarrow> 'srv \<Rightarrow> 'd \<Rightarrow> u64 \<Rightarrow> u16 \<Rightarrow> 'p \<Rightarrow> 'r \<Rightarrow> 't \<times> 'd"
  assumes known: "unat n < methods \<Longrightarrow>
      dispatch_call R T (dispatch s) type_id n p r =
        map_prod id dispatch (call T (unat n) s (internal_get_typed_params R p)
          (internal_get_typed_results R r))"
    and unknown: "i \<noteq> type_id \<or> methods \<le> unat n \<Longrightarrow>
      dispatch_call R T (dispatch s) i n p r =
        (promise_err R (error_unimplemented R ''Method not implemented.''), dispatch s)"
    and default_method: "k < methods \<Longrightarrow>
      call (default R) k s p r = (promise_err R (error_unimplemented R ''method not implemented''), s)"
begin

text \<open>A server that implements no method answers every call with an error and keeps its state.\<close>

lemma default_unimplemented:
  "\<exists>msg. dispatch_call R (default R) (dispatch s) i n p r =
     (promise_err R (error_unimplemented R msg), dispatch s)"
proof (cases "i = type_id \<and> unat n < methods")
  case True
  then show ?thesis using known [of n R "default R" s p r] default_method by auto
next
  case False
  then show ?thesis using unknown [of i n R "default R" s p r] by auto
qed

end

end
