(* ===== verification/Calc_Value.thy ===== *)
theory Calc_Value
  imports Capnp_Rpc
begin

text \<open>
  The interface \<open>calculator::value\<close> of \<open>rust/src/schema/calculator_capnp.rs\<close> (client, server trait,
  dispatcher) with the structs of its method's parameters and results.
\<close>

named_theorems value_iface_defs
named_theorems value_read_params_defs
named_theorems value_read_results_defs

section \<open>The interface \<open>value\<close>\<close>

definition value_TYPE_ID :: "u64" where [value_iface_defs]:
  "value_TYPE_ID = 0xc3e69d34d3ee48d2"

type_synonym 'p value_ReadParams = 'p

type_synonym 'r value_ReadResults = 'r

datatype 'h value_Client = value_Client (value_Client_client: "'h cap_Client")

definition value_Client_new :: "'h \<Rightarrow> 'h value_Client" where [value_iface_defs]:
  "value_Client_new hk = value_Client (cap_Client hk)"

definition value_Client_reader_get_from_pointer ::
  "('m, 'h, 'e) capnp \<Rightarrow> 'm PointerReader \<Rightarrow>
     ('h value_Client, 'e) result" where [value_iface_defs]:
  "value_Client_reader_get_from_pointer L reader =
     result_bind (pr_get_capability L reader) (\<lambda>c. Ok (value_Client_new c))"

definition value_Client_init_pointer ::
  "PointerBuilder \<Rightarrow> u32 \<Rightarrow> 'm \<Rightarrow>
     ('h value_Client \<times> 'm) outcome" where [value_iface_defs]:
  "value_Client_init_pointer builder sz m = Panicked Unimplemented"

definition value_Client_builder_get_from_pointer ::
  "('m, 'h, 'e) capnp \<Rightarrow> PointerBuilder \<Rightarrow> 'm \<Rightarrow>
     ('h value_Client, 'e) result" where [value_iface_defs]:
  "value_Client_builder_get_from_pointer L builder m =
     result_bind (pb_get_capability L builder m) (\<lambda>c. Ok (value_Client_new c))"

definition value_Client_set_pointer_builder ::
  "('m, 'h, 'e) capnp \<Rightarrow> PointerBuilder \<Rightarrow>
     'h value_Client \<Rightarrow> bool \<Rightarrow> 'm \<Rightarrow> (unit, 'e) result \<times> 'm" where [value_iface_defs]:
  "value_Client_set_pointer_builder L pointer c canonicalize m =
     (Ok (), pb_set_capability L pointer (hook (value_Client_client c)) m)"

datatype 's value_ServerDispatch = value_ServerDispatch (value_ServerDispatch_server: 's)

datatype 'u value_ToClient = value_ToClient (value_ToClient_u: 'u)

definition value_ToClient_new :: "'u \<Rightarrow> 'u value_ToClient" where [value_iface_defs]:
  "value_ToClient_new u = value_ToClient u"

definition value_ToClient_into_client ::
  "('s value_ServerDispatch \<Rightarrow> 'h cap_Client) \<Rightarrow>
     's value_ToClient \<Rightarrow> 'h value_Client" where [value_iface_defs]:
  "value_ToClient_into_client new_client self =
     value_Client (new_client (value_ServerDispatch (value_ToClient_u self)))"

definition value_ToClient_from_server ::
  "('s value_ServerDispatch \<Rightarrow> 'h cap_Client) \<Rightarrow>
     's value_ToClient \<Rightarrow> 'h value_Client" where [value_iface_defs]:
  "value_ToClient_from_server new_client self = value_ToClient_into_client new_client self"

definition value_Client_type_id :: "u64" where [value_iface_defs]:
  "value_Client_type_id = value_TYPE_ID"

definition value_Client_clone ::
  "('m, 'h, 'e) capnp \<Rightarrow> 'h value_Client \<Rightarrow>
     'h value_Client" where [value_iface_defs]:
  "value_Client_clone L self =
     value_Client (cap_Client (hook_add_ref L (hook (value_Client_client self))))"

definition value_Client_read_request ::
  "('h, 'q, 'p, 'r, 't, 'e) rpc \<Rightarrow> 'h value_Client \<Rightarrow>
     'q" where [value_iface_defs]:
  "value_Client_read_request R self =
     new_call R (value_Client_client self) value_TYPE_ID 0 None"

record ('s, 'p, 'r, 't) value_Server =
  value_Server_read :: "'s \<Rightarrow> 'p value_ReadParams \<Rightarrow> 'r value_ReadResults \<Rightarrow> 't \<times> 's"

definition value_Server_default_read ::
  "('h, 'q, 'p, 'r, 't, 'e) rpc \<Rightarrow> 's \<Rightarrow>
     'p value_ReadParams \<Rightarrow> 'r value_ReadResults \<Rightarrow> 't \<times> 's" where [value_iface_defs]:
  "value_Server_default_read R self params results =
     (promise_err R (error_unimplemented R ''method not implemented''), self)"

definition value_Server_default ::
  "('h, 'q, 'p, 'r, 't, 'e) rpc \<Rightarrow>
     ('s, 'p, 'r, 't) value_Server" where [value_iface_defs]:
  "value_Server_default R = \<lparr>value_Server_read = value_Server_default_read R\<rparr>"

definition value_ServerDispatch_dispatch_call_internal ::
  "('h, 'q, 'p, 'r, 't, 'e) rpc \<Rightarrow> ('s, 'p, 'r, 't) value_Server \<Rightarrow>
     's \<Rightarrow> u16 \<Rightarrow> 'p \<Rightarrow> 'r \<Rightarrow> 't \<times> 's" where [value_iface_defs]:
  "value_ServerDispatch_dispatch_call_internal R T server method_id params results =
     (if method_id = 0 then
        value_Server_read T server (internal_get_typed_params R params)
          (internal_get_typed_results R results)
      else (promise_err R (error_unimplemented R ''Method not implemented.''), server))"

definition value_ServerDispatch_dispatch_call ::
  "('h, 'q, 'p, 'r, 't, 'e) rpc \<Rightarrow> ('s, 'p, 'r, 't) value_Server \<Rightarrow>
     's value_ServerDispatch \<Rightarrow> u64 \<Rightarrow> u16 \<Rightarrow> 'p \<Rightarrow> 'r \<Rightarrow> 't \<times> 's value_ServerDispatch" where [value_iface_defs]:
  "value_ServerDispatch_dispatch_call R T self interface_id method_id params results =
     (if interface_id = value_TYPE_ID then
        (case value_ServerDispatch_dispatch_call_internal R T
                (value_ServerDispatch_server self) method_id params results of
           (t, server) \<Rightarrow> (t, value_ServerDispatch server))
      else (promise_err R (error_unimplemented R ''Method not implemented.''), self))"

section \<open>The module \<open>value::read_params\<close>\<close>

definition value_read_params_STRUCT_SIZE :: "StructSize" where [value_read_params_defs]:
  "value_read_params_STRUCT_SIZE = \<lparr>ss_data = 0, ss_pointers = 0\<rparr>"

definition value_read_params_TYPE_ID :: "u64" where [value_read_params_defs]:
  "value_read_params_TYPE_ID = 0xd3532574d58db558"

datatype 'm value_read_params_Reader = value_read_params_Reader (value_read_params_Reader_reader: "'m StructReader")

definition value_read_params_Reader_type_id :: "u64" where [value_read_params_defs]:
  "value_read_params_Reader_type_id = value_read_params_TYPE_ID"

definition value_read_params_Reader_new ::
  "'m StructReader \<Rightarrow> 'm value_read_params_Reader" where [value_read_params_defs]:
  "value_read_params_Reader_new reader = value_read_params_Reader reader"

definition value_read_params_Reader_get_from_pointer ::
  "('m, 'h, 'e) capnp \<Rightarrow> 'm PointerReader \<Rightarrow>
     ('m value_read_params_Reader, 'e) result" where [value_read_params_defs]:
  "value_read_params_Reader_get_from_pointer L reader =
     result_bind (pr_get_struct L reader) (\<lambda>s. Ok (value_read_params_Reader_new s))"

definition value_read_params_Reader_into_internal_struct_reader ::
  "'m value_read_params_Reader \<Rightarrow> 'm StructReader" where [value_read_params_defs]:
  "value_read_params_Reader_into_internal_struct_reader self =
     value_read_params_Reader_reader self"

definition value_read_params_Reader_imbue ::
  "('m, 'h, 'e) capnp \<Rightarrow> 'm value_read_params_Reader \<Rightarrow>
     'h CapTable \<Rightarrow> 'm value_read_params_Reader" where [value_read_params_defs]:
  "value_read_params_Reader_imbue L self cap_table =
     value_read_params_Reader (sr_imbue L (value_read_params_Reader_reader self) cap_table)"

definition value_read_params_Reader_reborrow ::
  "'m value_read_params_Reader \<Rightarrow>
     'm value_read_params_Reader" where [value_read_params_defs]:
  "value_read_params_Reader_reborrow self =
     value_read_params_Reader (value_read_params_Reader_reader self)"

definition value_read_params_Reader_total_size ::
  "('m, 'h, 'e) capnp \<Rightarrow> 'm value_read_params_Reader \<Rightarrow>
     (MessageSize, 'e) result" where [value_read_params_defs]:
  "value_read_params_Reader_total_size L self =
     sr_total_size L (value_read_params_Reader_reader self)"

datatype value_read_params_Builder = value_read_params_Builder (value_read_params_Builder_builder: "StructBuilder")

definition value_read_params_Builder_struct_size :: "StructSize" where [value_read_params_defs]:
  "value_read_params_Builder_struct_size = value_read_params_STRUCT_SIZE"

definition value_read_params_Builder_type_id :: "u64" where [value_read_params_defs]:
  "value_read_params_Builder_type_id = value_read_params_TYPE_ID"

definition value_read_params_Builder_new ::
  "StructBuilder \<Rightarrow> value_read_params_Builder" where [value_read_params_defs]:
  "value_read_params_Builder_new builder = value_read_params_Builder builder"

definition value_read_params_Builder_imbue_mut ::
  "('m, 'h, 'e) capnp \<Rightarrow> value_read_params_Builder \<Rightarrow>
     'h CapTable \<Rightarrow> value_read_params_Builder" where [value_read_params_defs]:
  "value_read_params_Builder_imbue_mut L self cap_table =
     value_read_params_Builder (sb_imbue L (value_read_params_Builder_builder self) cap_table)"

definition value_read_params_Builder_init_pointer ::
  "('m, 'h, 'e) capnp \<Rightarrow> PointerBuilder \<Rightarrow> u32 \<Rightarrow>
     'm \<Rightarrow> value_read_params_Builder \<times> 'm" where [value_read_params_defs]:
  "value_read_params_Builder_init_pointer L builder sz m =
     (case pb_init_struct L builder value_read_params_STRUCT_SIZE m of (s, m') \<Rightarrow> (value_read_params_Builder_new s, m'))"

definition value_read_params_Builder_get_from_pointer ::
  "('m, 'h, 'e) capnp \<Rightarrow> PointerBuilder \<Rightarrow> 'm \<Rightarrow>
     (value_read_params_Builder, 'e) result \<times> 'm" where [value_read_params_defs]:
  "value_read_params_Builder_get_from_pointer L builder m =
     (case pb_get_struct L builder value_read_params_STRUCT_SIZE m of
        (r, m') \<Rightarrow> (result_bind r (\<lambda>s. Ok (value_read_params_Builder_new s)), m'))"

definition value_read_params_Reader_set_pointer_builder ::
  "('m, 'h, 'e) capnp \<Rightarrow> PointerBuilder \<Rightarrow>
     'm value_read_params_Reader \<Rightarrow> bool \<Rightarrow> 'm \<Rightarrow> (unit, 'e) result \<times> 'm" where [value_read_params_defs]:
  "value_read_params_Reader_set_pointer_builder L pointer value canonicalize m =
     pb_set_struct L pointer (value_read_params_Reader_reader value) canonicalize m"

definition value_read_params_Builder_into_reader ::
  "('m, 'h, 'e) capnp \<Rightarrow> value_read_params_Builder \<Rightarrow>
     'm \<Rightarrow> 'm value_read_params_Reader" where [value_read_params_defs]:
  "value_read_params_Builder_into_reader L self m =
     value_read_params_Reader_new (sb_into_reader L (value_read_params_Builder_builder self) m)"

definition value_read_params_Builder_as_reader ::
  "('m, 'h, 'e) capnp \<Rightarrow> value_read_params_Builder \<Rightarrow>
     'm \<Rightarrow> 'm value_read_params_Reader" where [value_read_params_defs]:
  "value_read_params_Builder_as_reader L self m = value_read_params_Builder_into_reader L self m"

definition value_read_params_Builder_reborrow ::
  "value_read_params_Builder \<Rightarrow>
     value_read_params_Builder" where [value_read_params_defs]:
  "value_read_params_Builder_reborrow self =
     value_read_params_Builder (value_read_params_Builder_builder self)"

definition value_read_params_Builder_reborrow_as_reader ::
  "('m, 'h, 'e) capnp \<Rightarrow> value_read_params_Builder \<Rightarrow>
     'm \<Rightarrow> 'm value_read_params_Reader" where [value_read_params_defs]:
  "value_read_params_Builder_reborrow_as_reader L self m =
     value_read_params_Reader_new (sb_into_reader L (value_read_params_Builder_builder self) m)"

definition value_read_params_Builder_total_size ::
  "('m, 'h, 'e) capnp \<Rightarrow> value_read_params_Builder \<Rightarrow>
     'm \<Rightarrow> (MessageSize, 'e) result" where [value_read_params_defs]:
  "value_read_params_Builder_total_size L self m =
     sr_total_size L (sb_into_reader L (value_read_params_Builder_builder self) m)"

datatype value_read_params_Pipeline = value_read_params_Pipeline (value_read_params_Pipeline_typeless: "AnyPipeline")

definition value_read_params_Pipeline_new ::
  "AnyPipeline \<Rightarrow> value_read_params_Pipeline" where [value_read_params_defs]:
  "value_read_params_Pipeline_new typeless = value_read_params_Pipeline typeless"

section \<open>The module \<open>value::read_results\<close>\<close>

definition value_read_results_STRUCT_SIZE :: "StructSize" where [value_read_results_defs]:
  "value_read_results_STRUCT_SIZE = \<lparr>ss_data = 1, ss_pointers = 0\<rparr>"

definition value_read_results_TYPE_ID :: "u64" where [value_read_results_defs]:
  "value_read_results_TYPE_ID = 0xe6be6723122ae822"

datatype 'm value_read_results_Reader = value_read_results_Reader (value_read_results_Reader_reader: "'m StructReader")

definition value_read_results_Reader_type_id :: "u64" where [value_read_results_defs]:
  "value_read_results_Reader_type_id = value_read_results_TYPE_ID"

definition value_read_results_Reader_new ::
  "'m StructReader \<Rightarrow> 'm value_read_results_Reader" where [value_read_results_defs]:
  "value_read_results_Reader_new reader = value_read_results_Reader reader"

definition value_read_results_Reader_get_from_pointer ::
  "('m, 'h, 'e) capnp \<Rightarrow> 'm PointerReader \<Rightarrow>
     ('m value_read_results_Reader, 'e) result" where [value_read_results_defs]:
  "value_read_results_Reader_get_from_pointer L reader =
     result_bind (pr_get_struct L reader) (\<lambda>s. Ok (value_read_results_Reader_new s))"

definition value_read_results_Reader_into_internal_struct_reader ::
  "'m value_read_results_Reader \<Rightarrow> 'm StructReader" where [value_read_results_defs]:
  "value_read_results_Reader_into_internal_struct_reader self =
     value_read_results_Reader_reader self"

definition value_read_results_Reader_imbue ::
  "('m, 'h, 'e) capnp \<Rightarrow> 'm value_read_results_Reader \<Rightarrow>
     'h CapTable \<Rightarrow> 'm value_read_results_Reader" where [value_read_results_defs]:
  "value_read_results_Reader_imbue L self cap_table =
     value_read_results_Reader (sr_imbue L (value_read_results_Reader_reader self) cap_table)"

definition value_read_results_Reader_reborrow ::
  "'m value_read_results_Reader \<Rightarrow>
     'm value_read_results_Reader" where [value_read_results_defs]:
  "value_read_results_Reader_reborrow self =
     value_read_results_Reader (value_read_results_Reader_reader self)"

definition value_read_results_Reader_total_size ::
  "('m, 'h, 'e) capnp \<Rightarrow> 'm value_read_results_Reader \<Rightarrow>
     (MessageSize, 'e) result" where [value_read_results_defs]:
  "value_read_results_Reader_total_size L self =
     sr_total_size L (value_read_results_Reader_reader self)"

definition value_read_results_Reader_get_value ::
  "('m, 'h, 'e) capnp \<Rightarrow> 'm value_read_results_Reader \<Rightarrow>
     f64" where [value_read_results_defs]:
  "value_read_results_Reader_get_value L self =
     sr_get_f64 L (value_read_results_Reader_reader self) 0"

datatype value_read_results_Builder = value_read_results_Builder (value_read_results_Builder_builder: "StructBuilder")

definition value_read_results_Builder_struct_size :: "StructSize" where [value_read_results_defs]:
  "value_read_results_Builder_struct_size = value_read_results_STRUCT_SIZE"

definition value_read_results_Builder_type_id :: "u64" where [value_read_results_defs]:
  "value_read_results_Builder_type_id = value_read_results_TYPE_ID"

definition value_read_results_Builder_new ::
  "StructBuilder \<Rightarrow> value_read_results_Builder" where [value_read_results_defs]:
  "value_read_results_Builder_new builder = value_read_results_Builder builder"

definition value_read_results_Builder_imbue_mut ::
  "('m, 'h, 'e) capnp \<Rightarrow> value_read_results_Builder \<Rightarrow>
     'h CapTable \<Rightarrow> value_read_results_Builder" where [value_read_results_defs]:
  "value_read_results_Builder_imbue_mut L self cap_table =
     value_read_results_Builder (sb_imbue L (value_read_results_Builder_builder self) cap_table)"

definition value_read_results_Builder_init_pointer ::
  "('m, 'h, 'e) capnp \<Rightarrow> PointerBuilder \<Rightarrow> u32 \<Rightarrow>
     'm \<Rightarrow> value_read_results_Builder \<times> 'm" where [value_read_results_defs]:
  "value_read_results_Builder_init_pointer L builder sz m =
     (case pb_init_struct L builder value_read_results_STRUCT_SIZE m of (s, m') \<Rightarrow> (value_read_results_Builder_new s, m'))"

definition value_read_results_Builder_get_from_pointer ::
  "('m, 'h, 'e) capnp \<Rightarrow> PointerBuilder \<Rightarrow> 'm \<Rightarrow>
     (value_read_results_Builder, 'e) result \<times> 'm" where [value_read_results_defs]:
  "value_read_results_Builder_get_from_pointer L builder m =
     (case pb_get_struct L builder value_read_results_STRUCT_SIZE m of
        (r, m') \<Rightarrow> (result_bind r (\<lambda>s. Ok (value_read_results_Builder_new s)), m'))"

definition value_read_results_Reader_set_pointer_builder ::
  "('m, 'h, 'e) capnp \<Rightarrow> PointerBuilder \<Rightarrow>
     'm value_read_results_Reader \<Rightarrow> bool \<Rightarrow> 'm \<Rightarrow> (unit, 'e) result \<times> 'm" where [value_read_results_defs]:
  "value_read_results_Reader_set_pointer_builder L pointer value canonicalize m =
     pb_set_struct L pointer (value_read_results_Reader_reader value) canonicalize m"

definition value_read_results_Builder_into_reader ::
  "('m, 'h, 'e) capnp \<Rightarrow> value_read_results_Builder \<Rightarrow>
     'm \<Rightarrow> 'm value_read_results_Reader" where [value_read_results_defs]:
  "value_read_results_Builder_into_reader L self m =
     value_read_results_Reader_new (sb_into_reader L (value_read_results_Builder_builder self) m)"

definition value_read_results_Builder_as_reader ::
  "('m, 'h, 'e) capnp \<Rightarrow> value_read_results_Builder \<Rightarrow>
     'm \<Rightarrow> 'm value_read_results_Reader" where [value_read_results_defs]:
  "value_read_results_Builder_as_reader L self m =
     value_read_results_Builder_into_reader L self m"

definition value_read_results_Builder_reborrow ::
  "value_read_results_Builder \<Rightarrow>
     value_read_results_Builder" where [value_read_results_defs]:
  "value_read_results_Builder_reborrow self =
     value_read_results_Builder (value_read_results_Builder_builder self)"

definition value_read_results_Builder_reborrow_as_reader ::
  "('m, 'h, 'e) capnp \<Rightarrow> value_read_results_Builder \<Rightarrow>
     'm \<Rightarrow> 'm value_read_results_Reader" where [value_read_results_defs]:
  "value_read_results_Builder_reborrow_as_reader L self m =
     value_read_results_Reader_new (sb_into_reader L (value_read_results_Builder_builder self) m)"

definition value_read_results_Builder_total_size ::
  "('m, 'h, 'e) capnp \<Rightarrow> value_read_results_Builder \<Rightarrow>
     'm \<Rightarrow> (MessageSize, 'e) result" where [value_read_results_defs]:
  "value_read_results_Builder_total_size L self m =
     sr_total_size L (sb_into_reader L (value_read_results_Builder_builder self) m)"

definition value_read_results_Builder_get_value ::
  "('m, 'h, 'e) capnp \<Rightarrow> value_read_results_Builder \<Rightarrow>
     'm \<Rightarrow> f64" where [value_read_results_defs]:
  "value_read_results_Builder_get_value L self m =
     sb_get_f64 L (value_read_results_Builder_builder self) 0 m"

definition value_read_results_Builder_set_value ::
  "('m, 'h, 'e) capnp \<Rightarrow> value_read_results_Builder \<Rightarrow>
     f64 \<Rightarrow> 'm \<Rightarrow> 'm" where [value_read_results_defs]:
  "value_read_results_Builder_set_value L self value m =
     sb_set_f64 L (value_read_results_Builder_builder self) 0 value m"

datatype value_read_results_Pipeline = value_read_results_Pipeline (value_read_results_Pipeline_typeless: "AnyPipeline")

definition value_read_results_Pipeline_new ::
  "AnyPipeline \<Rightarrow> value_read_results_Pipeline" where [value_read_results_defs]:
  "value_read_results_Pipeline_new typeless = value_read_results_Pipeline typeless"

section \<open>The contracts\<close>

interpretation value_client: client_type value_Client_new "\<lambda>c. hook (value_Client_client c)"
  value_Client_reader_get_from_pointer value_Client_builder_get_from_pointer
  value_Client_set_pointer_builder value_Client_clone
  by unfold_locales
    (simp_all add: value_iface_defs value_Client_new_def [abs_def] result_bind_map)

fun value_Server_method ::
  "('s, 'p, 'r, 't) value_Server \<Rightarrow> nat \<Rightarrow> 's \<Rightarrow> 'p \<Rightarrow> 'r \<Rightarrow> 't \<times> 's" where
  "value_Server_method T k s p r = value_Server_read T s p r"

interpretation value_rpc: rpc_interface value_TYPE_ID 1 value_ServerDispatch value_Server_method
  value_Server_default value_ServerDispatch_dispatch_call
  by unfold_locales
    (auto simp: value_ServerDispatch_dispatch_call_def value_ServerDispatch_dispatch_call_internal_def
      value_Server_default_def value_Server_default_read_def map_prod_def
      word_unat_eq_iff split: prod.splits)

interpretation value_read_params_m: struct_module value_read_params_Builder_struct_size
  value_read_params_Reader_type_id value_read_params_Builder_type_id value_read_params_Reader_new
  value_read_params_Reader_into_internal_struct_reader value_read_params_Builder_new value_read_params_Builder_builder
  value_read_params_Reader_get_from_pointer value_read_params_Builder_init_pointer value_read_params_Builder_get_from_pointer
  value_read_params_Reader_set_pointer_builder value_read_params_Builder_into_reader value_read_params_Reader_total_size
  value_read_params_Builder_total_size
  by unfold_locales
    (simp_all add: value_read_params_defs value_read_params_Reader_new_def [abs_def] value_read_params_Builder_new_def [abs_def]
      result_bind_map prod.case_eq_if map_prod_def)

interpretation value_read_results_m: struct_module value_read_results_Builder_struct_size
  value_read_results_Reader_type_id value_read_results_Builder_type_id value_read_results_Reader_new
  value_read_results_Reader_into_internal_struct_reader value_read_results_Builder_new value_read_results_Builder_builder
  value_read_results_Reader_get_from_pointer value_read_results_Builder_init_pointer value_read_results_Builder_get_from_pointer
  value_read_results_Reader_set_pointer_builder value_read_results_Builder_into_reader value_read_results_Reader_total_size
  value_read_results_Builder_total_size
  by unfold_locales
    (simp_all add: value_read_results_defs value_read_results_Reader_new_def [abs_def] value_read_results_Builder_new_def [abs_def]
      result_bind_map prod.case_eq_if map_prod_def)

interpretation value_read_results_value: data_field value_read_results_STRUCT_SIZE 0
  value_read_results_Reader_reader value_read_results_Builder_builder
  value_read_results_Reader_get_value value_read_results_Builder_get_value
  value_read_results_Builder_set_value
  by (rule f64_field) (simp_all add: value_read_results_defs)

end
