(* ===== verification/Calc_Function.thy ===== *)
theory Calc_Function
  imports Capnp_Rpc
begin

text \<open>
  The interface \<open>calculator::function\<close> of \<open>rust/src/schema/calculator_capnp.rs\<close> with the structs of its
  method's parameters and results.
\<close>

named_theorems function_iface_defs
named_theorems function_call_params_defs
named_theorems function_call_results_defs

section \<open>The interface \<open>function\<close>\<close>

definition function_TYPE_ID :: "u64" where [function_iface_defs]:
  "function_TYPE_ID = 0xede83a3d96840394"

type_synonym 'p function_CallParams = 'p

type_synonym 'r function_CallResults = 'r

datatype 'h function_Client = function_Client (function_Client_client: "'h cap_Client")

definition function_Client_new ::
  "'h \<Rightarrow> 'h function_Client" where [function_iface_defs]:
  "function_Client_new hk = function_Client (cap_Client hk)"

definition function_Client_reader_get_from_pointer ::
  "('m, 'h, 'e) capnp \<Rightarrow> 'm PointerReader \<Rightarrow>
     ('h function_Client, 'e) result" where [function_iface_defs]:
  "function_Client_reader_get_from_pointer L reader =
     result_bind (pr_get_capability L reader) (\<lambda>c. Ok (function_Client_new c))"

definition function_Client_init_pointer ::
  "PointerBuilder \<Rightarrow> u32 \<Rightarrow> 'm \<Rightarrow>
     ('h function_Client \<times> 'm) outcome" where [function_iface_defs]:
  "function_Client_init_pointer builder sz m = Panicked Unimplemented"

definition function_Client_builder_get_from_pointer ::
  "('m, 'h, 'e) capnp \<Rightarrow> PointerBuilder \<Rightarrow> 'm \<Rightarrow>
     ('h function_Client, 'e) result" where [function_iface_defs]:
  "function_Client_builder_get_from_pointer L builder m =
     result_bind (pb_get_capability L builder m) (\<lambda>c. Ok (function_Client_new c))"

definition function_Client_set_pointer_builder ::
  "('m, 'h, 'e) capnp \<Rightarrow> PointerBuilder \<Rightarrow>
     'h function_Client \<Rightarrow> bool \<Rightarrow> 'm \<Rightarrow> (unit, 'e) result \<times> 'm" where [function_iface_defs]:
  "function_Client_set_pointer_builder L pointer c canonicalize m =
     (Ok (), pb_set_capability L pointer (hook (function_Client_client c)) m)"

datatype 's function_ServerDispatch = function_ServerDispatch (function_ServerDispatch_server: 's)

datatype 'u function_ToClient = function_ToClient (function_ToClient_u: 'u)

definition function_ToClient_new ::
  "'u \<Rightarrow> 'u function_ToClient" where [function_iface_defs]:
  "function_ToClient_new u = function_ToClient u"

definition function_ToClient_into_client ::
  "('s function_ServerDispatch \<Rightarrow> 'h cap_Client) \<Rightarrow>
     's function_ToClient \<Rightarrow> 'h function_Client" where [function_iface_defs]:
  "function_ToClient_into_client new_client self =
     function_Client (new_client (function_ServerDispatch (function_ToClient_u self)))"

definition function_ToClient_from_server ::
  "('s function_ServerDispatch \<Rightarrow> 'h cap_Client) \<Rightarrow>
     's function_ToClient \<Rightarrow> 'h function_Client" where [function_iface_defs]:
  "function_ToClient_from_server new_client self = function_ToClient_into_client new_client self"

definition function_Client_type_id :: "u64" where [function_iface_defs]:
  "function_Client_type_id = function_TYPE_ID"

definition function_Client_clone ::
  "('m, 'h, 'e) capnp \<Rightarrow> 'h function_Client \<Rightarrow>
     'h function_Client" where [function_iface_defs]:
  "function_Client_clone L self =
     function_Client (cap_Client (hook_add_ref L (hook (function_Client_client self))))"

definition function_Client_call_request ::
  "('h, 'q, 'p, 'r, 't, 'e) rpc \<Rightarrow> 'h function_Client \<Rightarrow>
     'q" where [function_iface_defs]:
  "function_Client_call_request R self =
     new_call R (function_Client_client self) function_TYPE_ID 0 None"

record ('s, 'p, 'r, 't) function_Server =
  function_Server_call :: "'s \<Rightarrow> 'p function_CallParams \<Rightarrow> 'r function_CallResults \<Rightarrow> 't \<times> 's"

definition function_Server_default_call ::
  "('h, 'q, 'p, 'r, 't, 'e) rpc \<Rightarrow> 's \<Rightarrow>
     'p function_CallParams \<Rightarrow> 'r function_CallResults \<Rightarrow> 't \<times> 's" where [function_iface_defs]:
  "function_Server_default_call R self params results =
     (promise_err R (error_unimplemented R ''method not implemented''), self)"

definition function_Server_default ::
  "('h, 'q, 'p, 'r, 't, 'e) rpc \<Rightarrow>
     ('s, 'p, 'r, 't) function_Server" where [function_iface_defs]:
  "function_Server_default R =
     \<lparr>function_Server_call = function_Server_default_call R\<rparr>"

definition function_ServerDispatch_dispatch_call_internal ::
  "('h, 'q, 'p, 'r, 't, 'e) rpc \<Rightarrow>
     ('s, 'p, 'r, 't) function_Server \<Rightarrow> 's \<Rightarrow> u16 \<Rightarrow> 'p \<Rightarrow> 'r \<Rightarrow> 't \<times> 's" where [function_iface_defs]:
  "function_ServerDispatch_dispatch_call_internal R T server method_id params results =
     (if method_id = 0 then
        function_Server_call T server (internal_get_typed_params R params)
          (internal_get_typed_results R results)
      else (promise_err R (error_unimplemented R ''Method not implemented.''), server))"

definition function_ServerDispatch_dispatch_call ::
  "('h, 'q, 'p, 'r, 't, 'e) rpc \<Rightarrow>
     ('s, 'p, 'r, 't) function_Server \<Rightarrow> 's function_ServerDispatch \<Rightarrow> u64 \<Rightarrow> u16 \<Rightarrow> 'p \<Rightarrow> 'r \<Rightarrow> 't \<times> 's function_ServerDispatch" where [function_iface_defs]:
  "function_ServerDispatch_dispatch_call R T self interface_id method_id params results =
     (if interface_id = function_TYPE_ID then
        (case function_ServerDispatch_dispatch_call_internal R T
                (function_ServerDispatch_server self) method_id params results of
           (t, server) \<Rightarrow> (t, function_ServerDispatch server))
      else (promise_err R (error_unimplemented R ''Method not implemented.''), self))"

section \<open>The module \<open>function::call_params\<close>\<close>

definition function_call_params_STRUCT_SIZE :: "StructSize" where [function_call_params_defs]:
  "function_call_params_STRUCT_SIZE = \<lparr>ss_data = 0, ss_pointers = 1\<rparr>"

definition function_call_params_TYPE_ID :: "u64" where [function_call_params_defs]:
  "function_call_params_TYPE_ID = 0xb19160df70b87717"

datatype 'm function_call_params_Reader = function_call_params_Reader (function_call_params_Reader_reader: "'m StructReader")

definition function_call_params_Reader_type_id :: "u64" where [function_call_params_defs]:
  "function_call_params_Reader_type_id = function_call_params_TYPE_ID"

definition function_call_params_Reader_new ::
  "'m StructReader \<Rightarrow>
     'm function_call_params_Reader" where [function_call_params_defs]:
  "function_call_params_Reader_new reader = function_call_params_Reader reader"

definition function_call_params_Reader_get_from_pointer ::
  "('m, 'h, 'e) capnp \<Rightarrow> 'm PointerReader \<Rightarrow>
     ('m function_call_params_Reader, 'e) result" where [function_call_params_defs]:
  "function_call_params_Reader_get_from_pointer L reader =
     result_bind (pr_get_struct L reader) (\<lambda>s. Ok (function_call_params_Reader_new s))"

definition function_call_params_Reader_into_internal_struct_reader ::
  "'m function_call_params_Reader \<Rightarrow>
     'm StructReader" where [function_call_params_defs]:
  "function_call_params_Reader_into_internal_struct_reader self =
     function_call_params_Reader_reader self"

definition function_call_params_Reader_imbue ::
  "('m, 'h, 'e) capnp \<Rightarrow> 'm function_call_params_Reader \<Rightarrow>
     'h CapTable \<Rightarrow> 'm function_call_params_Reader" where [function_call_params_defs]:
  "function_call_params_Reader_imbue L self cap_table =
     function_call_params_Reader (sr_imbue L (function_call_params_Reader_reader self) cap_table)"

definition function_call_params_Reader_reborrow ::
  "'m function_call_params_Reader \<Rightarrow>
     'm function_call_params_Reader" where [function_call_params_defs]:
  "function_call_params_Reader_reborrow self =
     function_call_params_Reader (function_call_params_Reader_reader self)"

definition function_call_params_Reader_total_size ::
  "('m, 'h, 'e) capnp \<Rightarrow> 'm function_call_params_Reader \<Rightarrow>
     (MessageSize, 'e) result" where [function_call_params_defs]:
  "function_call_params_Reader_total_size L self =
     sr_total_size L (function_call_params_Reader_reader self)"

definition function_call_params_Reader_get_params ::
  "('m, 'h, 'e) capnp \<Rightarrow> 'm function_call_params_Reader \<Rightarrow>
     ('m F64ListReader, 'e) result" where [function_call_params_defs]:
  "function_call_params_Reader_get_params L self =
     pr_get_f64_list L (sr_get_pointer_field L (function_call_params_Reader_reader self) 0)"

definition function_call_params_Reader_has_params ::
  "('m, 'h, 'e) capnp \<Rightarrow> 'm function_call_params_Reader \<Rightarrow>
     bool" where [function_call_params_defs]:
  "function_call_params_Reader_has_params L self \<longleftrightarrow>
     \<not> pr_is_null L (sr_get_pointer_field L (function_call_params_Reader_reader self) 0)"

datatype function_call_params_Builder = function_call_params_Builder (function_call_params_Builder_builder: "StructBuilder")

definition function_call_params_Builder_struct_size ::
  "StructSize" where [function_call_params_defs]:
  "function_call_params_Builder_struct_size = function_call_params_STRUCT_SIZE"

definition function_call_params_Builder_type_id :: "u64" where [function_call_params_defs]:
  "function_call_params_Builder_type_id = function_call_params_TYPE_ID"

definition function_call_params_Builder_new ::
  "StructBuilder \<Rightarrow> function_call_params_Builder" where [function_call_params_defs]:
  "function_call_params_Builder_new builder = function_call_params_Builder builder"

definition function_call_params_Builder_imbue_mut ::
  "('m, 'h, 'e) capnp \<Rightarrow> function_call_params_Builder \<Rightarrow>
     'h CapTable \<Rightarrow> function_call_params_Builder" where [function_call_params_defs]:
  "function_call_params_Builder_imbue_mut L self cap_table =
     function_call_params_Builder (sb_imbue L (function_call_params_Builder_builder self) cap_table)"

definition function_call_params_Builder_init_pointer ::
  "('m, 'h, 'e) capnp \<Rightarrow> PointerBuilder \<Rightarrow> u32 \<Rightarrow>
     'm \<Rightarrow> function_call_params_Builder \<times> 'm" where [function_call_params_defs]:
  "function_call_params_Builder_init_pointer L builder sz m =
     (case pb_init_struct L builder function_call_params_STRUCT_SIZE m of (s, m') \<Rightarrow> (function_call_params_Builder_new s, m'))"

definition function_call_params_Builder_get_from_pointer ::
  "('m, 'h, 'e) capnp \<Rightarrow> PointerBuilder \<Rightarrow> 'm \<Rightarrow>
     (function_call_params_Builder, 'e) result \<times> 'm" where [function_call_params_defs]:
  "function_call_params_Builder_get_from_pointer L builder m =
     (case pb_get_struct L builder function_call_params_STRUCT_SIZE m of
        (r, m') \<Rightarrow> (result_bind r (\<lambda>s. Ok (function_call_params_Builder_new s)), m'))"

definition function_call_params_Reader_set_pointer_builder ::
  "('m, 'h, 'e) capnp \<Rightarrow> PointerBuilder \<Rightarrow>
     'm function_call_params_Reader \<Rightarrow> bool \<Rightarrow> 'm \<Rightarrow> (unit, 'e) result \<times> 'm" where [function_call_params_defs]:
  "function_call_params_Reader_set_pointer_builder L pointer value canonicalize m =
     pb_set_struct L pointer (function_call_params_Reader_reader value) canonicalize m"

definition function_call_params_Builder_into_reader ::
  "('m, 'h, 'e) capnp \<Rightarrow> function_call_params_Builder \<Rightarrow>
     'm \<Rightarrow> 'm function_call_params_Reader" where [function_call_params_defs]:
  "function_call_params_Builder_into_reader L self m =
     function_call_params_Reader_new (sb_into_reader L (function_call_params_Builder_builder self) m)"

definition function_call_params_Builder_as_reader ::
  "('m, 'h, 'e) capnp \<Rightarrow> function_call_params_Builder \<Rightarrow>
     'm \<Rightarrow> 'm function_call_params_Reader" where [function_call_params_defs]:
  "function_call_params_Builder_as_reader L self m =
     function_call_params_Builder_into_reader L self m"

definition function_call_params_Builder_reborrow ::
  "function_call_params_Builder \<Rightarrow>
     function_call_params_Builder" where [function_call_params_defs]:
  "function_call_params_Builder_reborrow self =
     function_call_params_Builder (function_call_params_Builder_builder self)"

definition function_call_params_Builder_reborrow_as_reader ::
  "('m, 'h, 'e) capnp \<Rightarrow> function_call_params_Builder \<Rightarrow>
     'm \<Rightarrow> 'm function_call_params_Reader" where [function_call_params_defs]:
  "function_call_params_Builder_reborrow_as_reader L self m =
     function_call_params_Reader_new (sb_into_reader L (function_call_params_Builder_builder self) m)"

definition function_call_params_Builder_total_size ::
  "('m, 'h, 'e) capnp \<Rightarrow> function_call_params_Builder \<Rightarrow>
     'm \<Rightarrow> (MessageSize, 'e) result" where [function_call_params_defs]:
  "function_call_params_Builder_total_size L self m =
     sr_total_size L (sb_into_reader L (function_call_params_Builder_builder self) m)"

definition function_call_params_Builder_get_params ::
  "('m, 'h, 'e) capnp \<Rightarrow> function_call_params_Builder \<Rightarrow>
     'm \<Rightarrow> (F64ListBuilder, 'e) result \<times> 'm" where [function_call_params_defs]:
  "function_call_params_Builder_get_params L self m =
     pb_get_f64_list L (sb_get_pointer_field L (function_call_params_Builder_builder self) 0) m"

definition function_call_params_Builder_set_params ::
  "('m, 'h, 'e) capnp \<Rightarrow> function_call_params_Builder \<Rightarrow>
     'm F64ListReader \<Rightarrow> 'm \<Rightarrow> (unit, 'e) result \<times> 'm" where [function_call_params_defs]:
  "function_call_params_Builder_set_params L self value m =
     pb_set_f64_list L (sb_get_pointer_field L (function_call_params_Builder_builder self) 0) value False m"

definition function_call_params_Builder_init_params ::
  "('m, 'h, 'e) capnp \<Rightarrow> function_call_params_Builder \<Rightarrow>
     u32 \<Rightarrow> 'm \<Rightarrow> F64ListBuilder \<times> 'm" where [function_call_params_defs]:
  "function_call_params_Builder_init_params L self sz m =
     pb_init_f64_list L (sb_get_pointer_field L (function_call_params_Builder_builder self) 0) sz m"

definition function_call_params_Builder_has_params ::
  "('m, 'h, 'e) capnp \<Rightarrow> function_call_params_Builder \<Rightarrow>
     'm \<Rightarrow> bool" where [function_call_params_defs]:
  "function_call_params_Builder_has_params L self m \<longleftrightarrow>
     \<not> pb_is_null L (sb_get_pointer_field L (function_call_params_Builder_builder self) 0) m"

datatype function_call_params_Pipeline = function_call_params_Pipeline (function_call_params_Pipeline_typeless: "AnyPipeline")

definition function_call_params_Pipeline_new ::
  "AnyPipeline \<Rightarrow> function_call_params_Pipeline" where [function_call_params_defs]:
  "function_call_params_Pipeline_new typeless = function_call_params_Pipeline typeless"

section \<open>The module \<open>function::call_results\<close>\<close>

definition function_call_results_STRUCT_SIZE :: "StructSize" where [function_call_results_defs]:
  "function_call_results_STRUCT_SIZE = \<lparr>ss_data = 1, ss_pointers = 0\<rparr>"

definition function_call_results_TYPE_ID :: "u64" where [function_call_results_defs]:
  "function_call_results_TYPE_ID = 0xc0e0abf76914dead"

datatype 'm function_call_results_Reader = function_call_results_Reader (function_call_results_Reader_reader: "'m StructReader")

definition function_call_results_Reader_type_id :: "u64" where [function_call_results_defs]:
  "function_call_results_Reader_type_id = function_call_results_TYPE_ID"

definition function_call_results_Reader_new ::
  "'m StructReader \<Rightarrow>
     'm function_call_results_Reader" where [function_call_results_defs]:
  "function_call_results_Reader_new reader = function_call_results_Reader reader"

definition function_call_results_Reader_get_from_pointer ::
  "('m, 'h, 'e) capnp \<Rightarrow> 'm PointerReader \<Rightarrow>
     ('m function_call_results_Reader, 'e) result" where [function_call_results_defs]:
  "function_call_results_Reader_get_from_pointer L reader =
     result_bind (pr_get_struct L reader) (\<lambda>s. Ok (function_call_results_Reader_new s))"

definition function_call_results_Reader_into_internal_struct_reader ::
  "'m function_call_results_Reader \<Rightarrow>
     'm StructReader" where [function_call_results_defs]:
  "function_call_results_Reader_into_internal_struct_reader self =
     function_call_results_Reader_reader self"

definition function_call_results_Reader_imbue ::
  "('m, 'h, 'e) capnp \<Rightarrow> 'm function_call_results_Reader \<Rightarrow>
     'h CapTable \<Rightarrow> 'm function_call_results_Reader" where [function_call_results_defs]:
  "function_call_results_Reader_imbue L self cap_table =
     function_call_results_Reader (sr_imbue L (function_call_results_Reader_reader self) cap_table)"

definition function_call_results_Reader_reborrow ::
  "'m function_call_results_Reader \<Rightarrow>
     'm function_call_results_Reader" where [function_call_results_defs]:
  "function_call_results_Reader_reborrow self =
     function_call_results_Reader (function_call_results_Reader_reader self)"

definition function_call_results_Reader_total_size ::
  "('m, 'h, 'e) capnp \<Rightarrow> 'm function_call_results_Reader \<Rightarrow>
     (MessageSize, 'e) result" where [function_call_results_defs]:
  "function_call_results_Reader_total_size L self =
     sr_total_size L (function_call_results_Reader_reader self)"

definition function_call_results_Reader_get_value ::
  "('m, 'h, 'e) capnp \<Rightarrow> 'm function_call_results_Reader \<Rightarrow>
     f64" where [function_call_results_defs]:
  "function_call_results_Reader_get_value L self =
     sr_get_f64 L (function_call_results_Reader_reader self) 0"

datatype function_call_results_Builder = function_call_results_Builder (function_call_results_Builder_builder: "StructBuilder")

definition function_call_results_Builder_struct_size ::
  "StructSize" where [function_call_results_defs]:
  "function_call_results_Builder_struct_size = function_call_results_STRUCT_SIZE"

definition function_call_results_Builder_type_id :: "u64" where [function_call_results_defs]:
  "function_call_results_Builder_type_id = function_call_results_TYPE_ID"

definition function_call_results_Builder_new ::
  "StructBuilder \<Rightarrow> function_call_results_Builder" where [function_call_results_defs]:
  "function_call_results_Builder_new builder = function_call_results_Builder builder"

definition function_call_results_Builder_imbue_mut ::
  "('m, 'h, 'e) capnp \<Rightarrow> function_call_results_Builder \<Rightarrow>
     'h CapTable \<Rightarrow> function_call_results_Builder" where [function_call_results_defs]:
  "function_call_results_Builder_imbue_mut L self cap_table =
     function_call_results_Builder (sb_imbue L (function_call_results_Builder_builder self) cap_table)"

definition function_call_results_Builder_init_pointer ::
  "('m, 'h, 'e) capnp \<Rightarrow> PointerBuilder \<Rightarrow> u32 \<Rightarrow>
     'm \<Rightarrow> function_call_results_Builder \<times> 'm" where [function_call_results_defs]:
  "function_call_results_Builder_init_pointer L builder sz m =
     (case pb_init_struct L builder function_call_results_STRUCT_SIZE m of (s, m') \<Rightarrow> (function_call_results_Builder_new s, m'))"

definition function_call_results_Builder_get_from_pointer ::
  "('m, 'h, 'e) capnp \<Rightarrow> PointerBuilder \<Rightarrow> 'm \<Rightarrow>
     (function_call_results_Builder, 'e) result \<times> 'm" where [function_call_results_defs]:
  "function_call_results_Builder_get_from_pointer L builder m =
     (case pb_get_struct L builder function_call_results_STRUCT_SIZE m of
        (r, m') \<Rightarrow> (result_bind r (\<lambda>s. Ok (function_call_results_Builder_new s)), m'))"

definition function_call_results_Reader_set_pointer_builder ::
  "('m, 'h, 'e) capnp \<Rightarrow> PointerBuilder \<Rightarrow>
     'm function_call_results_Reader \<Rightarrow> bool \<Rightarrow> 'm \<Rightarrow> (unit, 'e) result \<times> 'm" where [function_call_results_defs]:
  "function_call_results_Reader_set_pointer_builder L pointer value canonicalize m =
     pb_set_struct L pointer (function_call_results_Reader_reader value) canonicalize m"

definition function_call_results_Builder_into_reader ::
  "('m, 'h, 'e) capnp \<Rightarrow> function_call_results_Builder \<Rightarrow>
     'm \<Rightarrow> 'm function_call_results_Reader" where [function_call_results_defs]:
  "function_call_results_Builder_into_reader L self m =
     function_call_results_Reader_new (sb_into_reader L (function_call_results_Builder_builder self) m)"

definition function_call_results_Builder_as_reader ::
  "('m, 'h, 'e) capnp \<Rightarrow> function_call_results_Builder \<Rightarrow>
     'm \<Rightarrow> 'm function_call_results_Reader" where [function_call_results_defs]:
  "function_call_results_Builder_as_reader L self m =
     function_call_results_Builder_into_reader L self m"

definition function_call_results_Builder_reborrow ::
  "function_call_results_Builder \<Rightarrow>
     function_call_results_Builder" where [function_call_results_defs]:
  "function_call_results_Builder_reborrow self =
     function_call_results_Builder (function_call_results_Builder_builder self)"

definition function_call_results_Builder_reborrow_as_reader ::
  "('m, 'h, 'e) capnp \<Rightarrow> function_call_results_Builder \<Rightarrow>
     'm \<Rightarrow> 'm function_call_results_Reader" where [function_call_results_defs]:
  "function_call_results_Builder_reborrow_as_reader L self m =
     function_call_results_Reader_new (sb_into_reader L (function_call_results_Builder_builder self) m)"

definition function_call_results_Builder_total_size ::
  "('m, 'h, 'e) capnp \<Rightarrow> function_call_results_Builder \<Rightarrow>
     'm \<Rightarrow> (MessageSize, 'e) result" where [function_call_results_defs]:
  "function_call_results_Builder_total_size L self m =
     sr_total_size L (sb_into_reader L (function_call_results_Builder_builder self) m)"

definition function_call_results_Builder_get_value ::
  "('m, 'h, 'e) capnp \<Rightarrow> function_call_results_Builder \<Rightarrow>
     'm \<Rightarrow> f64" where [function_call_results_defs]:
  "function_call_results_Builder_get_value L self m =
     sb_get_f64 L (function_call_results_Builder_builder self) 0 m"

definition function_call_results_Builder_set_value ::
  "('m, 'h, 'e) capnp \<Rightarrow> function_call_results_Builder \<Rightarrow>
     f64 \<Rightarrow> 'm \<Rightarrow> 'm" where [function_call_results_defs]:
  "function_call_results_Builder_set_value L self value m =
     sb_set_f64 L (function_call_results_Builder_builder self) 0 value m"

datatype function_call_results_Pipeline = function_call_results_Pipeline (function_call_results_Pipeline_typeless: "AnyPipeline")

definition function_call_results_Pipeline_new ::
  "AnyPipeline \<Rightarrow> function_call_results_Pipeline" where [function_call_results_defs]:
  "function_call_results_Pipeline_new typeless = function_call_results_Pipeline typeless"

section \<open>The contracts\<close>

interpretation function_client: client_type function_Client_new "\<lambda>c. hook (function_Client_client c)"
  function_Client_reader_get_from_pointer function_Client_builder_get_from_pointer
  function_Client_set_pointer_builder function_Client_clone
  by unfold_locales
    (simp_all add: function_iface_defs function_Client_new_def [abs_def] result_bind_map)

fun function_Server_method ::
  "('s, 'p, 'r, 't) function_Server \<Rightarrow> nat \<Rightarrow> 's \<Rightarrow> 'p \<Rightarrow> 'r \<Rightarrow> 't \<times> 's" where
  "function_Server_method T k s p r = function_Server_call T s p r"

interpretation function_rpc: rpc_interface function_TYPE_ID 1 function_ServerDispatch function_Server_method
  function_Server_default function_ServerDispatch_dispatch_call
  by unfold_locales
    (auto simp: function_ServerDispatch_dispatch_call_def function_ServerDispatch_dispatch_call_internal_def
      function_Server_default_def function_Server_default_call_def map_prod_def
      word_unat_eq_iff split: prod.splits)

interpretation function_call_params_m: struct_module function_call_params_Builder_struct_size
  function_call_params_Reader_type_id function_call_params_Builder_type_id function_call_params_Reader_new
  function_call_params_Reader_into_internal_struct_reader function_call_params_Builder_new function_call_params_Builder_builder
  function_call_params_Reader_get_from_pointer function_call_params_Builder_init_pointer function_call_params_Builder_get_from_pointer
  function_call_params_Reader_set_pointer_builder function_call_params_Builder_into_reader function_call_params_Reader_total_size
  function_call_params_Builder_total_size
  by unfold_locales
    (simp_all add: function_call_params_defs function_call_params_Reader_new_def [abs_def] function_call_params_Builder_new_def [abs_def]
      result_bind_map prod.case_eq_if map_prod_def)

interpretation function_call_results_m: struct_module function_call_results_Builder_struct_size
  function_call_results_Reader_type_id function_call_results_Builder_type_id function_call_results_Reader_new
  function_call_results_Reader_into_internal_struct_reader function_call_results_Builder_new function_call_results_Builder_builder
  function_call_results_Reader_get_from_pointer function_call_results_Builder_init_pointer function_call_results_Builder_get_from_pointer
  function_call_results_Reader_set_pointer_builder function_call_results_Builder_into_reader function_call_results_Reader_total_size
  function_call_results_Builder_total_size
  by unfold_locales
    (simp_all add: function_call_results_defs function_call_results_Reader_new_def [abs_def] function_call_results_Builder_new_def [abs_def]
      result_bind_map prod.case_eq_if map_prod_def)

interpretation function_call_results_value: data_field function_call_results_STRUCT_SIZE 0
  function_call_results_Reader_reader function_call_results_Builder_builder
  function_call_results_Reader_get_value function_call_results_Builder_get_value
  function_call_results_Builder_set_value
  by (rule f64_field) (simp_all add: function_call_results_defs)

interpretation function_call_params_slot: pointer_slot function_call_params_STRUCT_SIZE 0
  function_call_params_Builder_builder
  by unfold_locales (simp add: function_call_params_STRUCT_SIZE_def)

section \<open>Properties\<close>

text \<open>The numbers a reader of the parameters of \<open>Function.call\<close> finds, as the view sees them.\<close>

definition function_call_params_list ::
  "('m, 'h, 'e) capnp \<Rightarrow> ('m, 'h, 'e) view \<Rightarrow> function_call_params_Builder \<Rightarrow> 'm \<Rightarrow> (f64 list, 'e) result" where
  "function_call_params_list L V b m =
     map_result (rf64s V) id
       (function_call_params_Reader_get_params L (function_call_params_Builder_into_reader L b m))"

lemma function_call_params_written:
  assumes L: "capnp_builder L V"
    and b: "struct_ok V m (function_call_params_Builder_builder b) function_call_params_STRUCT_SIZE"
    and w: "slot_write V m m' (sb_get_pointer_field L (function_call_params_Builder_builder b) 0) (CF64s xs)"
  shows "function_call_params_list L V b m' = Ok xs"
    and "function_call_params_Reader_has_params L (function_call_params_Builder_into_reader L b m')"
proof -
  note R = capnp_builder.axioms(1) [OF L]
  let ?p = "sr_get_pointer_field L (sb_into_reader L (function_call_params_Builder_builder b) m') 0"
  have o: "robj V ?p = OF64s xs"
    using function_call_params_slot.write_same [OF L b w] by (simp add: cobj_def)
  obtain fl where "pr_get_f64_list L ?p = Ok fl" "rf64s V fl = xs"
    using capnp_reader.get_f64s [OF R o] by blast
  then show "function_call_params_list L V b m' = Ok xs"
    by (simp add: function_call_params_list_def function_call_params_defs)
  show "function_call_params_Reader_has_params L (function_call_params_Builder_into_reader L b m')"
    using o by (simp add: function_call_params_defs capnp_reader.is_null [OF R])
qed

text \<open>
  C31. The parameters of \<open>Function.call\<close>: \<open>set_params\<close> succeeds and copies the list of numbers it is
  given, and \<open>init_params(n)\<close> gives a list of \<open>n\<close> zeros; in both cases \<open>has_params()\<close> holds afterwards.
\<close>

theorem function_params_lists:
  assumes L: "capnp_builder L V"
    and b: "struct_ok V m (function_call_params_Builder_builder b) function_call_params_STRUCT_SIZE"
    and "length (rf64s V fl) < 2 ^ 29" and "unat n < 2 ^ 29"
  shows "(case function_call_params_Builder_set_params L b fl m of (res, m') \<Rightarrow>
      res = Ok () \<and> function_call_params_list L V b m' = Ok (rf64s V fl) \<and>
      function_call_params_Reader_has_params L (function_call_params_Builder_into_reader L b m')) \<and>
    (case function_call_params_Builder_init_params L b n m of (fb, m') \<Rightarrow>
      function_call_params_list L V b m' = Ok (replicate (unat n) 0) \<and>
      function_call_params_Reader_has_params L (function_call_params_Builder_into_reader L b m'))"
proof -
  note p = function_call_params_slot.slot_is_live [OF L b]
  obtain res m1 where s: "function_call_params_Builder_set_params L b fl m = (res, m1)" by fastforce
  obtain fb m2 where i: "function_call_params_Builder_init_params L b n m = (fb, m2)" by fastforce
  have "pb_set_f64_list L (sb_get_pointer_field L (function_call_params_Builder_builder b) 0) fl False m =
      (res, m1)"
    using s by (simp add: function_call_params_defs)
  note ws = capnp_builder.bset_f64s [OF L p assms(3) this]
  have "pb_init_f64_list L (sb_get_pointer_field L (function_call_params_Builder_builder b) 0) n m = (fb, m2)"
    using i by (simp add: function_call_params_defs)
  note wi = capnp_builder.binit_f64s [OF L p assms(4) this]
  show ?thesis
    using function_call_params_written [OF L b wi] function_call_params_written [OF L b] ws s i by auto
qed

theorem function_params_lists_witness:
  "function_call_params_list tree_capnp tree_view (function_call_params_Builder (StructBuilder []))
     (snd (function_call_params_Builder_set_params tree_capnp
       (function_call_params_Builder (StructBuilder [])) (F64ListReader (OF64s [5, 6]) [])
       (zero_struct function_call_params_STRUCT_SIZE))) = Ok [5, 6]"
  using function_params_lists [OF tree_builder.capnp_builder_axioms,
      of "zero_struct function_call_params_STRUCT_SIZE" "function_call_params_Builder (StructBuilder [])"
        "F64ListReader (OF64s [5, 6]) []" 0]
    fresh_struct_ok [OF tree_root_fresh, of function_call_params_STRUCT_SIZE]
  by (auto split: prod.splits)

end
