(* ===== verification/Calc_Expression.thy ===== *)
theory Calc_Expression
  imports Calc_Value Calc_Function
begin

text \<open>
  The modules \<open>calculator::expression\<close> and \<open>calculator::expression::call\<close> of
  \<open>rust/src/schema/calculator_capnp.rs\<close>: a union of four members, told apart by the 16-bit
  discriminant at index 4 of the data section; the group \<open>call\<close> shares the struct of its expression.
\<close>

named_theorems expression_defs
named_theorems expression_call_defs

section \<open>The module \<open>expression\<close>\<close>

datatype ('h, 'e, 'a0) expression_Which =
    Literal f64
  | PreviousResult "('h value_Client, 'e) result"
  | Parameter u32
  | Call 'a0

definition expression_STRUCT_SIZE :: "StructSize" where [expression_defs]:
  "expression_STRUCT_SIZE = \<lparr>ss_data = 2, ss_pointers = 2\<rparr>"

definition expression_TYPE_ID :: "u64" where [expression_defs]:
  "expression_TYPE_ID = 0xd438d7caf5548d15"

datatype 'm expression_Reader = expression_Reader (expression_Reader_reader: "'m StructReader")

definition expression_Reader_type_id :: "u64" where [expression_defs]:
  "expression_Reader_type_id = expression_TYPE_ID"

definition expression_Reader_new ::
  "'m StructReader \<Rightarrow> 'm expression_Reader" where [expression_defs]:
  "expression_Reader_new reader = expression_Reader reader"

datatype expression_Builder = expression_Builder (expression_Builder_builder: "StructBuilder")

definition expression_Builder_struct_size :: "StructSize" where [expression_defs]:
  "expression_Builder_struct_size = expression_STRUCT_SIZE"

definition expression_Builder_type_id :: "u64" where [expression_defs]:
  "expression_Builder_type_id = expression_TYPE_ID"

definition expression_Builder_new ::
  "StructBuilder \<Rightarrow> expression_Builder" where [expression_defs]:
  "expression_Builder_new builder = expression_Builder builder"

section \<open>The group \<open>expression::call\<close>\<close>

definition expression_call_STRUCT_SIZE :: "StructSize" where [expression_call_defs]:
  "expression_call_STRUCT_SIZE = \<lparr>ss_data = 2, ss_pointers = 2\<rparr>"

definition expression_call_TYPE_ID :: "u64" where [expression_call_defs]:
  "expression_call_TYPE_ID = 0xd99522a3d3878d66"

datatype 'm expression_call_Reader = expression_call_Reader (expression_call_Reader_reader: "'m StructReader")

definition expression_call_Reader_type_id :: "u64" where [expression_call_defs]:
  "expression_call_Reader_type_id = expression_call_TYPE_ID"

definition expression_call_Reader_new ::
  "'m StructReader \<Rightarrow> 'm expression_call_Reader" where [expression_call_defs]:
  "expression_call_Reader_new reader = expression_call_Reader reader"

definition expression_call_Reader_get_from_pointer ::
  "('m, 'h, 'e) capnp \<Rightarrow> 'm PointerReader \<Rightarrow>
     ('m expression_call_Reader, 'e) result" where [expression_call_defs]:
  "expression_call_Reader_get_from_pointer L reader =
     result_bind (pr_get_struct L reader) (\<lambda>s. Ok (expression_call_Reader_new s))"

definition expression_call_Reader_into_internal_struct_reader ::
  "'m expression_call_Reader \<Rightarrow> 'm StructReader" where [expression_call_defs]:
  "expression_call_Reader_into_internal_struct_reader self = expression_call_Reader_reader self"

definition expression_call_Reader_imbue ::
  "('m, 'h, 'e) capnp \<Rightarrow> 'm expression_call_Reader \<Rightarrow>
     'h CapTable \<Rightarrow> 'm expression_call_Reader" where [expression_call_defs]:
  "expression_call_Reader_imbue L self cap_table =
     expression_call_Reader (sr_imbue L (expression_call_Reader_reader self) cap_table)"

definition expression_call_Reader_reborrow ::
  "'m expression_call_Reader \<Rightarrow>
     'm expression_call_Reader" where [expression_call_defs]:
  "expression_call_Reader_reborrow self =
     expression_call_Reader (expression_call_Reader_reader self)"

definition expression_call_Reader_total_size ::
  "('m, 'h, 'e) capnp \<Rightarrow> 'm expression_call_Reader \<Rightarrow>
     (MessageSize, 'e) result" where [expression_call_defs]:
  "expression_call_Reader_total_size L self =
     sr_total_size L (expression_call_Reader_reader self)"

definition expression_call_Reader_get_function ::
  "('m, 'h, 'e) capnp \<Rightarrow> 'm expression_call_Reader \<Rightarrow>
     ('h function_Client, 'e) result" where [expression_call_defs]:
  "expression_call_Reader_get_function L self =
     (case pr_get_capability L (sr_get_pointer_field L (expression_call_Reader_reader self) 0) of
        Ok c \<Rightarrow> Ok (function_Client_new c) | Err e \<Rightarrow> Err e)"

definition expression_call_Reader_get_params ::
  "('m, 'h, 'e) capnp \<Rightarrow> 'm expression_call_Reader \<Rightarrow>
     ('m StructListReader, 'e) result" where [expression_call_defs]:
  "expression_call_Reader_get_params L self =
     pr_get_struct_list L (sr_get_pointer_field L (expression_call_Reader_reader self) 1)"

definition expression_call_Reader_has_params ::
  "('m, 'h, 'e) capnp \<Rightarrow> 'm expression_call_Reader \<Rightarrow>
     bool" where [expression_call_defs]:
  "expression_call_Reader_has_params L self \<longleftrightarrow>
     \<not> pr_is_null L (sr_get_pointer_field L (expression_call_Reader_reader self) 1)"

datatype expression_call_Builder = expression_call_Builder (expression_call_Builder_builder: "StructBuilder")

definition expression_call_Builder_struct_size :: "StructSize" where [expression_call_defs]:
  "expression_call_Builder_struct_size = expression_call_STRUCT_SIZE"

definition expression_call_Builder_type_id :: "u64" where [expression_call_defs]:
  "expression_call_Builder_type_id = expression_call_TYPE_ID"

definition expression_call_Builder_new ::
  "StructBuilder \<Rightarrow> expression_call_Builder" where [expression_call_defs]:
  "expression_call_Builder_new builder = expression_call_Builder builder"

definition expression_call_Builder_imbue_mut ::
  "('m, 'h, 'e) capnp \<Rightarrow> expression_call_Builder \<Rightarrow>
     'h CapTable \<Rightarrow> expression_call_Builder" where [expression_call_defs]:
  "expression_call_Builder_imbue_mut L self cap_table =
     expression_call_Builder (sb_imbue L (expression_call_Builder_builder self) cap_table)"

definition expression_call_Builder_init_pointer ::
  "('m, 'h, 'e) capnp \<Rightarrow> PointerBuilder \<Rightarrow> u32 \<Rightarrow>
     'm \<Rightarrow> expression_call_Builder \<times> 'm" where [expression_call_defs]:
  "expression_call_Builder_init_pointer L builder sz m =
     (case pb_init_struct L builder expression_call_STRUCT_SIZE m of (s, m') \<Rightarrow> (expression_call_Builder_new s, m'))"

definition expression_call_Builder_get_from_pointer ::
  "('m, 'h, 'e) capnp \<Rightarrow> PointerBuilder \<Rightarrow> 'm \<Rightarrow>
     (expression_call_Builder, 'e) result \<times> 'm" where [expression_call_defs]:
  "expression_call_Builder_get_from_pointer L builder m =
     (case pb_get_struct L builder expression_call_STRUCT_SIZE m of
        (r, m') \<Rightarrow> (result_bind r (\<lambda>s. Ok (expression_call_Builder_new s)), m'))"

definition expression_call_Reader_set_pointer_builder ::
  "('m, 'h, 'e) capnp \<Rightarrow> PointerBuilder \<Rightarrow>
     'm expression_call_Reader \<Rightarrow> bool \<Rightarrow> 'm \<Rightarrow> (unit, 'e) result \<times> 'm" where [expression_call_defs]:
  "expression_call_Reader_set_pointer_builder L pointer value canonicalize m =
     pb_set_struct L pointer (expression_call_Reader_reader value) canonicalize m"

definition expression_call_Builder_into_reader ::
  "('m, 'h, 'e) capnp \<Rightarrow> expression_call_Builder \<Rightarrow> 'm \<Rightarrow>
     'm expression_call_Reader" where [expression_call_defs]:
  "expression_call_Builder_into_reader L self m =
     expression_call_Reader_new (sb_into_reader L (expression_call_Builder_builder self) m)"

definition expression_call_Builder_as_reader ::
  "('m, 'h, 'e) capnp \<Rightarrow> expression_call_Builder \<Rightarrow> 'm \<Rightarrow>
     'm expression_call_Reader" where [expression_call_defs]:
  "expression_call_Builder_as_reader L self m = expression_call_Builder_into_reader L self m"

definition expression_call_Builder_reborrow ::
  "expression_call_Builder \<Rightarrow> expression_call_Builder" where [expression_call_defs]:
  "expression_call_Builder_reborrow self =
     expression_call_Builder (expression_call_Builder_builder self)"

definition expression_call_Builder_reborrow_as_reader ::
  "('m, 'h, 'e) capnp \<Rightarrow> expression_call_Builder \<Rightarrow> 'm \<Rightarrow>
     'm expression_call_Reader" where [expression_call_defs]:
  "expression_call_Builder_reborrow_as_reader L self m =
     expression_call_Reader_new (sb_into_reader L (expression_call_Builder_builder self) m)"

definition expression_call_Builder_total_size ::
  "('m, 'h, 'e) capnp \<Rightarrow> expression_call_Builder \<Rightarrow> 'm \<Rightarrow>
     (MessageSize, 'e) result" where [expression_call_defs]:
  "expression_call_Builder_total_size L self m =
     sr_total_size L (sb_into_reader L (expression_call_Builder_builder self) m)"

definition expression_call_Builder_get_function ::
  "('m, 'h, 'e) capnp \<Rightarrow> expression_call_Builder \<Rightarrow> 'm \<Rightarrow>
     ('h function_Client, 'e) result" where [expression_call_defs]:
  "expression_call_Builder_get_function L self m =
     (case pb_get_capability L (sb_get_pointer_field L (expression_call_Builder_builder self) 0) m of
        Ok c \<Rightarrow> Ok (function_Client_new c) | Err e \<Rightarrow> Err e)"

definition expression_call_Builder_set_function ::
  "('m, 'h, 'e) capnp \<Rightarrow> expression_call_Builder \<Rightarrow>
     'h function_Client \<Rightarrow> 'm \<Rightarrow> 'm" where [expression_call_defs]:
  "expression_call_Builder_set_function L self value m =
     pb_set_capability L (sb_get_pointer_field L (expression_call_Builder_builder self) 0) (hook (function_Client_client value)) m"

definition expression_call_Builder_get_params ::
  "('m, 'h, 'e) capnp \<Rightarrow> expression_call_Builder \<Rightarrow> 'm \<Rightarrow>
     (StructListBuilder, 'e) result \<times> 'm" where [expression_call_defs]:
  "expression_call_Builder_get_params L self m =
     pb_get_struct_list L expression_Builder_struct_size (sb_get_pointer_field L (expression_call_Builder_builder self) 1) m"

definition expression_call_Builder_set_params ::
  "('m, 'h, 'e) capnp \<Rightarrow> expression_call_Builder \<Rightarrow>
     'm StructListReader \<Rightarrow> 'm \<Rightarrow> (unit, 'e) result \<times> 'm" where [expression_call_defs]:
  "expression_call_Builder_set_params L self value m =
     pb_set_struct_list L (sb_get_pointer_field L (expression_call_Builder_builder self) 1) value False m"

definition expression_call_Builder_init_params ::
  "('m, 'h, 'e) capnp \<Rightarrow> expression_call_Builder \<Rightarrow>
     u32 \<Rightarrow> 'm \<Rightarrow> StructListBuilder \<times> 'm" where [expression_call_defs]:
  "expression_call_Builder_init_params L self sz m =
     pb_init_struct_list L expression_Builder_struct_size (sb_get_pointer_field L (expression_call_Builder_builder self) 1) sz m"

definition expression_call_Builder_has_params ::
  "('m, 'h, 'e) capnp \<Rightarrow> expression_call_Builder \<Rightarrow> 'm \<Rightarrow>
     bool" where [expression_call_defs]:
  "expression_call_Builder_has_params L self m \<longleftrightarrow>
     \<not> pb_is_null L (sb_get_pointer_field L (expression_call_Builder_builder self) 1) m"

datatype expression_call_Pipeline = expression_call_Pipeline (expression_call_Pipeline_typeless: "AnyPipeline")

definition expression_call_Pipeline_new ::
  "AnyPipeline \<Rightarrow> expression_call_Pipeline" where [expression_call_defs]:
  "expression_call_Pipeline_new typeless = expression_call_Pipeline typeless"

definition expression_call_Pipeline_get_function ::
  "('m, 'h, 'e) capnp \<Rightarrow> expression_call_Pipeline \<Rightarrow>
     'h function_Client" where [expression_call_defs]:
  "expression_call_Pipeline_get_function L self =
     function_Client_new (pl_as_cap L (pl_get_pointer_field L (expression_call_Pipeline_typeless self) 0))"

section \<open>The functions of \<open>expression\<close>\<close>

definition expression_Reader_get_from_pointer ::
  "('m, 'h, 'e) capnp \<Rightarrow> 'm PointerReader \<Rightarrow>
     ('m expression_Reader, 'e) result" where [expression_defs]:
  "expression_Reader_get_from_pointer L reader =
     result_bind (pr_get_struct L reader) (\<lambda>s. Ok (expression_Reader_new s))"

definition expression_Reader_into_internal_struct_reader ::
  "'m expression_Reader \<Rightarrow> 'm StructReader" where [expression_defs]:
  "expression_Reader_into_internal_struct_reader self = expression_Reader_reader self"

definition expression_Reader_imbue ::
  "('m, 'h, 'e) capnp \<Rightarrow> 'm expression_Reader \<Rightarrow>
     'h CapTable \<Rightarrow> 'm expression_Reader" where [expression_defs]:
  "expression_Reader_imbue L self cap_table =
     expression_Reader (sr_imbue L (expression_Reader_reader self) cap_table)"

definition expression_Reader_reborrow ::
  "'m expression_Reader \<Rightarrow> 'm expression_Reader" where [expression_defs]:
  "expression_Reader_reborrow self = expression_Reader (expression_Reader_reader self)"

definition expression_Reader_total_size ::
  "('m, 'h, 'e) capnp \<Rightarrow> 'm expression_Reader \<Rightarrow>
     (MessageSize, 'e) result" where [expression_defs]:
  "expression_Reader_total_size L self = sr_total_size L (expression_Reader_reader self)"

definition expression_Reader_which ::
  "('m, 'h, 'e) capnp \<Rightarrow> 'm expression_Reader \<Rightarrow>
     (('h, 'e, 'm expression_call_Reader) expression_Which, NotInSchema) result" where [expression_defs]:
  "expression_Reader_which L self =
     (let x = sr_get_u16 L (expression_Reader_reader self) 4 in
      if x = 0 then Ok (Literal (sr_get_f64 L (expression_Reader_reader self) 0))
      else if x = 1 then
        Ok (PreviousResult
          (case pr_get_capability L (sr_get_pointer_field L (expression_Reader_reader self) 0) of
             Ok c \<Rightarrow> Ok (value_Client_new c) | Err e \<Rightarrow> Err e))
      else if x = 2 then Ok (Parameter (sr_get_u32 L (expression_Reader_reader self) 0))
      else if x = 3 then Ok (Call (expression_call_Reader_new (expression_Reader_reader self)))
      else Err (NotInSchema x))"

definition expression_Builder_imbue_mut ::
  "('m, 'h, 'e) capnp \<Rightarrow> expression_Builder \<Rightarrow>
     'h CapTable \<Rightarrow> expression_Builder" where [expression_defs]:
  "expression_Builder_imbue_mut L self cap_table =
     expression_Builder (sb_imbue L (expression_Builder_builder self) cap_table)"

definition expression_Builder_init_pointer ::
  "('m, 'h, 'e) capnp \<Rightarrow> PointerBuilder \<Rightarrow> u32 \<Rightarrow>
     'm \<Rightarrow> expression_Builder \<times> 'm" where [expression_defs]:
  "expression_Builder_init_pointer L builder sz m =
     (case pb_init_struct L builder expression_STRUCT_SIZE m of (s, m') \<Rightarrow> (expression_Builder_new s, m'))"

definition expression_Builder_get_from_pointer ::
  "('m, 'h, 'e) capnp \<Rightarrow> PointerBuilder \<Rightarrow> 'm \<Rightarrow>
     (expression_Builder, 'e) result \<times> 'm" where [expression_defs]:
  "expression_Builder_get_from_pointer L builder m =
     (case pb_get_struct L builder expression_STRUCT_SIZE m of
        (r, m') \<Rightarrow> (result_bind r (\<lambda>s. Ok (expression_Builder_new s)), m'))"

definition expression_Reader_set_pointer_builder ::
  "('m, 'h, 'e) capnp \<Rightarrow> PointerBuilder \<Rightarrow>
     'm expression_Reader \<Rightarrow> bool \<Rightarrow> 'm \<Rightarrow> (unit, 'e) result \<times> 'm" where [expression_defs]:
  "expression_Reader_set_pointer_builder L pointer value canonicalize m =
     pb_set_struct L pointer (expression_Reader_reader value) canonicalize m"

definition expression_Builder_into_reader ::
  "('m, 'h, 'e) capnp \<Rightarrow> expression_Builder \<Rightarrow> 'm \<Rightarrow>
     'm expression_Reader" where [expression_defs]:
  "expression_Builder_into_reader L self m =
     expression_Reader_new (sb_into_reader L (expression_Builder_builder self) m)"

definition expression_Builder_as_reader ::
  "('m, 'h, 'e) capnp \<Rightarrow> expression_Builder \<Rightarrow> 'm \<Rightarrow>
     'm expression_Reader" where [expression_defs]:
  "expression_Builder_as_reader L self m = expression_Builder_into_reader L self m"

definition expression_Builder_reborrow ::
  "expression_Builder \<Rightarrow> expression_Builder" where [expression_defs]:
  "expression_Builder_reborrow self = expression_Builder (expression_Builder_builder self)"

definition expression_Builder_reborrow_as_reader ::
  "('m, 'h, 'e) capnp \<Rightarrow> expression_Builder \<Rightarrow> 'm \<Rightarrow>
     'm expression_Reader" where [expression_defs]:
  "expression_Builder_reborrow_as_reader L self m =
     expression_Reader_new (sb_into_reader L (expression_Builder_builder self) m)"

definition expression_Builder_total_size ::
  "('m, 'h, 'e) capnp \<Rightarrow> expression_Builder \<Rightarrow> 'm \<Rightarrow>
     (MessageSize, 'e) result" where [expression_defs]:
  "expression_Builder_total_size L self m =
     sr_total_size L (sb_into_reader L (expression_Builder_builder self) m)"

definition expression_Builder_set_literal ::
  "('m, 'h, 'e) capnp \<Rightarrow> expression_Builder \<Rightarrow> f64 \<Rightarrow>
     'm \<Rightarrow> 'm" where [expression_defs]:
  "expression_Builder_set_literal L self value m =
     sb_set_f64 L (expression_Builder_builder self) 0 value
       (sb_set_u16 L (expression_Builder_builder self) 4 0 m)"

definition expression_Builder_set_previous_result ::
  "('m, 'h, 'e) capnp \<Rightarrow> expression_Builder \<Rightarrow>
     'h value_Client \<Rightarrow> 'm \<Rightarrow> 'm" where [expression_defs]:
  "expression_Builder_set_previous_result L self value m =
     pb_set_capability L (sb_get_pointer_field L (expression_Builder_builder self) 0)
       (hook (value_Client_client value))
       (sb_set_u16 L (expression_Builder_builder self) 4 1 m)"

definition expression_Builder_set_parameter ::
  "('m, 'h, 'e) capnp \<Rightarrow> expression_Builder \<Rightarrow> u32 \<Rightarrow>
     'm \<Rightarrow> 'm" where [expression_defs]:
  "expression_Builder_set_parameter L self value m =
     sb_set_u32 L (expression_Builder_builder self) 0 value
       (sb_set_u16 L (expression_Builder_builder self) 4 2 m)"

definition expression_Builder_init_call ::
  "('m, 'h, 'e) capnp \<Rightarrow> expression_Builder \<Rightarrow> 'm \<Rightarrow>
     expression_call_Builder \<times> 'm" where [expression_defs]:
  "expression_Builder_init_call L self m =
     (let m1 = sb_set_u16 L (expression_Builder_builder self) 4 3 m;
          m2 = pb_clear L (sb_get_pointer_field L (expression_Builder_builder self) 0) m1;
          m3 = pb_clear L (sb_get_pointer_field L (expression_Builder_builder self) 1) m2
      in (expression_call_Builder_new (expression_Builder_builder self), m3))"

definition expression_Builder_which ::
  "('m, 'h, 'e) capnp \<Rightarrow> expression_Builder \<Rightarrow> 'm \<Rightarrow>
     (('h, 'e, expression_call_Builder) expression_Which, NotInSchema) result" where [expression_defs]:
  "expression_Builder_which L self m =
     (let x = sb_get_u16 L (expression_Builder_builder self) 4 m in
      if x = 0 then Ok (Literal (sb_get_f64 L (expression_Builder_builder self) 0 m))
      else if x = 1 then
        Ok (PreviousResult
          (case pb_get_capability L (sb_get_pointer_field L (expression_Builder_builder self) 0) m of
             Ok c \<Rightarrow> Ok (value_Client_new c) | Err e \<Rightarrow> Err e))
      else if x = 2 then Ok (Parameter (sb_get_u32 L (expression_Builder_builder self) 0 m))
      else if x = 3 then Ok (Call (expression_call_Builder_new (expression_Builder_builder self)))
      else Err (NotInSchema x))"

datatype expression_Pipeline = expression_Pipeline (expression_Pipeline_typeless: "AnyPipeline")

definition expression_Pipeline_new ::
  "AnyPipeline \<Rightarrow> expression_Pipeline" where [expression_defs]:
  "expression_Pipeline_new typeless = expression_Pipeline typeless"

section \<open>The value of an expression\<close>

text \<open>
  The tree an expression stands for, read with the generated getters down to a depth of \<open>n\<close>
  nested calls; \<open>EDeep\<close> stands for what lies deeper.
\<close>

datatype ('h, 'e) expr_val =
    ELiteral f64
  | EPrevious "('h, 'e) result"
  | EParameter u32
  | ECall "('h, 'e) result" "(('h, 'e) expr_val list, 'e) result"
  | EUnknown u16
  | EDeep

fun expression_read ::
  "('m, 'h, 'e) capnp \<Rightarrow> nat \<Rightarrow> 'm expression_Reader \<Rightarrow> ('h, 'e) expr_val" where
  "expression_read L 0 r = EDeep"
| "expression_read L (Suc n) r = (case expression_Reader_which L r of
     Ok (Literal v) \<Rightarrow> ELiteral v
   | Ok (PreviousResult c) \<Rightarrow> EPrevious (map_result (\<lambda>c. hook (value_Client_client c)) id c)
   | Ok (Parameter i) \<Rightarrow> EParameter i
   | Ok (Call c) \<Rightarrow> ECall
       (map_result (\<lambda>c. hook (function_Client_client c)) id (expression_call_Reader_get_function L c))
       (map_result (list_map L (\<lambda>sr. expression_read L n (expression_Reader_new sr))) id
         (expression_call_Reader_get_params L c))
   | Err (NotInSchema x) \<Rightarrow> EUnknown x)"

lemma value_hook: "map_result (\<lambda>c. hook (value_Client_client c)) id
    (case r of Ok c \<Rightarrow> Ok (value_Client_new c) | Err e \<Rightarrow> Err e) = r"
  by (cases r) (simp_all add: value_Client_new_def)

lemma value_case: "map_result id (\<lambda>_. ()) (case r of Ok c \<Rightarrow> Ok (value_Client_new c) | Err e \<Rightarrow> Err e) =
    map_result value_Client_new (\<lambda>_. ()) r"
  by (cases r) simp_all

lemma function_hook: "map_result (\<lambda>c. hook (function_Client_client c)) id
    (case r of Ok c \<Rightarrow> Ok (function_Client_new c) | Err e \<Rightarrow> Err e) = r"
  by (cases r) (simp_all add: function_Client_new_def)

lemma expression_read_data:
  assumes "capnp_reader L V"
  shows "expression_read L (Suc n) (expression_Reader sr) =
    (if read_field (rdata V sr) 4 = (0 :: u16) then ELiteral (read_field (rdata V sr) 0)
     else if read_field (rdata V sr) 4 = (1 :: u16) then
       EPrevious (pr_get_capability L (sr_get_pointer_field L sr 0))
     else if read_field (rdata V sr) 4 = (2 :: u16) then EParameter (read_field (rdata V sr) 0)
     else if read_field (rdata V sr) 4 = (3 :: u16) then
       ECall (pr_get_capability L (sr_get_pointer_field L sr 0))
         (map_result (list_map L (\<lambda>sr. expression_read L n (expression_Reader sr))) id
           (pr_get_struct_list L (sr_get_pointer_field L sr 1)))
     else EUnknown (read_field (rdata V sr) 4))"
  using assms
  by (simp add: expression_Reader_which_def capnp_reader.get_u16 capnp_reader.get_f64
      capnp_reader.get_u32 value_hook function_hook expression_call_Reader_get_function_def
      expression_call_Reader_get_params_def expression_call_Reader_new_def expression_Reader_new_def)

declare expression_read.simps(2) [simp del]

lemma expression_read_cong:
  assumes L: "capnp_reader L V" and "rdata V sr = rdata V sr'"
    and p: "\<And>i. robj V (sr_get_pointer_field L sr i) = robj V (sr_get_pointer_field L sr' i)"
    and g: "\<And>sr sr'. struct_obj V sr = struct_obj V sr' \<Longrightarrow>
      expression_read L n (expression_Reader sr) = expression_read L n (expression_Reader sr')"
  shows "expression_read L (Suc n) (expression_Reader sr) = expression_read L (Suc n) (expression_Reader sr')"
proof -
  note c = capnp_reader.get_cap_cong [OF L p [of 0]]
  note l = capnp_reader.struct_list_cong [OF L p [of 1],
      where g = "\<lambda>sr. expression_read L n (expression_Reader sr)", OF g]
  show ?thesis by (simp only: expression_read_data [OF L] assms(2) c l)
qed

lemma expression_read_tree:
  assumes L: "capnp_reader L V"
  shows "struct_obj V sr = struct_obj V sr' \<Longrightarrow>
    expression_read L n (expression_Reader sr) = expression_read L n (expression_Reader sr')"
proof (induction n arbitrary: sr sr')
  case 0
  then show ?case by simp
next
  case (Suc n)
  show ?case
    by (rule expression_read_cong [OF L _ _ Suc.IH])
      (use Suc.prems in \<open>simp_all add: struct_obj_def capnp_reader.get_pointer [OF L]\<close>)
qed

section \<open>The modules keep their contracts\<close>

interpretation expression_m: struct_module expression_Builder_struct_size
  expression_Reader_type_id expression_Builder_type_id expression_Reader_new
  expression_Reader_into_internal_struct_reader expression_Builder_new expression_Builder_builder
  expression_Reader_get_from_pointer expression_Builder_init_pointer expression_Builder_get_from_pointer
  expression_Reader_set_pointer_builder expression_Builder_into_reader expression_Reader_total_size
  expression_Builder_total_size
  by unfold_locales
    (simp_all add: expression_defs expression_Reader_new_def [abs_def] expression_Builder_new_def [abs_def]
      result_bind_map prod.case_eq_if map_prod_def)

interpretation expression_call_m: struct_module expression_call_Builder_struct_size
  expression_call_Reader_type_id expression_call_Builder_type_id expression_call_Reader_new
  expression_call_Reader_into_internal_struct_reader expression_call_Builder_new expression_call_Builder_builder
  expression_call_Reader_get_from_pointer expression_call_Builder_init_pointer expression_call_Builder_get_from_pointer
  expression_call_Reader_set_pointer_builder expression_call_Builder_into_reader expression_call_Reader_total_size
  expression_call_Builder_total_size
  by unfold_locales
    (simp_all add: expression_call_defs expression_call_Reader_new_def [abs_def] expression_call_Builder_new_def [abs_def]
      result_bind_map prod.case_eq_if map_prod_def)

interpretation expression_disc: data_field expression_STRUCT_SIZE 4 expression_Reader_reader
  expression_Builder_builder "\<lambda>L r. sr_get_u16 L (expression_Reader_reader r) 4"
  "\<lambda>L b m. sb_get_u16 L (expression_Builder_builder b) 4 m"
  "\<lambda>L b v m. sb_set_u16 L (expression_Builder_builder b) 4 v m"
  by (rule u16_field) (simp_all add: expression_STRUCT_SIZE_def)

interpretation expression_literal: data_field expression_STRUCT_SIZE 0 expression_Reader_reader
  expression_Builder_builder "\<lambda>L r. sr_get_f64 L (expression_Reader_reader r) 0"
  "\<lambda>L b m. sb_get_f64 L (expression_Builder_builder b) 0 m"
  "\<lambda>L b v m. sb_set_f64 L (expression_Builder_builder b) 0 v m"
  by (rule f64_field) (simp_all add: expression_STRUCT_SIZE_def)

interpretation expression_parameter: data_field expression_STRUCT_SIZE 0 expression_Reader_reader
  expression_Builder_builder "\<lambda>L r. sr_get_u32 L (expression_Reader_reader r) 0"
  "\<lambda>L b m. sb_get_u32 L (expression_Builder_builder b) 0 m"
  "\<lambda>L b v m. sb_set_u32 L (expression_Builder_builder b) 0 v m"
  by (rule u32_field) (simp_all add: expression_STRUCT_SIZE_def)

interpretation expression_slot0: pointer_slot expression_STRUCT_SIZE 0 expression_Builder_builder
  by unfold_locales (simp add: expression_STRUCT_SIZE_def)

interpretation expression_slot1: pointer_slot expression_STRUCT_SIZE 1 expression_Builder_builder
  by unfold_locales (simp add: expression_STRUCT_SIZE_def)

interpretation call_function: cap_pointer expression_call_STRUCT_SIZE 0 expression_call_Builder_builder
  function_Client_new "\<lambda>c. hook (function_Client_client c)" expression_call_Reader_reader
  expression_call_Reader_get_function expression_call_Builder_get_function
  expression_call_Builder_set_function
  by unfold_locales
    (simp_all add: expression_call_defs function_Client_new_def split: result.split)

interpretation call_params: struct_list_pointer expression_call_STRUCT_SIZE 1
  expression_call_Builder_builder expression_STRUCT_SIZE
  expression_call_Builder_set_params expression_call_Builder_init_params
  by unfold_locales (simp_all add: expression_call_defs expression_Builder_struct_size_def)

section \<open>The setters choose a union member\<close>

definition expression_ok ::
  "('m, 'h, 'e) capnp \<Rightarrow> ('m, 'h, 'e) view \<Rightarrow> expression_Builder \<Rightarrow> 'm \<Rightarrow> bool" where
  "expression_ok L V b m \<longleftrightarrow> struct_ok V m (expression_Builder_builder b) expression_STRUCT_SIZE"

definition expression_value ::
  "nat \<Rightarrow> ('m, 'h, 'e) capnp \<Rightarrow> expression_Builder \<Rightarrow> 'm \<Rightarrow> ('h, 'e) expr_val" where
  "expression_value n L b m = expression_read L n (expression_Builder_into_reader L b m)"

text \<open>\<open>ExCall f n\<close>: \<open>init_call\<close>, then \<open>set_function(f)\<close> and \<open>init_params(n)\<close> on the group.\<close>

datatype 'h expression_op =
    ExLiteral f64
  | ExPrevious "'h value_Client"
  | ExParameter u32
  | ExCall "'h function_Client" u32

fun expression_allowed :: "('m, 'h, 'e) view \<Rightarrow> 'h expression_op \<Rightarrow> bool" where
  "expression_allowed V (ExCall f n) = (unat n < 2 ^ 29)"
| "expression_allowed V _ = True"

fun expression_run ::
  "('m, 'h, 'e) capnp \<Rightarrow> expression_Builder \<Rightarrow> 'h expression_op \<Rightarrow> 'm \<Rightarrow> 'm" where
  "expression_run L b (ExLiteral v) m = expression_Builder_set_literal L b v m"
| "expression_run L b (ExPrevious c) m = expression_Builder_set_previous_result L b c m"
| "expression_run L b (ExParameter i) m = expression_Builder_set_parameter L b i m"
| "expression_run L b (ExCall f n) m =
     (case expression_Builder_init_call L b m of (c, m1) \<Rightarrow>
        snd (expression_call_Builder_init_params L c n (expression_call_Builder_set_function L c f m1)))"

fun expression_spec ::
  "('m, 'h, 'e) capnp \<Rightarrow> 'h expression_op \<Rightarrow> ('h, 'e) expr_val \<Rightarrow> ('h, 'e) expr_val" where
  "expression_spec L (ExLiteral v) x = ELiteral v"
| "expression_spec L (ExPrevious c) x = EPrevious (Ok (hook (value_Client_client c)))"
| "expression_spec L (ExParameter i) x = EParameter i"
| "expression_spec L (ExCall f n) x =
     ECall (Ok (hook (function_Client_client f))) (Ok (replicate (unat n) (ELiteral 0)))"

context capnp_builder
begin

lemma expression_value_data:
  "expression_value n L b m =
     expression_read L n (expression_Reader (sb_into_reader L (expression_Builder_builder b) m))"
  by (simp add: expression_value_def expression_Builder_into_reader_def expression_Reader_new_def)

lemma expression_fresh:
  assumes "fresh_struct L V m (expression_Builder_builder b) expression_STRUCT_SIZE"
  shows "expression_ok L V b m" and "expression_value (Suc n) L b m = ELiteral 0"
  using assms reader_fresh [OF assms]
  by (simp_all add: expression_ok_def fresh_struct_ok expression_value_data
      expression_read_data [OF capnp_reader_axioms])

lemma expression_disc_write:
  assumes "expression_ok L V b m"
  shows "expression_ok L V b (sb_set_u16 L (expression_Builder_builder b) 4 x m)"
    and "read_field (rdata V (sb_into_reader L (expression_Builder_builder b)
      (sb_set_u16 L (expression_Builder_builder b) 4 x m))) 4 = x"
    and "struct_steps L V (expression_Builder_builder b) m (sb_set_u16 L (expression_Builder_builder b) 4 x m)"
  using expression_disc.put_simps(1,2) [OF capnp_builder_axioms assms [unfolded expression_ok_def]]
    expression_disc.put_steps [OF capnp_builder_axioms assms [unfolded expression_ok_def]]
  by (simp_all add: expression_ok_def)

lemma expression_set_literal:
  assumes ok: "expression_ok L V b m"
  shows "expression_ok L V b (expression_Builder_set_literal L b v m)"
    and "expression_value (Suc n) L b (expression_Builder_set_literal L b v m) = ELiteral v"
    and "struct_steps L V (expression_Builder_builder b) m (expression_Builder_set_literal L b v m)"
proof -
  note d = expression_disc_write [OF ok, where x = 0]
  note ok1 = d(1) [unfolded expression_ok_def]
  note puts = expression_literal.put_simps [OF capnp_builder_axioms ok1]
  show "expression_ok L V b (expression_Builder_set_literal L b v m)"
    by (simp add: expression_Builder_set_literal_def expression_ok_def puts)
  show "expression_value (Suc n) L b (expression_Builder_set_literal L b v m) = ELiteral v"
    by (simp add: expression_value_data expression_read_data [OF capnp_reader_axioms]
        expression_Builder_set_literal_def puts d(2) apart_def)
  show "struct_steps L V (expression_Builder_builder b) m (expression_Builder_set_literal L b v m)"
    using struct_steps_trans [OF expression_literal.put_steps [OF capnp_builder_axioms ok1] d(3)]
    by (simp add: expression_Builder_set_literal_def)
qed

lemma expression_literal_data:
  assumes ok: "expression_ok L V b m"
  shows "read_field (rdata V (sb_into_reader L (expression_Builder_builder b)
      (expression_Builder_set_literal L b v m))) 4 = (0 :: u16)"
    and "read_field (rdata V (sb_into_reader L (expression_Builder_builder b)
      (expression_Builder_set_literal L b v m))) 0 = v"
proof -
  note d = expression_disc_write [OF ok, where x = 0]
  note puts = expression_literal.put_simps [OF capnp_builder_axioms d(1) [unfolded expression_ok_def]]
  show "read_field (rdata V (sb_into_reader L (expression_Builder_builder b)
      (expression_Builder_set_literal L b v m))) 4 = (0 :: u16)"
    and "read_field (rdata V (sb_into_reader L (expression_Builder_builder b)
      (expression_Builder_set_literal L b v m))) 0 = v"
    by (simp_all add: expression_Builder_set_literal_def puts d(2) apart_def)
qed

lemma expression_set_parameter:
  assumes ok: "expression_ok L V b m"
  shows "expression_ok L V b (expression_Builder_set_parameter L b v m)"
    and "expression_value (Suc n) L b (expression_Builder_set_parameter L b v m) = EParameter v"
    and "struct_steps L V (expression_Builder_builder b) m (expression_Builder_set_parameter L b v m)"
proof -
  note d = expression_disc_write [OF ok, where x = 2]
  note ok1 = d(1) [unfolded expression_ok_def]
  note puts = expression_parameter.put_simps [OF capnp_builder_axioms ok1]
  show "expression_ok L V b (expression_Builder_set_parameter L b v m)"
    by (simp add: expression_Builder_set_parameter_def expression_ok_def puts)
  show "expression_value (Suc n) L b (expression_Builder_set_parameter L b v m) = EParameter v"
    by (simp add: expression_value_data expression_read_data [OF capnp_reader_axioms]
        expression_Builder_set_parameter_def puts d(2) apart_def)
  show "struct_steps L V (expression_Builder_builder b) m (expression_Builder_set_parameter L b v m)"
    using struct_steps_trans [OF expression_parameter.put_steps [OF capnp_builder_axioms ok1] d(3)]
    by (simp add: expression_Builder_set_parameter_def)
qed

lemma expression_set_previous:
  assumes ok: "expression_ok L V b m"
  shows "expression_ok L V b (expression_Builder_set_previous_result L b c m)"
    and "expression_value (Suc n) L b (expression_Builder_set_previous_result L b c m) =
      EPrevious (Ok (hook (value_Client_client c)))"
    and "struct_steps L V (expression_Builder_builder b) m (expression_Builder_set_previous_result L b c m)"
proof -
  note d = expression_disc_write [OF ok, where x = 1]
  note ok1 = d(1) [unfolded expression_ok_def]
  note w = bset_cap [OF expression_slot0.slot_is_live [OF capnp_builder_axioms ok1],
      of "hook (value_Client_client c)"]
  note f = expression_slot0.after_write [OF capnp_builder_axioms ok1 w]
  show "expression_ok L V b (expression_Builder_set_previous_result L b c m)"
    using f(1) by (simp add: expression_Builder_set_previous_result_def expression_ok_def)
  show "expression_value (Suc n) L b (expression_Builder_set_previous_result L b c m) =
      EPrevious (Ok (hook (value_Client_client c)))"
    using get_cap [OF f(3) [unfolded cobj_def, simplified]]
    by (simp add: expression_value_data expression_read_data [OF capnp_reader_axioms]
        expression_Builder_set_previous_result_def f(2) d(2))
  show "struct_steps L V (expression_Builder_builder b) m (expression_Builder_set_previous_result L b c m)"
    using struct_steps_trans [OF expression_slot0.write_steps [OF ok1 w] d(3)]
    by (simp add: expression_Builder_set_previous_result_def)
qed

end

context capnp_builder
begin

lemma expression_init_call:
  assumes ok: "expression_ok L V b m" and i: "expression_Builder_init_call L b m = (c, m')"
  shows "expression_call_Builder_builder c = expression_Builder_builder b"
    and "expression_ok L V b m'"
    and "read_field (rdata V (sb_into_reader L (expression_Builder_builder b) m')) 4 = (3 :: u16)"
    and "k < 2 \<Longrightarrow> robj V (sr_get_pointer_field L (sb_into_reader L (expression_Builder_builder b) m') k) =
      ONull"
    and "struct_steps L V (expression_Builder_builder b) m m'"
proof -
  let ?b = "expression_Builder_builder b"
  let ?m1 = "sb_set_u16 L ?b 4 3 m"
  let ?m2 = "pb_clear L (sb_get_pointer_field L ?b 0) ?m1"
  have m': "m' = pb_clear L (sb_get_pointer_field L ?b 1) ?m2"
    using i by (simp add: expression_Builder_init_call_def Let_def)
  show "expression_call_Builder_builder c = ?b"
    using i by (auto simp: expression_Builder_init_call_def expression_call_Builder_new_def Let_def)
  note d = expression_disc_write [OF ok, where x = 3]
  note ok1 = d(1) [unfolded expression_ok_def]
  note w2 = bclear [OF expression_slot0.slot_is_live [OF capnp_builder_axioms ok1]]
  note f2 = expression_slot0.after_write [OF capnp_builder_axioms ok1 w2]
  note w3 = bclear [OF expression_slot1.slot_is_live [OF capnp_builder_axioms f2(1)], folded m']
  note f3 = expression_slot1.after_write [OF capnp_builder_axioms f2(1) w3]
  show "expression_ok L V b m'" using f3(1) by (simp add: expression_ok_def)
  show "read_field (rdata V (sb_into_reader L ?b m')) 4 = (3 :: u16)"
    using d(2) by (simp add: f3(2) f2(2))
  show "robj V (sr_get_pointer_field L (sb_into_reader L ?b m') k) = ONull" if "k < 2"
    using that f3(3) f3(4) [of 0] f2(3)
    by (auto simp: cobj_def expression_STRUCT_SIZE_def dest!: less_2_cases)
  show "struct_steps L V ?b m m'"
    by (rule struct_steps_trans [OF expression_slot1.write_steps [OF f2(1) w3]
          struct_steps_trans [OF expression_slot0.write_steps [OF ok1 w2] d(3)]])
qed

lemma expression_call:
  assumes ok: "expression_ok L V b m" and n: "unat n < 2 ^ 29"
    and i: "expression_Builder_init_call L b m = (c, m1)"
    and p: "expression_call_Builder_init_params L c n (expression_call_Builder_set_function L c f m1) = (lb, m')"
  shows "expression_ok L V b m'"
    and "content V m' (sb_get_pointer_field L (expression_Builder_builder b) 1) = CStructs lb"
    and "lblen V lb = unat n"
    and "j < unat n \<Longrightarrow> fresh_struct L V m' (slb_get L lb (of_nat j)) expression_STRUCT_SIZE"
    and "expression_value (Suc (Suc k)) L b m' =
      ECall (Ok (hook (function_Client_client f))) (Ok (replicate (unat n) (ELiteral 0)))"
    and "struct_steps L V (expression_Builder_builder b) m m'"
proof -
  let ?b = "expression_Builder_builder b" and ?m2 = "expression_call_Builder_set_function L c f m1"
  have sz: "expression_call_STRUCT_SIZE = expression_STRUCT_SIZE"
    by (simp add: expression_call_STRUCT_SIZE_def expression_STRUCT_SIZE_def)
  note init = expression_init_call [OF ok i]
  note ok1 = init(2) [unfolded expression_ok_def]
  note w2 = call_function.put_write [OF capnp_builder_axioms, where b = c, unfolded init(1) sz, OF ok1, of f]
  note f2 = expression_slot0.after_write [OF capnp_builder_axioms ok1 w2]
  note w3 = call_params.init_write [OF capnp_builder_axioms, where b = c, unfolded init(1) sz, OF f2(1) n p]
  note f3 = expression_slot1.after_write [OF capnp_builder_axioms f2(1) w3(1)]
  show ok': "expression_ok L V b m'" using f3(1) by (simp add: expression_ok_def)
  show lb: "content V m' (sb_get_pointer_field L ?b 1) = CStructs lb"
    using w3(1) by (simp add: slot_write_def)
  show len: "lblen V lb = unat n" by (rule w3(2))
  show fresh: "j < unat n \<Longrightarrow> fresh_struct L V m' (slb_get L lb (of_nat j)) expression_STRUCT_SIZE" for j
    by (rule w3(3))
  have "robj V (sr_get_pointer_field L (sb_into_reader L ?b m') 0) = OCap (hook (function_Client_client f))"
    using f3(4) [of 0] f2(3) by (simp add: cobj_def expression_STRUCT_SIZE_def)
  note fn = get_cap [OF this]
  have zero: "expression_read L (Suc k) (expression_Reader (sb_into_reader L (slb_get L lb (of_nat j)) m')) =
      ELiteral 0" if "j < unat n" for j
    using expression_fresh(2) [of m' "expression_Builder (slb_get L lb (of_nat j))"] fresh [OF that]
    by (simp add: expression_value_data)
  have "map_result (list_map L (\<lambda>sr. expression_read L (Suc k) (expression_Reader sr))) id
      (pr_get_struct_list L (sr_get_pointer_field L (sb_into_reader L ?b m') 1)) =
    Ok (map (\<lambda>j. expression_read L (Suc k) (expression_Reader
      (sb_into_reader L (slb_get L lb (of_nat j)) m'))) [0..<lblen V lb])"
    by (rule struct_list_built [OF f3(1) _ lb _ expression_read_tree [OF capnp_reader_axioms]])
      (use n len in \<open>simp_all add: expression_STRUCT_SIZE_def\<close>)
  also have "\<dots> = Ok (replicate (unat n) (ELiteral 0))"
    using zero by (simp add: list_eq_iff_nth_eq len)
  finally show "expression_value (Suc (Suc k)) L b m' =
      ECall (Ok (hook (function_Client_client f))) (Ok (replicate (unat n) (ELiteral 0)))"
    using init(3) fn
    by (simp add: expression_value_data expression_read_data [OF capnp_reader_axioms, of "Suc k"] f3(2) f2(2))
  show "struct_steps L V ?b m m'"
    by (rule struct_steps_trans [OF expression_slot1.write_steps [OF f2(1) w3(1)]
          struct_steps_trans [OF expression_slot0.write_steps [OF ok1 w2] init(5)]])
qed

lemma expression_step:
  assumes ok: "expression_ok L V b m" and x: "expression_allowed V x"
  shows "expression_ok L V b (expression_run L b x m) \<and>
    expression_value (Suc (Suc k)) L b (expression_run L b x m) =
      expression_spec L x (expression_value (Suc (Suc k)) L b m) \<and>
    struct_steps L V (expression_Builder_builder b) m (expression_run L b x m)"
proof (cases x)
  case (ExCall f n)
  obtain c m1 where i: "expression_Builder_init_call L b m = (c, m1)" by fastforce
  show ?thesis
    using expression_call(1,5,6) [where n = n and f = f, OF ok _ i prod.collapse [symmetric]] ExCall x i by simp
qed (simp_all add: expression_set_literal [OF ok] expression_set_parameter [OF ok]
    expression_set_previous [OF ok])

end

interpretation expression_ops: op_refinement expression_ok "expression_value (Suc (Suc k))"
  expression_allowed expression_run expression_spec expression_Builder_builder for k
proof (unfold_locales, goal_cases)
  case (1 L V b m x)
  then show ?case using capnp_builder.expression_step [OF 1] by simp
next
  case (2 L V b m x)
  then show ?case using capnp_builder.expression_step [OF 2] by simp
next
  case (3 L V b m x)
  then show ?case using capnp_builder.expression_step [OF 3] by simp
qed

section \<open>The parameters of a call\<close>

definition expr_elem :: "('m, 'h, 'e) capnp \<Rightarrow> StructListBuilder \<Rightarrow> nat \<Rightarrow> expression_Builder" where
  "expr_elem L lb i = expression_Builder_new (slb_get L lb (of_nat i))"

text \<open>The expression is a call, and \<open>lb\<close> is its list of parameters.\<close>

definition call_ok ::
  "('m, 'h, 'e) capnp \<Rightarrow> ('m, 'h, 'e) view \<Rightarrow> expression_Builder \<Rightarrow> StructListBuilder \<Rightarrow> 'm \<Rightarrow> bool" where
  "call_ok L V b lb m \<longleftrightarrow>
     expression_ok L V b m \<and> lblen V lb < 2 ^ 29 \<and>
     read_field (rdata V (sb_into_reader L (expression_Builder_builder b) m)) 4 = (3 :: u16) \<and>
     content V m (sb_get_pointer_field L (expression_Builder_builder b) 1) = CStructs lb \<and>
     (\<forall>i < lblen V lb. expression_ok L V (expr_elem L lb i) m)"

definition call_function_hook ::
  "('m, 'h, 'e) capnp \<Rightarrow> expression_Builder \<Rightarrow> 'm \<Rightarrow> ('h, 'e) result" where
  "call_function_hook L b m =
     pr_get_capability L
       (sr_get_pointer_field L (sb_into_reader L (expression_Builder_builder b) m) 0)"

context capnp_builder
begin

lemma expr_elem_raw: "expression_Builder_builder (expr_elem L lb i) = slb_get L lb (of_nat i)"
  by (simp add: expr_elem_def expression_Builder_new_def)

lemma call_slot:
  assumes "call_ok L V b lb m"
  shows "plive V m (sb_get_pointer_field L (expression_Builder_builder b) 1)"
    and "\<not> pinside V m (sb_get_pointer_field L (expression_Builder_builder b) 1)
      (sb_get_pointer_field L (expression_Builder_builder b) 1)"
    and "content V m (sb_get_pointer_field L (expression_Builder_builder b) 1) = CStructs lb"
    and "i < lblen V lb \<Longrightarrow> inside V m (sb_get_pointer_field L (expression_Builder_builder b) 1)
      (expression_Builder_builder (expr_elem L lb i))"
proof -
  let ?s = "sb_get_pointer_field L (expression_Builder_builder b) 1"
  show p: "plive V m ?s" and c: "content V m ?s = CStructs lb" and "\<not> pinside V m ?s ?s"
    using assms expression_slot1.slot_is_live [OF capnp_builder_axioms] slot_irrefl
      expression_slot1.slot_bound
    by (auto simp: call_ok_def expression_ok_def)
  show "i < lblen V lb \<Longrightarrow> inside V m ?s (expression_Builder_builder (expr_elem L lb i))"
    using content_list_inside [OF p c] by (simp add: expr_elem_raw)
qed

lemma call_value:
  assumes "call_ok L V b lb m"
  shows "expression_value (Suc n) L b m = ECall (call_function_hook L b m)
    (Ok (map (\<lambda>i. expression_value n L (expr_elem L lb i) m) [0..<lblen V lb]))"
proof -
  have "map_result (list_map L (\<lambda>sr. expression_read L n (expression_Reader sr))) id
      (pr_get_struct_list L
        (sr_get_pointer_field L (sb_into_reader L (expression_Builder_builder b) m) 1)) =
    Ok (map (\<lambda>i. expression_read L n (expression_Reader
      (sb_into_reader L (slb_get L lb (of_nat i)) m))) [0..<lblen V lb])"
    by (rule struct_list_built [OF _ expression_slot1.slot_bound call_slot(3) [OF assms] _
          expression_read_tree [OF capnp_reader_axioms]])
      (use assms in \<open>simp_all add: call_ok_def expression_ok_def\<close>)
  then show ?thesis
    using assms by (simp add: expression_value_data expression_read_data [OF capnp_reader_axioms]
        call_ok_def call_function_hook_def expr_elem_raw)
qed

lemma expression_call_ok:
  assumes ok: "expression_ok L V b m" and n: "unat n < 2 ^ 29"
    and i: "expression_Builder_init_call L b m = (c, m1)"
    and p: "expression_call_Builder_init_params L c n (expression_call_Builder_set_function L c f m1) = (lb, m')"
  shows "call_ok L V b lb m'" and "call_function_hook L b m' = Ok (hook (function_Client_client f))"
proof -
  note c = expression_call [OF ok n i p]
  have elems: "expression_ok L V (expr_elem L lb j) m'" if "j < lblen V lb" for j
    using expression_fresh(1) c(3,4) that by (simp add: expr_elem_raw)
  have "expression_value (Suc (Suc 0)) L b m' =
      ECall (Ok (hook (function_Client_client f))) (Ok (replicate (unat n) (ELiteral 0)))"
    by (rule c(5))
  then have "read_field (rdata V (sb_into_reader L (expression_Builder_builder b) m')) 4 = (3 :: u16)"
    and h: "call_function_hook L b m' = Ok (hook (function_Client_client f))"
    by (simp_all add: expression_value_data expression_read_data [OF capnp_reader_axioms, of "Suc 0"]
        call_function_hook_def split: if_splits)
  then show "call_ok L V b lb m'"
    using c n elems by (simp add: call_ok_def)
  show "call_function_hook L b m' = Ok (hook (function_Client_client f))" by (rule h)
qed

text \<open>Steps of the builder of one parameter.\<close>

lemma call_elem_steps:
  assumes ok: "call_ok L V b lb m" and i: "i < lblen V lb"
    and st: "struct_steps L V (expression_Builder_builder (expr_elem L lb i)) m m'"
    and e: "expression_ok L V (expr_elem L lb i) m'"
  shows "call_ok L V b lb m'"
    and "call_function_hook L b m' = call_function_hook L b m"
    and "j < lblen V lb \<Longrightarrow> j \<noteq> i \<Longrightarrow>
      expression_value n L (expr_elem L lb j) m' = expression_value n L (expr_elem L lb j) m"
    and "struct_steps L V (expression_Builder_builder b) m m'"
proof -
  let ?b = "expression_Builder_builder b"
  note slot = call_slot [OF ok]
  note b = ok [unfolded call_ok_def expression_ok_def]
  have w: "below V m m' (sb_get_pointer_field L ?b 1)"
    using struct_steps_below [OF st slot(1,2) slot(4) [OF i]] by simp
  then have wi: "within V m m' (sb_get_pointer_field L ?b 1)" by (simp add: below_def)
  have same: "same_but_slot L V expression_STRUCT_SIZE ?b 1 m m'"
    using within_parent [OF _ expression_slot1.slot_bound wi] b by simp
  have other: "struct_obj V (sb_into_reader L (slb_get L lb (of_nat j)) m') =
        struct_obj V (sb_into_reader L (slb_get L lb (of_nat j)) m) \<and>
      expression_ok L V (expr_elem L lb j) m'" if "j < lblen V lb" "j \<noteq> i" for j
    using struct_steps_element [OF st [unfolded expr_elem_raw] slot(1,2,3) i that(1),
        of expression_STRUCT_SIZE] that ok
    by (simp add: call_ok_def expression_ok_def expr_elem_raw)
  have "expression_ok L V (expr_elem L lb j) m'" if "j < lblen V lb" for j
    using e other that by (cases "j = i") auto
  then show "call_ok L V b lb m'"
    using same b w by (simp add: call_ok_def expression_ok_def same_but_slot_def below_def)
  show "call_function_hook L b m' = call_function_hook L b m"
    unfolding call_function_hook_def
    using same by (intro get_cap_cong) (simp add: same_but_slot_def expression_STRUCT_SIZE_def)
  show "expression_value n L (expr_elem L lb j) m' = expression_value n L (expr_elem L lb j) m"
    if "j < lblen V lb" "j \<noteq> i"
    unfolding expression_value_data expr_elem_raw
    by (rule expression_read_tree [OF capnp_reader_axioms]) (use other [OF that] in simp)
  show "struct_steps L V ?b m m'"
    using steps_slot [OF steps_refl _ _ wi] b expression_slot1.slot_bound
    by (simp add: struct_ok_def)
qed

end

section \<open>Building a whole expression\<close>

text \<open>
  An expression to send, and the calls of the generated builders that write it: every parameter of
  a call is written through the builder of its element in the list that \<open>init_params\<close> returns.
\<close>

datatype 'h ex =
    XLiteral f64
  | XPrevious "'h value_Client"
  | XParameter u32
  | XCall "'h function_Client" "'h ex list"

fun build :: "('m, 'h, 'e) capnp \<Rightarrow> 'h ex \<Rightarrow> expression_Builder \<Rightarrow> 'm \<Rightarrow> 'm"
  and build_args :: "('m, 'h, 'e) capnp \<Rightarrow> StructListBuilder \<Rightarrow> nat \<Rightarrow> 'h ex list \<Rightarrow> 'm \<Rightarrow> 'm" where
  "build L (XLiteral v) b m = expression_Builder_set_literal L b v m"
| "build L (XPrevious c) b m = expression_Builder_set_previous_result L b c m"
| "build L (XParameter i) b m = expression_Builder_set_parameter L b i m"
| "build L (XCall f es) b m =
     (case expression_Builder_init_call L b m of (c, m1) \<Rightarrow>
      (case expression_call_Builder_init_params L c (of_nat (length es))
              (expression_call_Builder_set_function L c f m1) of
         (lb, m2) \<Rightarrow> build_args L lb 0 es m2))"
| "build_args L lb i [] m = m"
| "build_args L lb i (e # es) m = build_args L lb (Suc i) es (build L e (expr_elem L lb i) m)"

fun ex_val :: "'h ex \<Rightarrow> ('h, 'e) expr_val" where
  "ex_val (XLiteral v) = ELiteral v"
| "ex_val (XPrevious c) = EPrevious (Ok (hook (value_Client_client c)))"
| "ex_val (XParameter i) = EParameter i"
| "ex_val (XCall f es) = ECall (Ok (hook (function_Client_client f))) (Ok (map ex_val es))"

text \<open>The levels of calls in an expression, and that its lists fit the size of a list pointer.\<close>

fun ex_depth :: "'h ex \<Rightarrow> nat" and args_depth :: "'h ex list \<Rightarrow> nat" where
  "ex_depth (XCall f es) = Suc (args_depth es)"
| "ex_depth _ = 1"
| "args_depth [] = 0"
| "args_depth (e # es) = max (ex_depth e) (args_depth es)"

fun ex_small :: "'h ex \<Rightarrow> bool" where
  "ex_small (XCall f es) = (length es < 2 ^ 29 \<and> list_all ex_small es)"
| "ex_small _ = True"

text \<open>\<open>m'\<close> is \<open>m\<close> with the expression \<open>e\<close> written to the struct of \<open>b\<close>, and nothing else changed.\<close>

definition built ::
  "('m, 'h, 'e) capnp \<Rightarrow> ('m, 'h, 'e) view \<Rightarrow> 'h ex \<Rightarrow> expression_Builder \<Rightarrow> 'm \<Rightarrow> 'm \<Rightarrow> bool" where
  "built L V e b m m' \<longleftrightarrow>
     expression_ok L V b m' \<and> struct_steps L V (expression_Builder_builder b) m m' \<and>
     (\<forall>n. ex_depth e \<le> n \<longrightarrow> expression_value n L b m' = ex_val e)"

text \<open>The parameters from \<open>i\<close> on are written, the ones before are kept.\<close>

definition args_built ::
  "('m, 'h, 'e) capnp \<Rightarrow> ('m, 'h, 'e) view \<Rightarrow> expression_Builder \<Rightarrow> StructListBuilder \<Rightarrow> nat \<Rightarrow>
     'h ex list \<Rightarrow> 'm \<Rightarrow> 'm \<Rightarrow> bool" where
  "args_built L V p lb i es m m' \<longleftrightarrow>
     call_ok L V p lb m' \<and> call_function_hook L p m' = call_function_hook L p m \<and>
     struct_steps L V (expression_Builder_builder p) m m' \<and>
     (\<forall>n j. args_depth es \<le> n \<longrightarrow> j < lblen V lb \<longrightarrow>
        expression_value n L (expr_elem L lb j) m' =
          (if j < i then expression_value n L (expr_elem L lb j) m else ex_val (es ! (j - i))))"

context capnp_builder
begin

lemma build_args_correct:
  assumes "\<And>e b m. e \<in> set es \<Longrightarrow> expression_ok L V b m \<Longrightarrow> built L V e b m (build L e b m)"
    and "call_ok L V p lb m" and "i + length es = lblen V lb"
  shows "args_built L V p lb i es m (build_args L lb i es m)"
  using assms
proof (induction es arbitrary: i m)
  case Nil
  then show ?case by (simp add: args_built_def steps_refl)
next
  case (Cons e es)
  let ?e = "expr_elem L lb i" and ?m1 = "build L e (expr_elem L lb i) m"
  have i: "i < lblen V lb" using Cons.prems(3) by simp
  have "expression_ok L V ?e m" using Cons.prems(2) i by (simp add: call_ok_def)
  then have b: "built L V e ?e m ?m1" using Cons.prems(1) by simp
  note el = call_elem_steps [OF Cons.prems(2) i]
  have ok1: "call_ok L V p lb ?m1" "call_function_hook L p ?m1 = call_function_hook L p m"
    "struct_steps L V (expression_Builder_builder p) m ?m1"
    using el(1,2,4) b by (simp_all add: built_def)
  have other: "j < lblen V lb \<Longrightarrow> j \<noteq> i \<Longrightarrow>
      expression_value n L (expr_elem L lb j) ?m1 = expression_value n L (expr_elem L lb j) m" for j n
    using el(3) b by (simp add: built_def)
  have ih: "args_built L V p lb (Suc i) es ?m1 (build_args L lb (Suc i) es ?m1)"
    using Cons.IH Cons.prems(1,3) ok1(1) by simp
  have "expression_value n L (expr_elem L lb j) (build_args L lb (Suc i) es ?m1) =
      (if j < i then expression_value n L (expr_elem L lb j) m else ex_val ((e # es) ! (j - i)))"
    if "args_depth (e # es) \<le> n" "j < lblen V lb" for n j
    using that ih other [of j n] b by (cases "j = i") (auto simp: args_built_def built_def nth_Cons')
  then show ?case
    using ih ok1 struct_steps_trans [OF _ ok1(3)] by (simp add: args_built_def)
qed

lemma build_correct: "expression_ok L V b m \<Longrightarrow> ex_small e \<Longrightarrow> built L V e b m (build L e b m)"
proof (induction e arbitrary: b m)
  case (XLiteral v)
  note s = expression_set_literal [OF XLiteral(1)]
  have "expression_value n L b (build L (XLiteral v) b m) = ELiteral v" if "1 \<le> n" for n
    using that s(2) by (cases n) simp_all
  then show ?case using s by (simp add: built_def)
next
  case (XPrevious c)
  note s = expression_set_previous [OF XPrevious(1)]
  have "expression_value n L b (build L (XPrevious c) b m) = ex_val (XPrevious c)" if "1 \<le> n" for n
    using that s(2) by (cases n) simp_all
  then show ?case using s by (simp add: built_def)
next
  case (XParameter i)
  note s = expression_set_parameter [OF XParameter(1)]
  have "expression_value n L b (build L (XParameter i) b m) = EParameter i" if "1 \<le> n" for n
    using that s(2) by (cases n) simp_all
  then show ?case using s by (simp add: built_def)
next
  case (XCall f es)
  obtain c m1 where i: "expression_Builder_init_call L b m = (c, m1)" by fastforce
  obtain lb m2 where p: "expression_call_Builder_init_params L c (of_nat (length es))
      (expression_call_Builder_set_function L c f m1) = (lb, m2)" by fastforce
  have small: "length es < 2 ^ 29" "e \<in> set es \<Longrightarrow> ex_small e" for e
    using XCall.prems(2) by (auto simp: list_all_iff)
  then have len: "unat (of_nat (length es) :: u32) = length es"
    by (intro unat_of_nat_small) simp
  then have n: "unat (of_nat (length es) :: u32) < 2 ^ 29" using small by simp
  note c = expression_call [OF XCall.prems(1) n i p] and ok = expression_call_ok [OF XCall.prems(1) n i p]
  have args: "args_built L V b lb 0 es m2 (build_args L lb 0 es m2)"
    using XCall.IH small ok(1) c(3) len by (intro build_args_correct) auto
  have "expression_value n L b (build_args L lb 0 es m2) = ex_val (XCall f es)"
    if d: "ex_depth (XCall f es) \<le> n" for n
  proof -
    obtain k where k: "n = Suc k" using d by (cases n) simp_all
    have "map (\<lambda>j. expression_value k L (expr_elem L lb j) (build_args L lb 0 es m2)) [0..<lblen V lb] =
        map ex_val es"
      using args d k c(3) len by (intro nth_equalityI) (simp_all add: args_built_def)
    moreover have "call_ok L V b lb (build_args L lb 0 es m2)"
      using args by (simp add: args_built_def)
    note call_value [OF this, of k]
    ultimately show ?thesis
      using args ok(2) k by (simp add: args_built_def)
  qed
  then show ?case
    using args struct_steps_trans [OF _ c(6)] by (simp add: built_def i p args_built_def call_ok_def)
qed

end

section \<open>Properties\<close>

text \<open>
  C2. Any expression, with calls nested to any depth, written with \<open>set_literal\<close>, \<open>set_parameter\<close>,
  \<open>set_previous_result\<close>, \<open>init_call\<close>, \<open>set_function\<close> and \<open>init_params\<close> on the builders of the tree's nodes,
  is read back with \<open>which\<close>, \<open>get_function\<close> and \<open>get_params\<close> as the same expression.
\<close>

theorem expression_build_roundtrip:
  assumes "capnp_builder L V" and "expression_ok L V b m" and "ex_small e" and "ex_depth e \<le> n"
  shows "expression_value n L b (build L e b m) = ex_val e"
  using capnp_builder.build_correct [OF assms(1-3)] assms(4) by (simp add: built_def)

theorem expression_build_roundtrip_witness:
  "expression_value 3 tree_capnp (expression_Builder (StructBuilder []))
     (build tree_capnp (XCall (function_Client_new 7)
         [XLiteral 5, XCall (function_Client_new 8) [XParameter 1, XPrevious (value_Client_new 9)]])
       (expression_Builder (StructBuilder [])) (zero_struct expression_STRUCT_SIZE)) =
   ECall (Ok 7) (Ok [ELiteral 5, ECall (Ok 8) (Ok [EParameter 1, EPrevious (Ok 9)])])"
proof -
  have "expression_ok tree_capnp tree_view (expression_Builder (StructBuilder []))
      (zero_struct expression_STRUCT_SIZE)"
    using tree_builder.expression_fresh(1) [of "zero_struct expression_STRUCT_SIZE"
      "expression_Builder (StructBuilder [])"] by (simp add: tree_root_fresh)
  from expression_build_roundtrip [OF tree_builder.capnp_builder_axioms this,
      of "XCall (function_Client_new 7)
         [XLiteral 5, XCall (function_Client_new 8) [XParameter 1, XPrevious (value_Client_new 9)]]" 3]
  show ?thesis by (simp add: function_Client_new_def value_Client_new_def)
qed

text \<open>
  C11. Any sequence of setter calls on one \<open>expression::Builder\<close> leaves the union in the member chosen
  last: a literal never shows bits of an earlier parameter, and a call starts with parameters that
  are all the literal 0, whatever the struct held before.
\<close>

theorem expression_ops_refine:
  assumes "capnp_builder L V" and "expression_ok L V b m" and "list_all (expression_allowed V) xs"
  shows "expression_ok L V b (fold (expression_run L b) xs m) \<and>
    expression_value (Suc (Suc k)) L b (fold (expression_run L b) xs m) =
      fold (expression_spec L) xs (expression_value (Suc (Suc k)) L b m)"
  by (rule expression_ops.runs_refine [OF assms])

theorem expression_ops_refine_witness:
  "expression_value (Suc (Suc 0)) tree_capnp (expression_Builder (StructBuilder []))
     (fold (expression_run tree_capnp (expression_Builder (StructBuilder [])))
       [ExLiteral 77, ExParameter 4, ExCall (function_Client_new 3) 1]
       (zero_struct expression_STRUCT_SIZE)) =
   ECall (Ok 3) (Ok [ELiteral 0])"
  using expression_ops_refine [OF tree_builder.capnp_builder_axioms,
      of "expression_Builder (StructBuilder [])" "zero_struct expression_STRUCT_SIZE"
        "[ExLiteral 77, ExParameter 4, ExCall (function_Client_new 3) 1]" 0]
    tree_builder.expression_fresh(1) [of "zero_struct expression_STRUCT_SIZE"
      "expression_Builder (StructBuilder [])"]
  by (simp add: tree_root_fresh function_Client_new_def)

text \<open>
  C34. \<open>which()\<close> of the builder of an expression and \<open>which()\<close> of a reader made from it agree, whatever the
  struct holds: they name the same member with the same number, the same parameter index, the same
  capability (or both report an error), and the same struct for the group \<open>call\<close>; a discriminant of 4 or
  more, and no other, is reported by both as \<open>NotInSchema\<close>.
\<close>

theorem expression_which_agrees:
  assumes L: "capnp_builder L V" and ok: "expression_ok L V b m"
  shows "case (expression_Builder_which L b m, expression_Reader_which L (expression_Builder_into_reader L b m)) of
     (Ok (Literal v), Ok (Literal v')) \<Rightarrow> v = v'
   | (Ok (PreviousResult c), Ok (PreviousResult c')) \<Rightarrow> map_result id (\<lambda>_. ()) c = map_result id (\<lambda>_. ()) c'
   | (Ok (Parameter i), Ok (Parameter i')) \<Rightarrow> i = i'
   | (Ok (Call c), Ok (Call c')) \<Rightarrow> expression_call_Builder_into_reader L c m = c'
   | (Err (NotInSchema x), Err (NotInSchema x')) \<Rightarrow> x = x' \<and> 4 \<le> unat x
   | _ \<Rightarrow> False"
proof -
  let ?r = "expression_Builder_into_reader L b m"
  note b = ok [unfolded expression_ok_def]
  have r: "expression_Reader_reader ?r = sb_into_reader L (expression_Builder_builder b) m"
    by (simp add: expression_defs)
  note get = expression_disc.get_agrees [OF L b r] expression_literal.get_agrees [OF L b r]
    expression_parameter.get_agrees [OF L b r]
  note cap = expression_slot0.cap_agrees [OF L b]
  have "4 \<le> unat x" if "x \<noteq> 0" "x \<noteq> 1" "x \<noteq> 2" "x \<noteq> 3" for x :: u16
    using that by (auto simp: word_unat_eq_iff)
  then show ?thesis
    using cap
    by (auto simp: expression_Builder_which_def expression_Reader_which_def Let_def get r value_case
        expression_call_defs)
qed

theorem expression_which_agrees_witness:
  "expression_Builder_which tree_capnp (expression_Builder (StructBuilder []))
     (expression_Builder_set_parameter tree_capnp (expression_Builder (StructBuilder [])) 6
       (zero_struct expression_STRUCT_SIZE)) = Ok (Parameter 6)"
proof -
  let ?b = "expression_Builder (StructBuilder [])"
  let ?m = "expression_Builder_set_parameter tree_capnp ?b 6 (zero_struct expression_STRUCT_SIZE)"
  have "expression_ok tree_capnp tree_view ?b (zero_struct expression_STRUCT_SIZE)"
    using tree_builder.expression_fresh(1) [of "zero_struct expression_STRUCT_SIZE" ?b]
    by (simp add: tree_root_fresh)
  then have "expression_ok tree_capnp tree_view ?b ?m" by (rule tree_builder.expression_set_parameter(1))
  note a = expression_which_agrees [OF tree_builder.capnp_builder_axioms this]
  have "expression_Reader_which tree_capnp (expression_Builder_into_reader tree_capnp ?b ?m) = Ok (Parameter 6)"
    by code_simp
  then show ?thesis
    using a by (auto split: result.splits expression_Which.splits NotInSchema.splits)
qed

text \<open>
  C24. \<open>init_call\<close> returns a builder of the group in the same struct and clears both of its pointers:
  whatever the expression was before, the call has no function (reading it is an error), no
  parameters, and \<open>has_params()\<close> is false.
\<close>

theorem expression_init_call_clears:
  assumes L: "capnp_builder L V" and ok: "expression_ok L V b m"
    and i: "expression_Builder_init_call L b m = (c, m')"
  shows "expression_call_Builder_builder c = expression_Builder_builder b \<and>
    \<not> expression_call_Reader_has_params L (expression_call_Builder_into_reader L c m') \<and>
    \<not> is_ok (expression_call_Reader_get_function L (expression_call_Builder_into_reader L c m')) \<and>
    (\<exists>f. expression_value (Suc n) L b m' = ECall f (Ok []) \<and> \<not> is_ok f)"
proof -
  note R = capnp_builder.axioms(1) [OF L]
  note init = capnp_builder.expression_init_call [OF L ok i]
  let ?sr = "sb_into_reader L (expression_Builder_builder b) m'"
  have null: "robj V (sr_get_pointer_field L ?sr 0) = ONull" "robj V (sr_get_pointer_field L ?sr 1) = ONull"
    using init(4) [of 0] init(4) [of 1] by simp_all
  have f: "\<not> is_ok (pr_get_capability L (sr_get_pointer_field L ?sr 0))"
    using capnp_reader.get_cap_kind [OF R] null(1) by fastforce
  then have "\<not> is_ok (expression_call_Reader_get_function L (expression_call_Builder_into_reader L c m'))"
    using call_function.get_other [OF R, of "expression_call_Builder_into_reader L c m'"] null(1) init(1)
    by (simp add: expression_call_defs)
  moreover have "\<not> expression_call_Reader_has_params L (expression_call_Builder_into_reader L c m')"
    using null(2) init(1) by (simp add: expression_call_defs capnp_reader.is_null [OF R])
  ultimately show ?thesis
    using init(1,3) f capnp_reader.struct_list_null [OF R null(2)]
    by (simp add: capnp_builder.expression_value_data [OF L] expression_read_data [OF R])
qed

theorem expression_init_call_clears_witness:
  "\<exists>f. expression_value 1 tree_capnp (expression_Builder (StructBuilder []))
     (snd (expression_Builder_init_call tree_capnp (expression_Builder (StructBuilder []))
       (expression_Builder_set_previous_result tree_capnp (expression_Builder (StructBuilder []))
         (value_Client_new 4) (zero_struct expression_STRUCT_SIZE)))) = ECall f (Ok []) \<and> \<not> is_ok f"
proof -
  let ?b = "expression_Builder (StructBuilder [])" and ?m = "zero_struct expression_STRUCT_SIZE"
  have "expression_ok tree_capnp tree_view ?b ?m"
    using tree_builder.expression_fresh(1) [of ?m ?b] by (simp add: tree_root_fresh)
  then have ok: "expression_ok tree_capnp tree_view ?b
      (expression_Builder_set_previous_result tree_capnp ?b (value_Client_new 4) ?m)"
    using tree_builder.expression_set_previous(1) by blast
  show ?thesis
    using expression_init_call_clears [OF tree_builder.capnp_builder_axioms ok prod.collapse [symmetric], of 0]
    by simp
qed

end
