(* ===== verification/Calc_Methods.thy ===== *)
theory Calc_Methods
  imports Calc_Expression
begin

text \<open>
  The enum \<open>Operator\<close> and the structs of the parameters and results of the three methods of the
  calculator (\<open>evaluate\<close>, \<open>def_function\<close>, \<open>get_operator\<close>) of \<open>rust/src/schema/calculator_capnp.rs\<close>.
\<close>

named_theorems Operator_defs
named_theorems evaluate_params_defs
named_theorems evaluate_results_defs
named_theorems def_function_params_defs
named_theorems def_function_results_defs
named_theorems get_operator_params_defs
named_theorems get_operator_results_defs

section \<open>The enum \<open>Operator\<close>\<close>

datatype Operator = Add | Subtract | Multiply | Divide

fun Operator_as_u16 :: "Operator \<Rightarrow> u16" where
  "Operator_as_u16 Add = 0"
| "Operator_as_u16 Subtract = 1"
| "Operator_as_u16 Multiply = 2"
| "Operator_as_u16 Divide = 3"

definition Operator_from_u16 :: "u16 \<Rightarrow> (Operator, NotInSchema) result" where [Operator_defs]:
  "Operator_from_u16 value =
     (if value = 0 then Ok Add
      else if value = 1 then Ok Subtract
      else if value = 2 then Ok Multiply
      else if value = 3 then Ok Divide
      else Err (NotInSchema value))"

definition Operator_to_u16 :: "Operator \<Rightarrow> u16" where [Operator_defs]:
  "Operator_to_u16 self = Operator_as_u16 self"

definition Operator_type_id :: u64 where [Operator_defs]:
  "Operator_type_id = 0x8793407861e6dfe6"

section \<open>The module \<open>evaluate_params\<close>\<close>

definition evaluate_params_STRUCT_SIZE :: "StructSize" where [evaluate_params_defs]:
  "evaluate_params_STRUCT_SIZE = \<lparr>ss_data = 0, ss_pointers = 1\<rparr>"

definition evaluate_params_TYPE_ID :: "u64" where [evaluate_params_defs]:
  "evaluate_params_TYPE_ID = 0xbb0eaae1557a36d4"

datatype 'm evaluate_params_Reader = evaluate_params_Reader (evaluate_params_Reader_reader: "'m StructReader")

definition evaluate_params_Reader_type_id :: "u64" where [evaluate_params_defs]:
  "evaluate_params_Reader_type_id = evaluate_params_TYPE_ID"

definition evaluate_params_Reader_new ::
  "'m StructReader \<Rightarrow> 'm evaluate_params_Reader" where [evaluate_params_defs]:
  "evaluate_params_Reader_new reader = evaluate_params_Reader reader"

definition evaluate_params_Reader_get_from_pointer ::
  "('m, 'h, 'e) capnp \<Rightarrow> 'm PointerReader \<Rightarrow>
     ('m evaluate_params_Reader, 'e) result" where [evaluate_params_defs]:
  "evaluate_params_Reader_get_from_pointer L reader =
     result_bind (pr_get_struct L reader) (\<lambda>s. Ok (evaluate_params_Reader_new s))"

definition evaluate_params_Reader_into_internal_struct_reader ::
  "'m evaluate_params_Reader \<Rightarrow> 'm StructReader" where [evaluate_params_defs]:
  "evaluate_params_Reader_into_internal_struct_reader self = evaluate_params_Reader_reader self"

definition evaluate_params_Reader_imbue ::
  "('m, 'h, 'e) capnp \<Rightarrow> 'm evaluate_params_Reader \<Rightarrow>
     'h CapTable \<Rightarrow> 'm evaluate_params_Reader" where [evaluate_params_defs]:
  "evaluate_params_Reader_imbue L self cap_table =
     evaluate_params_Reader (sr_imbue L (evaluate_params_Reader_reader self) cap_table)"

definition evaluate_params_Reader_reborrow ::
  "'m evaluate_params_Reader \<Rightarrow>
     'm evaluate_params_Reader" where [evaluate_params_defs]:
  "evaluate_params_Reader_reborrow self =
     evaluate_params_Reader (evaluate_params_Reader_reader self)"

definition evaluate_params_Reader_total_size ::
  "('m, 'h, 'e) capnp \<Rightarrow> 'm evaluate_params_Reader \<Rightarrow>
     (MessageSize, 'e) result" where [evaluate_params_defs]:
  "evaluate_params_Reader_total_size L self =
     sr_total_size L (evaluate_params_Reader_reader self)"

definition evaluate_params_Reader_get_expression ::
  "('m, 'h, 'e) capnp \<Rightarrow> 'm evaluate_params_Reader \<Rightarrow>
     ('m expression_Reader, 'e) result" where [evaluate_params_defs]:
  "evaluate_params_Reader_get_expression L self =
     expression_Reader_get_from_pointer L (sr_get_pointer_field L (evaluate_params_Reader_reader self) 0)"

definition evaluate_params_Reader_has_expression ::
  "('m, 'h, 'e) capnp \<Rightarrow> 'm evaluate_params_Reader \<Rightarrow>
     bool" where [evaluate_params_defs]:
  "evaluate_params_Reader_has_expression L self \<longleftrightarrow>
     \<not> pr_is_null L (sr_get_pointer_field L (evaluate_params_Reader_reader self) 0)"

datatype evaluate_params_Builder = evaluate_params_Builder (evaluate_params_Builder_builder: "StructBuilder")

definition evaluate_params_Builder_struct_size :: "StructSize" where [evaluate_params_defs]:
  "evaluate_params_Builder_struct_size = evaluate_params_STRUCT_SIZE"

definition evaluate_params_Builder_type_id :: "u64" where [evaluate_params_defs]:
  "evaluate_params_Builder_type_id = evaluate_params_TYPE_ID"

definition evaluate_params_Builder_new ::
  "StructBuilder \<Rightarrow> evaluate_params_Builder" where [evaluate_params_defs]:
  "evaluate_params_Builder_new builder = evaluate_params_Builder builder"

definition evaluate_params_Builder_imbue_mut ::
  "('m, 'h, 'e) capnp \<Rightarrow> evaluate_params_Builder \<Rightarrow>
     'h CapTable \<Rightarrow> evaluate_params_Builder" where [evaluate_params_defs]:
  "evaluate_params_Builder_imbue_mut L self cap_table =
     evaluate_params_Builder (sb_imbue L (evaluate_params_Builder_builder self) cap_table)"

definition evaluate_params_Builder_init_pointer ::
  "('m, 'h, 'e) capnp \<Rightarrow> PointerBuilder \<Rightarrow> u32 \<Rightarrow>
     'm \<Rightarrow> evaluate_params_Builder \<times> 'm" where [evaluate_params_defs]:
  "evaluate_params_Builder_init_pointer L builder sz m =
     (case pb_init_struct L builder evaluate_params_STRUCT_SIZE m of (s, m') \<Rightarrow> (evaluate_params_Builder_new s, m'))"

definition evaluate_params_Builder_get_from_pointer ::
  "('m, 'h, 'e) capnp \<Rightarrow> PointerBuilder \<Rightarrow> 'm \<Rightarrow>
     (evaluate_params_Builder, 'e) result \<times> 'm" where [evaluate_params_defs]:
  "evaluate_params_Builder_get_from_pointer L builder m =
     (case pb_get_struct L builder evaluate_params_STRUCT_SIZE m of
        (r, m') \<Rightarrow> (result_bind r (\<lambda>s. Ok (evaluate_params_Builder_new s)), m'))"

definition evaluate_params_Reader_set_pointer_builder ::
  "('m, 'h, 'e) capnp \<Rightarrow> PointerBuilder \<Rightarrow>
     'm evaluate_params_Reader \<Rightarrow> bool \<Rightarrow> 'm \<Rightarrow> (unit, 'e) result \<times> 'm" where [evaluate_params_defs]:
  "evaluate_params_Reader_set_pointer_builder L pointer value canonicalize m =
     pb_set_struct L pointer (evaluate_params_Reader_reader value) canonicalize m"

definition evaluate_params_Builder_into_reader ::
  "('m, 'h, 'e) capnp \<Rightarrow> evaluate_params_Builder \<Rightarrow> 'm \<Rightarrow>
     'm evaluate_params_Reader" where [evaluate_params_defs]:
  "evaluate_params_Builder_into_reader L self m =
     evaluate_params_Reader_new (sb_into_reader L (evaluate_params_Builder_builder self) m)"

definition evaluate_params_Builder_as_reader ::
  "('m, 'h, 'e) capnp \<Rightarrow> evaluate_params_Builder \<Rightarrow> 'm \<Rightarrow>
     'm evaluate_params_Reader" where [evaluate_params_defs]:
  "evaluate_params_Builder_as_reader L self m = evaluate_params_Builder_into_reader L self m"

definition evaluate_params_Builder_reborrow ::
  "evaluate_params_Builder \<Rightarrow> evaluate_params_Builder" where [evaluate_params_defs]:
  "evaluate_params_Builder_reborrow self =
     evaluate_params_Builder (evaluate_params_Builder_builder self)"

definition evaluate_params_Builder_reborrow_as_reader ::
  "('m, 'h, 'e) capnp \<Rightarrow> evaluate_params_Builder \<Rightarrow> 'm \<Rightarrow>
     'm evaluate_params_Reader" where [evaluate_params_defs]:
  "evaluate_params_Builder_reborrow_as_reader L self m =
     evaluate_params_Reader_new (sb_into_reader L (evaluate_params_Builder_builder self) m)"

definition evaluate_params_Builder_total_size ::
  "('m, 'h, 'e) capnp \<Rightarrow> evaluate_params_Builder \<Rightarrow> 'm \<Rightarrow>
     (MessageSize, 'e) result" where [evaluate_params_defs]:
  "evaluate_params_Builder_total_size L self m =
     sr_total_size L (sb_into_reader L (evaluate_params_Builder_builder self) m)"

definition evaluate_params_Builder_get_expression ::
  "('m, 'h, 'e) capnp \<Rightarrow> evaluate_params_Builder \<Rightarrow> 'm \<Rightarrow>
     (expression_Builder, 'e) result \<times> 'm" where [evaluate_params_defs]:
  "evaluate_params_Builder_get_expression L self m =
     expression_Builder_get_from_pointer L (sb_get_pointer_field L (evaluate_params_Builder_builder self) 0) m"

definition evaluate_params_Builder_set_expression ::
  "('m, 'h, 'e) capnp \<Rightarrow> evaluate_params_Builder \<Rightarrow>
     'm expression_Reader \<Rightarrow> 'm \<Rightarrow> (unit, 'e) result \<times> 'm" where [evaluate_params_defs]:
  "evaluate_params_Builder_set_expression L self value m =
     expression_Reader_set_pointer_builder L (sb_get_pointer_field L (evaluate_params_Builder_builder self) 0) value False m"

definition evaluate_params_Builder_init_expression ::
  "('m, 'h, 'e) capnp \<Rightarrow> evaluate_params_Builder \<Rightarrow> 'm \<Rightarrow>
     expression_Builder \<times> 'm" where [evaluate_params_defs]:
  "evaluate_params_Builder_init_expression L self m =
     expression_Builder_init_pointer L (sb_get_pointer_field L (evaluate_params_Builder_builder self) 0) 0 m"

definition evaluate_params_Builder_has_expression ::
  "('m, 'h, 'e) capnp \<Rightarrow> evaluate_params_Builder \<Rightarrow> 'm \<Rightarrow>
     bool" where [evaluate_params_defs]:
  "evaluate_params_Builder_has_expression L self m \<longleftrightarrow>
     \<not> pb_is_null L (sb_get_pointer_field L (evaluate_params_Builder_builder self) 0) m"

datatype evaluate_params_Pipeline = evaluate_params_Pipeline (evaluate_params_Pipeline_typeless: "AnyPipeline")

definition evaluate_params_Pipeline_new ::
  "AnyPipeline \<Rightarrow> evaluate_params_Pipeline" where [evaluate_params_defs]:
  "evaluate_params_Pipeline_new typeless = evaluate_params_Pipeline typeless"

definition evaluate_params_Pipeline_get_expression ::
  "('m, 'h, 'e) capnp \<Rightarrow> evaluate_params_Pipeline \<Rightarrow>
     expression_Pipeline" where [evaluate_params_defs]:
  "evaluate_params_Pipeline_get_expression L self =
     expression_Pipeline_new (pl_get_pointer_field L (evaluate_params_Pipeline_typeless self) 0)"

section \<open>The module \<open>evaluate_results\<close>\<close>

definition evaluate_results_STRUCT_SIZE :: "StructSize" where [evaluate_results_defs]:
  "evaluate_results_STRUCT_SIZE = \<lparr>ss_data = 0, ss_pointers = 1\<rparr>"

definition evaluate_results_TYPE_ID :: "u64" where [evaluate_results_defs]:
  "evaluate_results_TYPE_ID = 0x81b1a3f55887a611"

datatype 'm evaluate_results_Reader = evaluate_results_Reader (evaluate_results_Reader_reader: "'m StructReader")

definition evaluate_results_Reader_type_id :: "u64" where [evaluate_results_defs]:
  "evaluate_results_Reader_type_id = evaluate_results_TYPE_ID"

definition evaluate_results_Reader_new ::
  "'m StructReader \<Rightarrow> 'm evaluate_results_Reader" where [evaluate_results_defs]:
  "evaluate_results_Reader_new reader = evaluate_results_Reader reader"

definition evaluate_results_Reader_get_from_pointer ::
  "('m, 'h, 'e) capnp \<Rightarrow> 'm PointerReader \<Rightarrow>
     ('m evaluate_results_Reader, 'e) result" where [evaluate_results_defs]:
  "evaluate_results_Reader_get_from_pointer L reader =
     result_bind (pr_get_struct L reader) (\<lambda>s. Ok (evaluate_results_Reader_new s))"

definition evaluate_results_Reader_into_internal_struct_reader ::
  "'m evaluate_results_Reader \<Rightarrow> 'm StructReader" where [evaluate_results_defs]:
  "evaluate_results_Reader_into_internal_struct_reader self = evaluate_results_Reader_reader self"

definition evaluate_results_Reader_imbue ::
  "('m, 'h, 'e) capnp \<Rightarrow> 'm evaluate_results_Reader \<Rightarrow>
     'h CapTable \<Rightarrow> 'm evaluate_results_Reader" where [evaluate_results_defs]:
  "evaluate_results_Reader_imbue L self cap_table =
     evaluate_results_Reader (sr_imbue L (evaluate_results_Reader_reader self) cap_table)"

definition evaluate_results_Reader_reborrow ::
  "'m evaluate_results_Reader \<Rightarrow>
     'm evaluate_results_Reader" where [evaluate_results_defs]:
  "evaluate_results_Reader_reborrow self =
     evaluate_results_Reader (evaluate_results_Reader_reader self)"

definition evaluate_results_Reader_total_size ::
  "('m, 'h, 'e) capnp \<Rightarrow> 'm evaluate_results_Reader \<Rightarrow>
     (MessageSize, 'e) result" where [evaluate_results_defs]:
  "evaluate_results_Reader_total_size L self =
     sr_total_size L (evaluate_results_Reader_reader self)"

definition evaluate_results_Reader_get_value ::
  "('m, 'h, 'e) capnp \<Rightarrow> 'm evaluate_results_Reader \<Rightarrow>
     ('h value_Client, 'e) result" where [evaluate_results_defs]:
  "evaluate_results_Reader_get_value L self =
     (case pr_get_capability L (sr_get_pointer_field L (evaluate_results_Reader_reader self) 0) of
        Ok c \<Rightarrow> Ok (value_Client_new c) | Err e \<Rightarrow> Err e)"

datatype evaluate_results_Builder = evaluate_results_Builder (evaluate_results_Builder_builder: "StructBuilder")

definition evaluate_results_Builder_struct_size :: "StructSize" where [evaluate_results_defs]:
  "evaluate_results_Builder_struct_size = evaluate_results_STRUCT_SIZE"

definition evaluate_results_Builder_type_id :: "u64" where [evaluate_results_defs]:
  "evaluate_results_Builder_type_id = evaluate_results_TYPE_ID"

definition evaluate_results_Builder_new ::
  "StructBuilder \<Rightarrow> evaluate_results_Builder" where [evaluate_results_defs]:
  "evaluate_results_Builder_new builder = evaluate_results_Builder builder"

definition evaluate_results_Builder_imbue_mut ::
  "('m, 'h, 'e) capnp \<Rightarrow> evaluate_results_Builder \<Rightarrow>
     'h CapTable \<Rightarrow> evaluate_results_Builder" where [evaluate_results_defs]:
  "evaluate_results_Builder_imbue_mut L self cap_table =
     evaluate_results_Builder (sb_imbue L (evaluate_results_Builder_builder self) cap_table)"

definition evaluate_results_Builder_init_pointer ::
  "('m, 'h, 'e) capnp \<Rightarrow> PointerBuilder \<Rightarrow> u32 \<Rightarrow>
     'm \<Rightarrow> evaluate_results_Builder \<times> 'm" where [evaluate_results_defs]:
  "evaluate_results_Builder_init_pointer L builder sz m =
     (case pb_init_struct L builder evaluate_results_STRUCT_SIZE m of (s, m') \<Rightarrow> (evaluate_results_Builder_new s, m'))"

definition evaluate_results_Builder_get_from_pointer ::
  "('m, 'h, 'e) capnp \<Rightarrow> PointerBuilder \<Rightarrow> 'm \<Rightarrow>
     (evaluate_results_Builder, 'e) result \<times> 'm" where [evaluate_results_defs]:
  "evaluate_results_Builder_get_from_pointer L builder m =
     (case pb_get_struct L builder evaluate_results_STRUCT_SIZE m of
        (r, m') \<Rightarrow> (result_bind r (\<lambda>s. Ok (evaluate_results_Builder_new s)), m'))"

definition evaluate_results_Reader_set_pointer_builder ::
  "('m, 'h, 'e) capnp \<Rightarrow> PointerBuilder \<Rightarrow>
     'm evaluate_results_Reader \<Rightarrow> bool \<Rightarrow> 'm \<Rightarrow> (unit, 'e) result \<times> 'm" where [evaluate_results_defs]:
  "evaluate_results_Reader_set_pointer_builder L pointer value canonicalize m =
     pb_set_struct L pointer (evaluate_results_Reader_reader value) canonicalize m"

definition evaluate_results_Builder_into_reader ::
  "('m, 'h, 'e) capnp \<Rightarrow> evaluate_results_Builder \<Rightarrow>
     'm \<Rightarrow> 'm evaluate_results_Reader" where [evaluate_results_defs]:
  "evaluate_results_Builder_into_reader L self m =
     evaluate_results_Reader_new (sb_into_reader L (evaluate_results_Builder_builder self) m)"

definition evaluate_results_Builder_as_reader ::
  "('m, 'h, 'e) capnp \<Rightarrow> evaluate_results_Builder \<Rightarrow>
     'm \<Rightarrow> 'm evaluate_results_Reader" where [evaluate_results_defs]:
  "evaluate_results_Builder_as_reader L self m = evaluate_results_Builder_into_reader L self m"

definition evaluate_results_Builder_reborrow ::
  "evaluate_results_Builder \<Rightarrow> evaluate_results_Builder" where [evaluate_results_defs]:
  "evaluate_results_Builder_reborrow self =
     evaluate_results_Builder (evaluate_results_Builder_builder self)"

definition evaluate_results_Builder_reborrow_as_reader ::
  "('m, 'h, 'e) capnp \<Rightarrow> evaluate_results_Builder \<Rightarrow>
     'm \<Rightarrow> 'm evaluate_results_Reader" where [evaluate_results_defs]:
  "evaluate_results_Builder_reborrow_as_reader L self m =
     evaluate_results_Reader_new (sb_into_reader L (evaluate_results_Builder_builder self) m)"

definition evaluate_results_Builder_total_size ::
  "('m, 'h, 'e) capnp \<Rightarrow> evaluate_results_Builder \<Rightarrow>
     'm \<Rightarrow> (MessageSize, 'e) result" where [evaluate_results_defs]:
  "evaluate_results_Builder_total_size L self m =
     sr_total_size L (sb_into_reader L (evaluate_results_Builder_builder self) m)"

definition evaluate_results_Builder_get_value ::
  "('m, 'h, 'e) capnp \<Rightarrow> evaluate_results_Builder \<Rightarrow>
     'm \<Rightarrow> ('h value_Client, 'e) result" where [evaluate_results_defs]:
  "evaluate_results_Builder_get_value L self m =
     (case pb_get_capability L (sb_get_pointer_field L (evaluate_results_Builder_builder self) 0) m of
        Ok c \<Rightarrow> Ok (value_Client_new c) | Err e \<Rightarrow> Err e)"

definition evaluate_results_Builder_set_value ::
  "('m, 'h, 'e) capnp \<Rightarrow> evaluate_results_Builder \<Rightarrow>
     'h value_Client \<Rightarrow> 'm \<Rightarrow> 'm" where [evaluate_results_defs]:
  "evaluate_results_Builder_set_value L self value m =
     pb_set_capability L (sb_get_pointer_field L (evaluate_results_Builder_builder self) 0) (hook (value_Client_client value)) m"

datatype evaluate_results_Pipeline = evaluate_results_Pipeline (evaluate_results_Pipeline_typeless: "AnyPipeline")

definition evaluate_results_Pipeline_new ::
  "AnyPipeline \<Rightarrow> evaluate_results_Pipeline" where [evaluate_results_defs]:
  "evaluate_results_Pipeline_new typeless = evaluate_results_Pipeline typeless"

definition evaluate_results_Pipeline_get_value ::
  "('m, 'h, 'e) capnp \<Rightarrow> evaluate_results_Pipeline \<Rightarrow>
     'h value_Client" where [evaluate_results_defs]:
  "evaluate_results_Pipeline_get_value L self =
     value_Client_new (pl_as_cap L (pl_get_pointer_field L (evaluate_results_Pipeline_typeless self) 0))"

section \<open>The module \<open>def_function_params\<close>\<close>

definition def_function_params_STRUCT_SIZE :: "StructSize" where [def_function_params_defs]:
  "def_function_params_STRUCT_SIZE = \<lparr>ss_data = 1, ss_pointers = 1\<rparr>"

definition def_function_params_TYPE_ID :: "u64" where [def_function_params_defs]:
  "def_function_params_TYPE_ID = 0xf287bcba4556dc89"

datatype 'm def_function_params_Reader = def_function_params_Reader (def_function_params_Reader_reader: "'m StructReader")

definition def_function_params_Reader_type_id :: "u64" where [def_function_params_defs]:
  "def_function_params_Reader_type_id = def_function_params_TYPE_ID"

definition def_function_params_Reader_new ::
  "'m StructReader \<Rightarrow> 'm def_function_params_Reader" where [def_function_params_defs]:
  "def_function_params_Reader_new reader = def_function_params_Reader reader"

definition def_function_params_Reader_get_from_pointer ::
  "('m, 'h, 'e) capnp \<Rightarrow> 'm PointerReader \<Rightarrow>
     ('m def_function_params_Reader, 'e) result" where [def_function_params_defs]:
  "def_function_params_Reader_get_from_pointer L reader =
     result_bind (pr_get_struct L reader) (\<lambda>s. Ok (def_function_params_Reader_new s))"

definition def_function_params_Reader_into_internal_struct_reader ::
  "'m def_function_params_Reader \<Rightarrow> 'm StructReader" where [def_function_params_defs]:
  "def_function_params_Reader_into_internal_struct_reader self =
     def_function_params_Reader_reader self"

definition def_function_params_Reader_imbue ::
  "('m, 'h, 'e) capnp \<Rightarrow> 'm def_function_params_Reader \<Rightarrow>
     'h CapTable \<Rightarrow> 'm def_function_params_Reader" where [def_function_params_defs]:
  "def_function_params_Reader_imbue L self cap_table =
     def_function_params_Reader (sr_imbue L (def_function_params_Reader_reader self) cap_table)"

definition def_function_params_Reader_reborrow ::
  "'m def_function_params_Reader \<Rightarrow>
     'm def_function_params_Reader" where [def_function_params_defs]:
  "def_function_params_Reader_reborrow self =
     def_function_params_Reader (def_function_params_Reader_reader self)"

definition def_function_params_Reader_total_size ::
  "('m, 'h, 'e) capnp \<Rightarrow> 'm def_function_params_Reader \<Rightarrow>
     (MessageSize, 'e) result" where [def_function_params_defs]:
  "def_function_params_Reader_total_size L self =
     sr_total_size L (def_function_params_Reader_reader self)"

definition def_function_params_Reader_get_param_count ::
  "('m, 'h, 'e) capnp \<Rightarrow> 'm def_function_params_Reader \<Rightarrow>
     i32" where [def_function_params_defs]:
  "def_function_params_Reader_get_param_count L self =
     sr_get_i32 L (def_function_params_Reader_reader self) 0"

definition def_function_params_Reader_get_body ::
  "('m, 'h, 'e) capnp \<Rightarrow> 'm def_function_params_Reader \<Rightarrow>
     ('m expression_Reader, 'e) result" where [def_function_params_defs]:
  "def_function_params_Reader_get_body L self =
     expression_Reader_get_from_pointer L (sr_get_pointer_field L (def_function_params_Reader_reader self) 0)"

definition def_function_params_Reader_has_body ::
  "('m, 'h, 'e) capnp \<Rightarrow> 'm def_function_params_Reader \<Rightarrow>
     bool" where [def_function_params_defs]:
  "def_function_params_Reader_has_body L self \<longleftrightarrow>
     \<not> pr_is_null L (sr_get_pointer_field L (def_function_params_Reader_reader self) 0)"

datatype def_function_params_Builder = def_function_params_Builder (def_function_params_Builder_builder: "StructBuilder")

definition def_function_params_Builder_struct_size ::
  "StructSize" where [def_function_params_defs]:
  "def_function_params_Builder_struct_size = def_function_params_STRUCT_SIZE"

definition def_function_params_Builder_type_id :: "u64" where [def_function_params_defs]:
  "def_function_params_Builder_type_id = def_function_params_TYPE_ID"

definition def_function_params_Builder_new ::
  "StructBuilder \<Rightarrow> def_function_params_Builder" where [def_function_params_defs]:
  "def_function_params_Builder_new builder = def_function_params_Builder builder"

definition def_function_params_Builder_imbue_mut ::
  "('m, 'h, 'e) capnp \<Rightarrow> def_function_params_Builder \<Rightarrow>
     'h CapTable \<Rightarrow> def_function_params_Builder" where [def_function_params_defs]:
  "def_function_params_Builder_imbue_mut L self cap_table =
     def_function_params_Builder (sb_imbue L (def_function_params_Builder_builder self) cap_table)"

definition def_function_params_Builder_init_pointer ::
  "('m, 'h, 'e) capnp \<Rightarrow> PointerBuilder \<Rightarrow> u32 \<Rightarrow>
     'm \<Rightarrow> def_function_params_Builder \<times> 'm" where [def_function_params_defs]:
  "def_function_params_Builder_init_pointer L builder sz m =
     (case pb_init_struct L builder def_function_params_STRUCT_SIZE m of (s, m') \<Rightarrow> (def_function_params_Builder_new s, m'))"

definition def_function_params_Builder_get_from_pointer ::
  "('m, 'h, 'e) capnp \<Rightarrow> PointerBuilder \<Rightarrow> 'm \<Rightarrow>
     (def_function_params_Builder, 'e) result \<times> 'm" where [def_function_params_defs]:
  "def_function_params_Builder_get_from_pointer L builder m =
     (case pb_get_struct L builder def_function_params_STRUCT_SIZE m of
        (r, m') \<Rightarrow> (result_bind r (\<lambda>s. Ok (def_function_params_Builder_new s)), m'))"

definition def_function_params_Reader_set_pointer_builder ::
  "('m, 'h, 'e) capnp \<Rightarrow> PointerBuilder \<Rightarrow>
     'm def_function_params_Reader \<Rightarrow> bool \<Rightarrow> 'm \<Rightarrow> (unit, 'e) result \<times> 'm" where [def_function_params_defs]:
  "def_function_params_Reader_set_pointer_builder L pointer value canonicalize m =
     pb_set_struct L pointer (def_function_params_Reader_reader value) canonicalize m"

definition def_function_params_Builder_into_reader ::
  "('m, 'h, 'e) capnp \<Rightarrow> def_function_params_Builder \<Rightarrow>
     'm \<Rightarrow> 'm def_function_params_Reader" where [def_function_params_defs]:
  "def_function_params_Builder_into_reader L self m =
     def_function_params_Reader_new (sb_into_reader L (def_function_params_Builder_builder self) m)"

definition def_function_params_Builder_as_reader ::
  "('m, 'h, 'e) capnp \<Rightarrow> def_function_params_Builder \<Rightarrow>
     'm \<Rightarrow> 'm def_function_params_Reader" where [def_function_params_defs]:
  "def_function_params_Builder_as_reader L self m =
     def_function_params_Builder_into_reader L self m"

definition def_function_params_Builder_reborrow ::
  "def_function_params_Builder \<Rightarrow>
     def_function_params_Builder" where [def_function_params_defs]:
  "def_function_params_Builder_reborrow self =
     def_function_params_Builder (def_function_params_Builder_builder self)"

definition def_function_params_Builder_reborrow_as_reader ::
  "('m, 'h, 'e) capnp \<Rightarrow> def_function_params_Builder \<Rightarrow>
     'm \<Rightarrow> 'm def_function_params_Reader" where [def_function_params_defs]:
  "def_function_params_Builder_reborrow_as_reader L self m =
     def_function_params_Reader_new (sb_into_reader L (def_function_params_Builder_builder self) m)"

definition def_function_params_Builder_total_size ::
  "('m, 'h, 'e) capnp \<Rightarrow> def_function_params_Builder \<Rightarrow>
     'm \<Rightarrow> (MessageSize, 'e) result" where [def_function_params_defs]:
  "def_function_params_Builder_total_size L self m =
     sr_total_size L (sb_into_reader L (def_function_params_Builder_builder self) m)"

definition def_function_params_Builder_get_param_count ::
  "('m, 'h, 'e) capnp \<Rightarrow> def_function_params_Builder \<Rightarrow>
     'm \<Rightarrow> i32" where [def_function_params_defs]:
  "def_function_params_Builder_get_param_count L self m =
     sb_get_i32 L (def_function_params_Builder_builder self) 0 m"

definition def_function_params_Builder_set_param_count ::
  "('m, 'h, 'e) capnp \<Rightarrow> def_function_params_Builder \<Rightarrow>
     i32 \<Rightarrow> 'm \<Rightarrow> 'm" where [def_function_params_defs]:
  "def_function_params_Builder_set_param_count L self value m =
     sb_set_i32 L (def_function_params_Builder_builder self) 0 value m"

definition def_function_params_Builder_get_body ::
  "('m, 'h, 'e) capnp \<Rightarrow> def_function_params_Builder \<Rightarrow>
     'm \<Rightarrow> (expression_Builder, 'e) result \<times> 'm" where [def_function_params_defs]:
  "def_function_params_Builder_get_body L self m =
     expression_Builder_get_from_pointer L (sb_get_pointer_field L (def_function_params_Builder_builder self) 0) m"

definition def_function_params_Builder_set_body ::
  "('m, 'h, 'e) capnp \<Rightarrow> def_function_params_Builder \<Rightarrow>
     'm expression_Reader \<Rightarrow> 'm \<Rightarrow> (unit, 'e) result \<times> 'm" where [def_function_params_defs]:
  "def_function_params_Builder_set_body L self value m =
     expression_Reader_set_pointer_builder L (sb_get_pointer_field L (def_function_params_Builder_builder self) 0) value False m"

definition def_function_params_Builder_init_body ::
  "('m, 'h, 'e) capnp \<Rightarrow> def_function_params_Builder \<Rightarrow>
     'm \<Rightarrow> expression_Builder \<times> 'm" where [def_function_params_defs]:
  "def_function_params_Builder_init_body L self m =
     expression_Builder_init_pointer L (sb_get_pointer_field L (def_function_params_Builder_builder self) 0) 0 m"

definition def_function_params_Builder_has_body ::
  "('m, 'h, 'e) capnp \<Rightarrow> def_function_params_Builder \<Rightarrow>
     'm \<Rightarrow> bool" where [def_function_params_defs]:
  "def_function_params_Builder_has_body L self m \<longleftrightarrow>
     \<not> pb_is_null L (sb_get_pointer_field L (def_function_params_Builder_builder self) 0) m"

datatype def_function_params_Pipeline = def_function_params_Pipeline (def_function_params_Pipeline_typeless: "AnyPipeline")

definition def_function_params_Pipeline_new ::
  "AnyPipeline \<Rightarrow> def_function_params_Pipeline" where [def_function_params_defs]:
  "def_function_params_Pipeline_new typeless = def_function_params_Pipeline typeless"

definition def_function_params_Pipeline_get_body ::
  "('m, 'h, 'e) capnp \<Rightarrow> def_function_params_Pipeline \<Rightarrow>
     expression_Pipeline" where [def_function_params_defs]:
  "def_function_params_Pipeline_get_body L self =
     expression_Pipeline_new (pl_get_pointer_field L (def_function_params_Pipeline_typeless self) 0)"

section \<open>The module \<open>def_function_results\<close>\<close>

definition def_function_results_STRUCT_SIZE :: "StructSize" where [def_function_results_defs]:
  "def_function_results_STRUCT_SIZE = \<lparr>ss_data = 0, ss_pointers = 1\<rparr>"

definition def_function_results_TYPE_ID :: "u64" where [def_function_results_defs]:
  "def_function_results_TYPE_ID = 0x8d24f465047cd6c8"

datatype 'm def_function_results_Reader = def_function_results_Reader (def_function_results_Reader_reader: "'m StructReader")

definition def_function_results_Reader_type_id :: "u64" where [def_function_results_defs]:
  "def_function_results_Reader_type_id = def_function_results_TYPE_ID"

definition def_function_results_Reader_new ::
  "'m StructReader \<Rightarrow>
     'm def_function_results_Reader" where [def_function_results_defs]:
  "def_function_results_Reader_new reader = def_function_results_Reader reader"

definition def_function_results_Reader_get_from_pointer ::
  "('m, 'h, 'e) capnp \<Rightarrow> 'm PointerReader \<Rightarrow>
     ('m def_function_results_Reader, 'e) result" where [def_function_results_defs]:
  "def_function_results_Reader_get_from_pointer L reader =
     result_bind (pr_get_struct L reader) (\<lambda>s. Ok (def_function_results_Reader_new s))"

definition def_function_results_Reader_into_internal_struct_reader ::
  "'m def_function_results_Reader \<Rightarrow>
     'm StructReader" where [def_function_results_defs]:
  "def_function_results_Reader_into_internal_struct_reader self =
     def_function_results_Reader_reader self"

definition def_function_results_Reader_imbue ::
  "('m, 'h, 'e) capnp \<Rightarrow> 'm def_function_results_Reader \<Rightarrow>
     'h CapTable \<Rightarrow> 'm def_function_results_Reader" where [def_function_results_defs]:
  "def_function_results_Reader_imbue L self cap_table =
     def_function_results_Reader (sr_imbue L (def_function_results_Reader_reader self) cap_table)"

definition def_function_results_Reader_reborrow ::
  "'m def_function_results_Reader \<Rightarrow>
     'm def_function_results_Reader" where [def_function_results_defs]:
  "def_function_results_Reader_reborrow self =
     def_function_results_Reader (def_function_results_Reader_reader self)"

definition def_function_results_Reader_total_size ::
  "('m, 'h, 'e) capnp \<Rightarrow> 'm def_function_results_Reader \<Rightarrow>
     (MessageSize, 'e) result" where [def_function_results_defs]:
  "def_function_results_Reader_total_size L self =
     sr_total_size L (def_function_results_Reader_reader self)"

definition def_function_results_Reader_get_func ::
  "('m, 'h, 'e) capnp \<Rightarrow> 'm def_function_results_Reader \<Rightarrow>
     ('h function_Client, 'e) result" where [def_function_results_defs]:
  "def_function_results_Reader_get_func L self =
     (case pr_get_capability L (sr_get_pointer_field L (def_function_results_Reader_reader self) 0) of
        Ok c \<Rightarrow> Ok (function_Client_new c) | Err e \<Rightarrow> Err e)"

datatype def_function_results_Builder = def_function_results_Builder (def_function_results_Builder_builder: "StructBuilder")

definition def_function_results_Builder_struct_size ::
  "StructSize" where [def_function_results_defs]:
  "def_function_results_Builder_struct_size = def_function_results_STRUCT_SIZE"

definition def_function_results_Builder_type_id :: "u64" where [def_function_results_defs]:
  "def_function_results_Builder_type_id = def_function_results_TYPE_ID"

definition def_function_results_Builder_new ::
  "StructBuilder \<Rightarrow> def_function_results_Builder" where [def_function_results_defs]:
  "def_function_results_Builder_new builder = def_function_results_Builder builder"

definition def_function_results_Builder_imbue_mut ::
  "('m, 'h, 'e) capnp \<Rightarrow> def_function_results_Builder \<Rightarrow>
     'h CapTable \<Rightarrow> def_function_results_Builder" where [def_function_results_defs]:
  "def_function_results_Builder_imbue_mut L self cap_table =
     def_function_results_Builder (sb_imbue L (def_function_results_Builder_builder self) cap_table)"

definition def_function_results_Builder_init_pointer ::
  "('m, 'h, 'e) capnp \<Rightarrow> PointerBuilder \<Rightarrow> u32 \<Rightarrow>
     'm \<Rightarrow> def_function_results_Builder \<times> 'm" where [def_function_results_defs]:
  "def_function_results_Builder_init_pointer L builder sz m =
     (case pb_init_struct L builder def_function_results_STRUCT_SIZE m of (s, m') \<Rightarrow> (def_function_results_Builder_new s, m'))"

definition def_function_results_Builder_get_from_pointer ::
  "('m, 'h, 'e) capnp \<Rightarrow> PointerBuilder \<Rightarrow> 'm \<Rightarrow>
     (def_function_results_Builder, 'e) result \<times> 'm" where [def_function_results_defs]:
  "def_function_results_Builder_get_from_pointer L builder m =
     (case pb_get_struct L builder def_function_results_STRUCT_SIZE m of
        (r, m') \<Rightarrow> (result_bind r (\<lambda>s. Ok (def_function_results_Builder_new s)), m'))"

definition def_function_results_Reader_set_pointer_builder ::
  "('m, 'h, 'e) capnp \<Rightarrow> PointerBuilder \<Rightarrow>
     'm def_function_results_Reader \<Rightarrow> bool \<Rightarrow> 'm \<Rightarrow> (unit, 'e) result \<times> 'm" where [def_function_results_defs]:
  "def_function_results_Reader_set_pointer_builder L pointer value canonicalize m =
     pb_set_struct L pointer (def_function_results_Reader_reader value) canonicalize m"

definition def_function_results_Builder_into_reader ::
  "('m, 'h, 'e) capnp \<Rightarrow> def_function_results_Builder \<Rightarrow>
     'm \<Rightarrow> 'm def_function_results_Reader" where [def_function_results_defs]:
  "def_function_results_Builder_into_reader L self m =
     def_function_results_Reader_new (sb_into_reader L (def_function_results_Builder_builder self) m)"

definition def_function_results_Builder_as_reader ::
  "('m, 'h, 'e) capnp \<Rightarrow> def_function_results_Builder \<Rightarrow>
     'm \<Rightarrow> 'm def_function_results_Reader" where [def_function_results_defs]:
  "def_function_results_Builder_as_reader L self m =
     def_function_results_Builder_into_reader L self m"

definition def_function_results_Builder_reborrow ::
  "def_function_results_Builder \<Rightarrow>
     def_function_results_Builder" where [def_function_results_defs]:
  "def_function_results_Builder_reborrow self =
     def_function_results_Builder (def_function_results_Builder_builder self)"

definition def_function_results_Builder_reborrow_as_reader ::
  "('m, 'h, 'e) capnp \<Rightarrow> def_function_results_Builder \<Rightarrow>
     'm \<Rightarrow> 'm def_function_results_Reader" where [def_function_results_defs]:
  "def_function_results_Builder_reborrow_as_reader L self m =
     def_function_results_Reader_new (sb_into_reader L (def_function_results_Builder_builder self) m)"

definition def_function_results_Builder_total_size ::
  "('m, 'h, 'e) capnp \<Rightarrow> def_function_results_Builder \<Rightarrow>
     'm \<Rightarrow> (MessageSize, 'e) result" where [def_function_results_defs]:
  "def_function_results_Builder_total_size L self m =
     sr_total_size L (sb_into_reader L (def_function_results_Builder_builder self) m)"

definition def_function_results_Builder_get_func ::
  "('m, 'h, 'e) capnp \<Rightarrow> def_function_results_Builder \<Rightarrow>
     'm \<Rightarrow> ('h function_Client, 'e) result" where [def_function_results_defs]:
  "def_function_results_Builder_get_func L self m =
     (case pb_get_capability L (sb_get_pointer_field L (def_function_results_Builder_builder self) 0) m of
        Ok c \<Rightarrow> Ok (function_Client_new c) | Err e \<Rightarrow> Err e)"

definition def_function_results_Builder_set_func ::
  "('m, 'h, 'e) capnp \<Rightarrow> def_function_results_Builder \<Rightarrow>
     'h function_Client \<Rightarrow> 'm \<Rightarrow> 'm" where [def_function_results_defs]:
  "def_function_results_Builder_set_func L self value m =
     pb_set_capability L (sb_get_pointer_field L (def_function_results_Builder_builder self) 0) (hook (function_Client_client value)) m"

datatype def_function_results_Pipeline = def_function_results_Pipeline (def_function_results_Pipeline_typeless: "AnyPipeline")

definition def_function_results_Pipeline_new ::
  "AnyPipeline \<Rightarrow> def_function_results_Pipeline" where [def_function_results_defs]:
  "def_function_results_Pipeline_new typeless = def_function_results_Pipeline typeless"

definition def_function_results_Pipeline_get_func ::
  "('m, 'h, 'e) capnp \<Rightarrow> def_function_results_Pipeline \<Rightarrow>
     'h function_Client" where [def_function_results_defs]:
  "def_function_results_Pipeline_get_func L self =
     function_Client_new (pl_as_cap L (pl_get_pointer_field L (def_function_results_Pipeline_typeless self) 0))"

section \<open>The module \<open>get_operator_params\<close>\<close>

definition get_operator_params_STRUCT_SIZE :: "StructSize" where [get_operator_params_defs]:
  "get_operator_params_STRUCT_SIZE = \<lparr>ss_data = 1, ss_pointers = 0\<rparr>"

definition get_operator_params_TYPE_ID :: "u64" where [get_operator_params_defs]:
  "get_operator_params_TYPE_ID = 0x8a8dceb4f4a3c530"

datatype 'm get_operator_params_Reader = get_operator_params_Reader (get_operator_params_Reader_reader: "'m StructReader")

definition get_operator_params_Reader_type_id :: "u64" where [get_operator_params_defs]:
  "get_operator_params_Reader_type_id = get_operator_params_TYPE_ID"

definition get_operator_params_Reader_new ::
  "'m StructReader \<Rightarrow> 'm get_operator_params_Reader" where [get_operator_params_defs]:
  "get_operator_params_Reader_new reader = get_operator_params_Reader reader"

definition get_operator_params_Reader_get_from_pointer ::
  "('m, 'h, 'e) capnp \<Rightarrow> 'm PointerReader \<Rightarrow>
     ('m get_operator_params_Reader, 'e) result" where [get_operator_params_defs]:
  "get_operator_params_Reader_get_from_pointer L reader =
     result_bind (pr_get_struct L reader) (\<lambda>s. Ok (get_operator_params_Reader_new s))"

definition get_operator_params_Reader_into_internal_struct_reader ::
  "'m get_operator_params_Reader \<Rightarrow> 'm StructReader" where [get_operator_params_defs]:
  "get_operator_params_Reader_into_internal_struct_reader self =
     get_operator_params_Reader_reader self"

definition get_operator_params_Reader_imbue ::
  "('m, 'h, 'e) capnp \<Rightarrow> 'm get_operator_params_Reader \<Rightarrow>
     'h CapTable \<Rightarrow> 'm get_operator_params_Reader" where [get_operator_params_defs]:
  "get_operator_params_Reader_imbue L self cap_table =
     get_operator_params_Reader (sr_imbue L (get_operator_params_Reader_reader self) cap_table)"

definition get_operator_params_Reader_reborrow ::
  "'m get_operator_params_Reader \<Rightarrow>
     'm get_operator_params_Reader" where [get_operator_params_defs]:
  "get_operator_params_Reader_reborrow self =
     get_operator_params_Reader (get_operator_params_Reader_reader self)"

definition get_operator_params_Reader_total_size ::
  "('m, 'h, 'e) capnp \<Rightarrow> 'm get_operator_params_Reader \<Rightarrow>
     (MessageSize, 'e) result" where [get_operator_params_defs]:
  "get_operator_params_Reader_total_size L self =
     sr_total_size L (get_operator_params_Reader_reader self)"

definition get_operator_params_Reader_get_op ::
  "('m, 'h, 'e) capnp \<Rightarrow> 'm get_operator_params_Reader \<Rightarrow>
     (Operator, NotInSchema) result" where [get_operator_params_defs]:
  "get_operator_params_Reader_get_op L self =
     Operator_from_u16 (sr_get_u16 L (get_operator_params_Reader_reader self) 0)"

datatype get_operator_params_Builder = get_operator_params_Builder (get_operator_params_Builder_builder: "StructBuilder")

definition get_operator_params_Builder_struct_size ::
  "StructSize" where [get_operator_params_defs]:
  "get_operator_params_Builder_struct_size = get_operator_params_STRUCT_SIZE"

definition get_operator_params_Builder_type_id :: "u64" where [get_operator_params_defs]:
  "get_operator_params_Builder_type_id = get_operator_params_TYPE_ID"

definition get_operator_params_Builder_new ::
  "StructBuilder \<Rightarrow> get_operator_params_Builder" where [get_operator_params_defs]:
  "get_operator_params_Builder_new builder = get_operator_params_Builder builder"

definition get_operator_params_Builder_imbue_mut ::
  "('m, 'h, 'e) capnp \<Rightarrow> get_operator_params_Builder \<Rightarrow>
     'h CapTable \<Rightarrow> get_operator_params_Builder" where [get_operator_params_defs]:
  "get_operator_params_Builder_imbue_mut L self cap_table =
     get_operator_params_Builder (sb_imbue L (get_operator_params_Builder_builder self) cap_table)"

definition get_operator_params_Builder_init_pointer ::
  "('m, 'h, 'e) capnp \<Rightarrow> PointerBuilder \<Rightarrow> u32 \<Rightarrow>
     'm \<Rightarrow> get_operator_params_Builder \<times> 'm" where [get_operator_params_defs]:
  "get_operator_params_Builder_init_pointer L builder sz m =
     (case pb_init_struct L builder get_operator_params_STRUCT_SIZE m of (s, m') \<Rightarrow> (get_operator_params_Builder_new s, m'))"

definition get_operator_params_Builder_get_from_pointer ::
  "('m, 'h, 'e) capnp \<Rightarrow> PointerBuilder \<Rightarrow> 'm \<Rightarrow>
     (get_operator_params_Builder, 'e) result \<times> 'm" where [get_operator_params_defs]:
  "get_operator_params_Builder_get_from_pointer L builder m =
     (case pb_get_struct L builder get_operator_params_STRUCT_SIZE m of
        (r, m') \<Rightarrow> (result_bind r (\<lambda>s. Ok (get_operator_params_Builder_new s)), m'))"

definition get_operator_params_Reader_set_pointer_builder ::
  "('m, 'h, 'e) capnp \<Rightarrow> PointerBuilder \<Rightarrow>
     'm get_operator_params_Reader \<Rightarrow> bool \<Rightarrow> 'm \<Rightarrow> (unit, 'e) result \<times> 'm" where [get_operator_params_defs]:
  "get_operator_params_Reader_set_pointer_builder L pointer value canonicalize m =
     pb_set_struct L pointer (get_operator_params_Reader_reader value) canonicalize m"

definition get_operator_params_Builder_into_reader ::
  "('m, 'h, 'e) capnp \<Rightarrow> get_operator_params_Builder \<Rightarrow>
     'm \<Rightarrow> 'm get_operator_params_Reader" where [get_operator_params_defs]:
  "get_operator_params_Builder_into_reader L self m =
     get_operator_params_Reader_new (sb_into_reader L (get_operator_params_Builder_builder self) m)"

definition get_operator_params_Builder_as_reader ::
  "('m, 'h, 'e) capnp \<Rightarrow> get_operator_params_Builder \<Rightarrow>
     'm \<Rightarrow> 'm get_operator_params_Reader" where [get_operator_params_defs]:
  "get_operator_params_Builder_as_reader L self m =
     get_operator_params_Builder_into_reader L self m"

definition get_operator_params_Builder_reborrow ::
  "get_operator_params_Builder \<Rightarrow>
     get_operator_params_Builder" where [get_operator_params_defs]:
  "get_operator_params_Builder_reborrow self =
     get_operator_params_Builder (get_operator_params_Builder_builder self)"

definition get_operator_params_Builder_reborrow_as_reader ::
  "('m, 'h, 'e) capnp \<Rightarrow> get_operator_params_Builder \<Rightarrow>
     'm \<Rightarrow> 'm get_operator_params_Reader" where [get_operator_params_defs]:
  "get_operator_params_Builder_reborrow_as_reader L self m =
     get_operator_params_Reader_new (sb_into_reader L (get_operator_params_Builder_builder self) m)"

definition get_operator_params_Builder_total_size ::
  "('m, 'h, 'e) capnp \<Rightarrow> get_operator_params_Builder \<Rightarrow>
     'm \<Rightarrow> (MessageSize, 'e) result" where [get_operator_params_defs]:
  "get_operator_params_Builder_total_size L self m =
     sr_total_size L (sb_into_reader L (get_operator_params_Builder_builder self) m)"

definition get_operator_params_Builder_get_op ::
  "('m, 'h, 'e) capnp \<Rightarrow> get_operator_params_Builder \<Rightarrow>
     'm \<Rightarrow> (Operator, NotInSchema) result" where [get_operator_params_defs]:
  "get_operator_params_Builder_get_op L self m =
     Operator_from_u16 (sb_get_u16 L (get_operator_params_Builder_builder self) 0 m)"

definition get_operator_params_Builder_set_op ::
  "('m, 'h, 'e) capnp \<Rightarrow> get_operator_params_Builder \<Rightarrow>
     Operator \<Rightarrow> 'm \<Rightarrow> 'm" where [get_operator_params_defs]:
  "get_operator_params_Builder_set_op L self value m =
     sb_set_u16 L (get_operator_params_Builder_builder self) 0 (Operator_as_u16 value) m"

datatype get_operator_params_Pipeline = get_operator_params_Pipeline (get_operator_params_Pipeline_typeless: "AnyPipeline")

definition get_operator_params_Pipeline_new ::
  "AnyPipeline \<Rightarrow> get_operator_params_Pipeline" where [get_operator_params_defs]:
  "get_operator_params_Pipeline_new typeless = get_operator_params_Pipeline typeless"

section \<open>The module \<open>get_operator_results\<close>\<close>

definition get_operator_results_STRUCT_SIZE :: "StructSize" where [get_operator_results_defs]:
  "get_operator_results_STRUCT_SIZE = \<lparr>ss_data = 0, ss_pointers = 1\<rparr>"

definition get_operator_results_TYPE_ID :: "u64" where [get_operator_results_defs]:
  "get_operator_results_TYPE_ID = 0xd18fbb7763c08c20"

datatype 'm get_operator_results_Reader = get_operator_results_Reader (get_operator_results_Reader_reader: "'m StructReader")

definition get_operator_results_Reader_type_id :: "u64" where [get_operator_results_defs]:
  "get_operator_results_Reader_type_id = get_operator_results_TYPE_ID"

definition get_operator_results_Reader_new ::
  "'m StructReader \<Rightarrow>
     'm get_operator_results_Reader" where [get_operator_results_defs]:
  "get_operator_results_Reader_new reader = get_operator_results_Reader reader"

definition get_operator_results_Reader_get_from_pointer ::
  "('m, 'h, 'e) capnp \<Rightarrow> 'm PointerReader \<Rightarrow>
     ('m get_operator_results_Reader, 'e) result" where [get_operator_results_defs]:
  "get_operator_results_Reader_get_from_pointer L reader =
     result_bind (pr_get_struct L reader) (\<lambda>s. Ok (get_operator_results_Reader_new s))"

definition get_operator_results_Reader_into_internal_struct_reader ::
  "'m get_operator_results_Reader \<Rightarrow>
     'm StructReader" where [get_operator_results_defs]:
  "get_operator_results_Reader_into_internal_struct_reader self =
     get_operator_results_Reader_reader self"

definition get_operator_results_Reader_imbue ::
  "('m, 'h, 'e) capnp \<Rightarrow> 'm get_operator_results_Reader \<Rightarrow>
     'h CapTable \<Rightarrow> 'm get_operator_results_Reader" where [get_operator_results_defs]:
  "get_operator_results_Reader_imbue L self cap_table =
     get_operator_results_Reader (sr_imbue L (get_operator_results_Reader_reader self) cap_table)"

definition get_operator_results_Reader_reborrow ::
  "'m get_operator_results_Reader \<Rightarrow>
     'm get_operator_results_Reader" where [get_operator_results_defs]:
  "get_operator_results_Reader_reborrow self =
     get_operator_results_Reader (get_operator_results_Reader_reader self)"

definition get_operator_results_Reader_total_size ::
  "('m, 'h, 'e) capnp \<Rightarrow> 'm get_operator_results_Reader \<Rightarrow>
     (MessageSize, 'e) result" where [get_operator_results_defs]:
  "get_operator_results_Reader_total_size L self =
     sr_total_size L (get_operator_results_Reader_reader self)"

definition get_operator_results_Reader_get_func ::
  "('m, 'h, 'e) capnp \<Rightarrow> 'm get_operator_results_Reader \<Rightarrow>
     ('h function_Client, 'e) result" where [get_operator_results_defs]:
  "get_operator_results_Reader_get_func L self =
     (case pr_get_capability L (sr_get_pointer_field L (get_operator_results_Reader_reader self) 0) of
        Ok c \<Rightarrow> Ok (function_Client_new c) | Err e \<Rightarrow> Err e)"

datatype get_operator_results_Builder = get_operator_results_Builder (get_operator_results_Builder_builder: "StructBuilder")

definition get_operator_results_Builder_struct_size ::
  "StructSize" where [get_operator_results_defs]:
  "get_operator_results_Builder_struct_size = get_operator_results_STRUCT_SIZE"

definition get_operator_results_Builder_type_id :: "u64" where [get_operator_results_defs]:
  "get_operator_results_Builder_type_id = get_operator_results_TYPE_ID"

definition get_operator_results_Builder_new ::
  "StructBuilder \<Rightarrow> get_operator_results_Builder" where [get_operator_results_defs]:
  "get_operator_results_Builder_new builder = get_operator_results_Builder builder"

definition get_operator_results_Builder_imbue_mut ::
  "('m, 'h, 'e) capnp \<Rightarrow> get_operator_results_Builder \<Rightarrow>
     'h CapTable \<Rightarrow> get_operator_results_Builder" where [get_operator_results_defs]:
  "get_operator_results_Builder_imbue_mut L self cap_table =
     get_operator_results_Builder (sb_imbue L (get_operator_results_Builder_builder self) cap_table)"

definition get_operator_results_Builder_init_pointer ::
  "('m, 'h, 'e) capnp \<Rightarrow> PointerBuilder \<Rightarrow> u32 \<Rightarrow>
     'm \<Rightarrow> get_operator_results_Builder \<times> 'm" where [get_operator_results_defs]:
  "get_operator_results_Builder_init_pointer L builder sz m =
     (case pb_init_struct L builder get_operator_results_STRUCT_SIZE m of (s, m') \<Rightarrow> (get_operator_results_Builder_new s, m'))"

definition get_operator_results_Builder_get_from_pointer ::
  "('m, 'h, 'e) capnp \<Rightarrow> PointerBuilder \<Rightarrow> 'm \<Rightarrow>
     (get_operator_results_Builder, 'e) result \<times> 'm" where [get_operator_results_defs]:
  "get_operator_results_Builder_get_from_pointer L builder m =
     (case pb_get_struct L builder get_operator_results_STRUCT_SIZE m of
        (r, m') \<Rightarrow> (result_bind r (\<lambda>s. Ok (get_operator_results_Builder_new s)), m'))"

definition get_operator_results_Reader_set_pointer_builder ::
  "('m, 'h, 'e) capnp \<Rightarrow> PointerBuilder \<Rightarrow>
     'm get_operator_results_Reader \<Rightarrow> bool \<Rightarrow> 'm \<Rightarrow> (unit, 'e) result \<times> 'm" where [get_operator_results_defs]:
  "get_operator_results_Reader_set_pointer_builder L pointer value canonicalize m =
     pb_set_struct L pointer (get_operator_results_Reader_reader value) canonicalize m"

definition get_operator_results_Builder_into_reader ::
  "('m, 'h, 'e) capnp \<Rightarrow> get_operator_results_Builder \<Rightarrow>
     'm \<Rightarrow> 'm get_operator_results_Reader" where [get_operator_results_defs]:
  "get_operator_results_Builder_into_reader L self m =
     get_operator_results_Reader_new (sb_into_reader L (get_operator_results_Builder_builder self) m)"

definition get_operator_results_Builder_as_reader ::
  "('m, 'h, 'e) capnp \<Rightarrow> get_operator_results_Builder \<Rightarrow>
     'm \<Rightarrow> 'm get_operator_results_Reader" where [get_operator_results_defs]:
  "get_operator_results_Builder_as_reader L self m =
     get_operator_results_Builder_into_reader L self m"

definition get_operator_results_Builder_reborrow ::
  "get_operator_results_Builder \<Rightarrow>
     get_operator_results_Builder" where [get_operator_results_defs]:
  "get_operator_results_Builder_reborrow self =
     get_operator_results_Builder (get_operator_results_Builder_builder self)"

definition get_operator_results_Builder_reborrow_as_reader ::
  "('m, 'h, 'e) capnp \<Rightarrow> get_operator_results_Builder \<Rightarrow>
     'm \<Rightarrow> 'm get_operator_results_Reader" where [get_operator_results_defs]:
  "get_operator_results_Builder_reborrow_as_reader L self m =
     get_operator_results_Reader_new (sb_into_reader L (get_operator_results_Builder_builder self) m)"

definition get_operator_results_Builder_total_size ::
  "('m, 'h, 'e) capnp \<Rightarrow> get_operator_results_Builder \<Rightarrow>
     'm \<Rightarrow> (MessageSize, 'e) result" where [get_operator_results_defs]:
  "get_operator_results_Builder_total_size L self m =
     sr_total_size L (sb_into_reader L (get_operator_results_Builder_builder self) m)"

definition get_operator_results_Builder_get_func ::
  "('m, 'h, 'e) capnp \<Rightarrow> get_operator_results_Builder \<Rightarrow>
     'm \<Rightarrow> ('h function_Client, 'e) result" where [get_operator_results_defs]:
  "get_operator_results_Builder_get_func L self m =
     (case pb_get_capability L (sb_get_pointer_field L (get_operator_results_Builder_builder self) 0) m of
        Ok c \<Rightarrow> Ok (function_Client_new c) | Err e \<Rightarrow> Err e)"

definition get_operator_results_Builder_set_func ::
  "('m, 'h, 'e) capnp \<Rightarrow> get_operator_results_Builder \<Rightarrow>
     'h function_Client \<Rightarrow> 'm \<Rightarrow> 'm" where [get_operator_results_defs]:
  "get_operator_results_Builder_set_func L self value m =
     pb_set_capability L (sb_get_pointer_field L (get_operator_results_Builder_builder self) 0) (hook (function_Client_client value)) m"

datatype get_operator_results_Pipeline = get_operator_results_Pipeline (get_operator_results_Pipeline_typeless: "AnyPipeline")

definition get_operator_results_Pipeline_new ::
  "AnyPipeline \<Rightarrow> get_operator_results_Pipeline" where [get_operator_results_defs]:
  "get_operator_results_Pipeline_new typeless = get_operator_results_Pipeline typeless"

definition get_operator_results_Pipeline_get_func ::
  "('m, 'h, 'e) capnp \<Rightarrow> get_operator_results_Pipeline \<Rightarrow>
     'h function_Client" where [get_operator_results_defs]:
  "get_operator_results_Pipeline_get_func L self =
     function_Client_new (pl_as_cap L (pl_get_pointer_field L (get_operator_results_Pipeline_typeless self) 0))"

section \<open>The modules keep their contracts\<close>

interpretation evaluate_params_m: struct_module evaluate_params_Builder_struct_size
  evaluate_params_Reader_type_id evaluate_params_Builder_type_id evaluate_params_Reader_new
  evaluate_params_Reader_into_internal_struct_reader evaluate_params_Builder_new evaluate_params_Builder_builder
  evaluate_params_Reader_get_from_pointer evaluate_params_Builder_init_pointer evaluate_params_Builder_get_from_pointer
  evaluate_params_Reader_set_pointer_builder evaluate_params_Builder_into_reader evaluate_params_Reader_total_size
  evaluate_params_Builder_total_size
  by unfold_locales
    (simp_all add: evaluate_params_defs evaluate_params_Reader_new_def [abs_def] evaluate_params_Builder_new_def [abs_def]
      result_bind_map prod.case_eq_if map_prod_def)

interpretation evaluate_results_m: struct_module evaluate_results_Builder_struct_size
  evaluate_results_Reader_type_id evaluate_results_Builder_type_id evaluate_results_Reader_new
  evaluate_results_Reader_into_internal_struct_reader evaluate_results_Builder_new evaluate_results_Builder_builder
  evaluate_results_Reader_get_from_pointer evaluate_results_Builder_init_pointer evaluate_results_Builder_get_from_pointer
  evaluate_results_Reader_set_pointer_builder evaluate_results_Builder_into_reader evaluate_results_Reader_total_size
  evaluate_results_Builder_total_size
  by unfold_locales
    (simp_all add: evaluate_results_defs evaluate_results_Reader_new_def [abs_def] evaluate_results_Builder_new_def [abs_def]
      result_bind_map prod.case_eq_if map_prod_def)

interpretation def_function_params_m: struct_module def_function_params_Builder_struct_size
  def_function_params_Reader_type_id def_function_params_Builder_type_id def_function_params_Reader_new
  def_function_params_Reader_into_internal_struct_reader def_function_params_Builder_new def_function_params_Builder_builder
  def_function_params_Reader_get_from_pointer def_function_params_Builder_init_pointer def_function_params_Builder_get_from_pointer
  def_function_params_Reader_set_pointer_builder def_function_params_Builder_into_reader def_function_params_Reader_total_size
  def_function_params_Builder_total_size
  by unfold_locales
    (simp_all add: def_function_params_defs def_function_params_Reader_new_def [abs_def] def_function_params_Builder_new_def [abs_def]
      result_bind_map prod.case_eq_if map_prod_def)

interpretation def_function_results_m: struct_module def_function_results_Builder_struct_size
  def_function_results_Reader_type_id def_function_results_Builder_type_id def_function_results_Reader_new
  def_function_results_Reader_into_internal_struct_reader def_function_results_Builder_new def_function_results_Builder_builder
  def_function_results_Reader_get_from_pointer def_function_results_Builder_init_pointer def_function_results_Builder_get_from_pointer
  def_function_results_Reader_set_pointer_builder def_function_results_Builder_into_reader def_function_results_Reader_total_size
  def_function_results_Builder_total_size
  by unfold_locales
    (simp_all add: def_function_results_defs def_function_results_Reader_new_def [abs_def] def_function_results_Builder_new_def [abs_def]
      result_bind_map prod.case_eq_if map_prod_def)

interpretation get_operator_params_m: struct_module get_operator_params_Builder_struct_size
  get_operator_params_Reader_type_id get_operator_params_Builder_type_id get_operator_params_Reader_new
  get_operator_params_Reader_into_internal_struct_reader get_operator_params_Builder_new get_operator_params_Builder_builder
  get_operator_params_Reader_get_from_pointer get_operator_params_Builder_init_pointer get_operator_params_Builder_get_from_pointer
  get_operator_params_Reader_set_pointer_builder get_operator_params_Builder_into_reader get_operator_params_Reader_total_size
  get_operator_params_Builder_total_size
  by unfold_locales
    (simp_all add: get_operator_params_defs get_operator_params_Reader_new_def [abs_def] get_operator_params_Builder_new_def [abs_def]
      result_bind_map prod.case_eq_if map_prod_def)

interpretation get_operator_results_m: struct_module get_operator_results_Builder_struct_size
  get_operator_results_Reader_type_id get_operator_results_Builder_type_id get_operator_results_Reader_new
  get_operator_results_Reader_into_internal_struct_reader get_operator_results_Builder_new get_operator_results_Builder_builder
  get_operator_results_Reader_get_from_pointer get_operator_results_Builder_init_pointer get_operator_results_Builder_get_from_pointer
  get_operator_results_Reader_set_pointer_builder get_operator_results_Builder_into_reader get_operator_results_Reader_total_size
  get_operator_results_Builder_total_size
  by unfold_locales
    (simp_all add: get_operator_results_defs get_operator_results_Reader_new_def [abs_def] get_operator_results_Builder_new_def [abs_def]
      result_bind_map prod.case_eq_if map_prod_def)

interpretation expression_v: struct_value expression_Builder_struct_size
  expression_Reader_type_id expression_Builder_type_id expression_Reader_new
  expression_Reader_into_internal_struct_reader expression_Builder_new expression_Builder_builder
  expression_Reader_get_from_pointer expression_Builder_init_pointer expression_Builder_get_from_pointer
  expression_Reader_set_pointer_builder expression_Builder_into_reader expression_Reader_total_size
  expression_Builder_total_size "\<lambda>L. expression_read L n" for n
proof
  fix L V r r'
  assume L: "capnp_reader L V"
    and t: "struct_obj V (expression_Reader_into_internal_struct_reader r) =
      struct_obj V (expression_Reader_into_internal_struct_reader r')"
  obtain sr sr' where "r = expression_Reader sr" "r' = expression_Reader sr'" by (cases r; cases r')
  then show "expression_read L n r = expression_read L n r'"
    using expression_read_tree [OF L, of sr sr' n] t
    by (simp add: expression_Reader_into_internal_struct_reader_def)
qed

interpretation evaluate_expression: struct_pointer evaluate_params_STRUCT_SIZE 0
  evaluate_params_Builder_builder expression_STRUCT_SIZE expression_Builder_new
  expression_Builder_builder expression_Reader_into_internal_struct_reader
  evaluate_params_Builder_set_expression evaluate_params_Builder_init_expression
  by unfold_locales
    (simp_all add: evaluate_params_defs expression_defs expression_Builder_new_def [abs_def]
      prod.case_eq_if map_prod_def)

interpretation def_function_body: struct_pointer def_function_params_STRUCT_SIZE 0
  def_function_params_Builder_builder expression_STRUCT_SIZE expression_Builder_new
  expression_Builder_builder expression_Reader_into_internal_struct_reader
  def_function_params_Builder_set_body def_function_params_Builder_init_body
  by unfold_locales
    (simp_all add: def_function_params_defs expression_defs expression_Builder_new_def [abs_def]
      prod.case_eq_if map_prod_def)

interpretation def_function_count: data_field def_function_params_STRUCT_SIZE 0
  def_function_params_Reader_reader def_function_params_Builder_builder
  def_function_params_Reader_get_param_count def_function_params_Builder_get_param_count
  def_function_params_Builder_set_param_count
  by (rule i32_field) (simp_all add: def_function_params_defs)

interpretation get_operator_op: data_field get_operator_params_STRUCT_SIZE 0
  get_operator_params_Reader_reader get_operator_params_Builder_builder
  "\<lambda>L r. sr_get_u16 L (get_operator_params_Reader_reader r) 0"
  "\<lambda>L b m. sb_get_u16 L (get_operator_params_Builder_builder b) 0 m"
  "\<lambda>L b v m. sb_set_u16 L (get_operator_params_Builder_builder b) 0 v m"
  by (rule u16_field) (simp_all add: get_operator_params_STRUCT_SIZE_def)

interpretation evaluate_value: cap_pointer evaluate_results_STRUCT_SIZE 0
  evaluate_results_Builder_builder value_Client_new "\<lambda>c. hook (value_Client_client c)"
  evaluate_results_Reader_reader evaluate_results_Reader_get_value
  evaluate_results_Builder_get_value evaluate_results_Builder_set_value
  by unfold_locales (simp_all add: evaluate_results_defs value_Client_new_def split: result.split)

interpretation def_function_func: cap_pointer def_function_results_STRUCT_SIZE 0
  def_function_results_Builder_builder function_Client_new "\<lambda>c. hook (function_Client_client c)"
  def_function_results_Reader_reader def_function_results_Reader_get_func
  def_function_results_Builder_get_func def_function_results_Builder_set_func
  by unfold_locales (simp_all add: def_function_results_defs function_Client_new_def split: result.split)

interpretation get_operator_func: cap_pointer get_operator_results_STRUCT_SIZE 0
  get_operator_results_Builder_builder function_Client_new "\<lambda>c. hook (function_Client_client c)"
  get_operator_results_Reader_reader get_operator_results_Reader_get_func
  get_operator_results_Builder_get_func get_operator_results_Builder_set_func
  by unfold_locales (simp_all add: get_operator_results_defs function_Client_new_def split: result.split)

section \<open>The enum\<close>

lemma Operator_round_trip: "Operator_from_u16 (Operator_as_u16 x) = Ok x"
  by (cases x) (simp_all add: Operator_from_u16_def)

section \<open>An expression below a struct\<close>

text \<open>The expression that a reader of the parameters of \<open>evaluate\<close> (of \<open>defFunction\<close>) finds.\<close>

definition evaluate_params_value ::
  "nat \<Rightarrow> ('m, 'h, 'e) capnp \<Rightarrow> evaluate_params_Builder \<Rightarrow> 'm \<Rightarrow> (('h, 'e) expr_val, 'e) result" where
  "evaluate_params_value n L b m =
     map_result (expression_read L n) id
       (evaluate_params_Reader_get_expression L (evaluate_params_Builder_into_reader L b m))"

definition def_function_params_value ::
  "nat \<Rightarrow> ('m, 'h, 'e) capnp \<Rightarrow> def_function_params_Builder \<Rightarrow> 'm \<Rightarrow>
     i32 \<times> (('h, 'e) expr_val, 'e) result" where
  "def_function_params_value n L b m =
     (let r = def_function_params_Builder_into_reader L b m in
      (def_function_params_Reader_get_param_count L r,
       map_result (expression_read L n) id (def_function_params_Reader_get_body L r)))"

context capnp_builder
begin

text \<open>Building an expression in the struct that a slot refers to.\<close>

lemma build_in_child:
  assumes c: "child L V sz sb k (expression_Builder_builder e) m" and ok: "expression_ok L V e m"
    and x: "ex_small x"
  shows "child L V sz sb k (expression_Builder_builder e) (build L x e m)"
    and "same_but_slot L V sz sb k m (build L x e m)"
    and "ex_depth x \<le> n \<Longrightarrow>
      map_result (expression_read L n) id (expression_Reader_get_from_pointer L
        (sr_get_pointer_field L (sb_into_reader L sb (build L x e m)) k)) = Ok (ex_val x)"
proof -
  note b = build_correct [OF ok x]
  have w: "below V m (build L x e m) (sb_get_pointer_field L sb k)"
    using struct_steps_below [OF _ child_slot [OF c]] b by (simp add: built_def)
  show c': "child L V sz sb k (expression_Builder_builder e) (build L x e m)"
    and "same_but_slot L V sz sb k m (build L x e m)"
    using child_below [OF c w] by simp_all
  show "ex_depth x \<le> n \<Longrightarrow>
      map_result (expression_read L n) id (expression_Reader_get_from_pointer L
        (sr_get_pointer_field L (sb_into_reader L sb (build L x e m)) k)) = Ok (ex_val x)"
    using expression_v.value_slot [OF capnp_reader_axioms child_obj [OF c'], of n] b
    by (simp add: built_def expression_value_def)
qed

text \<open>The builder of an expression that a slot refers to, made first when the slot is null.\<close>

lemma expression_get_agrees:
  assumes sb: "struct_ok V m sb sz" "k < unat (ss_pointers sz)"
    and s: "struct_slot V m (sb_get_pointer_field L sb k) expression_STRUCT_SIZE"
  shows "\<exists>e m'. expression_Builder_get_from_pointer L (sb_get_pointer_field L sb k) m = (Ok e, m') \<and>
    content V m' (sb_get_pointer_field L sb k) = CStruct (expression_Builder_builder e) \<and>
    map_result (expression_read L (Suc n)) id (expression_Reader_get_from_pointer L
      (sr_get_pointer_field L (sb_into_reader L sb m) k)) = Ok (expression_value (Suc n) L e m')"
  unfolding expression_value_def
proof (rule expression_v.b_get_value [unfolded expression_Builder_struct_size_def, OF capnp_builder_axioms
      slot_ok [OF sb] s pointer_obj [OF sb], where z = "ELiteral 0"])
  let ?pr = "sr_get_pointer_field L (sb_into_reader L sb m) k"
  assume "robj V ?pr = ONull"
  from expression_m.read_null [OF capnp_reader_axioms this]
  obtain r where "expression_Reader_get_from_pointer L ?pr = Ok r" "rdata V (expression_Reader_reader r) = []"
    by (auto simp: expression_Reader_into_internal_struct_reader_def)
  then show "map_result (expression_read L (Suc n)) id (expression_Reader_get_from_pointer L ?pr) =
      Ok (ELiteral 0)"
    by (cases r) (simp add: expression_read_data [OF capnp_reader_axioms])
qed (use expression_fresh(2) in \<open>simp add: expression_value_def\<close>)

lemma evaluate_init_expression:
  assumes b: "struct_ok V m (evaluate_params_Builder_builder b) evaluate_params_STRUCT_SIZE"
    and i: "evaluate_params_Builder_init_expression L b m = (e, m')"
  shows "child L V evaluate_params_STRUCT_SIZE (evaluate_params_Builder_builder b) 0
      (expression_Builder_builder e) m'"
    and "expression_ok L V e m'"
proof -
  note w = evaluate_expression.init_write [OF capnp_builder_axioms b i]
  show "child L V evaluate_params_STRUCT_SIZE (evaluate_params_Builder_builder b) 0
      (expression_Builder_builder e) m'"
    using evaluate_expression.write_ok [OF capnp_builder_axioms b w(1)] w(1) evaluate_expression.slot_bound
    by (simp add: child_def slot_write_def)
  show "expression_ok L V e m'" by (rule expression_fresh(1) [OF w(2)])
qed

lemma def_function_init_body:
  assumes b: "struct_ok V m (def_function_params_Builder_builder b) def_function_params_STRUCT_SIZE"
    and i: "def_function_params_Builder_init_body L b m = (e, m')"
  shows "child L V def_function_params_STRUCT_SIZE (def_function_params_Builder_builder b) 0
      (expression_Builder_builder e) m'"
    and "expression_ok L V e m'"
    and "rdata V (sb_into_reader L (def_function_params_Builder_builder b) m') =
      rdata V (sb_into_reader L (def_function_params_Builder_builder b) m)"
proof -
  note w = def_function_body.init_write [OF capnp_builder_axioms b i]
  show "child L V def_function_params_STRUCT_SIZE (def_function_params_Builder_builder b) 0
      (expression_Builder_builder e) m'"
    using def_function_body.write_ok [OF capnp_builder_axioms b w(1)] w(1) def_function_body.slot_bound
    by (simp add: child_def slot_write_def)
  show "expression_ok L V e m'" by (rule expression_fresh(1) [OF w(2)])
  show "rdata V (sb_into_reader L (def_function_params_Builder_builder b) m') =
      rdata V (sb_into_reader L (def_function_params_Builder_builder b) m)"
    by (rule def_function_body.write_data [OF capnp_builder_axioms b w(1)])
qed

end

context capnp_builder
begin

lemma evaluate_params_built:
  assumes "struct_ok V m (evaluate_params_Builder_builder b) evaluate_params_STRUCT_SIZE"
    and "evaluate_params_Builder_init_expression L b m = (e, m')"
    and "ex_small x" "ex_depth x \<le> n"
  shows "evaluate_params_value n L b (build L x e m') = Ok (ex_val x)"
  using build_in_child(3) [OF evaluate_init_expression [OF assms(1,2)] assms(3,4)]
  by (simp add: evaluate_params_value_def evaluate_params_defs)

end

section \<open>Properties\<close>

text \<open>
  C25. The request of \<open>evaluate\<close>: \<open>init_expression\<close> on the parameters, then any expression written
  through the builder it returns, is what \<open>get_expression\<close> of the server's reader returns.
\<close>

theorem evaluate_params_expression:
  assumes L: "capnp_builder L V"
    and b: "struct_ok V m (evaluate_params_Builder_builder b) evaluate_params_STRUCT_SIZE"
    and i: "evaluate_params_Builder_init_expression L b m = (e, m')"
    and x: "ex_small x" "ex_depth x \<le> n"
  shows "evaluate_params_value n L b (build L x e m') = Ok (ex_val x)"
  by (rule capnp_builder.evaluate_params_built [OF L b i x])

theorem evaluate_params_expression_witness:
  "evaluate_params_value 1 tree_capnp (evaluate_params_Builder (StructBuilder []))
     (build tree_capnp (XLiteral 0x405EC00000000000) (expression_Builder (StructBuilder [0]))
       (snd (evaluate_params_Builder_init_expression tree_capnp
         (evaluate_params_Builder (StructBuilder [])) (zero_struct evaluate_params_STRUCT_SIZE)))) =
   Ok (ELiteral 0x405EC00000000000)"
proof -
  let ?b = "evaluate_params_Builder (StructBuilder [])" and ?m = "zero_struct evaluate_params_STRUCT_SIZE"
  have b: "struct_ok tree_view ?m (evaluate_params_Builder_builder ?b) evaluate_params_STRUCT_SIZE"
    using fresh_struct_ok [OF tree_root_fresh] by simp
  have i: "evaluate_params_Builder_init_expression tree_capnp ?b ?m =
      (expression_Builder (StructBuilder [0]), snd (evaluate_params_Builder_init_expression tree_capnp ?b ?m))"
    by (simp add: evaluate_params_defs expression_Builder_init_pointer_def expression_Builder_new_def
        tree_capnp_def tree_init_struct_def)
  show ?thesis
    using evaluate_params_expression [OF tree_builder.capnp_builder_axioms b i,
        of "XLiteral 0x405EC00000000000" 1] by simp
qed

text \<open>
  C26. The request of \<open>defFunction\<close>: the parameter count, a signed 32-bit field, and the body are stored
  apart from each other: after \<open>set_param_count\<close>, \<open>init_body\<close> and any expression written through the
  builder of the body, a reader finds both.
\<close>

theorem def_function_params_written:
  assumes L: "capnp_builder L V"
    and b: "struct_ok V m (def_function_params_Builder_builder b) def_function_params_STRUCT_SIZE"
    and i: "def_function_params_Builder_init_body L b (def_function_params_Builder_set_param_count L b c m) =
      (e, m')"
    and x: "ex_small x" "ex_depth x \<le> n"
  shows "def_function_params_value n L b (build L x e m') = (c, Ok (ex_val x))"
proof -
  note R = capnp_builder.axioms(1) [OF L]
  note count = def_function_count.put_simps [OF L b]
  note init = capnp_builder.def_function_init_body [OF L count(1) i]
  note body = capnp_builder.build_in_child [OF L init(1,2) x(1)]
  have "read_field (rdata V (sb_into_reader L (def_function_params_Builder_builder b) (build L x e m'))) 0 = c"
    using body(2) init(3) count(2) [of c] by (simp add: same_but_slot_def)
  then show ?thesis
    using body(3) [OF x(2)]
    by (simp add: def_function_params_value_def def_function_params_defs capnp_reader.get_i32 [OF R] Let_def)
qed

theorem def_function_params_written_witness:
  "\<exists>m. def_function_params_value 2 tree_capnp (def_function_params_Builder (StructBuilder [])) m =
     (- 1, Ok (ECall (Ok 5) (Ok [EParameter 0])))"
proof -
  let ?b = "def_function_params_Builder (StructBuilder [])"
    and ?m = "zero_struct def_function_params_STRUCT_SIZE"
  have b: "struct_ok tree_view ?m (def_function_params_Builder_builder ?b) def_function_params_STRUCT_SIZE"
    using fresh_struct_ok [OF tree_root_fresh] by simp
  obtain e m' where i: "def_function_params_Builder_init_body tree_capnp ?b
      (def_function_params_Builder_set_param_count tree_capnp ?b (- 1) ?m) = (e, m')" by fastforce
  show ?thesis
    using def_function_params_written [OF tree_builder.capnp_builder_axioms b i,
        of "XCall (function_Client_new 5) [XParameter 0]" 2]
    by (intro exI) (simp add: function_Client_new_def)
qed

text \<open>
  C27. The conversions of \<open>Operator\<close>: \<open>from_u16\<close> inverts \<open>to_u16\<close>; a number is converted exactly when it is
  below 4, and then \<open>to_u16\<close> gives it back; any other number is \<open>Err(NotInSchema)\<close> of itself.
\<close>

theorem Operator_enum:
  "Operator_from_u16 (Operator_to_u16 x) = Ok x \<and>
   (case Operator_from_u16 n of
      Ok y \<Rightarrow> Operator_to_u16 y = n \<and> unat n < 4
    | Err (NotInSchema k) \<Rightarrow> k = n \<and> 4 \<le> unat n)"
proof -
  have "4 \<le> unat n" if "n \<noteq> 0" "n \<noteq> 1" "n \<noteq> 2" "n \<noteq> 3"
    using that by (auto simp: word_unat_eq_iff)
  then show ?thesis
    by (simp add: Operator_to_u16_def Operator_round_trip Operator_from_u16_def [of n])
qed

text \<open>
  C28. The request of \<open>getOperator\<close>: the operator set last is the one the getters of the builder and
  of a reader return, and a struct that was never set reads as \<open>Add\<close>.
\<close>

theorem get_operator_params_op:
  assumes L: "capnp_builder L V" and p: "plive V m pb"
    and i: "get_operator_params_Builder_init_pointer L pb k m = (b, m')"
  shows "get_operator_params_Reader_get_op L (get_operator_params_Builder_into_reader L b m') = Ok Add \<and>
    get_operator_params_Reader_get_op L (get_operator_params_Builder_into_reader L b
      (get_operator_params_Builder_set_op L b x m')) = Ok x \<and>
    get_operator_params_Builder_get_op L b (get_operator_params_Builder_set_op L b x m') = Ok x"
proof -
  note R = capnp_builder.axioms(1) [OF L]
  note f = get_operator_params_m.init_ok(1) [OF L p i, unfolded get_operator_params_Builder_struct_size_def]
  note b = fresh_struct_ok [OF f]
  show ?thesis
    using get_operator_op.put_same [OF L b, of "Operator_as_u16 x"] get_operator_op.put_then_get [OF L b]
      capnp_builder.reader_fresh(1) [OF L f]
    by (simp add: get_operator_params_defs capnp_reader.get_u16 [OF R] Operator_round_trip
        Operator_from_u16_def [of 0])
qed

theorem get_operator_params_op_witness:
  "get_operator_params_Builder_get_op tree_capnp (get_operator_params_Builder (StructBuilder []))
     (get_operator_params_Builder_set_op tree_capnp (get_operator_params_Builder (StructBuilder [])) Divide
       (snd (get_operator_params_Builder_init_pointer tree_capnp (PointerBuilder []) 0 ONull))) = Ok Divide"
proof -
  have i: "get_operator_params_Builder_init_pointer tree_capnp (PointerBuilder []) 0 ONull =
      (get_operator_params_Builder (StructBuilder []),
       snd (get_operator_params_Builder_init_pointer tree_capnp (PointerBuilder []) 0 ONull))"
    by (simp add: get_operator_params_Builder_init_pointer_def get_operator_params_Builder_new_def
        tree_capnp_def tree_init_struct_def)
  have "plive tree_view ONull (PointerBuilder [])" by simp
  from get_operator_params_op [OF tree_builder.capnp_builder_axioms this i, of Divide]
  show ?thesis by simp
qed

text \<open>
  C29. The results that carry a capability: the client given to \<open>set_value\<close> of \<open>evaluate_results\<close>, to
  \<open>set_func\<close> of \<open>def_function_results\<close> and to \<open>set_func\<close> of \<open>get_operator_results\<close> is the client that the getter
  of a reader and the getter of the builder return.
\<close>

theorem results_capabilities:
  assumes L: "capnp_builder L V"
    and 1: "struct_ok V m (evaluate_results_Builder_builder b1) evaluate_results_STRUCT_SIZE"
    and 2: "struct_ok V m (def_function_results_Builder_builder b2) def_function_results_STRUCT_SIZE"
    and 3: "struct_ok V m (get_operator_results_Builder_builder b3) get_operator_results_STRUCT_SIZE"
  shows "(let m' = evaluate_results_Builder_set_value L b1 v m in
      evaluate_results_Reader_get_value L (evaluate_results_Builder_into_reader L b1 m') = Ok v \<and>
      evaluate_results_Builder_get_value L b1 m' = Ok v) \<and>
    (let m' = def_function_results_Builder_set_func L b2 f m in
      def_function_results_Reader_get_func L (def_function_results_Builder_into_reader L b2 m') = Ok f \<and>
      def_function_results_Builder_get_func L b2 m' = Ok f) \<and>
    (let m' = get_operator_results_Builder_set_func L b3 f m in
      get_operator_results_Reader_get_func L (get_operator_results_Builder_into_reader L b3 m') = Ok f \<and>
      get_operator_results_Builder_get_func L b3 m' = Ok f)"
  using evaluate_value.put_then_get [OF L 1] def_function_func.put_then_get [OF L 2]
    get_operator_func.put_then_get [OF L 3]
  by (simp add: Let_def evaluate_value.put_then_bget [OF L 1] def_function_func.put_then_bget [OF L 2]
      get_operator_func.put_then_bget [OF L 3] evaluate_results_Builder_into_reader_def evaluate_results_Reader_new_def
      def_function_results_Builder_into_reader_def def_function_results_Reader_new_def
      get_operator_results_Builder_into_reader_def get_operator_results_Reader_new_def)

theorem results_capabilities_witness:
  "evaluate_results_Reader_get_value tree_capnp (evaluate_results_Builder_into_reader tree_capnp
     (evaluate_results_Builder (StructBuilder []))
     (evaluate_results_Builder_set_value tree_capnp (evaluate_results_Builder (StructBuilder []))
       (value_Client_new 8) (zero_struct \<lparr>ss_data = 0, ss_pointers = 1\<rparr>))) = Ok (value_Client_new 8)"
  using results_capabilities [OF tree_builder.capnp_builder_axioms,
      of "zero_struct \<lparr>ss_data = 0, ss_pointers = 1\<rparr>" "evaluate_results_Builder (StructBuilder [])"
        "def_function_results_Builder (StructBuilder [])" "get_operator_results_Builder (StructBuilder [])"
        "value_Client_new 8" "function_Client_new 8"]
    fresh_struct_ok [OF tree_root_fresh, of "\<lparr>ss_data = 0, ss_pointers = 1\<rparr>"]
  by (simp add: evaluate_results_STRUCT_SIZE_def def_function_results_STRUCT_SIZE_def
      get_operator_results_STRUCT_SIZE_def Let_def)

text \<open>
  C30. The results that carry a number: the \<open>f64\<close> given to \<open>set_value\<close> of \<open>value::read_results\<close> and of
  \<open>function::call_results\<close> comes back bit by bit from the getters of the builder and of a reader.
\<close>

theorem results_numbers:
  assumes L: "capnp_builder L V"
    and 1: "struct_ok V m (value_read_results_Builder_builder b1) value_read_results_STRUCT_SIZE"
    and 2: "struct_ok V m (function_call_results_Builder_builder b2) function_call_results_STRUCT_SIZE"
  shows "(let m' = value_read_results_Builder_set_value L b1 v m in
      value_read_results_Reader_get_value L (value_read_results_Builder_into_reader L b1 m') = v \<and>
      value_read_results_Builder_get_value L b1 m' = v) \<and>
    (let m' = function_call_results_Builder_set_value L b2 v m in
      function_call_results_Reader_get_value L (function_call_results_Builder_into_reader L b2 m') = v \<and>
      function_call_results_Builder_get_value L b2 m' = v)"
  using value_read_results_value.put_then_get [OF L 1] function_call_results_value.put_then_get [OF L 2]
    value_read_results_value.put_same [OF L 1, of v] function_call_results_value.put_same [OF L 2, of v]
  by (simp add: Let_def value_read_results_value.reads [OF capnp_builder.axioms(1) [OF L]]
      function_call_results_value.reads [OF capnp_builder.axioms(1) [OF L]]
      value_read_results_Builder_into_reader_def value_read_results_Reader_new_def
      function_call_results_Builder_into_reader_def function_call_results_Reader_new_def)

theorem results_numbers_witness:
  "value_read_results_Reader_get_value tree_capnp (value_read_results_Builder_into_reader tree_capnp
     (value_read_results_Builder (StructBuilder []))
     (value_read_results_Builder_set_value tree_capnp (value_read_results_Builder (StructBuilder []))
       0x7FF8000000000001 (zero_struct \<lparr>ss_data = 1, ss_pointers = 0\<rparr>))) = 0x7FF8000000000001"
  using results_numbers [OF tree_builder.capnp_builder_axioms,
      of "zero_struct \<lparr>ss_data = 1, ss_pointers = 0\<rparr>" "value_read_results_Builder (StructBuilder [])"
        "function_call_results_Builder (StructBuilder [])" "0x7FF8000000000001"]
    fresh_struct_ok [OF tree_root_fresh, of "\<lparr>ss_data = 1, ss_pointers = 0\<rparr>"]
  by (simp add: value_read_results_STRUCT_SIZE_def function_call_results_STRUCT_SIZE_def Let_def)

text \<open>
  C37. The getters of the builders of request parameters.  \<open>get_expression\<close> and \<open>get_body\<close> return a builder of the
  expression that a reader of the parameters finds there, of the literal 0 when there is none yet;
  \<open>get_param_count\<close>, \<open>get_op\<close> and the \<open>has_\<close> functions agree with those of a reader.
\<close>

theorem params_builders_agree:
  assumes L: "capnp_builder L V"
    and e: "struct_ok V m (evaluate_params_Builder_builder e) evaluate_params_STRUCT_SIZE"
      "struct_slot V m (sb_get_pointer_field L (evaluate_params_Builder_builder e) 0) expression_STRUCT_SIZE"
    and d: "struct_ok V m (def_function_params_Builder_builder d) def_function_params_STRUCT_SIZE"
      "struct_slot V m (sb_get_pointer_field L (def_function_params_Builder_builder d) 0) expression_STRUCT_SIZE"
    and g: "struct_ok V m (get_operator_params_Builder_builder g) get_operator_params_STRUCT_SIZE"
    and c: "struct_ok V m (function_call_params_Builder_builder c) function_call_params_STRUCT_SIZE"
  shows "(\<exists>x m'. evaluate_params_Builder_get_expression L e m = (Ok x, m') \<and>
      content V m' (sb_get_pointer_field L (evaluate_params_Builder_builder e) 0) =
        CStruct (expression_Builder_builder x) \<and>
      evaluate_params_value (Suc n) L e m = Ok (expression_value (Suc n) L x m')) \<and>
    (\<exists>x m'. def_function_params_Builder_get_body L d m = (Ok x, m') \<and>
      content V m' (sb_get_pointer_field L (def_function_params_Builder_builder d) 0) =
        CStruct (expression_Builder_builder x) \<and>
      def_function_params_value (Suc n) L d m =
        (def_function_params_Builder_get_param_count L d m, Ok (expression_value (Suc n) L x m'))) \<and>
    get_operator_params_Builder_get_op L g m =
      get_operator_params_Reader_get_op L (get_operator_params_Builder_into_reader L g m) \<and>
    evaluate_params_Builder_has_expression L e m =
      evaluate_params_Reader_has_expression L (evaluate_params_Builder_into_reader L e m) \<and>
    def_function_params_Builder_has_body L d m =
      def_function_params_Reader_has_body L (def_function_params_Builder_into_reader L d m) \<and>
    function_call_params_Builder_has_params L c m =
      function_call_params_Reader_has_params L (function_call_params_Builder_into_reader L c m)"
proof -
  have r: "def_function_params_Reader_reader (def_function_params_Builder_into_reader L d m) =
      sb_into_reader L (def_function_params_Builder_builder d) m"
    "get_operator_params_Reader_reader (get_operator_params_Builder_into_reader L g m) =
      sb_into_reader L (get_operator_params_Builder_builder g) m"
    by (simp_all add: def_function_params_defs get_operator_params_defs)
  note get = def_function_count.get_agrees [OF L d(1) r(1)] get_operator_op.get_agrees [OF L g r(2)]
  show ?thesis
    using capnp_builder.expression_get_agrees [OF L e(1) evaluate_expression.slot_bound e(2), of n]
      capnp_builder.expression_get_agrees [OF L d(1) def_function_body.slot_bound d(2), of n] get
      evaluate_expression.has_agrees [OF L e(1)] def_function_body.has_agrees [OF L d(1)]
      function_call_params_slot.has_agrees [OF L c]
    by (simp add: evaluate_params_value_def def_function_params_value_def Let_def evaluate_params_defs
        def_function_params_defs get_operator_params_defs function_call_params_defs)
qed

theorem params_builders_agree_witness:
  "\<exists>x m'. evaluate_params_Builder_get_expression tree_capnp (evaluate_params_Builder (StructBuilder []))
      (OStruct (replicate 8 0) [ONull]) = (Ok x, m') \<and>
    evaluate_params_value 1 tree_capnp (evaluate_params_Builder (StructBuilder []))
      (OStruct (replicate 8 0) [ONull]) = Ok (expression_value 1 tree_capnp x m')"
proof -
  let ?m = "OStruct (replicate 8 0) [ONull] :: nat tree"
  have ok: "struct_ok tree_view ?m (StructBuilder []) sz"
    if "ss_data sz \<in> {0, 1}" "ss_pointers sz \<in> {0, 1}" for sz
    using that by (auto simp: struct_ok_def tree_live_def)
  have slot: "struct_slot tree_view ?m (sb_get_pointer_field tree_capnp (StructBuilder []) 0) expression_STRUCT_SIZE"
    by (simp add: struct_slot_def)
  show ?thesis
    using params_builders_agree [OF tree_builder.capnp_builder_axioms,
        of ?m "evaluate_params_Builder (StructBuilder [])" "def_function_params_Builder (StructBuilder [])"
        "get_operator_params_Builder (StructBuilder [])" "function_call_params_Builder (StructBuilder [])" 0] ok slot
    by (auto simp: evaluate_params_STRUCT_SIZE_def def_function_params_STRUCT_SIZE_def
        get_operator_params_STRUCT_SIZE_def function_call_params_STRUCT_SIZE_def simp del: tree_view_simps)
qed

end
