(* ===== verification/Calc_Interface.thy ===== *)
theory Calc_Interface
  imports Calc_Methods
begin

text \<open>
  The interface \<open>calculator\<close> of \<open>rust/src/schema/calculator_capnp.rs\<close>: its client with the three
  requests, the server trait with its default methods, and the dispatcher.
\<close>

named_theorems calculator_iface_defs

section \<open>The interface \<open>calculator\<close>\<close>

definition calculator_TYPE_ID :: "u64" where [calculator_iface_defs]:
  "calculator_TYPE_ID = 0x97983392df35cc36"

type_synonym 'p calculator_EvaluateParams = 'p

type_synonym 'r calculator_EvaluateResults = 'r

type_synonym 'p calculator_DefFunctionParams = 'p

type_synonym 'r calculator_DefFunctionResults = 'r

type_synonym 'p calculator_GetOperatorParams = 'p

type_synonym 'r calculator_GetOperatorResults = 'r

datatype 'h calculator_Client = calculator_Client (calculator_Client_client: "'h cap_Client")

definition calculator_Client_new ::
  "'h \<Rightarrow> 'h calculator_Client" where [calculator_iface_defs]:
  "calculator_Client_new hk = calculator_Client (cap_Client hk)"

definition calculator_Client_reader_get_from_pointer ::
  "('m, 'h, 'e) capnp \<Rightarrow> 'm PointerReader \<Rightarrow>
     ('h calculator_Client, 'e) result" where [calculator_iface_defs]:
  "calculator_Client_reader_get_from_pointer L reader =
     result_bind (pr_get_capability L reader) (\<lambda>c. Ok (calculator_Client_new c))"

definition calculator_Client_init_pointer ::
  "PointerBuilder \<Rightarrow> u32 \<Rightarrow> 'm \<Rightarrow>
     ('h calculator_Client \<times> 'm) outcome" where [calculator_iface_defs]:
  "calculator_Client_init_pointer builder sz m = Panicked Unimplemented"

definition calculator_Client_builder_get_from_pointer ::
  "('m, 'h, 'e) capnp \<Rightarrow> PointerBuilder \<Rightarrow> 'm \<Rightarrow>
     ('h calculator_Client, 'e) result" where [calculator_iface_defs]:
  "calculator_Client_builder_get_from_pointer L builder m =
     result_bind (pb_get_capability L builder m) (\<lambda>c. Ok (calculator_Client_new c))"

definition calculator_Client_set_pointer_builder ::
  "('m, 'h, 'e) capnp \<Rightarrow> PointerBuilder \<Rightarrow>
     'h calculator_Client \<Rightarrow> bool \<Rightarrow> 'm \<Rightarrow> (unit, 'e) result \<times> 'm" where [calculator_iface_defs]:
  "calculator_Client_set_pointer_builder L pointer c canonicalize m =
     (Ok (), pb_set_capability L pointer (hook (calculator_Client_client c)) m)"

datatype 's calculator_ServerDispatch = calculator_ServerDispatch (calculator_ServerDispatch_server: 's)

datatype 'u calculator_ToClient = calculator_ToClient (calculator_ToClient_u: 'u)

definition calculator_ToClient_new ::
  "'u \<Rightarrow> 'u calculator_ToClient" where [calculator_iface_defs]:
  "calculator_ToClient_new u = calculator_ToClient u"

definition calculator_ToClient_into_client ::
  "('s calculator_ServerDispatch \<Rightarrow> 'h cap_Client) \<Rightarrow>
     's calculator_ToClient \<Rightarrow> 'h calculator_Client" where [calculator_iface_defs]:
  "calculator_ToClient_into_client new_client self =
     calculator_Client (new_client (calculator_ServerDispatch (calculator_ToClient_u self)))"

definition calculator_ToClient_from_server ::
  "('s calculator_ServerDispatch \<Rightarrow> 'h cap_Client) \<Rightarrow>
     's calculator_ToClient \<Rightarrow> 'h calculator_Client" where [calculator_iface_defs]:
  "calculator_ToClient_from_server new_client self =
     calculator_ToClient_into_client new_client self"

definition calculator_Client_type_id :: "u64" where [calculator_iface_defs]:
  "calculator_Client_type_id = calculator_TYPE_ID"

definition calculator_Client_clone ::
  "('m, 'h, 'e) capnp \<Rightarrow> 'h calculator_Client \<Rightarrow>
     'h calculator_Client" where [calculator_iface_defs]:
  "calculator_Client_clone L self =
     calculator_Client (cap_Client (hook_add_ref L (hook (calculator_Client_client self))))"

definition calculator_Client_evaluate_request ::
  "('h, 'q, 'p, 'r, 't, 'e) rpc \<Rightarrow> 'h calculator_Client \<Rightarrow>
     'q" where [calculator_iface_defs]:
  "calculator_Client_evaluate_request R self =
     new_call R (calculator_Client_client self) calculator_TYPE_ID 0 None"

definition calculator_Client_def_function_request ::
  "('h, 'q, 'p, 'r, 't, 'e) rpc \<Rightarrow> 'h calculator_Client \<Rightarrow>
     'q" where [calculator_iface_defs]:
  "calculator_Client_def_function_request R self =
     new_call R (calculator_Client_client self) calculator_TYPE_ID 1 None"

definition calculator_Client_get_operator_request ::
  "('h, 'q, 'p, 'r, 't, 'e) rpc \<Rightarrow> 'h calculator_Client \<Rightarrow>
     'q" where [calculator_iface_defs]:
  "calculator_Client_get_operator_request R self =
     new_call R (calculator_Client_client self) calculator_TYPE_ID 2 None"

record ('s, 'p, 'r, 't) calculator_Server =
  calculator_Server_evaluate :: "'s \<Rightarrow> 'p calculator_EvaluateParams \<Rightarrow> 'r calculator_EvaluateResults \<Rightarrow> 't \<times> 's"
  calculator_Server_def_function :: "'s \<Rightarrow> 'p calculator_DefFunctionParams \<Rightarrow> 'r calculator_DefFunctionResults \<Rightarrow> 't \<times> 's"
  calculator_Server_get_operator :: "'s \<Rightarrow> 'p calculator_GetOperatorParams \<Rightarrow> 'r calculator_GetOperatorResults \<Rightarrow> 't \<times> 's"

definition calculator_Server_default_evaluate ::
  "('h, 'q, 'p, 'r, 't, 'e) rpc \<Rightarrow> 's \<Rightarrow>
     'p calculator_EvaluateParams \<Rightarrow> 'r calculator_EvaluateResults \<Rightarrow> 't \<times> 's" where [calculator_iface_defs]:
  "calculator_Server_default_evaluate R self params results =
     (promise_err R (error_unimplemented R ''method not implemented''), self)"

definition calculator_Server_default_def_function ::
  "('h, 'q, 'p, 'r, 't, 'e) rpc \<Rightarrow> 's \<Rightarrow>
     'p calculator_DefFunctionParams \<Rightarrow> 'r calculator_DefFunctionResults \<Rightarrow> 't \<times> 's" where [calculator_iface_defs]:
  "calculator_Server_default_def_function R self params results =
     (promise_err R (error_unimplemented R ''method not implemented''), self)"

definition calculator_Server_default_get_operator ::
  "('h, 'q, 'p, 'r, 't, 'e) rpc \<Rightarrow> 's \<Rightarrow>
     'p calculator_GetOperatorParams \<Rightarrow> 'r calculator_GetOperatorResults \<Rightarrow> 't \<times> 's" where [calculator_iface_defs]:
  "calculator_Server_default_get_operator R self params results =
     (promise_err R (error_unimplemented R ''method not implemented''), self)"

definition calculator_Server_default ::
  "('h, 'q, 'p, 'r, 't, 'e) rpc \<Rightarrow>
     ('s, 'p, 'r, 't) calculator_Server" where [calculator_iface_defs]:
  "calculator_Server_default R =
     \<lparr>calculator_Server_evaluate = calculator_Server_default_evaluate R,
      calculator_Server_def_function = calculator_Server_default_def_function R,
      calculator_Server_get_operator = calculator_Server_default_get_operator R\<rparr>"

definition calculator_ServerDispatch_dispatch_call_internal ::
  "('h, 'q, 'p, 'r, 't, 'e) rpc \<Rightarrow>
     ('s, 'p, 'r, 't) calculator_Server \<Rightarrow> 's \<Rightarrow> u16 \<Rightarrow> 'p \<Rightarrow> 'r \<Rightarrow> 't \<times> 's" where [calculator_iface_defs]:
  "calculator_ServerDispatch_dispatch_call_internal R T server method_id params results =
     (if method_id = 0 then
        calculator_Server_evaluate T server (internal_get_typed_params R params)
          (internal_get_typed_results R results)
      else if method_id = 1 then
        calculator_Server_def_function T server (internal_get_typed_params R params)
          (internal_get_typed_results R results)
      else if method_id = 2 then
        calculator_Server_get_operator T server (internal_get_typed_params R params)
          (internal_get_typed_results R results)
      else (promise_err R (error_unimplemented R ''Method not implemented.''), server))"

definition calculator_ServerDispatch_dispatch_call ::
  "('h, 'q, 'p, 'r, 't, 'e) rpc \<Rightarrow>
     ('s, 'p, 'r, 't) calculator_Server \<Rightarrow> 's calculator_ServerDispatch \<Rightarrow> u64 \<Rightarrow> u16 \<Rightarrow> 'p \<Rightarrow> 'r \<Rightarrow> 't \<times> 's calculator_ServerDispatch" where [calculator_iface_defs]:
  "calculator_ServerDispatch_dispatch_call R T self interface_id method_id params results =
     (if interface_id = calculator_TYPE_ID then
        (case calculator_ServerDispatch_dispatch_call_internal R T
                (calculator_ServerDispatch_server self) method_id params results of
           (t, server) \<Rightarrow> (t, calculator_ServerDispatch server))
      else (promise_err R (error_unimplemented R ''Method not implemented.''), self))"

section \<open>The contracts\<close>

interpretation calculator_client: client_type calculator_Client_new "\<lambda>c. hook (calculator_Client_client c)"
  calculator_Client_reader_get_from_pointer calculator_Client_builder_get_from_pointer
  calculator_Client_set_pointer_builder calculator_Client_clone
  by unfold_locales
    (simp_all add: calculator_iface_defs calculator_Client_new_def [abs_def] result_bind_map)

fun calculator_Server_method ::
  "('s, 'p, 'r, 't) calculator_Server \<Rightarrow> nat \<Rightarrow> 's \<Rightarrow> 'p \<Rightarrow> 'r \<Rightarrow> 't \<times> 's" where
  "calculator_Server_method T k s p r =
     (if k = 0 then calculator_Server_evaluate T s p r else if k = 1 then calculator_Server_def_function T s p r
      else calculator_Server_get_operator T s p r)"

interpretation calculator_rpc: rpc_interface calculator_TYPE_ID 3 calculator_ServerDispatch calculator_Server_method
  calculator_Server_default calculator_ServerDispatch_dispatch_call
  by unfold_locales
    (auto simp: calculator_ServerDispatch_dispatch_call_def calculator_ServerDispatch_dispatch_call_internal_def
      calculator_Server_default_def calculator_Server_default_evaluate_def calculator_Server_default_def_function_def calculator_Server_default_get_operator_def map_prod_def
      word_unat_eq_iff split: prod.splits)

lemmas dispatch_known = calculator_rpc.known value_rpc.known function_rpc.known

lemmas dispatch_unknown = calculator_rpc.unknown value_rpc.unknown function_rpc.unknown

lemmas request_defs = calculator_Client_evaluate_request_def calculator_Client_def_function_request_def
  calculator_Client_get_operator_request_def value_Client_read_request_def function_Client_call_request_def

lemmas type_id_defs = calculator_TYPE_ID_def value_TYPE_ID_def function_TYPE_ID_def

section \<open>Properties\<close>

text \<open>
  C6. Client and server agree on the interface id and on the ordinal of every method: when a call
  carries the id and the ordinal that \<open>new_call\<close> was given, then each of the five requests of the
  clients, dispatched at a server of its interface, runs the method of the same name, on the
  server's state and with the parameters and results of the call, and its promise is the answer.
\<close>

theorem requests_reach_methods:
  assumes id: "\<And>c i n h. interface_id_of (new_call R c i n h) = i"
    and nr: "\<And>c i n h. method_id_of (new_call R c i n h) = n"
  shows "(let q = calculator_Client_evaluate_request R c in
      calculator_ServerDispatch_dispatch_call R T (calculator_ServerDispatch s)
          (interface_id_of q) (method_id_of q) p r =
        map_prod id calculator_ServerDispatch (calculator_Server_evaluate T s (internal_get_typed_params R p)
          (internal_get_typed_results R r))) \<and>
    (let q = calculator_Client_def_function_request R c in
      calculator_ServerDispatch_dispatch_call R T (calculator_ServerDispatch s)
          (interface_id_of q) (method_id_of q) p r =
        map_prod id calculator_ServerDispatch (calculator_Server_def_function T s (internal_get_typed_params R p)
          (internal_get_typed_results R r))) \<and>
    (let q = calculator_Client_get_operator_request R c in
      calculator_ServerDispatch_dispatch_call R T (calculator_ServerDispatch s)
          (interface_id_of q) (method_id_of q) p r =
        map_prod id calculator_ServerDispatch (calculator_Server_get_operator T s (internal_get_typed_params R p)
          (internal_get_typed_results R r))) \<and>
    (let q = value_Client_read_request R cv in
      value_ServerDispatch_dispatch_call R Tv (value_ServerDispatch sv)
          (interface_id_of q) (method_id_of q) p r =
        map_prod id value_ServerDispatch (value_Server_read Tv sv (internal_get_typed_params R p)
          (internal_get_typed_results R r))) \<and>
    (let q = function_Client_call_request R cf in
      function_ServerDispatch_dispatch_call R Tf (function_ServerDispatch sf)
          (interface_id_of q) (method_id_of q) p r =
        map_prod id function_ServerDispatch (function_Server_call Tf sf (internal_get_typed_params R p)
          (internal_get_typed_results R r)))"
  by (simp add: request_defs id nr dispatch_known)

theorem requests_reach_methods_witness:
  "calculator_ServerDispatch_dispatch_call
     \<lparr>new_call = \<lambda>(c :: nat cap_Client) i n h. (i, n), promise_err = \<lambda>e :: string. (0 :: nat), error_unimplemented = id,
      internal_get_typed_params = id, internal_get_typed_results = id\<rparr>
     \<lparr>calculator_Server_evaluate = \<lambda>s p r. (p + r, s + 1), calculator_Server_def_function = \<lambda>s p r. (1, s),
      calculator_Server_get_operator = \<lambda>s p r. (2, s)\<rparr>
     (calculator_ServerDispatch (7 :: nat)) 0x97983392df35cc36 0 3 4 = (7, calculator_ServerDispatch 8)"
  using requests_reach_methods [where interface_id_of = fst and method_id_of = snd and R =
     "\<lparr>new_call = \<lambda>(c :: nat cap_Client) i n h. (i, n), promise_err = \<lambda>e :: string. (0 :: nat), error_unimplemented = id,
      internal_get_typed_params = id, internal_get_typed_results = id\<rparr>" and T =
     "\<lparr>calculator_Server_evaluate = \<lambda>s p r. (p + r, s + 1), calculator_Server_def_function = \<lambda>s p r. (1, s),
      calculator_Server_get_operator = \<lambda>s p r. (2, s)\<rparr>" and s = "7 :: nat" and p = 3 and r = 4,
     THEN conjunct1]
  by (simp add: Let_def request_defs type_id_defs)

text \<open>
  C15. A call that a server does not know, be it of another interface or with an ordinal the interface
  does not have, is answered by the error \<open>Method not implemented.\<close>, no method runs and the
  server's state stays as it was, whatever methods the server has.  This includes every request
  of one of the three interfaces that reaches a server of another: their ids are distinct.
\<close>

theorem calls_unknown:
  "(i \<noteq> calculator_TYPE_ID \<or> 3 \<le> unat n \<longrightarrow>
      calculator_ServerDispatch_dispatch_call R T (calculator_ServerDispatch s) i n p r =
        (promise_err R (error_unimplemented R ''Method not implemented.''), calculator_ServerDispatch s)) \<and>
    (i \<noteq> value_TYPE_ID \<or> 1 \<le> unat n \<longrightarrow>
      value_ServerDispatch_dispatch_call R Tv (value_ServerDispatch sv) i n p r =
        (promise_err R (error_unimplemented R ''Method not implemented.''), value_ServerDispatch sv)) \<and>
    (i \<noteq> function_TYPE_ID \<or> 1 \<le> unat n \<longrightarrow>
      function_ServerDispatch_dispatch_call R Tf (function_ServerDispatch sf) i n p r =
        (promise_err R (error_unimplemented R ''Method not implemented.''), function_ServerDispatch sf)) \<and>
    distinct [calculator_Client_type_id, value_Client_type_id, function_Client_type_id]"
  by (simp add: dispatch_unknown calculator_Client_type_id_def value_Client_type_id_def
      function_Client_type_id_def) (simp add: type_id_defs)

theorem calls_unknown_witness:
  "calculator_ServerDispatch_dispatch_call
     \<lparr>new_call = \<lambda>(c :: nat cap_Client) i n h. (i, n), promise_err = id, error_unimplemented = id,
      internal_get_typed_params = id, internal_get_typed_results = id\<rparr>
     \<lparr>calculator_Server_evaluate = \<lambda>s (p :: nat) (r :: nat). ('''', s + 1), calculator_Server_def_function = \<lambda>s p r. ('''', s),
      calculator_Server_get_operator = \<lambda>s p r. ('''', s)\<rparr>
     (calculator_ServerDispatch (7 :: nat)) calculator_TYPE_ID 3 3 4 =
   (''Method not implemented.'', calculator_ServerDispatch 7)"
  using calls_unknown [where i = calculator_TYPE_ID and n = 3 and R =
     "\<lparr>new_call = \<lambda>(c :: nat cap_Client) i n h. (i, n), promise_err = id, error_unimplemented = id,
      internal_get_typed_params = id, internal_get_typed_results = id\<rparr>" and T =
     "\<lparr>calculator_Server_evaluate = \<lambda>s (p :: nat) (r :: nat). ('''', s + 1), calculator_Server_def_function = \<lambda>s p r. ('''', s),
      calculator_Server_get_operator = \<lambda>s p r. ('''', s)\<rparr>" and s = "7 :: nat" and p = 3 and r = 4,
     THEN conjunct1]
  by simp

text \<open>
  C32. A server type that overrides no method of its trait answers every call, of every interface id and
  ordinal, by an \<open>unimplemented\<close> error, and its state never changes.
\<close>

theorem servers_default:
  "(\<exists>msg. calculator_ServerDispatch_dispatch_call R (calculator_Server_default R)
      (calculator_ServerDispatch s) i n p r =
        (promise_err R (error_unimplemented R msg), calculator_ServerDispatch s)) \<and>
   (\<exists>msg. value_ServerDispatch_dispatch_call R (value_Server_default R)
      (value_ServerDispatch s) i n p r =
        (promise_err R (error_unimplemented R msg), value_ServerDispatch s)) \<and>
   (\<exists>msg. function_ServerDispatch_dispatch_call R (function_Server_default R)
      (function_ServerDispatch s) i n p r =
        (promise_err R (error_unimplemented R msg), function_ServerDispatch s))"
  by (intro conjI calculator_rpc.default_unimplemented value_rpc.default_unimplemented
      function_rpc.default_unimplemented)

text \<open>
  C33. A client of each of the three interfaces stored in a pointer of a message is the client that
  the builder and every reader of that pointer get back; storing it never fails.  Initialising a
  pointer as a client is the one operation of the generated code that panics.
\<close>

theorem clients_in_pointers:
  assumes "capnp_builder L V" and "plive V m pb"
  shows "(case calculator_Client_set_pointer_builder L pb c canon m of (res, m') \<Rightarrow>
      res = Ok () \<and> calculator_Client_builder_get_from_pointer L pb m' = Ok c \<and>
      calculator_Client_reader_get_from_pointer L (preader V pb m') = Ok c) \<and>
    (case value_Client_set_pointer_builder L pb cv canon m of (res, m') \<Rightarrow>
      res = Ok () \<and> value_Client_builder_get_from_pointer L pb m' = Ok cv \<and>
      value_Client_reader_get_from_pointer L (preader V pb m') = Ok cv) \<and>
    (case function_Client_set_pointer_builder L pb cf canon m of (res, m') \<Rightarrow>
      res = Ok () \<and> function_Client_builder_get_from_pointer L pb m' = Ok cf \<and>
      function_Client_reader_get_from_pointer L (preader V pb m') = Ok cf) \<and>
    calculator_Client_init_pointer pb sz m = Panicked Unimplemented \<and>
    value_Client_init_pointer pb sz m = Panicked Unimplemented \<and>
    function_Client_init_pointer pb sz m = Panicked Unimplemented"
  by (intro conjI calculator_client.stored [OF assms] value_client.stored [OF assms]
      function_client.stored [OF assms])
    (simp_all add: calculator_Client_init_pointer_def value_Client_init_pointer_def
      function_Client_init_pointer_def)

theorem clients_in_pointers_witness:
  "value_Client_builder_get_from_pointer tree_capnp (PointerBuilder [0])
     (snd (value_Client_set_pointer_builder tree_capnp (PointerBuilder [0]) (value_Client_new (8 :: nat)) False
        (zero_struct \<lparr>ss_data = 0, ss_pointers = 1\<rparr>))) = Ok (value_Client_new 8)"
proof -
  let ?m = "zero_struct \<lparr>ss_data = 0, ss_pointers = 1\<rparr> :: nat tree"
  have "plive tree_view ?m (sb_get_pointer_field tree_capnp (StructBuilder []) 0)"
    using capnp_builder.slot_ok [OF tree_builder.capnp_builder_axioms fresh_struct_ok [OF tree_root_fresh], of 0]
    by simp
  then have "plive tree_view ?m (PointerBuilder [0])" by (simp add: tree_capnp_def)
  from clients_in_pointers [OF tree_builder.capnp_builder_axioms this,
      of "calculator_Client_new 8" False "value_Client_new 8" "function_Client_new 8" 0,
      THEN conjunct2, THEN conjunct1]
  show ?thesis by (simp add: prod.case_eq_if)
qed

end
