(* ===== verification/Frames_Rational.thy ===== *)
theory Frames_Rational
  imports Capnp_Traits
begin

text \<open>
  The module \<open>rational\<close> of \<open>rust/src/schema/frames_capnp.rs\<close>: \<open>Reader\<close>, \<open>Builder\<close> and \<open>Pipeline\<close>
  with all their functions, in the order of the source (the constants of \<open>_private\<close> first).
  The lemmas show that the setters refine the update of the schema's record.
\<close>

named_theorems rational_defs

section \<open>The module \<open>rational\<close>\<close>

definition rational_STRUCT_SIZE :: "StructSize" where [rational_defs]:
  "rational_STRUCT_SIZE = \<lparr>ss_data = 1, ss_pointers = 0\<rparr>"

definition rational_TYPE_ID :: "u64" where [rational_defs]:
  "rational_TYPE_ID = 0xe600925993c23cf3"

datatype 'm rational_Reader = rational_Reader (rational_Reader_reader: "'m StructReader")

definition rational_Reader_type_id :: "u64" where [rational_defs]:
  "rational_Reader_type_id = rational_TYPE_ID"

definition rational_Reader_new ::
  "'m StructReader \<Rightarrow> 'm rational_Reader" where [rational_defs]:
  "rational_Reader_new reader = rational_Reader reader"

definition rational_Reader_get_from_pointer ::
  "('m, 'h, 'e) capnp \<Rightarrow> 'm PointerReader \<Rightarrow>
     ('m rational_Reader, 'e) result" where [rational_defs]:
  "rational_Reader_get_from_pointer L reader =
     result_bind (pr_get_struct L reader) (\<lambda>s. Ok (rational_Reader_new s))"

definition rational_Reader_into_internal_struct_reader ::
  "'m rational_Reader \<Rightarrow> 'm StructReader" where [rational_defs]:
  "rational_Reader_into_internal_struct_reader self = rational_Reader_reader self"

definition rational_Reader_imbue ::
  "('m, 'h, 'e) capnp \<Rightarrow> 'm rational_Reader \<Rightarrow>
     'h CapTable \<Rightarrow> 'm rational_Reader" where [rational_defs]:
  "rational_Reader_imbue L self cap_table =
     rational_Reader (sr_imbue L (rational_Reader_reader self) cap_table)"

definition rational_Reader_reborrow ::
  "'m rational_Reader \<Rightarrow> 'm rational_Reader" where [rational_defs]:
  "rational_Reader_reborrow self = rational_Reader (rational_Reader_reader self)"

definition rational_Reader_total_size ::
  "('m, 'h, 'e) capnp \<Rightarrow> 'm rational_Reader \<Rightarrow>
     (MessageSize, 'e) result" where [rational_defs]:
  "rational_Reader_total_size L self = sr_total_size L (rational_Reader_reader self)"

definition rational_Reader_get_num ::
  "('m, 'h, 'e) capnp \<Rightarrow> 'm rational_Reader \<Rightarrow> u32" where [rational_defs]:
  "rational_Reader_get_num L self = sr_get_u32 L (rational_Reader_reader self) 0"

definition rational_Reader_get_den ::
  "('m, 'h, 'e) capnp \<Rightarrow> 'm rational_Reader \<Rightarrow> u32" where [rational_defs]:
  "rational_Reader_get_den L self = sr_get_u32 L (rational_Reader_reader self) 1"

datatype rational_Builder = rational_Builder (rational_Builder_builder: "StructBuilder")

definition rational_Builder_struct_size :: "StructSize" where [rational_defs]:
  "rational_Builder_struct_size = rational_STRUCT_SIZE"

definition rational_Builder_type_id :: "u64" where [rational_defs]:
  "rational_Builder_type_id = rational_TYPE_ID"

definition rational_Builder_new ::
  "StructBuilder \<Rightarrow> rational_Builder" where [rational_defs]:
  "rational_Builder_new builder = rational_Builder builder"

definition rational_Builder_imbue_mut ::
  "('m, 'h, 'e) capnp \<Rightarrow> rational_Builder \<Rightarrow>
     'h CapTable \<Rightarrow> rational_Builder" where [rational_defs]:
  "rational_Builder_imbue_mut L self cap_table =
     rational_Builder (sb_imbue L (rational_Builder_builder self) cap_table)"

definition rational_Builder_init_pointer ::
  "('m, 'h, 'e) capnp \<Rightarrow> PointerBuilder \<Rightarrow> u32 \<Rightarrow>
     'm \<Rightarrow> rational_Builder \<times> 'm" where [rational_defs]:
  "rational_Builder_init_pointer L builder sz m =
     (case pb_init_struct L builder rational_STRUCT_SIZE m of (s, m') \<Rightarrow> (rational_Builder_new s, m'))"

definition rational_Builder_get_from_pointer ::
  "('m, 'h, 'e) capnp \<Rightarrow> PointerBuilder \<Rightarrow> 'm \<Rightarrow>
     (rational_Builder, 'e) result \<times> 'm" where [rational_defs]:
  "rational_Builder_get_from_pointer L builder m =
     (case pb_get_struct L builder rational_STRUCT_SIZE m of
        (r, m') \<Rightarrow> (result_bind r (\<lambda>s. Ok (rational_Builder_new s)), m'))"

definition rational_Reader_set_pointer_builder ::
  "('m, 'h, 'e) capnp \<Rightarrow> PointerBuilder \<Rightarrow>
     'm rational_Reader \<Rightarrow> bool \<Rightarrow> 'm \<Rightarrow> (unit, 'e) result \<times> 'm" where [rational_defs]:
  "rational_Reader_set_pointer_builder L pointer value canonicalize m =
     pb_set_struct L pointer (rational_Reader_reader value) canonicalize m"

definition rational_Builder_into_reader ::
  "('m, 'h, 'e) capnp \<Rightarrow> rational_Builder \<Rightarrow> 'm \<Rightarrow>
     'm rational_Reader" where [rational_defs]:
  "rational_Builder_into_reader L self m =
     rational_Reader_new (sb_into_reader L (rational_Builder_builder self) m)"

definition rational_Builder_as_reader ::
  "('m, 'h, 'e) capnp \<Rightarrow> rational_Builder \<Rightarrow> 'm \<Rightarrow>
     'm rational_Reader" where [rational_defs]:
  "rational_Builder_as_reader L self m = rational_Builder_into_reader L self m"

definition rational_Builder_reborrow ::
  "rational_Builder \<Rightarrow> rational_Builder" where [rational_defs]:
  "rational_Builder_reborrow self = rational_Builder (rational_Builder_builder self)"

definition rational_Builder_reborrow_as_reader ::
  "('m, 'h, 'e) capnp \<Rightarrow> rational_Builder \<Rightarrow> 'm \<Rightarrow>
     'm rational_Reader" where [rational_defs]:
  "rational_Builder_reborrow_as_reader L self m =
     rational_Reader_new (sb_into_reader L (rational_Builder_builder self) m)"

definition rational_Builder_total_size ::
  "('m, 'h, 'e) capnp \<Rightarrow> rational_Builder \<Rightarrow> 'm \<Rightarrow>
     (MessageSize, 'e) result" where [rational_defs]:
  "rational_Builder_total_size L self m =
     sr_total_size L (sb_into_reader L (rational_Builder_builder self) m)"

definition rational_Builder_get_num ::
  "('m, 'h, 'e) capnp \<Rightarrow> rational_Builder \<Rightarrow> 'm \<Rightarrow>
     u32" where [rational_defs]:
  "rational_Builder_get_num L self m = sb_get_u32 L (rational_Builder_builder self) 0 m"

definition rational_Builder_set_num ::
  "('m, 'h, 'e) capnp \<Rightarrow> rational_Builder \<Rightarrow> u32 \<Rightarrow>
     'm \<Rightarrow> 'm" where [rational_defs]:
  "rational_Builder_set_num L self value m =
     sb_set_u32 L (rational_Builder_builder self) 0 value m"

definition rational_Builder_get_den ::
  "('m, 'h, 'e) capnp \<Rightarrow> rational_Builder \<Rightarrow> 'm \<Rightarrow>
     u32" where [rational_defs]:
  "rational_Builder_get_den L self m = sb_get_u32 L (rational_Builder_builder self) 1 m"

definition rational_Builder_set_den ::
  "('m, 'h, 'e) capnp \<Rightarrow> rational_Builder \<Rightarrow> u32 \<Rightarrow>
     'm \<Rightarrow> 'm" where [rational_defs]:
  "rational_Builder_set_den L self value m =
     sb_set_u32 L (rational_Builder_builder self) 1 value m"

datatype rational_Pipeline = rational_Pipeline (rational_Pipeline_typeless: "AnyPipeline")

definition rational_Pipeline_new ::
  "AnyPipeline \<Rightarrow> rational_Pipeline" where [rational_defs]:
  "rational_Pipeline_new typeless = rational_Pipeline typeless"

section \<open>The value of a rational\<close>

record rational_val =
  num :: u32
  den :: u32

definition rational_read :: "('m, 'h, 'e) capnp \<Rightarrow> 'm rational_Reader \<Rightarrow> rational_val" where
  "rational_read L r = \<lparr>num = rational_Reader_get_num L r, den = rational_Reader_get_den L r\<rparr>"

lemma rational_read_data:
  assumes "capnp_reader L V"
  shows "rational_read L r =
    \<lparr>num = read_field (rdata V (rational_Reader_reader r)) 0,
     den = read_field (rdata V (rational_Reader_reader r)) 1\<rparr>"
  using assms by (simp add: rational_read_def rational_defs capnp_reader.get_u32)

lemma rational_read_tree:
  "capnp_reader L V \<Longrightarrow>
     struct_obj V (rational_Reader_reader r) = struct_obj V (rational_Reader_reader r') \<Longrightarrow>
     rational_read L r = rational_read L r'"
  by (simp add: rational_read_data struct_obj_def)

section \<open>The module keeps its contract\<close>

interpretation rational_m: struct_value rational_Builder_struct_size
  rational_Reader_type_id rational_Builder_type_id rational_Reader_new
  rational_Reader_into_internal_struct_reader rational_Builder_new rational_Builder_builder
  rational_Reader_get_from_pointer rational_Builder_init_pointer rational_Builder_get_from_pointer
  rational_Reader_set_pointer_builder rational_Builder_into_reader rational_Reader_total_size
  rational_Builder_total_size rational_read
  by unfold_locales
    (simp add: rational_defs rational_Reader_new_def [abs_def] rational_Builder_new_def [abs_def]
      result_bind_map prod.case_eq_if map_prod_def | erule rational_read_tree)+

text \<open>A null pointer reads as the rational with both fields zero.\<close>

lemma rational_null:
  assumes "capnp_reader L V" and "robj V pr = ONull"
  shows "map_result (rational_read L) id (rational_Reader_get_from_pointer L pr) =
    Ok \<lparr>num = 0, den = 0\<rparr>"
proof -
  obtain r where "rational_Reader_get_from_pointer L pr = Ok r" "rdata V (rational_Reader_reader r) = []"
    using rational_m.read_null [OF assms] by (auto simp: rational_Reader_into_internal_struct_reader_def)
  then show ?thesis by (simp add: rational_read_data [OF assms(1)])
qed

interpretation rational_num: data_field rational_STRUCT_SIZE 0 rational_Reader_reader
  rational_Builder_builder rational_Reader_get_num rational_Builder_get_num rational_Builder_set_num
  by (rule u32_field) (simp_all add: rational_defs)

interpretation rational_den: data_field rational_STRUCT_SIZE 1 rational_Reader_reader
  rational_Builder_builder rational_Reader_get_den rational_Builder_get_den rational_Builder_set_den
  by (rule u32_field) (simp_all add: rational_defs)

section \<open>The setters refine the record updates\<close>

definition rational_ok ::
  "('m, 'h, 'e) capnp \<Rightarrow> ('m, 'h, 'e) view \<Rightarrow> rational_Builder \<Rightarrow> 'm \<Rightarrow> bool" where
  "rational_ok L V b m \<longleftrightarrow> struct_ok V m (rational_Builder_builder b) rational_STRUCT_SIZE"

definition rational_value ::
  "('m, 'h, 'e) capnp \<Rightarrow> rational_Builder \<Rightarrow> 'm \<Rightarrow> rational_val" where
  "rational_value L b m = rational_read L (rational_Builder_into_reader L b m)"

datatype rational_op = SetNum u32 | SetDen u32

fun rational_run ::
  "('m, 'h, 'e) capnp \<Rightarrow> rational_Builder \<Rightarrow> rational_op \<Rightarrow> 'm \<Rightarrow> 'm" where
  "rational_run L b (SetNum v) m = rational_Builder_set_num L b v m"
| "rational_run L b (SetDen v) m = rational_Builder_set_den L b v m"

fun rational_spec ::
  "('m, 'h, 'e) capnp \<Rightarrow> rational_op \<Rightarrow> rational_val \<Rightarrow> rational_val" where
  "rational_spec L (SetNum v) x = x\<lparr>num := v\<rparr>"
| "rational_spec L (SetDen v) x = x\<lparr>den := v\<rparr>"

context capnp_builder
begin

lemma rational_value_data:
  "rational_value L b m =
     \<lparr>num = read_field (rdata V (sb_into_reader L (rational_Builder_builder b) m)) 0,
      den = read_field (rdata V (sb_into_reader L (rational_Builder_builder b) m)) 1\<rparr>"
  by (simp add: rational_value_def rational_read_data [OF capnp_reader_axioms]
      rational_Builder_into_reader_def rational_Reader_new_def)

lemma rational_fresh:
  "fresh_struct L V m (rational_Builder_builder b) rational_STRUCT_SIZE \<Longrightarrow>
     rational_ok L V b m \<and> rational_value L b m = \<lparr>num = 0, den = 0\<rparr>"
  by (simp add: rational_ok_def fresh_struct_ok rational_value_data reader_fresh)

lemma rational_step:
  assumes "rational_ok L V b m"
  shows "rational_ok L V b (rational_run L b x m)"
    and "rational_value L b (rational_run L b x m) = rational_spec L x (rational_value L b m)"
proof -
  note b = assms [unfolded rational_ok_def]
  note puts = rational_num.put_simps [OF capnp_builder_axioms b]
    rational_den.put_simps [OF capnp_builder_axioms b]
  show "rational_ok L V b (rational_run L b x m)"
    by (cases x) (simp_all add: rational_ok_def puts)
  show "rational_value L b (rational_run L b x m) = rational_spec L x (rational_value L b m)"
    by (cases x) (simp_all add: rational_value_data puts apart_def del: One_nat_def)
qed

lemma rational_steps:
  "rational_ok L V b m \<Longrightarrow> struct_steps L V (rational_Builder_builder b) m (rational_run L b x m)"
  by (cases x) (simp_all add: rational_ok_def rational_num.put_steps [OF capnp_builder_axioms]
      rational_den.put_steps [OF capnp_builder_axioms])

end

interpretation rational_ops: op_refinement rational_ok rational_value "\<lambda>_ _. True"
  rational_run rational_spec rational_Builder_builder
  by unfold_locales (simp_all add: capnp_builder.rational_step capnp_builder.rational_steps)

section \<open>Properties\<close>

text \<open>
  C22. Any sequence of calls of the setters of \<open>rational::Builder\<close> on a struct with room for a
  \<open>Rational\<close> refines the updates of the schema's record: the getters of a reader made from the
  builder afterwards return, for each field, the value set last (or the value the field had), and
  the struct still has room for a \<open>Rational\<close>.
\<close>

theorem rational_setters_refine:
  assumes "capnp_builder L V" and "rational_ok L V b m"
  shows "rational_ok L V b (fold (rational_run L b) xs m) \<and>
    rational_value L b (fold (rational_run L b) xs m) =
      fold (rational_spec L) xs (rational_value L b m)"
  using rational_ops.runs_refine [OF assms] by (simp add: list_all_iff)

theorem rational_setters_refine_witness:
  "rational_value tree_capnp (rational_Builder (StructBuilder []))
     (fold (rational_run tree_capnp (rational_Builder (StructBuilder [])))
       [SetNum 7, SetDen 8, SetNum 9] (zero_struct rational_STRUCT_SIZE)) = \<lparr>num = 9, den = 8\<rparr>"
  using rational_setters_refine [OF tree_builder.capnp_builder_axioms,
      of "rational_Builder (StructBuilder [])" "zero_struct rational_STRUCT_SIZE"
        "[SetNum 7, SetDen 8, SetNum 9]"]
    tree_builder.rational_fresh [of "zero_struct rational_STRUCT_SIZE" "rational_Builder (StructBuilder [])"]
  by (simp add: tree_root_fresh)

end
