(* ===== verification/Frames_Audio.thy ===== *)
theory Frames_Audio
  imports Frames_Rational
begin

text \<open>
  The module \<open>audio_frame\<close> of \<open>rust/src/schema/frames_capnp.rs\<close>, and the refinement of the
  schema's record by its setters.
\<close>

named_theorems audio_frame_defs

section \<open>The module \<open>audio_frame\<close>\<close>

definition audio_frame_STRUCT_SIZE :: "StructSize" where [audio_frame_defs]:
  "audio_frame_STRUCT_SIZE = \<lparr>ss_data = 2, ss_pointers = 2\<rparr>"

definition audio_frame_TYPE_ID :: "u64" where [audio_frame_defs]:
  "audio_frame_TYPE_ID = 0xe2c181595b768329"

datatype 'm audio_frame_Reader = audio_frame_Reader (audio_frame_Reader_reader: "'m StructReader")

definition audio_frame_Reader_type_id :: "u64" where [audio_frame_defs]:
  "audio_frame_Reader_type_id = audio_frame_TYPE_ID"

definition audio_frame_Reader_new ::
  "'m StructReader \<Rightarrow> 'm audio_frame_Reader" where [audio_frame_defs]:
  "audio_frame_Reader_new reader = audio_frame_Reader reader"

definition audio_frame_Reader_get_from_pointer ::
  "('m, 'h, 'e) capnp \<Rightarrow> 'm PointerReader \<Rightarrow>
     ('m audio_frame_Reader, 'e) result" where [audio_frame_defs]:
  "audio_frame_Reader_get_from_pointer L reader =
     result_bind (pr_get_struct L reader) (\<lambda>s. Ok (audio_frame_Reader_new s))"

definition audio_frame_Reader_into_internal_struct_reader ::
  "'m audio_frame_Reader \<Rightarrow> 'm StructReader" where [audio_frame_defs]:
  "audio_frame_Reader_into_internal_struct_reader self = audio_frame_Reader_reader self"

definition audio_frame_Reader_imbue ::
  "('m, 'h, 'e) capnp \<Rightarrow> 'm audio_frame_Reader \<Rightarrow>
     'h CapTable \<Rightarrow> 'm audio_frame_Reader" where [audio_frame_defs]:
  "audio_frame_Reader_imbue L self cap_table =
     audio_frame_Reader (sr_imbue L (audio_frame_Reader_reader self) cap_table)"

definition audio_frame_Reader_reborrow ::
  "'m audio_frame_Reader \<Rightarrow> 'm audio_frame_Reader" where [audio_frame_defs]:
  "audio_frame_Reader_reborrow self = audio_frame_Reader (audio_frame_Reader_reader self)"

definition audio_frame_Reader_total_size ::
  "('m, 'h, 'e) capnp \<Rightarrow> 'm audio_frame_Reader \<Rightarrow>
     (MessageSize, 'e) result" where [audio_frame_defs]:
  "audio_frame_Reader_total_size L self = sr_total_size L (audio_frame_Reader_reader self)"

definition audio_frame_Reader_get_num_samples ::
  "('m, 'h, 'e) capnp \<Rightarrow> 'm audio_frame_Reader \<Rightarrow>
     u32" where [audio_frame_defs]:
  "audio_frame_Reader_get_num_samples L self = sr_get_u32 L (audio_frame_Reader_reader self) 0"

definition audio_frame_Reader_get_channels ::
  "('m, 'h, 'e) capnp \<Rightarrow> 'm audio_frame_Reader \<Rightarrow>
     u16" where [audio_frame_defs]:
  "audio_frame_Reader_get_channels L self = sr_get_u16 L (audio_frame_Reader_reader self) 2"

definition audio_frame_Reader_get_data ::
  "('m, 'h, 'e) capnp \<Rightarrow> 'm audio_frame_Reader \<Rightarrow>
     (u8 list, 'e) result" where [audio_frame_defs]:
  "audio_frame_Reader_get_data L self =
     pr_get_data L (sr_get_pointer_field L (audio_frame_Reader_reader self) 0)"

definition audio_frame_Reader_has_data ::
  "('m, 'h, 'e) capnp \<Rightarrow> 'm audio_frame_Reader \<Rightarrow>
     bool" where [audio_frame_defs]:
  "audio_frame_Reader_has_data L self \<longleftrightarrow>
     \<not> pr_is_null L (sr_get_pointer_field L (audio_frame_Reader_reader self) 0)"

definition audio_frame_Reader_get_stream_id ::
  "('m, 'h, 'e) capnp \<Rightarrow> 'm audio_frame_Reader \<Rightarrow>
     u32" where [audio_frame_defs]:
  "audio_frame_Reader_get_stream_id L self = sr_get_u32 L (audio_frame_Reader_reader self) 2"

definition audio_frame_Reader_get_pts ::
  "('m, 'h, 'e) capnp \<Rightarrow> 'm audio_frame_Reader \<Rightarrow>
     ('m rational_Reader, 'e) result" where [audio_frame_defs]:
  "audio_frame_Reader_get_pts L self =
     rational_Reader_get_from_pointer L (sr_get_pointer_field L (audio_frame_Reader_reader self) 1)"

definition audio_frame_Reader_has_pts ::
  "('m, 'h, 'e) capnp \<Rightarrow> 'm audio_frame_Reader \<Rightarrow>
     bool" where [audio_frame_defs]:
  "audio_frame_Reader_has_pts L self \<longleftrightarrow>
     \<not> pr_is_null L (sr_get_pointer_field L (audio_frame_Reader_reader self) 1)"

datatype audio_frame_Builder = audio_frame_Builder (audio_frame_Builder_builder: "StructBuilder")

definition audio_frame_Builder_struct_size :: "StructSize" where [audio_frame_defs]:
  "audio_frame_Builder_struct_size = audio_frame_STRUCT_SIZE"

definition audio_frame_Builder_type_id :: "u64" where [audio_frame_defs]:
  "audio_frame_Builder_type_id = audio_frame_TYPE_ID"

definition audio_frame_Builder_new ::
  "StructBuilder \<Rightarrow> audio_frame_Builder" where [audio_frame_defs]:
  "audio_frame_Builder_new builder = audio_frame_Builder builder"

definition audio_frame_Builder_imbue_mut ::
  "('m, 'h, 'e) capnp \<Rightarrow> audio_frame_Builder \<Rightarrow>
     'h CapTable \<Rightarrow> audio_frame_Builder" where [audio_frame_defs]:
  "audio_frame_Builder_imbue_mut L self cap_table =
     audio_frame_Builder (sb_imbue L (audio_frame_Builder_builder self) cap_table)"

definition audio_frame_Builder_init_pointer ::
  "('m, 'h, 'e) capnp \<Rightarrow> PointerBuilder \<Rightarrow> u32 \<Rightarrow>
     'm \<Rightarrow> audio_frame_Builder \<times> 'm" where [audio_frame_defs]:
  "audio_frame_Builder_init_pointer L builder sz m =
     (case pb_init_struct L builder audio_frame_STRUCT_SIZE m of (s, m') \<Rightarrow> (audio_frame_Builder_new s, m'))"

definition audio_frame_Builder_get_from_pointer ::
  "('m, 'h, 'e) capnp \<Rightarrow> PointerBuilder \<Rightarrow> 'm \<Rightarrow>
     (audio_frame_Builder, 'e) result \<times> 'm" where [audio_frame_defs]:
  "audio_frame_Builder_get_from_pointer L builder m =
     (case pb_get_struct L builder audio_frame_STRUCT_SIZE m of
        (r, m') \<Rightarrow> (result_bind r (\<lambda>s. Ok (audio_frame_Builder_new s)), m'))"

definition audio_frame_Reader_set_pointer_builder ::
  "('m, 'h, 'e) capnp \<Rightarrow> PointerBuilder \<Rightarrow>
     'm audio_frame_Reader \<Rightarrow> bool \<Rightarrow> 'm \<Rightarrow> (unit, 'e) result \<times> 'm" where [audio_frame_defs]:
  "audio_frame_Reader_set_pointer_builder L pointer value canonicalize m =
     pb_set_struct L pointer (audio_frame_Reader_reader value) canonicalize m"

definition audio_frame_Builder_into_reader ::
  "('m, 'h, 'e) capnp \<Rightarrow> audio_frame_Builder \<Rightarrow> 'm \<Rightarrow>
     'm audio_frame_Reader" where [audio_frame_defs]:
  "audio_frame_Builder_into_reader L self m =
     audio_frame_Reader_new (sb_into_reader L (audio_frame_Builder_builder self) m)"

definition audio_frame_Builder_as_reader ::
  "('m, 'h, 'e) capnp \<Rightarrow> audio_frame_Builder \<Rightarrow> 'm \<Rightarrow>
     'm audio_frame_Reader" where [audio_frame_defs]:
  "audio_frame_Builder_as_reader L self m = audio_frame_Builder_into_reader L self m"

definition audio_frame_Builder_reborrow ::
  "audio_frame_Builder \<Rightarrow> audio_frame_Builder" where [audio_frame_defs]:
  "audio_frame_Builder_reborrow self = audio_frame_Builder (audio_frame_Builder_builder self)"

definition audio_frame_Builder_reborrow_as_reader ::
  "('m, 'h, 'e) capnp \<Rightarrow> audio_frame_Builder \<Rightarrow> 'm \<Rightarrow>
     'm audio_frame_Reader" where [audio_frame_defs]:
  "audio_frame_Builder_reborrow_as_reader L self m =
     audio_frame_Reader_new (sb_into_reader L (audio_frame_Builder_builder self) m)"

definition audio_frame_Builder_total_size ::
  "('m, 'h, 'e) capnp \<Rightarrow> audio_frame_Builder \<Rightarrow> 'm \<Rightarrow>
     (MessageSize, 'e) result" where [audio_frame_defs]:
  "audio_frame_Builder_total_size L self m =
     sr_total_size L (sb_into_reader L (audio_frame_Builder_builder self) m)"

definition audio_frame_Builder_get_num_samples ::
  "('m, 'h, 'e) capnp \<Rightarrow> audio_frame_Builder \<Rightarrow> 'm \<Rightarrow>
     u32" where [audio_frame_defs]:
  "audio_frame_Builder_get_num_samples L self m =
     sb_get_u32 L (audio_frame_Builder_builder self) 0 m"

definition audio_frame_Builder_set_num_samples ::
  "('m, 'h, 'e) capnp \<Rightarrow> audio_frame_Builder \<Rightarrow> u32 \<Rightarrow>
     'm \<Rightarrow> 'm" where [audio_frame_defs]:
  "audio_frame_Builder_set_num_samples L self value m =
     sb_set_u32 L (audio_frame_Builder_builder self) 0 value m"

definition audio_frame_Builder_get_channels ::
  "('m, 'h, 'e) capnp \<Rightarrow> audio_frame_Builder \<Rightarrow> 'm \<Rightarrow>
     u16" where [audio_frame_defs]:
  "audio_frame_Builder_get_channels L self m =
     sb_get_u16 L (audio_frame_Builder_builder self) 2 m"

definition audio_frame_Builder_set_channels ::
  "('m, 'h, 'e) capnp \<Rightarrow> audio_frame_Builder \<Rightarrow> u16 \<Rightarrow>
     'm \<Rightarrow> 'm" where [audio_frame_defs]:
  "audio_frame_Builder_set_channels L self value m =
     sb_set_u16 L (audio_frame_Builder_builder self) 2 value m"

definition audio_frame_Builder_get_data ::
  "('m, 'h, 'e) capnp \<Rightarrow> audio_frame_Builder \<Rightarrow> 'm \<Rightarrow>
     (DataBuilder, 'e) result \<times> 'm" where [audio_frame_defs]:
  "audio_frame_Builder_get_data L self m =
     pb_get_data L (sb_get_pointer_field L (audio_frame_Builder_builder self) 0) m"

definition audio_frame_Builder_set_data ::
  "('m, 'h, 'e) capnp \<Rightarrow> audio_frame_Builder \<Rightarrow>
     u8 list \<Rightarrow> 'm \<Rightarrow> 'm" where [audio_frame_defs]:
  "audio_frame_Builder_set_data L self value m =
     pb_set_data L (sb_get_pointer_field L (audio_frame_Builder_builder self) 0) value m"

definition audio_frame_Builder_init_data ::
  "('m, 'h, 'e) capnp \<Rightarrow> audio_frame_Builder \<Rightarrow> u32 \<Rightarrow>
     'm \<Rightarrow> DataBuilder \<times> 'm" where [audio_frame_defs]:
  "audio_frame_Builder_init_data L self sz m =
     pb_init_data L (sb_get_pointer_field L (audio_frame_Builder_builder self) 0) sz m"

definition audio_frame_Builder_has_data ::
  "('m, 'h, 'e) capnp \<Rightarrow> audio_frame_Builder \<Rightarrow> 'm \<Rightarrow>
     bool" where [audio_frame_defs]:
  "audio_frame_Builder_has_data L self m \<longleftrightarrow>
     \<not> pb_is_null L (sb_get_pointer_field L (audio_frame_Builder_builder self) 0) m"

definition audio_frame_Builder_get_stream_id ::
  "('m, 'h, 'e) capnp \<Rightarrow> audio_frame_Builder \<Rightarrow> 'm \<Rightarrow>
     u32" where [audio_frame_defs]:
  "audio_frame_Builder_get_stream_id L self m =
     sb_get_u32 L (audio_frame_Builder_builder self) 2 m"

definition audio_frame_Builder_set_stream_id ::
  "('m, 'h, 'e) capnp \<Rightarrow> audio_frame_Builder \<Rightarrow> u32 \<Rightarrow>
     'm \<Rightarrow> 'm" where [audio_frame_defs]:
  "audio_frame_Builder_set_stream_id L self value m =
     sb_set_u32 L (audio_frame_Builder_builder self) 2 value m"

definition audio_frame_Builder_get_pts ::
  "('m, 'h, 'e) capnp \<Rightarrow> audio_frame_Builder \<Rightarrow> 'm \<Rightarrow>
     (rational_Builder, 'e) result \<times> 'm" where [audio_frame_defs]:
  "audio_frame_Builder_get_pts L self m =
     rational_Builder_get_from_pointer L (sb_get_pointer_field L (audio_frame_Builder_builder self) 1) m"

definition audio_frame_Builder_set_pts ::
  "('m, 'h, 'e) capnp \<Rightarrow> audio_frame_Builder \<Rightarrow>
     'm rational_Reader \<Rightarrow> 'm \<Rightarrow> (unit, 'e) result \<times> 'm" where [audio_frame_defs]:
  "audio_frame_Builder_set_pts L self value m =
     rational_Reader_set_pointer_builder L (sb_get_pointer_field L (audio_frame_Builder_builder self) 1) value False m"

definition audio_frame_Builder_init_pts ::
  "('m, 'h, 'e) capnp \<Rightarrow> audio_frame_Builder \<Rightarrow> 'm \<Rightarrow>
     rational_Builder \<times> 'm" where [audio_frame_defs]:
  "audio_frame_Builder_init_pts L self m =
     rational_Builder_init_pointer L (sb_get_pointer_field L (audio_frame_Builder_builder self) 1) 0 m"

definition audio_frame_Builder_has_pts ::
  "('m, 'h, 'e) capnp \<Rightarrow> audio_frame_Builder \<Rightarrow> 'm \<Rightarrow>
     bool" where [audio_frame_defs]:
  "audio_frame_Builder_has_pts L self m \<longleftrightarrow>
     \<not> pb_is_null L (sb_get_pointer_field L (audio_frame_Builder_builder self) 1) m"

datatype audio_frame_Pipeline = audio_frame_Pipeline (audio_frame_Pipeline_typeless: "AnyPipeline")

definition audio_frame_Pipeline_new ::
  "AnyPipeline \<Rightarrow> audio_frame_Pipeline" where [audio_frame_defs]:
  "audio_frame_Pipeline_new typeless = audio_frame_Pipeline typeless"

definition audio_frame_Pipeline_get_pts ::
  "('m, 'h, 'e) capnp \<Rightarrow> audio_frame_Pipeline \<Rightarrow>
     rational_Pipeline" where [audio_frame_defs]:
  "audio_frame_Pipeline_get_pts L self =
     rational_Pipeline_new (pl_get_pointer_field L (audio_frame_Pipeline_typeless self) 1)"

section \<open>The value of an audio frame\<close>

record 'e audio_frame_val =
  af_num_samples :: u32
  af_channels :: u16
  af_data :: "(u8 list, 'e) result"
  af_stream_id :: u32
  af_pts :: "(rational_val, 'e) result"

definition audio_frame_read ::
  "('m, 'h, 'e) capnp \<Rightarrow> 'm audio_frame_Reader \<Rightarrow> 'e audio_frame_val" where
  "audio_frame_read L r =
     \<lparr>af_num_samples = audio_frame_Reader_get_num_samples L r,
      af_channels = audio_frame_Reader_get_channels L r,
      af_data = audio_frame_Reader_get_data L r,
      af_stream_id = audio_frame_Reader_get_stream_id L r,
      af_pts = map_result (rational_read L) id (audio_frame_Reader_get_pts L r)\<rparr>"

abbreviation audio_frame_zero :: "'e audio_frame_val" where
  "audio_frame_zero \<equiv> \<lparr>af_num_samples = 0, af_channels = 0, af_data = Ok [],
     af_stream_id = 0, af_pts = Ok \<lparr>num = 0, den = 0\<rparr>\<rparr>"

lemma audio_frame_read_data:
  assumes "capnp_reader L V"
  shows "audio_frame_read L (audio_frame_Reader sr) =
    \<lparr>af_num_samples = read_field (rdata V sr) 0,
     af_channels = read_field (rdata V sr) 2,
     af_data = pr_get_data L (sr_get_pointer_field L sr 0),
     af_stream_id = read_field (rdata V sr) 2,
     af_pts = map_result (rational_read L) id
       (rational_Reader_get_from_pointer L (sr_get_pointer_field L sr 1))\<rparr>"
  using assms
  by (simp add: audio_frame_read_def audio_frame_defs capnp_reader.get_u32 capnp_reader.get_u16)

lemma audio_frame_read_cong:
  assumes L: "capnp_reader L V" and "rdata V sr = rdata V sr'"
    and p: "\<And>i. robj V (sr_get_pointer_field L sr i) = robj V (sr_get_pointer_field L sr' i)"
  shows "audio_frame_read L (audio_frame_Reader sr) = audio_frame_read L (audio_frame_Reader sr')"
  using capnp_reader.get_data_cong [OF L p] rational_m.value_cong [OF L p] assms(2)
  by (simp add: audio_frame_read_data [OF L])

lemma audio_frame_read_tree:
  "capnp_reader L V \<Longrightarrow>
     struct_obj V (audio_frame_Reader_reader r) = struct_obj V (audio_frame_Reader_reader r') \<Longrightarrow>
     audio_frame_read L r = audio_frame_read L r'"
  using audio_frame_read_cong [of L V "audio_frame_Reader_reader r" "audio_frame_Reader_reader r'"]
  by (simp add: struct_obj_def capnp_reader.get_pointer)

section \<open>The module keeps its contract\<close>

interpretation audio_frame_m: struct_value audio_frame_Builder_struct_size
  audio_frame_Reader_type_id audio_frame_Builder_type_id audio_frame_Reader_new
  audio_frame_Reader_into_internal_struct_reader audio_frame_Builder_new audio_frame_Builder_builder
  audio_frame_Reader_get_from_pointer audio_frame_Builder_init_pointer audio_frame_Builder_get_from_pointer
  audio_frame_Reader_set_pointer_builder audio_frame_Builder_into_reader audio_frame_Reader_total_size
  audio_frame_Builder_total_size audio_frame_read
  by unfold_locales
    (simp add: audio_frame_defs audio_frame_Reader_new_def [abs_def] audio_frame_Builder_new_def [abs_def]
      result_bind_map prod.case_eq_if map_prod_def | erule audio_frame_read_tree)+

lemma audio_frame_null:
  assumes L: "capnp_reader L V" and "robj V pr = ONull"
  shows "map_result (audio_frame_read L) id (audio_frame_Reader_get_from_pointer L pr) = Ok audio_frame_zero"
proof -
  obtain sr where r: "audio_frame_Reader_get_from_pointer L pr = Ok (audio_frame_Reader sr)"
    and "rdata V sr = []" "rptrs V sr = []"
  proof (rule audio_frame_m.read_null [OF assms])
    fix r
    assume "audio_frame_Reader_get_from_pointer L pr = Ok r"
      "rdata V (audio_frame_Reader_into_internal_struct_reader r) = []"
      "rptrs V (audio_frame_Reader_into_internal_struct_reader r) = []"
    then show thesis
      using that by (cases r) (simp add: audio_frame_Reader_into_internal_struct_reader_def)
  qed
  then have d: "rdata V sr = []" and "robj V (sr_get_pointer_field L sr i) = ONull" for i
    by (simp_all add: capnp_reader.get_pointer [OF L])
  then show ?thesis
    using capnp_reader.get_data_null [OF L] rational_null [OF L] r
    by (simp add: audio_frame_read_data [OF L] d)
qed

interpretation audio_num_samples: data_field audio_frame_STRUCT_SIZE 0 audio_frame_Reader_reader
  audio_frame_Builder_builder audio_frame_Reader_get_num_samples
  audio_frame_Builder_get_num_samples audio_frame_Builder_set_num_samples
  by (rule u32_field) (simp_all add: audio_frame_defs)

interpretation audio_channels: data_field audio_frame_STRUCT_SIZE 2 audio_frame_Reader_reader
  audio_frame_Builder_builder audio_frame_Reader_get_channels
  audio_frame_Builder_get_channels audio_frame_Builder_set_channels
  by (rule u16_field) (simp_all add: audio_frame_defs)

interpretation audio_stream_id: data_field audio_frame_STRUCT_SIZE 2 audio_frame_Reader_reader
  audio_frame_Builder_builder audio_frame_Reader_get_stream_id
  audio_frame_Builder_get_stream_id audio_frame_Builder_set_stream_id
  by (rule u32_field) (simp_all add: audio_frame_defs)

interpretation audio_data: data_pointer audio_frame_STRUCT_SIZE 0 audio_frame_Builder_builder
  audio_frame_Builder_set_data audio_frame_Builder_init_data
  by unfold_locales (simp_all add: audio_frame_defs)

interpretation audio_pts: struct_pointer audio_frame_STRUCT_SIZE 1 audio_frame_Builder_builder
  rational_STRUCT_SIZE rational_Builder_new rational_Builder_builder rational_Reader_reader
  audio_frame_Builder_set_pts audio_frame_Builder_init_pts
  by unfold_locales
    (simp_all add: audio_frame_defs rational_defs rational_Builder_new_def [abs_def]
      prod.case_eq_if map_prod_def)

section \<open>The setters refine the record updates\<close>

definition audio_frame_ok ::
  "('m, 'h, 'e) capnp \<Rightarrow> ('m, 'h, 'e) view \<Rightarrow> audio_frame_Builder \<Rightarrow> 'm \<Rightarrow> bool" where
  "audio_frame_ok L V b m \<longleftrightarrow> struct_ok V m (audio_frame_Builder_builder b) audio_frame_STRUCT_SIZE"

definition audio_frame_value ::
  "('m, 'h, 'e) capnp \<Rightarrow> audio_frame_Builder \<Rightarrow> 'm \<Rightarrow> 'e audio_frame_val" where
  "audio_frame_value L b m = audio_frame_read L (audio_frame_Builder_into_reader L b m)"

datatype 'm audio_frame_op =
    AfSetNumSamples u32
  | AfSetChannels u16
  | AfSetData "u8 list"
  | AfInitData u32
  | AfSetStreamId u32
  | AfSetPts "'m rational_Reader"
  | AfInitPts

text \<open>A blob has fewer than 2^29 bytes, and a struct to copy has no malformed pointer.\<close>

fun audio_frame_allowed :: "('m, 'h, 'e) view \<Rightarrow> 'm audio_frame_op \<Rightarrow> bool" where
  "audio_frame_allowed V (AfSetData bs) = (length bs < 2 ^ 29)"
| "audio_frame_allowed V (AfInitData n) = (unat n < 2 ^ 29)"
| "audio_frame_allowed V (AfSetPts r) = sound (struct_obj V (rational_Reader_reader r))"
| "audio_frame_allowed V _ = True"

fun audio_frame_run ::
  "('m, 'h, 'e) capnp \<Rightarrow> audio_frame_Builder \<Rightarrow> 'm audio_frame_op \<Rightarrow> 'm \<Rightarrow> 'm" where
  "audio_frame_run L b (AfSetNumSamples v) m = audio_frame_Builder_set_num_samples L b v m"
| "audio_frame_run L b (AfSetChannels v) m = audio_frame_Builder_set_channels L b v m"
| "audio_frame_run L b (AfSetData v) m = audio_frame_Builder_set_data L b v m"
| "audio_frame_run L b (AfInitData n) m = snd (audio_frame_Builder_init_data L b n m)"
| "audio_frame_run L b (AfSetStreamId v) m = audio_frame_Builder_set_stream_id L b v m"
| "audio_frame_run L b (AfSetPts r) m = snd (audio_frame_Builder_set_pts L b r m)"
| "audio_frame_run L b AfInitPts m = snd (audio_frame_Builder_init_pts L b m)"

fun audio_frame_spec ::
  "('m, 'h, 'e) capnp \<Rightarrow> 'm audio_frame_op \<Rightarrow> 'e audio_frame_val \<Rightarrow> 'e audio_frame_val" where
  "audio_frame_spec L (AfSetNumSamples v) x = x\<lparr>af_num_samples := v\<rparr>"
| "audio_frame_spec L (AfSetChannels v) x = x\<lparr>af_channels := v\<rparr>"
| "audio_frame_spec L (AfSetData v) x = x\<lparr>af_data := Ok v\<rparr>"
| "audio_frame_spec L (AfInitData n) x = x\<lparr>af_data := Ok (replicate (unat n) 0)\<rparr>"
| "audio_frame_spec L (AfSetStreamId v) x = x\<lparr>af_stream_id := v\<rparr>"
| "audio_frame_spec L (AfSetPts r) x = x\<lparr>af_pts := Ok (rational_read L r)\<rparr>"
| "audio_frame_spec L AfInitPts x = x\<lparr>af_pts := Ok \<lparr>num = 0, den = 0\<rparr>\<rparr>"

context capnp_builder
begin

lemma audio_frame_value_data:
  "audio_frame_value L b m =
     audio_frame_read L (audio_frame_Reader (sb_into_reader L (audio_frame_Builder_builder b) m))"
  by (simp add: audio_frame_value_def audio_frame_Builder_into_reader_def audio_frame_Reader_new_def)

lemma audio_frame_fresh:
  assumes "fresh_struct L V m (audio_frame_Builder_builder b) audio_frame_STRUCT_SIZE"
  shows "audio_frame_ok L V b m"
    and "audio_frame_value L b m = audio_frame_zero"
proof -
  let ?r = "sb_into_reader L (audio_frame_Builder_builder b) m"
  show "audio_frame_ok L V b m" using assms by (simp add: audio_frame_ok_def fresh_struct_ok)
  have "robj V (sr_get_pointer_field L ?r i) = ONull" for i
    using reader_fresh [OF assms] by (simp add: get_pointer)
  then show "audio_frame_value L b m = audio_frame_zero"
    using reader_fresh [OF assms]
    by (simp add: audio_frame_value_data audio_frame_read_data [OF capnp_reader_axioms]
        get_data_null rational_null [OF capnp_reader_axioms])
qed

lemma audio_frame_scalar_step:
  assumes "audio_frame_ok L V b m"
  shows "audio_frame_ok L V b (audio_frame_Builder_set_num_samples L b v32 m)"
    and "audio_frame_ok L V b (audio_frame_Builder_set_channels L b v16 m)"
    and "audio_frame_ok L V b (audio_frame_Builder_set_stream_id L b v32 m)"
    and "audio_frame_value L b (audio_frame_Builder_set_num_samples L b v32 m) =
      (audio_frame_value L b m)\<lparr>af_num_samples := v32\<rparr>"
    and "audio_frame_value L b (audio_frame_Builder_set_channels L b v16 m) =
      (audio_frame_value L b m)\<lparr>af_channels := v16\<rparr>"
    and "audio_frame_value L b (audio_frame_Builder_set_stream_id L b v32 m) =
      (audio_frame_value L b m)\<lparr>af_stream_id := v32\<rparr>"
proof -
  note b = assms [unfolded audio_frame_ok_def]
  note puts = audio_num_samples.put_simps [OF capnp_builder_axioms b]
    audio_channels.put_simps [OF capnp_builder_axioms b]
    audio_stream_id.put_simps [OF capnp_builder_axioms b]
  show "audio_frame_ok L V b (audio_frame_Builder_set_num_samples L b v32 m)"
    and "audio_frame_ok L V b (audio_frame_Builder_set_channels L b v16 m)"
    and "audio_frame_ok L V b (audio_frame_Builder_set_stream_id L b v32 m)"
    by (simp_all add: audio_frame_ok_def puts)
  note same = audio_num_samples.put_pointer [OF capnp_builder_axioms b]
    audio_channels.put_pointer [OF capnp_builder_axioms b]
    audio_stream_id.put_pointer [OF capnp_builder_axioms b]
  note ptrs = same [THEN get_data_cong] same [THEN rational_m.value_cong [OF capnp_reader_axioms]]
  show "audio_frame_value L b (audio_frame_Builder_set_num_samples L b v32 m) =
      (audio_frame_value L b m)\<lparr>af_num_samples := v32\<rparr>"
    and "audio_frame_value L b (audio_frame_Builder_set_channels L b v16 m) =
      (audio_frame_value L b m)\<lparr>af_channels := v16\<rparr>"
    and "audio_frame_value L b (audio_frame_Builder_set_stream_id L b v32 m) =
      (audio_frame_value L b m)\<lparr>af_stream_id := v32\<rparr>"
    by (simp_all add: audio_frame_value_data audio_frame_read_data [OF capnp_reader_axioms]
        puts ptrs apart_def)
qed

lemma audio_frame_data_write:
  assumes ok: "audio_frame_ok L V b m"
    and w: "slot_write V m m' (sb_get_pointer_field L (audio_frame_Builder_builder b) 0) (CData bs)"
  shows "audio_frame_ok L V b m'"
    and "audio_frame_value L b m' = (audio_frame_value L b m)\<lparr>af_data := Ok bs\<rparr>"
proof -
  note f = audio_data.after_write [OF capnp_builder_axioms ok [unfolded audio_frame_ok_def] w]
  show "audio_frame_ok L V b m'" using f(1) by (simp add: audio_frame_ok_def)
  show "audio_frame_value L b m' = (audio_frame_value L b m)\<lparr>af_data := Ok bs\<rparr>"
    using get_data [OF f(3) [unfolded cobj_def, simplified]]
      rational_m.value_cong [OF capnp_reader_axioms f(4) [of 1]]
    by (simp add: audio_frame_value_data audio_frame_read_data [OF capnp_reader_axioms] f(2)
        audio_frame_STRUCT_SIZE_def)
qed

lemma audio_frame_pts_write:
  assumes ok: "audio_frame_ok L V b m"
    and w: "slot_write V m m' (sb_get_pointer_field L (audio_frame_Builder_builder b) 1) c"
    and c: "cobj L V m' c = struct_obj V (rational_Reader_into_internal_struct_reader r)"
  shows "audio_frame_ok L V b m'"
    and "audio_frame_value L b m' = (audio_frame_value L b m)\<lparr>af_pts := Ok (rational_read L r)\<rparr>"
proof -
  note f = audio_pts.after_write [OF capnp_builder_axioms ok [unfolded audio_frame_ok_def] w]
  show "audio_frame_ok L V b m'" using f(1) by (simp add: audio_frame_ok_def)
  show "audio_frame_value L b m' = (audio_frame_value L b m)\<lparr>af_pts := Ok (rational_read L r)\<rparr>"
    using get_data_cong [OF f(4) [of 0]]
      rational_m.value_copy [OF capnp_reader_axioms trans [OF f(3) c]]
    by (simp add: audio_frame_value_data audio_frame_read_data [OF capnp_reader_axioms] f(2)
        audio_frame_STRUCT_SIZE_def)
qed

lemma audio_frame_init_pts:
  assumes ok: "audio_frame_ok L V b m" and i: "audio_frame_Builder_init_pts L b m = (p, m')"
  shows "audio_frame_ok L V b m'" and "rational_ok L V p m'"
    and "audio_frame_value L b m' = (audio_frame_value L b m)\<lparr>af_pts := Ok \<lparr>num = 0, den = 0\<rparr>\<rparr>"
proof -
  note w = audio_pts.init_write [OF capnp_builder_axioms ok [unfolded audio_frame_ok_def] i]
  have "cobj L V m' (CStruct (rational_Builder_builder p)) =
      struct_obj V (rational_Reader_into_internal_struct_reader (rational_Builder_into_reader L p m'))"
    by (simp add: cobj_def rational_defs)
  note s = audio_frame_pts_write [OF ok w(1) this]
  show "audio_frame_ok L V b m'" by (rule s(1))
  show "rational_ok L V p m'" using rational_fresh [OF w(2)] by simp
  show "audio_frame_value L b m' = (audio_frame_value L b m)\<lparr>af_pts := Ok \<lparr>num = 0, den = 0\<rparr>\<rparr>"
    using s(2) rational_fresh [OF w(2)] by (simp add: rational_value_def)
qed

text \<open>
  \<open>get_pts\<close> of the builder: the struct the pointer refers to, made first when the pointer is null,
  which a reader of the frame does not notice.
\<close>

lemma audio_frame_get_pts:
  assumes ok: "audio_frame_ok L V b m"
    and s: "struct_slot V m (sb_get_pointer_field L (audio_frame_Builder_builder b) 1) rational_STRUCT_SIZE"
  shows "\<exists>p m'. audio_frame_Builder_get_pts L b m = (Ok p, m') \<and>
    content V m' (sb_get_pointer_field L (audio_frame_Builder_builder b) 1) =
      CStruct (rational_Builder_builder p) \<and>
    audio_frame_value L b m' = audio_frame_value L b m \<and>
    af_pts (audio_frame_value L b m) = Ok (rational_value L p m')"
proof -
  let ?pb = "sb_get_pointer_field L (audio_frame_Builder_builder b) 1"
  let ?pr = "sr_get_pointer_field L (sb_into_reader L (audio_frame_Builder_builder b) m) 1"
  note b = ok [unfolded audio_frame_ok_def]
  note live = audio_pts.slot_is_live [OF capnp_builder_axioms b]
  note obj = pointer_obj [OF b audio_pts.slot_bound]
  have v: "af_pts (audio_frame_value L b m) =
      map_result (rational_read L) id (rational_Reader_get_from_pointer L ?pr)"
    by (simp add: audio_frame_value_data audio_frame_read_data [OF capnp_reader_axioms] del: One_nat_def)
  show ?thesis
  proof (cases rule: rational_m.b_get_cases [unfolded rational_Builder_struct_size_def, OF capnp_builder_axioms live s, case_names kept made])
    case (kept p)
    have "robj V ?pr = cobj L V m (CStruct (rational_Builder_builder p))" using obj kept(1) by simp
    from rational_m.value_slot [OF capnp_reader_axioms this] show ?thesis
      using kept v by (intro exI [of _ p] exI [of _ m])
        (simp add: audio_frame_Builder_get_pts_def rational_value_def del: One_nat_def)
  next
    case (made p m')
    then have i: "audio_frame_Builder_init_pts L b m = (p, m')"
      by (simp add: audio_frame_Builder_init_pts_def del: One_nat_def)
    note w = audio_pts.init_write [OF capnp_builder_axioms b i]
    have "robj V ?pr = ONull" using obj made(1) by (simp add: cobj_def)
    then have z: "af_pts (audio_frame_value L b m) = Ok \<lparr>num = 0, den = 0\<rparr>"
      using rational_null [OF capnp_reader_axioms] v by simp
    then have "audio_frame_value L b m' = audio_frame_value L b m"
      using audio_frame_init_pts(3) [OF ok i] by (cases "audio_frame_value L b m") simp
    then show ?thesis
      using made(3) w(1) z rational_fresh [OF w(2)]
      by (intro exI [of _ p] exI [of _ m'])
        (simp add: audio_frame_Builder_get_pts_def slot_write_def del: One_nat_def)
  qed
qed

lemma audio_frame_set_pts:
  assumes ok: "audio_frame_ok L V b m" and "sound (struct_obj V (rational_Reader_reader r))"
  obtains m' where "audio_frame_Builder_set_pts L b r m = (Ok (), m')" "audio_frame_ok L V b m'"
    "audio_frame_value L b m' = (audio_frame_value L b m)\<lparr>af_pts := Ok (rational_read L r)\<rparr>"
proof -
  note b = ok [unfolded audio_frame_ok_def]
  obtain sb m' where p: "audio_frame_Builder_set_pts L b r m = (Ok (), m')"
    and w: "slot_write V m m' (sb_get_pointer_field L (audio_frame_Builder_builder b) 1) (CStruct sb)"
    and c: "cobj L V m' (CStruct sb) = struct_obj V (rational_Reader_reader r)"
    by (rule audio_pts.put_write [OF capnp_builder_axioms b assms(2)])
  show ?thesis
    using that [OF p] audio_frame_pts_write [OF ok w, of r] c
    by (simp add: rational_Reader_into_internal_struct_reader_def)
qed

lemma audio_frame_step:
  assumes ok: "audio_frame_ok L V b m" and x: "audio_frame_allowed V x"
  shows "audio_frame_ok L V b (audio_frame_run L b x m) \<and>
    audio_frame_value L b (audio_frame_run L b x m) = audio_frame_spec L x (audio_frame_value L b m)"
proof (cases x)
  case (AfSetData bs)
  then show ?thesis
    using audio_frame_data_write [OF ok audio_data.put_write] ok x
    by (simp add: capnp_builder_axioms audio_frame_ok_def)
next
  case (AfInitData n)
  then show ?thesis
    using audio_frame_data_write [OF ok audio_data.init_write] ok x
    by (simp add: capnp_builder_axioms audio_frame_ok_def)
next
  case (AfSetPts r)
  then show ?thesis
    using x audio_frame_set_pts [OF ok, of r] by fastforce
next
  case AfInitPts
  then show ?thesis
    using audio_frame_init_pts [OF ok prod.collapse [symmetric]] by simp
qed (simp_all add: audio_frame_scalar_step [OF ok])

lemma audio_frame_steps:
  assumes "audio_frame_ok L V b m" and x: "audio_frame_allowed V x"
  shows "struct_steps L V (audio_frame_Builder_builder b) m (audio_frame_run L b x m)"
proof -
  note ok = assms(1) [unfolded audio_frame_ok_def]
  note scalar = audio_num_samples.put_steps [OF capnp_builder_axioms ok]
    audio_channels.put_steps [OF capnp_builder_axioms ok]
    audio_stream_id.put_steps [OF capnp_builder_axioms ok]
  show ?thesis
  proof (cases x)
    case (AfSetData bs)
    then show ?thesis
      using audio_data.write_steps [OF ok audio_data.put_write [OF capnp_builder_axioms ok]] x by simp
  next
    case (AfInitData n)
    then show ?thesis
      using audio_data.write_steps [OF ok audio_data.init_write [OF capnp_builder_axioms ok]] x by simp
  next
    case (AfSetPts r)
    then have "sound (struct_obj V (rational_Reader_reader r))" using x by simp
    then show ?thesis
      using AfSetPts audio_pts.write_steps [OF ok]
      by (auto elim!: audio_pts.put_write [OF capnp_builder_axioms ok])
  next
    case AfInitPts
    then show ?thesis
      using audio_pts.write_steps [OF ok audio_pts.init_write(1)
          [OF capnp_builder_axioms ok prod.collapse [symmetric]]]
      by simp
  qed (simp_all add: scalar)
qed

lemma audio_frame_pts_child:
  assumes "audio_frame_ok L V b m" and i: "audio_frame_Builder_init_pts L b m = (p, m')"
  shows "child L V audio_frame_STRUCT_SIZE (audio_frame_Builder_builder b) 1 (rational_Builder_builder p) m'"
  using audio_pts.init_write(1) [OF capnp_builder_axioms assms(1) [unfolded audio_frame_ok_def] i]
    audio_frame_init_pts(1) [OF assms]
  by (simp add: child_def slot_write_def audio_frame_ok_def audio_frame_STRUCT_SIZE_def)

lemma audio_frame_child_value:
  assumes "child L V audio_frame_STRUCT_SIZE (audio_frame_Builder_builder b) 1 (rational_Builder_builder p) m'"
    and "same_but_slot L V audio_frame_STRUCT_SIZE (audio_frame_Builder_builder b) 1 m m'"
  shows "audio_frame_value L b m' = (audio_frame_value L b m)\<lparr>af_pts := Ok (rational_value L p m')\<rparr>"
proof -
  let ?r = "sb_into_reader L (audio_frame_Builder_builder b)"
  have d: "rdata V (?r m') = rdata V (?r m)"
    and "robj V (sr_get_pointer_field L (?r m') 0) = robj V (sr_get_pointer_field L (?r m) 0)"
    using assms(2) by (auto simp: same_but_slot_def audio_frame_STRUCT_SIZE_def)
  note get_data_cong [OF this(2)]
  moreover note rational_m.value_slot [OF capnp_reader_axioms child_obj [OF assms(1)]]
  ultimately show ?thesis
    by (simp add: audio_frame_value_data audio_frame_read_data [OF capnp_reader_axioms] d rational_value_def)
qed

end

interpretation audio_frame_ops: op_refinement audio_frame_ok audio_frame_value audio_frame_allowed
  audio_frame_run audio_frame_spec audio_frame_Builder_builder
  by unfold_locales (simp_all add: capnp_builder.audio_frame_step capnp_builder.audio_frame_steps)

context capnp_builder
begin

lemma audio_frame_pts_steps:
  assumes ok: "audio_frame_ok L V b m" and i: "audio_frame_Builder_init_pts L b m = (p, m')"
  shows "struct_steps L V (audio_frame_Builder_builder b) m (fold (rational_run L p) xs m')"
proof -
  have 1: "struct_steps L V (audio_frame_Builder_builder b) m m'"
    using audio_frame_steps [OF ok, of AfInitPts] i by simp
  have "list_all (\<lambda>_. True) xs" by (simp add: list_all_iff)
  note rational_ops.runs_steps [OF capnp_builder_axioms audio_frame_init_pts(2) [OF ok i] this]
  then show ?thesis
    using struct_steps_trans [OF child_steps [OF audio_frame_pts_child [OF ok i]] 1] by simp
qed

lemma audio_frame_pts_runs:
  assumes ok: "audio_frame_ok L V b m" and i: "audio_frame_Builder_init_pts L b m = (p, m')"
  shows "audio_frame_value L b (fold (rational_run L p) xs m') =
    (audio_frame_value L b m)\<lparr>af_pts := Ok (fold (rational_spec L) xs \<lparr>num = 0, den = 0\<rparr>)\<rparr>"
proof -
  note init = audio_frame_init_pts [OF ok i]
  have all: "list_all (\<lambda>_. True) xs" by (simp add: list_all_iff)
  note below = rational_ops.runs_in_child [OF capnp_builder_axioms init(2) all audio_frame_pts_child [OF ok i]]
  have "rational_value L p m' = \<lparr>num = 0, den = 0\<rparr>"
    using rational_fresh [OF audio_pts.init_write(2) [OF capnp_builder_axioms ok [unfolded audio_frame_ok_def] i]]
    by simp
  then have "rational_value L p (fold (rational_run L p) xs m') =
      fold (rational_spec L) xs \<lparr>num = 0, den = 0\<rparr>"
    using rational_ops.runs_refine [OF capnp_builder_axioms init(2) all] by simp
  then show ?thesis
    using audio_frame_child_value [OF below] init(3) by simp
qed

end

section \<open>Properties\<close>

text \<open>
  C12. Any sequence of calls of \<open>set_num_samples\<close>, \<open>set_channels\<close>, \<open>set_data\<close>, \<open>init_data\<close>,
  \<open>set_stream_id\<close>, \<open>set_pts\<close> and \<open>init_pts\<close> of \<open>audio_frame::Builder\<close> refines the updates of the
  schema's record: a reader of the struct sees, in every field, what was set last, and no setter
  disturbs another field, although \<open>channels\<close> and \<open>stream_id\<close> share an index at different
  widths.
\<close>

theorem audio_frame_setters_refine:
  assumes "capnp_builder L V" and "audio_frame_ok L V b m" and "list_all (audio_frame_allowed V) xs"
  shows "audio_frame_ok L V b (fold (audio_frame_run L b) xs m) \<and>
    audio_frame_value L b (fold (audio_frame_run L b) xs m) =
      fold (audio_frame_spec L) xs (audio_frame_value L b m)"
  by (rule audio_frame_ops.runs_refine [OF assms])

theorem audio_frame_setters_refine_witness:
  "audio_frame_value tree_capnp (audio_frame_Builder (StructBuilder []))
     (fold (audio_frame_run tree_capnp (audio_frame_Builder (StructBuilder [])))
       [AfSetChannels 2, AfSetStreamId 5, AfSetData [1, 2, 3], AfInitPts, AfSetNumSamples 48000]
       (zero_struct audio_frame_STRUCT_SIZE)) =
   \<lparr>af_num_samples = 48000, af_channels = 2, af_data = Ok [1, 2, 3], af_stream_id = 5,
    af_pts = Ok \<lparr>num = 0, den = 0\<rparr>\<rparr>"
  using audio_frame_setters_refine [OF tree_builder.capnp_builder_axioms,
      of "audio_frame_Builder (StructBuilder [])" "zero_struct audio_frame_STRUCT_SIZE"
        "[AfSetChannels 2, AfSetStreamId 5, AfSetData [1, 2, 3], AfInitPts, AfSetNumSamples 48000]"]
    tree_builder.audio_frame_fresh [of "zero_struct audio_frame_STRUCT_SIZE"
      "audio_frame_Builder (StructBuilder [])"]
  by (simp add: tree_root_fresh)

text \<open>
  C20. The builder that \<open>init_pts\<close> returns is a handle into the frame: whatever is set through
  it is what a reader of the frame finds in \<open>pts\<close>, and the other fields keep their values.
\<close>

theorem audio_frame_pts_builder:
  assumes "capnp_builder L V" and "audio_frame_ok L V b m" and "audio_frame_Builder_init_pts L b m = (p, m')"
  shows "audio_frame_value L b (fold (rational_run L p) xs m') =
    (audio_frame_value L b m)\<lparr>af_pts := Ok (fold (rational_spec L) xs \<lparr>num = 0, den = 0\<rparr>)\<rparr>"
  by (rule capnp_builder.audio_frame_pts_runs [OF assms])

theorem audio_frame_pts_builder_witness:
  "audio_frame_value tree_capnp (audio_frame_Builder (StructBuilder []))
     (fold (rational_run tree_capnp (rational_Builder (StructBuilder [1]))) [SetNum 3, SetDen 4]
       (snd (audio_frame_Builder_init_pts tree_capnp (audio_frame_Builder (StructBuilder []))
         (zero_struct audio_frame_STRUCT_SIZE)))) =
   \<lparr>af_num_samples = 0, af_channels = 0, af_data = Ok [],
      af_stream_id = 0,
    af_pts = Ok \<lparr>num = 3, den = 4\<rparr>\<rparr>"
proof -
  let ?b = "audio_frame_Builder (StructBuilder [])" and ?m = "zero_struct audio_frame_STRUCT_SIZE"
  have f: "audio_frame_ok tree_capnp tree_view ?b ?m"
    "audio_frame_value tree_capnp ?b ?m = audio_frame_zero"
    using tree_builder.audio_frame_fresh [of ?m ?b] by (simp_all add: tree_root_fresh)
  have i: "audio_frame_Builder_init_pts tree_capnp ?b ?m =
      (rational_Builder (StructBuilder [1]), snd (audio_frame_Builder_init_pts tree_capnp ?b ?m))"
    by (simp add: audio_frame_defs rational_defs tree_capnp_def tree_init_struct_def)
  show ?thesis
    using audio_frame_pts_builder [OF tree_builder.capnp_builder_axioms f(1) i, of "[SetNum 3, SetDen 4]"] f(2)
    by simp
qed

end
