(* ===== verification/Frames_Video.thy ===== *)
theory Frames_Video
  imports Frames_Rational
begin

text \<open>
  The module \<open>video_frame\<close> of \<open>rust/src/schema/frames_capnp.rs\<close> with its enum \<open>PixelFormat\<close>, and
  the refinement of the schema's record by its setters.
\<close>

named_theorems video_frame_defs

section \<open>The module \<open>video_frame\<close>\<close>

datatype PixelFormat = Rgba

fun PixelFormat_as_u16 :: "PixelFormat \<Rightarrow> u16" where
  "PixelFormat_as_u16 Rgba = 0"

definition PixelFormat_from_u16 :: "u16 \<Rightarrow> (PixelFormat, NotInSchema) result" where [video_frame_defs]:
  "PixelFormat_from_u16 value =
     (if value = 0 then Ok Rgba
      else Err (NotInSchema value))"

definition PixelFormat_to_u16 :: "PixelFormat \<Rightarrow> u16" where [video_frame_defs]:
  "PixelFormat_to_u16 self = PixelFormat_as_u16 self"

definition PixelFormat_type_id :: u64 where [video_frame_defs]:
  "PixelFormat_type_id = 0xc4c6654a3e32b1ca"

definition video_frame_STRUCT_SIZE :: "StructSize" where [video_frame_defs]:
  "video_frame_STRUCT_SIZE = \<lparr>ss_data = 2, ss_pointers = 2\<rparr>"

definition video_frame_TYPE_ID :: "u64" where [video_frame_defs]:
  "video_frame_TYPE_ID = 0xd0d3ae0869b4d05c"

datatype 'm video_frame_Reader = video_frame_Reader (video_frame_Reader_reader: "'m StructReader")

definition video_frame_Reader_type_id :: "u64" where [video_frame_defs]:
  "video_frame_Reader_type_id = video_frame_TYPE_ID"

definition video_frame_Reader_new ::
  "'m StructReader \<Rightarrow> 'm video_frame_Reader" where [video_frame_defs]:
  "video_frame_Reader_new reader = video_frame_Reader reader"

definition video_frame_Reader_get_from_pointer ::
  "('m, 'h, 'e) capnp \<Rightarrow> 'm PointerReader \<Rightarrow>
     ('m video_frame_Reader, 'e) result" where [video_frame_defs]:
  "video_frame_Reader_get_from_pointer L reader =
     result_bind (pr_get_struct L reader) (\<lambda>s. Ok (video_frame_Reader_new s))"

definition video_frame_Reader_into_internal_struct_reader ::
  "'m video_frame_Reader \<Rightarrow> 'm StructReader" where [video_frame_defs]:
  "video_frame_Reader_into_internal_struct_reader self = video_frame_Reader_reader self"

definition video_frame_Reader_imbue ::
  "('m, 'h, 'e) capnp \<Rightarrow> 'm video_frame_Reader \<Rightarrow>
     'h CapTable \<Rightarrow> 'm video_frame_Reader" where [video_frame_defs]:
  "video_frame_Reader_imbue L self cap_table =
     video_frame_Reader (sr_imbue L (video_frame_Reader_reader self) cap_table)"

definition video_frame_Reader_reborrow ::
  "'m video_frame_Reader \<Rightarrow> 'm video_frame_Reader" where [video_frame_defs]:
  "video_frame_Reader_reborrow self = video_frame_Reader (video_frame_Reader_reader self)"

definition video_frame_Reader_total_size ::
  "('m, 'h, 'e) capnp \<Rightarrow> 'm video_frame_Reader \<Rightarrow>
     (MessageSize, 'e) result" where [video_frame_defs]:
  "video_frame_Reader_total_size L self = sr_total_size L (video_frame_Reader_reader self)"

definition video_frame_Reader_get_width ::
  "('m, 'h, 'e) capnp \<Rightarrow> 'm video_frame_Reader \<Rightarrow>
     u32" where [video_frame_defs]:
  "video_frame_Reader_get_width L self = sr_get_u32 L (video_frame_Reader_reader self) 0"

definition video_frame_Reader_get_height ::
  "('m, 'h, 'e) capnp \<Rightarrow> 'm video_frame_Reader \<Rightarrow>
     u32" where [video_frame_defs]:
  "video_frame_Reader_get_height L self = sr_get_u32 L (video_frame_Reader_reader self) 1"

definition video_frame_Reader_get_data ::
  "('m, 'h, 'e) capnp \<Rightarrow> 'm video_frame_Reader \<Rightarrow>
     (u8 list, 'e) result" where [video_frame_defs]:
  "video_frame_Reader_get_data L self =
     pr_get_data L (sr_get_pointer_field L (video_frame_Reader_reader self) 0)"

definition video_frame_Reader_has_data ::
  "('m, 'h, 'e) capnp \<Rightarrow> 'm video_frame_Reader \<Rightarrow>
     bool" where [video_frame_defs]:
  "video_frame_Reader_has_data L self \<longleftrightarrow>
     \<not> pr_is_null L (sr_get_pointer_field L (video_frame_Reader_reader self) 0)"

definition video_frame_Reader_get_pixel_format ::
  "('m, 'h, 'e) capnp \<Rightarrow> 'm video_frame_Reader \<Rightarrow>
     (PixelFormat, NotInSchema) result" where [video_frame_defs]:
  "video_frame_Reader_get_pixel_format L self =
     PixelFormat_from_u16 (sr_get_u16 L (video_frame_Reader_reader self) 4)"

definition video_frame_Reader_get_stream_id ::
  "('m, 'h, 'e) capnp \<Rightarrow> 'm video_frame_Reader \<Rightarrow>
     u32" where [video_frame_defs]:
  "video_frame_Reader_get_stream_id L self = sr_get_u32 L (video_frame_Reader_reader self) 3"

definition video_frame_Reader_get_pts ::
  "('m, 'h, 'e) capnp \<Rightarrow> 'm video_frame_Reader \<Rightarrow>
     ('m rational_Reader, 'e) result" where [video_frame_defs]:
  "video_frame_Reader_get_pts L self =
     rational_Reader_get_from_pointer L (sr_get_pointer_field L (video_frame_Reader_reader self) 1)"

definition video_frame_Reader_has_pts ::
  "('m, 'h, 'e) capnp \<Rightarrow> 'm video_frame_Reader \<Rightarrow>
     bool" where [video_frame_defs]:
  "video_frame_Reader_has_pts L self \<longleftrightarrow>
     \<not> pr_is_null L (sr_get_pointer_field L (video_frame_Reader_reader self) 1)"

datatype video_frame_Builder = video_frame_Builder (video_frame_Builder_builder: "StructBuilder")

definition video_frame_Builder_struct_size :: "StructSize" where [video_frame_defs]:
  "video_frame_Builder_struct_size = video_frame_STRUCT_SIZE"

definition video_frame_Builder_type_id :: "u64" where [video_frame_defs]:
  "video_frame_Builder_type_id = video_frame_TYPE_ID"

definition video_frame_Builder_new ::
  "StructBuilder \<Rightarrow> video_frame_Builder" where [video_frame_defs]:
  "video_frame_Builder_new builder = video_frame_Builder builder"

definition video_frame_Builder_imbue_mut ::
  "('m, 'h, 'e) capnp \<Rightarrow> video_frame_Builder \<Rightarrow>
     'h CapTable \<Rightarrow> video_frame_Builder" where [video_frame_defs]:
  "video_frame_Builder_imbue_mut L self cap_table =
     video_frame_Builder (sb_imbue L (video_frame_Builder_builder self) cap_table)"

definition video_frame_Builder_init_pointer ::
  "('m, 'h, 'e) capnp \<Rightarrow> PointerBuilder \<Rightarrow> u32 \<Rightarrow>
     'm \<Rightarrow> video_frame_Builder \<times> 'm" where [video_frame_defs]:
  "video_frame_Builder_init_pointer L builder sz m =
     (case pb_init_struct L builder video_frame_STRUCT_SIZE m of (s, m') \<Rightarrow> (video_frame_Builder_new s, m'))"

definition video_frame_Builder_get_from_pointer ::
  "('m, 'h, 'e) capnp \<Rightarrow> PointerBuilder \<Rightarrow> 'm \<Rightarrow>
     (video_frame_Builder, 'e) result \<times> 'm" where [video_frame_defs]:
  "video_frame_Builder_get_from_pointer L builder m =
     (case pb_get_struct L builder video_frame_STRUCT_SIZE m of
        (r, m') \<Rightarrow> (result_bind r (\<lambda>s. Ok (video_frame_Builder_new s)), m'))"

definition video_frame_Reader_set_pointer_builder ::
  "('m, 'h, 'e) capnp \<Rightarrow> PointerBuilder \<Rightarrow>
     'm video_frame_Reader \<Rightarrow> bool \<Rightarrow> 'm \<Rightarrow> (unit, 'e) result \<times> 'm" where [video_frame_defs]:
  "video_frame_Reader_set_pointer_builder L pointer value canonicalize m =
     pb_set_struct L pointer (video_frame_Reader_reader value) canonicalize m"

definition video_frame_Builder_into_reader ::
  "('m, 'h, 'e) capnp \<Rightarrow> video_frame_Builder \<Rightarrow> 'm \<Rightarrow>
     'm video_frame_Reader" where [video_frame_defs]:
  "video_frame_Builder_into_reader L self m =
     video_frame_Reader_new (sb_into_reader L (video_frame_Builder_builder self) m)"

definition video_frame_Builder_as_reader ::
  "('m, 'h, 'e) capnp \<Rightarrow> video_frame_Builder \<Rightarrow> 'm \<Rightarrow>
     'm video_frame_Reader" where [video_frame_defs]:
  "video_frame_Builder_as_reader L self m = video_frame_Builder_into_reader L self m"

definition video_frame_Builder_reborrow ::
  "video_frame_Builder \<Rightarrow> video_frame_Builder" where [video_frame_defs]:
  "video_frame_Builder_reborrow self = video_frame_Builder (video_frame_Builder_builder self)"

definition video_frame_Builder_reborrow_as_reader ::
  "('m, 'h, 'e) capnp \<Rightarrow> video_frame_Builder \<Rightarrow> 'm \<Rightarrow>
     'm video_frame_Reader" where [video_frame_defs]:
  "video_frame_Builder_reborrow_as_reader L self m =
     video_frame_Reader_new (sb_into_reader L (video_frame_Builder_builder self) m)"

definition video_frame_Builder_total_size ::
  "('m, 'h, 'e) capnp \<Rightarrow> video_frame_Builder \<Rightarrow> 'm \<Rightarrow>
     (MessageSize, 'e) result" where [video_frame_defs]:
  "video_frame_Builder_total_size L self m =
     sr_total_size L (sb_into_reader L (video_frame_Builder_builder self) m)"

definition video_frame_Builder_get_width ::
  "('m, 'h, 'e) capnp \<Rightarrow> video_frame_Builder \<Rightarrow> 'm \<Rightarrow>
     u32" where [video_frame_defs]:
  "video_frame_Builder_get_width L self m = sb_get_u32 L (video_frame_Builder_builder self) 0 m"

definition video_frame_Builder_set_width ::
  "('m, 'h, 'e) capnp \<Rightarrow> video_frame_Builder \<Rightarrow> u32 \<Rightarrow>
     'm \<Rightarrow> 'm" where [video_frame_defs]:
  "video_frame_Builder_set_width L self value m =
     sb_set_u32 L (video_frame_Builder_builder self) 0 value m"

definition video_frame_Builder_get_height ::
  "('m, 'h, 'e) capnp \<Rightarrow> video_frame_Builder \<Rightarrow> 'm \<Rightarrow>
     u32" where [video_frame_defs]:
  "video_frame_Builder_get_height L self m = sb_get_u32 L (video_frame_Builder_builder self) 1 m"

definition video_frame_Builder_set_height ::
  "('m, 'h, 'e) capnp \<Rightarrow> video_frame_Builder \<Rightarrow> u32 \<Rightarrow>
     'm \<Rightarrow> 'm" where [video_frame_defs]:
  "video_frame_Builder_set_height L self value m =
     sb_set_u32 L (video_frame_Builder_builder self) 1 value m"

definition video_frame_Builder_get_data ::
  "('m, 'h, 'e) capnp \<Rightarrow> video_frame_Builder \<Rightarrow> 'm \<Rightarrow>
     (DataBuilder, 'e) result \<times> 'm" where [video_frame_defs]:
  "video_frame_Builder_get_data L self m =
     pb_get_data L (sb_get_pointer_field L (video_frame_Builder_builder self) 0) m"

definition video_frame_Builder_set_data ::
  "('m, 'h, 'e) capnp \<Rightarrow> video_frame_Builder \<Rightarrow>
     u8 list \<Rightarrow> 'm \<Rightarrow> 'm" where [video_frame_defs]:
  "video_frame_Builder_set_data L self value m =
     pb_set_data L (sb_get_pointer_field L (video_frame_Builder_builder self) 0) value m"

definition video_frame_Builder_init_data ::
  "('m, 'h, 'e) capnp \<Rightarrow> video_frame_Builder \<Rightarrow> u32 \<Rightarrow>
     'm \<Rightarrow> DataBuilder \<times> 'm" where [video_frame_defs]:
  "video_frame_Builder_init_data L self sz m =
     pb_init_data L (sb_get_pointer_field L (video_frame_Builder_builder self) 0) sz m"

definition video_frame_Builder_has_data ::
  "('m, 'h, 'e) capnp \<Rightarrow> video_frame_Builder \<Rightarrow> 'm \<Rightarrow>
     bool" where [video_frame_defs]:
  "video_frame_Builder_has_data L self m \<longleftrightarrow>
     \<not> pb_is_null L (sb_get_pointer_field L (video_frame_Builder_builder self) 0) m"

definition video_frame_Builder_get_pixel_format ::
  "('m, 'h, 'e) capnp \<Rightarrow> video_frame_Builder \<Rightarrow> 'm \<Rightarrow>
     (PixelFormat, NotInSchema) result" where [video_frame_defs]:
  "video_frame_Builder_get_pixel_format L self m =
     PixelFormat_from_u16 (sb_get_u16 L (video_frame_Builder_builder self) 4 m)"

definition video_frame_Builder_set_pixel_format ::
  "('m, 'h, 'e) capnp \<Rightarrow> video_frame_Builder \<Rightarrow>
     PixelFormat \<Rightarrow> 'm \<Rightarrow> 'm" where [video_frame_defs]:
  "video_frame_Builder_set_pixel_format L self value m =
     sb_set_u16 L (video_frame_Builder_builder self) 4 (PixelFormat_as_u16 value) m"

definition video_frame_Builder_get_stream_id ::
  "('m, 'h, 'e) capnp \<Rightarrow> video_frame_Builder \<Rightarrow> 'm \<Rightarrow>
     u32" where [video_frame_defs]:
  "video_frame_Builder_get_stream_id L self m =
     sb_get_u32 L (video_frame_Builder_builder self) 3 m"

definition video_frame_Builder_set_stream_id ::
  "('m, 'h, 'e) capnp \<Rightarrow> video_frame_Builder \<Rightarrow> u32 \<Rightarrow>
     'm \<Rightarrow> 'm" where [video_frame_defs]:
  "video_frame_Builder_set_stream_id L self value m =
     sb_set_u32 L (video_frame_Builder_builder self) 3 value m"

definition video_frame_Builder_get_pts ::
  "('m, 'h, 'e) capnp \<Rightarrow> video_frame_Builder \<Rightarrow> 'm \<Rightarrow>
     (rational_Builder, 'e) result \<times> 'm" where [video_frame_defs]:
  "video_frame_Builder_get_pts L self m =
     rational_Builder_get_from_pointer L (sb_get_pointer_field L (video_frame_Builder_builder self) 1) m"

definition video_frame_Builder_set_pts ::
  "('m, 'h, 'e) capnp \<Rightarrow> video_frame_Builder \<Rightarrow>
     'm rational_Reader \<Rightarrow> 'm \<Rightarrow> (unit, 'e) result \<times> 'm" where [video_frame_defs]:
  "video_frame_Builder_set_pts L self value m =
     rational_Reader_set_pointer_builder L (sb_get_pointer_field L (video_frame_Builder_builder self) 1) value False m"

definition video_frame_Builder_init_pts ::
  "('m, 'h, 'e) capnp \<Rightarrow> video_frame_Builder \<Rightarrow> 'm \<Rightarrow>
     rational_Builder \<times> 'm" where [video_frame_defs]:
  "video_frame_Builder_init_pts L self m =
     rational_Builder_init_pointer L (sb_get_pointer_field L (video_frame_Builder_builder self) 1) 0 m"

definition video_frame_Builder_has_pts ::
  "('m, 'h, 'e) capnp \<Rightarrow> video_frame_Builder \<Rightarrow> 'm \<Rightarrow>
     bool" where [video_frame_defs]:
  "video_frame_Builder_has_pts L self m \<longleftrightarrow>
     \<not> pb_is_null L (sb_get_pointer_field L (video_frame_Builder_builder self) 1) m"

datatype video_frame_Pipeline = video_frame_Pipeline (video_frame_Pipeline_typeless: "AnyPipeline")

definition video_frame_Pipeline_new ::
  "AnyPipeline \<Rightarrow> video_frame_Pipeline" where [video_frame_defs]:
  "video_frame_Pipeline_new typeless = video_frame_Pipeline typeless"

definition video_frame_Pipeline_get_pts ::
  "('m, 'h, 'e) capnp \<Rightarrow> video_frame_Pipeline \<Rightarrow>
     rational_Pipeline" where [video_frame_defs]:
  "video_frame_Pipeline_get_pts L self =
     rational_Pipeline_new (pl_get_pointer_field L (video_frame_Pipeline_typeless self) 1)"

section \<open>The value of an audio frame\<close>

record 'e video_frame_val =
  vf_width :: u32
  vf_height :: u32
  vf_data :: "(u8 list, 'e) result"
  vf_pixel_format :: "(PixelFormat, NotInSchema) result"
  vf_stream_id :: u32
  vf_pts :: "(rational_val, 'e) result"

definition video_frame_read ::
  "('m, 'h, 'e) capnp \<Rightarrow> 'm video_frame_Reader \<Rightarrow> 'e video_frame_val" where
  "video_frame_read L r =
     \<lparr>vf_width = video_frame_Reader_get_width L r,
      vf_height = video_frame_Reader_get_height L r,
      vf_data = video_frame_Reader_get_data L r,
      vf_pixel_format = video_frame_Reader_get_pixel_format L r,
      vf_stream_id = video_frame_Reader_get_stream_id L r,
      vf_pts = map_result (rational_read L) id (video_frame_Reader_get_pts L r)\<rparr>"

abbreviation video_frame_zero :: "'e video_frame_val" where
  "video_frame_zero \<equiv> \<lparr>vf_width = 0, vf_height = 0, vf_data = Ok [],
     vf_pixel_format = Ok Rgba, vf_stream_id = 0, vf_pts = Ok \<lparr>num = 0, den = 0\<rparr>\<rparr>"

lemma video_frame_read_data:
  assumes "capnp_reader L V"
  shows "video_frame_read L (video_frame_Reader sr) =
    \<lparr>vf_width = read_field (rdata V sr) 0,
     vf_height = read_field (rdata V sr) 1,
     vf_data = pr_get_data L (sr_get_pointer_field L sr 0),
     vf_pixel_format = PixelFormat_from_u16 (read_field (rdata V sr) 4),
     vf_stream_id = read_field (rdata V sr) 3,
     vf_pts = map_result (rational_read L) id
       (rational_Reader_get_from_pointer L (sr_get_pointer_field L sr 1))\<rparr>"
  using assms
  by (simp add: video_frame_read_def video_frame_Reader_get_width_def
      video_frame_Reader_get_height_def video_frame_Reader_get_data_def
      video_frame_Reader_get_pixel_format_def video_frame_Reader_get_stream_id_def
      video_frame_Reader_get_pts_def capnp_reader.get_u32 capnp_reader.get_u16)

lemma video_frame_read_cong:
  assumes L: "capnp_reader L V" and "rdata V sr = rdata V sr'"
    and p: "\<And>i. robj V (sr_get_pointer_field L sr i) = robj V (sr_get_pointer_field L sr' i)"
  shows "video_frame_read L (video_frame_Reader sr) = video_frame_read L (video_frame_Reader sr')"
  using capnp_reader.get_data_cong [OF L p] rational_m.value_cong [OF L p] assms(2)
  by (simp add: video_frame_read_data [OF L])

lemma video_frame_read_tree:
  "capnp_reader L V \<Longrightarrow>
     struct_obj V (video_frame_Reader_reader r) = struct_obj V (video_frame_Reader_reader r') \<Longrightarrow>
     video_frame_read L r = video_frame_read L r'"
  using video_frame_read_cong [of L V "video_frame_Reader_reader r" "video_frame_Reader_reader r'"]
  by (simp add: struct_obj_def capnp_reader.get_pointer)

section \<open>The enum\<close>

lemma PixelFormat_round_trip: "PixelFormat_from_u16 (PixelFormat_as_u16 f) = Ok f"
  by (cases f) (simp add: PixelFormat_from_u16_def)

section \<open>The module keeps its contract\<close>

interpretation video_frame_m: struct_value video_frame_Builder_struct_size
  video_frame_Reader_type_id video_frame_Builder_type_id video_frame_Reader_new
  video_frame_Reader_into_internal_struct_reader video_frame_Builder_new video_frame_Builder_builder
  video_frame_Reader_get_from_pointer video_frame_Builder_init_pointer video_frame_Builder_get_from_pointer
  video_frame_Reader_set_pointer_builder video_frame_Builder_into_reader video_frame_Reader_total_size
  video_frame_Builder_total_size video_frame_read
  by unfold_locales
    (simp add: video_frame_defs video_frame_Reader_new_def [abs_def] video_frame_Builder_new_def [abs_def]
      result_bind_map prod.case_eq_if map_prod_def | erule video_frame_read_tree)+

lemma video_frame_null:
  assumes L: "capnp_reader L V" and "robj V pr = ONull"
  shows "map_result (video_frame_read L) id (video_frame_Reader_get_from_pointer L pr) = Ok video_frame_zero"
proof -
  obtain sr where r: "video_frame_Reader_get_from_pointer L pr = Ok (video_frame_Reader sr)"
    and "rdata V sr = []" "rptrs V sr = []"
  proof (rule video_frame_m.read_null [OF assms])
    fix r
    assume "video_frame_Reader_get_from_pointer L pr = Ok r"
      "rdata V (video_frame_Reader_into_internal_struct_reader r) = []"
      "rptrs V (video_frame_Reader_into_internal_struct_reader r) = []"
    then show thesis
      using that by (cases r) (simp add: video_frame_Reader_into_internal_struct_reader_def)
  qed
  then have d: "rdata V sr = []" and "robj V (sr_get_pointer_field L sr i) = ONull" for i
    by (simp_all add: capnp_reader.get_pointer [OF L])
  then show ?thesis
    using capnp_reader.get_data_null [OF L] rational_null [OF L] r
    by (simp add: video_frame_read_data [OF L] d PixelFormat_from_u16_def)
qed

interpretation video_width: data_field video_frame_STRUCT_SIZE 0 video_frame_Reader_reader
  video_frame_Builder_builder video_frame_Reader_get_width
  video_frame_Builder_get_width video_frame_Builder_set_width
  by (rule u32_field) (simp_all add: video_frame_defs)

interpretation video_height: data_field video_frame_STRUCT_SIZE 1 video_frame_Reader_reader
  video_frame_Builder_builder video_frame_Reader_get_height
  video_frame_Builder_get_height video_frame_Builder_set_height
  by (rule u32_field) (simp_all add: video_frame_defs)

interpretation video_pixel_format: data_field video_frame_STRUCT_SIZE 4 video_frame_Reader_reader
  video_frame_Builder_builder "\<lambda>L r. sr_get_u16 L (video_frame_Reader_reader r) 4"
  "\<lambda>L b m. sb_get_u16 L (video_frame_Builder_builder b) 4 m"
  "\<lambda>L b v m. sb_set_u16 L (video_frame_Builder_builder b) 4 v m"
  by (rule u16_field) (simp_all add: video_frame_STRUCT_SIZE_def)

interpretation video_stream_id: data_field video_frame_STRUCT_SIZE 3 video_frame_Reader_reader
  video_frame_Builder_builder video_frame_Reader_get_stream_id
  video_frame_Builder_get_stream_id video_frame_Builder_set_stream_id
  by (rule u32_field) (simp_all add: video_frame_defs)

interpretation video_data: data_pointer video_frame_STRUCT_SIZE 0 video_frame_Builder_builder
  video_frame_Builder_set_data video_frame_Builder_init_data
  by unfold_locales (simp_all add: video_frame_defs)

interpretation video_pts: struct_pointer video_frame_STRUCT_SIZE 1 video_frame_Builder_builder
  rational_STRUCT_SIZE rational_Builder_new rational_Builder_builder rational_Reader_reader
  video_frame_Builder_set_pts video_frame_Builder_init_pts
  by unfold_locales
    (simp_all add: video_frame_defs rational_defs rational_Builder_new_def [abs_def]
      prod.case_eq_if map_prod_def)

section \<open>The setters refine the record updates\<close>

definition video_frame_ok ::
  "('m, 'h, 'e) capnp \<Rightarrow> ('m, 'h, 'e) view \<Rightarrow> video_frame_Builder \<Rightarrow> 'm \<Rightarrow> bool" where
  "video_frame_ok L V b m \<longleftrightarrow> struct_ok V m (video_frame_Builder_builder b) video_frame_STRUCT_SIZE"

definition video_frame_value ::
  "('m, 'h, 'e) capnp \<Rightarrow> video_frame_Builder \<Rightarrow> 'm \<Rightarrow> 'e video_frame_val" where
  "video_frame_value L b m = video_frame_read L (video_frame_Builder_into_reader L b m)"

datatype 'm video_frame_op =
    VfSetWidth u32
  | VfSetHeight u32
  | VfSetData "u8 list"
  | VfInitData u32
  | VfSetPixelFormat PixelFormat
  | VfSetStreamId u32
  | VfSetPts "'m rational_Reader"
  | VfInitPts

text \<open>A blob has fewer than 2^29 bytes, and a struct to copy has no malformed pointer.\<close>

fun video_frame_allowed :: "('m, 'h, 'e) view \<Rightarrow> 'm video_frame_op \<Rightarrow> bool" where
  "video_frame_allowed V (VfSetData bs) = (length bs < 2 ^ 29)"
| "video_frame_allowed V (VfInitData n) = (unat n < 2 ^ 29)"
| "video_frame_allowed V (VfSetPts r) = sound (struct_obj V (rational_Reader_reader r))"
| "video_frame_allowed V _ = True"

fun video_frame_run ::
  "('m, 'h, 'e) capnp \<Rightarrow> video_frame_Builder \<Rightarrow> 'm video_frame_op \<Rightarrow> 'm \<Rightarrow> 'm" where
  "video_frame_run L b (VfSetWidth v) m = video_frame_Builder_set_width L b v m"
| "video_frame_run L b (VfSetHeight v) m = video_frame_Builder_set_height L b v m"
| "video_frame_run L b (VfSetPixelFormat v) m = video_frame_Builder_set_pixel_format L b v m"
| "video_frame_run L b (VfSetData v) m = video_frame_Builder_set_data L b v m"
| "video_frame_run L b (VfInitData n) m = snd (video_frame_Builder_init_data L b n m)"
| "video_frame_run L b (VfSetStreamId v) m = video_frame_Builder_set_stream_id L b v m"
| "video_frame_run L b (VfSetPts r) m = snd (video_frame_Builder_set_pts L b r m)"
| "video_frame_run L b VfInitPts m = snd (video_frame_Builder_init_pts L b m)"

fun video_frame_spec ::
  "('m, 'h, 'e) capnp \<Rightarrow> 'm video_frame_op \<Rightarrow> 'e video_frame_val \<Rightarrow> 'e video_frame_val" where
  "video_frame_spec L (VfSetWidth v) x = x\<lparr>vf_width := v\<rparr>"
| "video_frame_spec L (VfSetHeight v) x = x\<lparr>vf_height := v\<rparr>"
| "video_frame_spec L (VfSetPixelFormat v) x = x\<lparr>vf_pixel_format := Ok v\<rparr>"
| "video_frame_spec L (VfSetData v) x = x\<lparr>vf_data := Ok v\<rparr>"
| "video_frame_spec L (VfInitData n) x = x\<lparr>vf_data := Ok (replicate (unat n) 0)\<rparr>"
| "video_frame_spec L (VfSetStreamId v) x = x\<lparr>vf_stream_id := v\<rparr>"
| "video_frame_spec L (VfSetPts r) x = x\<lparr>vf_pts := Ok (rational_read L r)\<rparr>"
| "video_frame_spec L VfInitPts x = x\<lparr>vf_pts := Ok \<lparr>num = 0, den = 0\<rparr>\<rparr>"

context capnp_builder
begin

lemma video_frame_value_data:
  "video_frame_value L b m =
     video_frame_read L (video_frame_Reader (sb_into_reader L (video_frame_Builder_builder b) m))"
  by (simp add: video_frame_value_def video_frame_Builder_into_reader_def video_frame_Reader_new_def)

lemma video_frame_fresh:
  assumes "fresh_struct L V m (video_frame_Builder_builder b) video_frame_STRUCT_SIZE"
  shows "video_frame_ok L V b m"
    and "video_frame_value L b m = video_frame_zero"
proof -
  let ?r = "sb_into_reader L (video_frame_Builder_builder b) m"
  show "video_frame_ok L V b m" using assms by (simp add: video_frame_ok_def fresh_struct_ok)
  have "robj V (sr_get_pointer_field L ?r i) = ONull" for i
    using reader_fresh [OF assms] by (simp add: get_pointer)
  then show "video_frame_value L b m = video_frame_zero"
    using reader_fresh [OF assms]
    by (simp add: video_frame_value_data video_frame_read_data [OF capnp_reader_axioms]
        get_data_null rational_null [OF capnp_reader_axioms] PixelFormat_from_u16_def)
qed

lemma video_frame_scalar_step:
  assumes "video_frame_ok L V b m"
  shows "video_frame_ok L V b (video_frame_Builder_set_width L b v m)"
    and "video_frame_ok L V b (video_frame_Builder_set_height L b v m)"
    and "video_frame_ok L V b (video_frame_Builder_set_pixel_format L b f m)"
    and "video_frame_ok L V b (video_frame_Builder_set_stream_id L b v m)"
    and "video_frame_value L b (video_frame_Builder_set_width L b v m) =
      (video_frame_value L b m)\<lparr>vf_width := v\<rparr>"
    and "video_frame_value L b (video_frame_Builder_set_height L b v m) =
      (video_frame_value L b m)\<lparr>vf_height := v\<rparr>"
    and "video_frame_value L b (video_frame_Builder_set_pixel_format L b f m) =
      (video_frame_value L b m)\<lparr>vf_pixel_format := Ok f\<rparr>"
    and "video_frame_value L b (video_frame_Builder_set_stream_id L b v m) =
      (video_frame_value L b m)\<lparr>vf_stream_id := v\<rparr>"
proof -
  note b = assms [unfolded video_frame_ok_def]
  note puts = video_width.put_simps [OF capnp_builder_axioms b]
    video_height.put_simps [OF capnp_builder_axioms b]
    video_pixel_format.put_simps [OF capnp_builder_axioms b]
    video_stream_id.put_simps [OF capnp_builder_axioms b]
  show "video_frame_ok L V b (video_frame_Builder_set_width L b v m)"
    and "video_frame_ok L V b (video_frame_Builder_set_height L b v m)"
    and "video_frame_ok L V b (video_frame_Builder_set_pixel_format L b f m)"
    and "video_frame_ok L V b (video_frame_Builder_set_stream_id L b v m)"
    by (simp_all add: video_frame_ok_def puts video_frame_Builder_set_pixel_format_def)
  note same = video_width.put_pointer [OF capnp_builder_axioms b]
    video_height.put_pointer [OF capnp_builder_axioms b]
    video_pixel_format.put_pointer [OF capnp_builder_axioms b]
    video_stream_id.put_pointer [OF capnp_builder_axioms b]
  note ptrs = same [THEN get_data_cong] same [THEN rational_m.value_cong [OF capnp_reader_axioms]]
  note sem = video_frame_value_data video_frame_read_data [OF capnp_reader_axioms] puts ptrs apart_def
  show "video_frame_value L b (video_frame_Builder_set_width L b v m) =
      (video_frame_value L b m)\<lparr>vf_width := v\<rparr>"
    and "video_frame_value L b (video_frame_Builder_set_height L b v m) =
      (video_frame_value L b m)\<lparr>vf_height := v\<rparr>"
    and "video_frame_value L b (video_frame_Builder_set_stream_id L b v m) =
      (video_frame_value L b m)\<lparr>vf_stream_id := v\<rparr>"
    by (simp_all add: sem del: One_nat_def)
  show "video_frame_value L b (video_frame_Builder_set_pixel_format L b f m) =
      (video_frame_value L b m)\<lparr>vf_pixel_format := Ok f\<rparr>"
    by (simp add: sem video_frame_Builder_set_pixel_format_def PixelFormat_round_trip del: One_nat_def)
qed

lemma video_frame_data_write:
  assumes ok: "video_frame_ok L V b m"
    and w: "slot_write V m m' (sb_get_pointer_field L (video_frame_Builder_builder b) 0) (CData bs)"
  shows "video_frame_ok L V b m'"
    and "video_frame_value L b m' = (video_frame_value L b m)\<lparr>vf_data := Ok bs\<rparr>"
proof -
  note f = video_data.after_write [OF capnp_builder_axioms ok [unfolded video_frame_ok_def] w]
  show "video_frame_ok L V b m'" using f(1) by (simp add: video_frame_ok_def)
  show "video_frame_value L b m' = (video_frame_value L b m)\<lparr>vf_data := Ok bs\<rparr>"
    using get_data [OF f(3) [unfolded cobj_def, simplified]]
      rational_m.value_cong [OF capnp_reader_axioms f(4) [of 1]]
    by (simp add: video_frame_value_data video_frame_read_data [OF capnp_reader_axioms] f(2)
        video_frame_STRUCT_SIZE_def)
qed

lemma video_frame_pts_write:
  assumes ok: "video_frame_ok L V b m"
    and w: "slot_write V m m' (sb_get_pointer_field L (video_frame_Builder_builder b) 1) c"
    and c: "cobj L V m' c = struct_obj V (rational_Reader_into_internal_struct_reader r)"
  shows "video_frame_ok L V b m'"
    and "video_frame_value L b m' = (video_frame_value L b m)\<lparr>vf_pts := Ok (rational_read L r)\<rparr>"
proof -
  note f = video_pts.after_write [OF capnp_builder_axioms ok [unfolded video_frame_ok_def] w]
  show "video_frame_ok L V b m'" using f(1) by (simp add: video_frame_ok_def)
  show "video_frame_value L b m' = (video_frame_value L b m)\<lparr>vf_pts := Ok (rational_read L r)\<rparr>"
    using get_data_cong [OF f(4) [of 0]]
      rational_m.value_copy [OF capnp_reader_axioms trans [OF f(3) c]]
    by (simp add: video_frame_value_data video_frame_read_data [OF capnp_reader_axioms] f(2)
        video_frame_STRUCT_SIZE_def)
qed

lemma video_frame_init_pts:
  assumes ok: "video_frame_ok L V b m" and i: "video_frame_Builder_init_pts L b m = (p, m')"
  shows "video_frame_ok L V b m'" and "rational_ok L V p m'"
    and "video_frame_value L b m' = (video_frame_value L b m)\<lparr>vf_pts := Ok \<lparr>num = 0, den = 0\<rparr>\<rparr>"
proof -
  note w = video_pts.init_write [OF capnp_builder_axioms ok [unfolded video_frame_ok_def] i]
  have "cobj L V m' (CStruct (rational_Builder_builder p)) =
      struct_obj V (rational_Reader_into_internal_struct_reader (rational_Builder_into_reader L p m'))"
    by (simp add: cobj_def rational_defs)
  note s = video_frame_pts_write [OF ok w(1) this]
  show "video_frame_ok L V b m'" by (rule s(1))
  show "rational_ok L V p m'" using rational_fresh [OF w(2)] by simp
  show "video_frame_value L b m' = (video_frame_value L b m)\<lparr>vf_pts := Ok \<lparr>num = 0, den = 0\<rparr>\<rparr>"
    using s(2) rational_fresh [OF w(2)] by (simp add: rational_value_def)
qed

text \<open>
  \<open>get_pts\<close> of the builder: the struct the pointer refers to, made first when the pointer is null,
  which a reader of the frame does not notice.
\<close>

lemma video_frame_get_pts:
  assumes ok: "video_frame_ok L V b m"
    and s: "struct_slot V m (sb_get_pointer_field L (video_frame_Builder_builder b) 1) rational_STRUCT_SIZE"
  shows "\<exists>p m'. video_frame_Builder_get_pts L b m = (Ok p, m') \<and>
    content V m' (sb_get_pointer_field L (video_frame_Builder_builder b) 1) =
      CStruct (rational_Builder_builder p) \<and>
    video_frame_value L b m' = video_frame_value L b m \<and>
    vf_pts (video_frame_value L b m) = Ok (rational_value L p m')"
proof -
  let ?pb = "sb_get_pointer_field L (video_frame_Builder_builder b) 1"
  let ?pr = "sr_get_pointer_field L (sb_into_reader L (video_frame_Builder_builder b) m) 1"
  note b = ok [unfolded video_frame_ok_def]
  note live = video_pts.slot_is_live [OF capnp_builder_axioms b]
  note obj = pointer_obj [OF b video_pts.slot_bound]
  have v: "vf_pts (video_frame_value L b m) =
      map_result (rational_read L) id (rational_Reader_get_from_pointer L ?pr)"
    by (simp add: video_frame_value_data video_frame_read_data [OF capnp_reader_axioms] del: One_nat_def)
  show ?thesis
  proof (cases rule: rational_m.b_get_cases [unfolded rational_Builder_struct_size_def, OF capnp_builder_axioms live s, case_names kept made])
    case (kept p)
    have "robj V ?pr = cobj L V m (CStruct (rational_Builder_builder p))" using obj kept(1) by simp
    from rational_m.value_slot [OF capnp_reader_axioms this] show ?thesis
      using kept v by (intro exI [of _ p] exI [of _ m])
        (simp add: video_frame_Builder_get_pts_def rational_value_def del: One_nat_def)
  next
    case (made p m')
    then have i: "video_frame_Builder_init_pts L b m = (p, m')"
      by (simp add: video_frame_Builder_init_pts_def del: One_nat_def)
    note w = video_pts.init_write [OF capnp_builder_axioms b i]
    have "robj V ?pr = ONull" using obj made(1) by (simp add: cobj_def)
    then have z: "vf_pts (video_frame_value L b m) = Ok \<lparr>num = 0, den = 0\<rparr>"
      using rational_null [OF capnp_reader_axioms] v by simp
    then have "video_frame_value L b m' = video_frame_value L b m"
      using video_frame_init_pts(3) [OF ok i] by (cases "video_frame_value L b m") simp
    then show ?thesis
      using made(3) w(1) z rational_fresh [OF w(2)]
      by (intro exI [of _ p] exI [of _ m'])
        (simp add: video_frame_Builder_get_pts_def slot_write_def del: One_nat_def)
  qed
qed

lemma video_frame_set_pts:
  assumes ok: "video_frame_ok L V b m" and "sound (struct_obj V (rational_Reader_reader r))"
  obtains m' where "video_frame_Builder_set_pts L b r m = (Ok (), m')" "video_frame_ok L V b m'"
    "video_frame_value L b m' = (video_frame_value L b m)\<lparr>vf_pts := Ok (rational_read L r)\<rparr>"
proof -
  note b = ok [unfolded video_frame_ok_def]
  obtain sb m' where p: "video_frame_Builder_set_pts L b r m = (Ok (), m')"
    and w: "slot_write V m m' (sb_get_pointer_field L (video_frame_Builder_builder b) 1) (CStruct sb)"
    and c: "cobj L V m' (CStruct sb) = struct_obj V (rational_Reader_reader r)"
    by (rule video_pts.put_write [OF capnp_builder_axioms b assms(2)])
  show ?thesis
    using that [OF p] video_frame_pts_write [OF ok w, of r] c
    by (simp add: rational_Reader_into_internal_struct_reader_def)
qed

lemma video_frame_step:
  assumes ok: "video_frame_ok L V b m" and x: "video_frame_allowed V x"
  shows "video_frame_ok L V b (video_frame_run L b x m) \<and>
    video_frame_value L b (video_frame_run L b x m) = video_frame_spec L x (video_frame_value L b m)"
proof (cases x)
  case (VfSetData bs)
  then show ?thesis
    using video_frame_data_write [OF ok video_data.put_write] ok x
    by (simp add: capnp_builder_axioms video_frame_ok_def)
next
  case (VfInitData n)
  then show ?thesis
    using video_frame_data_write [OF ok video_data.init_write] ok x
    by (simp add: capnp_builder_axioms video_frame_ok_def)
next
  case (VfSetPts r)
  then show ?thesis
    using x video_frame_set_pts [OF ok, of r] by fastforce
next
  case VfInitPts
  then show ?thesis
    using video_frame_init_pts [OF ok prod.collapse [symmetric]] by simp
qed (simp_all add: video_frame_scalar_step [OF ok])

lemma video_frame_steps:
  assumes "video_frame_ok L V b m" and x: "video_frame_allowed V x"
  shows "struct_steps L V (video_frame_Builder_builder b) m (video_frame_run L b x m)"
proof -
  note ok = assms(1) [unfolded video_frame_ok_def]
  note scalar = video_width.put_steps [OF capnp_builder_axioms ok]
    video_height.put_steps [OF capnp_builder_axioms ok]
    video_pixel_format.put_steps [OF capnp_builder_axioms ok]
    video_stream_id.put_steps [OF capnp_builder_axioms ok]
  show ?thesis
  proof (cases x)
    case (VfSetData bs)
    then show ?thesis
      using video_data.write_steps [OF ok video_data.put_write [OF capnp_builder_axioms ok]] x by simp
  next
    case (VfInitData n)
    then show ?thesis
      using video_data.write_steps [OF ok video_data.init_write [OF capnp_builder_axioms ok]] x by simp
  next
    case (VfSetPts r)
    then have "sound (struct_obj V (rational_Reader_reader r))" using x by simp
    then show ?thesis
      using VfSetPts video_pts.write_steps [OF ok]
      by (auto elim!: video_pts.put_write [OF capnp_builder_axioms ok])
  next
    case VfInitPts
    then show ?thesis
      using video_pts.write_steps [OF ok video_pts.init_write(1)
          [OF capnp_builder_axioms ok prod.collapse [symmetric]]]
      by simp
  qed (simp_all add: scalar video_frame_Builder_set_pixel_format_def)
qed

lemma video_frame_pts_child:
  assumes "video_frame_ok L V b m" and i: "video_frame_Builder_init_pts L b m = (p, m')"
  shows "child L V video_frame_STRUCT_SIZE (video_frame_Builder_builder b) 1 (rational_Builder_builder p) m'"
  using video_pts.init_write(1) [OF capnp_builder_axioms assms(1) [unfolded video_frame_ok_def] i]
    video_frame_init_pts(1) [OF assms]
  by (simp add: child_def slot_write_def video_frame_ok_def video_frame_STRUCT_SIZE_def)

lemma video_frame_child_value:
  assumes "child L V video_frame_STRUCT_SIZE (video_frame_Builder_builder b) 1 (rational_Builder_builder p) m'"
    and "same_but_slot L V video_frame_STRUCT_SIZE (video_frame_Builder_builder b) 1 m m'"
  shows "video_frame_value L b m' = (video_frame_value L b m)\<lparr>vf_pts := Ok (rational_value L p m')\<rparr>"
proof -
  let ?r = "sb_into_reader L (video_frame_Builder_builder b)"
  have d: "rdata V (?r m') = rdata V (?r m)"
    and "robj V (sr_get_pointer_field L (?r m') 0) = robj V (sr_get_pointer_field L (?r m) 0)"
    using assms(2) by (auto simp: same_but_slot_def video_frame_STRUCT_SIZE_def)
  note get_data_cong [OF this(2)]
  moreover note rational_m.value_slot [OF capnp_reader_axioms child_obj [OF assms(1)]]
  ultimately show ?thesis
    by (simp add: video_frame_value_data video_frame_read_data [OF capnp_reader_axioms] d rational_value_def)
qed

end

interpretation video_frame_ops: op_refinement video_frame_ok video_frame_value video_frame_allowed
  video_frame_run video_frame_spec video_frame_Builder_builder
  by unfold_locales (simp_all add: capnp_builder.video_frame_step capnp_builder.video_frame_steps)

context capnp_builder
begin

lemma video_frame_pts_steps:
  assumes ok: "video_frame_ok L V b m" and i: "video_frame_Builder_init_pts L b m = (p, m')"
  shows "struct_steps L V (video_frame_Builder_builder b) m (fold (rational_run L p) xs m')"
proof -
  have 1: "struct_steps L V (video_frame_Builder_builder b) m m'"
    using video_frame_steps [OF ok, of VfInitPts] i by simp
  have "list_all (\<lambda>_. True) xs" by (simp add: list_all_iff)
  note rational_ops.runs_steps [OF capnp_builder_axioms video_frame_init_pts(2) [OF ok i] this]
  then show ?thesis
    using struct_steps_trans [OF child_steps [OF video_frame_pts_child [OF ok i]] 1] by simp
qed

lemma video_frame_pts_runs:
  assumes ok: "video_frame_ok L V b m" and i: "video_frame_Builder_init_pts L b m = (p, m')"
  shows "video_frame_value L b (fold (rational_run L p) xs m') =
    (video_frame_value L b m)\<lparr>vf_pts := Ok (fold (rational_spec L) xs \<lparr>num = 0, den = 0\<rparr>)\<rparr>"
proof -
  note init = video_frame_init_pts [OF ok i]
  have all: "list_all (\<lambda>_. True) xs" by (simp add: list_all_iff)
  note below = rational_ops.runs_in_child [OF capnp_builder_axioms init(2) all video_frame_pts_child [OF ok i]]
  have "rational_value L p m' = \<lparr>num = 0, den = 0\<rparr>"
    using rational_fresh [OF video_pts.init_write(2) [OF capnp_builder_axioms ok [unfolded video_frame_ok_def] i]]
    by simp
  then have "rational_value L p (fold (rational_run L p) xs m') =
      fold (rational_spec L) xs \<lparr>num = 0, den = 0\<rparr>"
    using rational_ops.runs_refine [OF capnp_builder_axioms init(2) all] by simp
  then show ?thesis
    using video_frame_child_value [OF below] init(3) by simp
qed

end

section \<open>Properties\<close>

text \<open>
  C13. Any sequence of calls of \<open>set_width\<close>, \<open>set_height\<close>, \<open>set_data\<close>, \<open>init_data\<close>,
  \<open>set_pixel_format\<close>, \<open>set_stream_id\<close>, \<open>set_pts\<close> and \<open>init_pts\<close> of \<open>video_frame::Builder\<close> refines the
  updates of the schema's record: a reader of the struct sees, in every field, what was set last.
\<close>

theorem video_frame_setters_refine:
  assumes "capnp_builder L V" and "video_frame_ok L V b m" and "list_all (video_frame_allowed V) xs"
  shows "video_frame_ok L V b (fold (video_frame_run L b) xs m) \<and>
    video_frame_value L b (fold (video_frame_run L b) xs m) =
      fold (video_frame_spec L) xs (video_frame_value L b m)"
  by (rule video_frame_ops.runs_refine [OF assms])

theorem video_frame_setters_refine_witness:
  "video_frame_value tree_capnp (video_frame_Builder (StructBuilder []))
     (fold (video_frame_run tree_capnp (video_frame_Builder (StructBuilder [])))
       [VfSetHeight 480, VfSetStreamId 5, VfSetData [1, 2, 3], VfInitPts, VfSetWidth 640]
       (zero_struct video_frame_STRUCT_SIZE)) =
   \<lparr>vf_width = 640, vf_height = 480, vf_data = Ok [1, 2, 3], vf_pixel_format = Ok Rgba, vf_stream_id = 5,
    vf_pts = Ok \<lparr>num = 0, den = 0\<rparr>\<rparr>"
  using video_frame_setters_refine [OF tree_builder.capnp_builder_axioms,
      of "video_frame_Builder (StructBuilder [])" "zero_struct video_frame_STRUCT_SIZE"
        "[VfSetHeight 480, VfSetStreamId 5, VfSetData [1, 2, 3], VfInitPts, VfSetWidth 640]"]
    tree_builder.video_frame_fresh [of "zero_struct video_frame_STRUCT_SIZE"
      "video_frame_Builder (StructBuilder [])"]
  by (simp add: tree_root_fresh)

text \<open>
  C21. The builder that \<open>init_pts\<close> returns is a handle into the frame: whatever is set through
  it is what a reader of the frame finds in \<open>pts\<close>, and the other fields keep their values.
\<close>

theorem video_frame_pts_builder:
  assumes "capnp_builder L V" and "video_frame_ok L V b m" and "video_frame_Builder_init_pts L b m = (p, m')"
  shows "video_frame_value L b (fold (rational_run L p) xs m') =
    (video_frame_value L b m)\<lparr>vf_pts := Ok (fold (rational_spec L) xs \<lparr>num = 0, den = 0\<rparr>)\<rparr>"
  by (rule capnp_builder.video_frame_pts_runs [OF assms])

theorem video_frame_pts_builder_witness:
  "video_frame_value tree_capnp (video_frame_Builder (StructBuilder []))
     (fold (rational_run tree_capnp (rational_Builder (StructBuilder [1]))) [SetNum 3, SetDen 4]
       (snd (video_frame_Builder_init_pts tree_capnp (video_frame_Builder (StructBuilder []))
         (zero_struct video_frame_STRUCT_SIZE)))) =
   \<lparr>vf_width = 0, vf_height = 0, vf_data = Ok [],
      vf_pixel_format = Ok Rgba, vf_stream_id = 0,
    vf_pts = Ok \<lparr>num = 3, den = 4\<rparr>\<rparr>"
proof -
  let ?b = "video_frame_Builder (StructBuilder [])" and ?m = "zero_struct video_frame_STRUCT_SIZE"
  have f: "video_frame_ok tree_capnp tree_view ?b ?m"
    "video_frame_value tree_capnp ?b ?m = video_frame_zero"
    using tree_builder.video_frame_fresh [of ?m ?b] by (simp_all add: tree_root_fresh)
  have i: "video_frame_Builder_init_pts tree_capnp ?b ?m =
      (rational_Builder (StructBuilder [1]), snd (video_frame_Builder_init_pts tree_capnp ?b ?m))"
    by (simp add: video_frame_defs rational_defs tree_capnp_def tree_init_struct_def)
  show ?thesis
    using video_frame_pts_builder [OF tree_builder.capnp_builder_axioms f(1) i, of "[SetNum 3, SetDen 4]"] f(2)
    by simp
qed

end
