(* ===== verification/Frames_Frame.thy ===== *)
theory Frames_Frame
  imports Frames_Audio Frames_Video
begin

text \<open>
  The module \<open>frame\<close> of \<open>rust/src/schema/frames_capnp.rs\<close>: the union of an audio and a video
  frame, told apart by the 16-bit discriminant at index 0 of the data section.
\<close>

named_theorems frame_defs

section \<open>The module \<open>frame\<close>\<close>

datatype ('a0, 'a1) frame_Which = AudioFrame 'a0 | VideoFrame 'a1

type_synonym ('m, 'e) frame_WhichReader =
  "(('m audio_frame_Reader, 'e) result, ('m video_frame_Reader, 'e) result) frame_Which"

type_synonym 'e frame_WhichBuilder =
  "((audio_frame_Builder, 'e) result, (video_frame_Builder, 'e) result) frame_Which"

definition frame_STRUCT_SIZE :: "StructSize" where [frame_defs]:
  "frame_STRUCT_SIZE = \<lparr>ss_data = 1, ss_pointers = 1\<rparr>"

definition frame_TYPE_ID :: "u64" where [frame_defs]:
  "frame_TYPE_ID = 0x9a599bfe77132e2d"

datatype 'm frame_Reader = frame_Reader (frame_Reader_reader: "'m StructReader")

definition frame_Reader_type_id :: "u64" where [frame_defs]:
  "frame_Reader_type_id = frame_TYPE_ID"

definition frame_Reader_new :: "'m StructReader \<Rightarrow> 'm frame_Reader" where [frame_defs]:
  "frame_Reader_new reader = frame_Reader reader"

definition frame_Reader_get_from_pointer ::
  "('m, 'h, 'e) capnp \<Rightarrow> 'm PointerReader \<Rightarrow>
     ('m frame_Reader, 'e) result" where [frame_defs]:
  "frame_Reader_get_from_pointer L reader =
     result_bind (pr_get_struct L reader) (\<lambda>s. Ok (frame_Reader_new s))"

definition frame_Reader_into_internal_struct_reader ::
  "'m frame_Reader \<Rightarrow> 'm StructReader" where [frame_defs]:
  "frame_Reader_into_internal_struct_reader self = frame_Reader_reader self"

definition frame_Reader_imbue ::
  "('m, 'h, 'e) capnp \<Rightarrow> 'm frame_Reader \<Rightarrow>
     'h CapTable \<Rightarrow> 'm frame_Reader" where [frame_defs]:
  "frame_Reader_imbue L self cap_table =
     frame_Reader (sr_imbue L (frame_Reader_reader self) cap_table)"

definition frame_Reader_reborrow ::
  "'m frame_Reader \<Rightarrow> 'm frame_Reader" where [frame_defs]:
  "frame_Reader_reborrow self = frame_Reader (frame_Reader_reader self)"

definition frame_Reader_total_size ::
  "('m, 'h, 'e) capnp \<Rightarrow> 'm frame_Reader \<Rightarrow>
     (MessageSize, 'e) result" where [frame_defs]:
  "frame_Reader_total_size L self = sr_total_size L (frame_Reader_reader self)"

definition frame_Reader_has_audio_frame ::
  "('m, 'h, 'e) capnp \<Rightarrow> 'm frame_Reader \<Rightarrow> bool" where [frame_defs]:
  "frame_Reader_has_audio_frame L self =
     (if sr_get_u16 L (frame_Reader_reader self) 0 \<noteq> 0 then False
      else \<not> pr_is_null L (sr_get_pointer_field L (frame_Reader_reader self) 0))"

definition frame_Reader_has_video_frame ::
  "('m, 'h, 'e) capnp \<Rightarrow> 'm frame_Reader \<Rightarrow> bool" where [frame_defs]:
  "frame_Reader_has_video_frame L self =
     (if sr_get_u16 L (frame_Reader_reader self) 0 \<noteq> 1 then False
      else \<not> pr_is_null L (sr_get_pointer_field L (frame_Reader_reader self) 0))"

definition frame_Reader_which ::
  "('m, 'h, 'e) capnp \<Rightarrow> 'm frame_Reader \<Rightarrow> (('m, 'e) frame_WhichReader, NotInSchema) result" where [frame_defs]:
  "frame_Reader_which L self =
     (let x = sr_get_u16 L (frame_Reader_reader self) 0 in
      if x = 0 then
        Ok (AudioFrame (audio_frame_Reader_get_from_pointer L
              (sr_get_pointer_field L (frame_Reader_reader self) 0)))
      else if x = 1 then
        Ok (VideoFrame (video_frame_Reader_get_from_pointer L
              (sr_get_pointer_field L (frame_Reader_reader self) 0)))
      else Err (NotInSchema x))"

datatype frame_Builder = frame_Builder (frame_Builder_builder: "StructBuilder")

definition frame_Builder_struct_size :: "StructSize" where [frame_defs]:
  "frame_Builder_struct_size = frame_STRUCT_SIZE"

definition frame_Builder_type_id :: "u64" where [frame_defs]:
  "frame_Builder_type_id = frame_TYPE_ID"

definition frame_Builder_new :: "StructBuilder \<Rightarrow> frame_Builder" where [frame_defs]:
  "frame_Builder_new builder = frame_Builder builder"

definition frame_Builder_imbue_mut ::
  "('m, 'h, 'e) capnp \<Rightarrow> frame_Builder \<Rightarrow> 'h CapTable \<Rightarrow>
     frame_Builder" where [frame_defs]:
  "frame_Builder_imbue_mut L self cap_table =
     frame_Builder (sb_imbue L (frame_Builder_builder self) cap_table)"

definition frame_Builder_init_pointer ::
  "('m, 'h, 'e) capnp \<Rightarrow> PointerBuilder \<Rightarrow> u32 \<Rightarrow>
     'm \<Rightarrow> frame_Builder \<times> 'm" where [frame_defs]:
  "frame_Builder_init_pointer L builder sz m =
     (case pb_init_struct L builder frame_STRUCT_SIZE m of (s, m') \<Rightarrow> (frame_Builder_new s, m'))"

definition frame_Builder_get_from_pointer ::
  "('m, 'h, 'e) capnp \<Rightarrow> PointerBuilder \<Rightarrow> 'm \<Rightarrow>
     (frame_Builder, 'e) result \<times> 'm" where [frame_defs]:
  "frame_Builder_get_from_pointer L builder m =
     (case pb_get_struct L builder frame_STRUCT_SIZE m of
        (r, m') \<Rightarrow> (result_bind r (\<lambda>s. Ok (frame_Builder_new s)), m'))"

definition frame_Reader_set_pointer_builder ::
  "('m, 'h, 'e) capnp \<Rightarrow> PointerBuilder \<Rightarrow>
     'm frame_Reader \<Rightarrow> bool \<Rightarrow> 'm \<Rightarrow> (unit, 'e) result \<times> 'm" where [frame_defs]:
  "frame_Reader_set_pointer_builder L pointer value canonicalize m =
     pb_set_struct L pointer (frame_Reader_reader value) canonicalize m"

definition frame_Builder_into_reader ::
  "('m, 'h, 'e) capnp \<Rightarrow> frame_Builder \<Rightarrow> 'm \<Rightarrow>
     'm frame_Reader" where [frame_defs]:
  "frame_Builder_into_reader L self m =
     frame_Reader_new (sb_into_reader L (frame_Builder_builder self) m)"

definition frame_Builder_as_reader ::
  "('m, 'h, 'e) capnp \<Rightarrow> frame_Builder \<Rightarrow> 'm \<Rightarrow>
     'm frame_Reader" where [frame_defs]:
  "frame_Builder_as_reader L self m = frame_Builder_into_reader L self m"

definition frame_Builder_reborrow ::
  "frame_Builder \<Rightarrow> frame_Builder" where [frame_defs]:
  "frame_Builder_reborrow self = frame_Builder (frame_Builder_builder self)"

definition frame_Builder_reborrow_as_reader ::
  "('m, 'h, 'e) capnp \<Rightarrow> frame_Builder \<Rightarrow> 'm \<Rightarrow>
     'm frame_Reader" where [frame_defs]:
  "frame_Builder_reborrow_as_reader L self m =
     frame_Reader_new (sb_into_reader L (frame_Builder_builder self) m)"

definition frame_Builder_total_size ::
  "('m, 'h, 'e) capnp \<Rightarrow> frame_Builder \<Rightarrow> 'm \<Rightarrow>
     (MessageSize, 'e) result" where [frame_defs]:
  "frame_Builder_total_size L self m =
     sr_total_size L (sb_into_reader L (frame_Builder_builder self) m)"

definition frame_Builder_set_audio_frame ::
  "('m, 'h, 'e) capnp \<Rightarrow> frame_Builder \<Rightarrow>
     'm audio_frame_Reader \<Rightarrow> 'm \<Rightarrow> (unit, 'e) result \<times> 'm" where [frame_defs]:
  "frame_Builder_set_audio_frame L self value m =
     (let m1 = sb_set_u16 L (frame_Builder_builder self) 0 0 m in
      audio_frame_Reader_set_pointer_builder L (sb_get_pointer_field L (frame_Builder_builder self) 0) value False m1)"

definition frame_Builder_init_audio_frame ::
  "('m, 'h, 'e) capnp \<Rightarrow> frame_Builder \<Rightarrow> 'm \<Rightarrow>
     audio_frame_Builder \<times> 'm" where [frame_defs]:
  "frame_Builder_init_audio_frame L self m =
     (let m1 = sb_set_u16 L (frame_Builder_builder self) 0 0 m in
      audio_frame_Builder_init_pointer L (sb_get_pointer_field L (frame_Builder_builder self) 0) 0 m1)"

definition frame_Builder_has_audio_frame ::
  "('m, 'h, 'e) capnp \<Rightarrow> frame_Builder \<Rightarrow> 'm \<Rightarrow>
     bool" where [frame_defs]:
  "frame_Builder_has_audio_frame L self m =
     (if sb_get_u16 L (frame_Builder_builder self) 0 m \<noteq> 0 then False
      else \<not> pb_is_null L (sb_get_pointer_field L (frame_Builder_builder self) 0) m)"

definition frame_Builder_set_video_frame ::
  "('m, 'h, 'e) capnp \<Rightarrow> frame_Builder \<Rightarrow>
     'm video_frame_Reader \<Rightarrow> 'm \<Rightarrow> (unit, 'e) result \<times> 'm" where [frame_defs]:
  "frame_Builder_set_video_frame L self value m =
     (let m1 = sb_set_u16 L (frame_Builder_builder self) 0 1 m in
      video_frame_Reader_set_pointer_builder L (sb_get_pointer_field L (frame_Builder_builder self) 0) value False m1)"

definition frame_Builder_init_video_frame ::
  "('m, 'h, 'e) capnp \<Rightarrow> frame_Builder \<Rightarrow> 'm \<Rightarrow>
     video_frame_Builder \<times> 'm" where [frame_defs]:
  "frame_Builder_init_video_frame L self m =
     (let m1 = sb_set_u16 L (frame_Builder_builder self) 0 1 m in
      video_frame_Builder_init_pointer L (sb_get_pointer_field L (frame_Builder_builder self) 0) 0 m1)"

definition frame_Builder_has_video_frame ::
  "('m, 'h, 'e) capnp \<Rightarrow> frame_Builder \<Rightarrow> 'm \<Rightarrow>
     bool" where [frame_defs]:
  "frame_Builder_has_video_frame L self m =
     (if sb_get_u16 L (frame_Builder_builder self) 0 m \<noteq> 1 then False
      else \<not> pb_is_null L (sb_get_pointer_field L (frame_Builder_builder self) 0) m)"

definition frame_Builder_which ::
  "('m, 'h, 'e) capnp \<Rightarrow> frame_Builder \<Rightarrow> 'm \<Rightarrow> ('e frame_WhichBuilder, NotInSchema) result \<times> 'm" where [frame_defs]:
  "frame_Builder_which L self m =
     (let x = sb_get_u16 L (frame_Builder_builder self) 0 m in
      if x = 0 then
        (case audio_frame_Builder_get_from_pointer L
                (sb_get_pointer_field L (frame_Builder_builder self) 0) m of
           (r, m') \<Rightarrow> (Ok (AudioFrame r), m'))
      else if x = 1 then
        (case video_frame_Builder_get_from_pointer L
                (sb_get_pointer_field L (frame_Builder_builder self) 0) m of
           (r, m') \<Rightarrow> (Ok (VideoFrame r), m'))
      else (Err (NotInSchema x), m))"

datatype frame_Pipeline = frame_Pipeline (frame_Pipeline_typeless: "AnyPipeline")

definition frame_Pipeline_new :: "AnyPipeline \<Rightarrow> frame_Pipeline" where [frame_defs]:
  "frame_Pipeline_new typeless = frame_Pipeline typeless"

section \<open>The value of a frame\<close>

datatype 'e frame_val =
    AudioVal "('e audio_frame_val, 'e) result"
  | VideoVal "('e video_frame_val, 'e) result"
  | UnknownVal u16

definition frame_read :: "('m, 'h, 'e) capnp \<Rightarrow> 'm frame_Reader \<Rightarrow> 'e frame_val" where
  "frame_read L r = (case frame_Reader_which L r of
     Ok (AudioFrame a) \<Rightarrow> AudioVal (map_result (audio_frame_read L) id a)
   | Ok (VideoFrame v) \<Rightarrow> VideoVal (map_result (video_frame_read L) id v)
   | Err (NotInSchema x) \<Rightarrow> UnknownVal x)"

lemma frame_read_data:
  assumes "capnp_reader L V"
  shows "frame_read L (frame_Reader sr) =
    (if read_field (rdata V sr) 0 = (0 :: u16) then
       AudioVal (map_result (audio_frame_read L) id
         (audio_frame_Reader_get_from_pointer L (sr_get_pointer_field L sr 0)))
     else if read_field (rdata V sr) 0 = (1 :: u16) then
       VideoVal (map_result (video_frame_read L) id
         (video_frame_Reader_get_from_pointer L (sr_get_pointer_field L sr 0)))
     else UnknownVal (read_field (rdata V sr) 0))"
  using assms by (simp add: frame_read_def frame_Reader_which_def capnp_reader.get_u16)

lemma frame_read_tree:
  assumes L: "capnp_reader L V"
    and t: "struct_obj V (frame_Reader_reader r) = struct_obj V (frame_Reader_reader r')"
  shows "frame_read L r = frame_read L r'"
proof -
  obtain sr sr' where r: "r = frame_Reader sr" "r' = frame_Reader sr'"
    by (cases r; cases r') simp
  have p: "robj V (sr_get_pointer_field L sr 0) = robj V (sr_get_pointer_field L sr' 0)"
    using t r by (simp add: struct_obj_def capnp_reader.get_pointer [OF L])
  show ?thesis
    using t r audio_frame_m.value_cong [OF L p] video_frame_m.value_cong [OF L p]
    by (simp add: frame_read_data [OF L] struct_obj_def)
qed

section \<open>The module keeps its contract\<close>

interpretation frame_m: struct_value frame_Builder_struct_size
  frame_Reader_type_id frame_Builder_type_id frame_Reader_new
  frame_Reader_into_internal_struct_reader frame_Builder_new frame_Builder_builder
  frame_Reader_get_from_pointer frame_Builder_init_pointer frame_Builder_get_from_pointer
  frame_Reader_set_pointer_builder frame_Builder_into_reader frame_Reader_total_size
  frame_Builder_total_size frame_read
  by unfold_locales
    (simp add: frame_defs frame_Reader_new_def [abs_def] frame_Builder_new_def [abs_def]
      result_bind_map prod.case_eq_if map_prod_def | erule frame_read_tree)+

interpretation frame_disc: data_field frame_STRUCT_SIZE 0 frame_Reader_reader frame_Builder_builder
  "\<lambda>L r. sr_get_u16 L (frame_Reader_reader r) 0"
  "\<lambda>L b m. sb_get_u16 L (frame_Builder_builder b) 0 m"
  "\<lambda>L b v m. sb_set_u16 L (frame_Builder_builder b) 0 v m"
  by (rule u16_field) (simp_all add: frame_STRUCT_SIZE_def)

interpretation frame_audio: struct_pointer frame_STRUCT_SIZE 0 frame_Builder_builder
  audio_frame_STRUCT_SIZE audio_frame_Builder_new audio_frame_Builder_builder
  audio_frame_Reader_into_internal_struct_reader
  "\<lambda>L b v m. audio_frame_Reader_set_pointer_builder L
     (sb_get_pointer_field L (frame_Builder_builder b) 0) v False m"
  "\<lambda>L b m. audio_frame_Builder_init_pointer L (sb_get_pointer_field L (frame_Builder_builder b) 0) 0 m"
  by unfold_locales
    (simp_all add: frame_STRUCT_SIZE_def audio_frame_defs audio_frame_Builder_new_def [abs_def]
      prod.case_eq_if map_prod_def)

interpretation frame_video: struct_pointer frame_STRUCT_SIZE 0 frame_Builder_builder
  video_frame_STRUCT_SIZE video_frame_Builder_new video_frame_Builder_builder
  video_frame_Reader_into_internal_struct_reader
  "\<lambda>L b v m. video_frame_Reader_set_pointer_builder L
     (sb_get_pointer_field L (frame_Builder_builder b) 0) v False m"
  "\<lambda>L b m. video_frame_Builder_init_pointer L (sb_get_pointer_field L (frame_Builder_builder b) 0) 0 m"
  by unfold_locales
    (simp_all add: frame_STRUCT_SIZE_def video_frame_defs video_frame_Builder_new_def [abs_def]
      prod.case_eq_if map_prod_def)

section \<open>The operations refine the choice of a union member\<close>

definition frame_ok ::
  "('m, 'h, 'e) capnp \<Rightarrow> ('m, 'h, 'e) view \<Rightarrow> frame_Builder \<Rightarrow> 'm \<Rightarrow> bool" where
  "frame_ok L V b m \<longleftrightarrow> struct_ok V m (frame_Builder_builder b) frame_STRUCT_SIZE"

definition frame_value ::
  "('m, 'h, 'e) capnp \<Rightarrow> frame_Builder \<Rightarrow> 'm \<Rightarrow> 'e frame_val" where
  "frame_value L b m = frame_read L (frame_Builder_into_reader L b m)"

datatype 'm frame_op =
    SetAudioFrame "'m audio_frame_Reader"
  | InitAudioFrame
  | SetVideoFrame "'m video_frame_Reader"
  | InitVideoFrame

fun frame_allowed :: "('m, 'h, 'e) view \<Rightarrow> 'm frame_op \<Rightarrow> bool" where
  "frame_allowed V (SetAudioFrame r) =
     sound (struct_obj V (audio_frame_Reader_into_internal_struct_reader r))"
| "frame_allowed V (SetVideoFrame r) =
     sound (struct_obj V (video_frame_Reader_into_internal_struct_reader r))"
| "frame_allowed V _ = True"

fun frame_run :: "('m, 'h, 'e) capnp \<Rightarrow> frame_Builder \<Rightarrow> 'm frame_op \<Rightarrow> 'm \<Rightarrow> 'm" where
  "frame_run L b (SetAudioFrame r) m = snd (frame_Builder_set_audio_frame L b r m)"
| "frame_run L b InitAudioFrame m = snd (frame_Builder_init_audio_frame L b m)"
| "frame_run L b (SetVideoFrame r) m = snd (frame_Builder_set_video_frame L b r m)"
| "frame_run L b InitVideoFrame m = snd (frame_Builder_init_video_frame L b m)"

fun frame_spec :: "('m, 'h, 'e) capnp \<Rightarrow> 'm frame_op \<Rightarrow> 'e frame_val \<Rightarrow> 'e frame_val" where
  "frame_spec L (SetAudioFrame r) x = AudioVal (Ok (audio_frame_read L r))"
| "frame_spec L InitAudioFrame x = AudioVal (Ok audio_frame_zero)"
| "frame_spec L (SetVideoFrame r) x = VideoVal (Ok (video_frame_read L r))"
| "frame_spec L InitVideoFrame x = VideoVal (Ok video_frame_zero)"

context capnp_builder
begin

lemma frame_value_data:
  "frame_value L b m = frame_read L (frame_Reader (sb_into_reader L (frame_Builder_builder b) m))"
  by (simp add: frame_value_def frame_Builder_into_reader_def frame_Reader_new_def)

lemma frame_fresh:
  assumes "fresh_struct L V m (frame_Builder_builder b) frame_STRUCT_SIZE"
  shows "frame_ok L V b m" and "frame_value L b m = AudioVal (Ok audio_frame_zero)"
proof -
  show "frame_ok L V b m" using assms by (simp add: frame_ok_def fresh_struct_ok)
  have "robj V (sr_get_pointer_field L (sb_into_reader L (frame_Builder_builder b) m) 0) = ONull"
    using reader_fresh [OF assms] by (simp add: get_pointer)
  then show "frame_value L b m = AudioVal (Ok audio_frame_zero)"
    using reader_fresh [OF assms] audio_frame_null [OF capnp_reader_axioms]
    by (simp add: frame_value_data frame_read_data [OF capnp_reader_axioms])
qed

text \<open>The discriminant is written first, then the pointer.\<close>

lemma frame_disc_write:
  assumes "frame_ok L V b m"
  shows "frame_ok L V b (sb_set_u16 L (frame_Builder_builder b) 0 x m)"
    and "read_field (rdata V (sb_into_reader L (frame_Builder_builder b)
      (sb_set_u16 L (frame_Builder_builder b) 0 x m))) 0 = x"
  using frame_disc.put_simps(1,2) [OF capnp_builder_axioms assms [unfolded frame_ok_def]]
  by (simp_all add: frame_ok_def)

lemma frame_pointer_write:
  assumes ok: "frame_ok L V b m"
    and w: "slot_write V m m' (sb_get_pointer_field L (frame_Builder_builder b) 0) c"
    and d: "read_field (rdata V (sb_into_reader L (frame_Builder_builder b) m)) 0 = (x :: u16)"
  shows "frame_ok L V b m'"
    and "x = 0 \<Longrightarrow> cobj L V m' c = struct_obj V (audio_frame_Reader_into_internal_struct_reader ra) \<Longrightarrow>
      frame_value L b m' = AudioVal (Ok (audio_frame_read L ra))"
    and "x = 1 \<Longrightarrow> cobj L V m' c = struct_obj V (video_frame_Reader_into_internal_struct_reader rv) \<Longrightarrow>
      frame_value L b m' = VideoVal (Ok (video_frame_read L rv))"
proof -
  note f = frame_audio.after_write [OF capnp_builder_axioms ok [unfolded frame_ok_def] w]
  show "frame_ok L V b m'" using f(1) by (simp add: frame_ok_def)
  show "frame_value L b m' = AudioVal (Ok (audio_frame_read L ra))"
    if "x = 0" "cobj L V m' c = struct_obj V (audio_frame_Reader_into_internal_struct_reader ra)"
    using audio_frame_m.value_copy [OF capnp_reader_axioms trans [OF f(3) that(2)]] d that(1)
    by (simp add: frame_value_data frame_read_data [OF capnp_reader_axioms] f(2))
  show "frame_value L b m' = VideoVal (Ok (video_frame_read L rv))"
    if "x = 1" "cobj L V m' c = struct_obj V (video_frame_Reader_into_internal_struct_reader rv)"
    using video_frame_m.value_copy [OF capnp_reader_axioms trans [OF f(3) that(2)]] d that(1)
    by (simp add: frame_value_data frame_read_data [OF capnp_reader_axioms] f(2))
qed

end

context capnp_builder
begin

lemma frame_writes_steps:
  assumes ok: "frame_ok L V b m"
    and w: "slot_write V (sb_set_u16 L (frame_Builder_builder b) 0 x m) m'
      (sb_get_pointer_field L (frame_Builder_builder b) 0) c"
  shows "struct_steps L V (frame_Builder_builder b) m m'"
  using struct_steps_trans [OF frame_audio.write_steps [OF _ w]
      frame_disc.put_steps [OF capnp_builder_axioms ok [unfolded frame_ok_def]]]
    frame_disc_write(1) [OF ok, where x = x] by (simp add: frame_ok_def)

lemma frame_init_audio:
  assumes ok: "frame_ok L V b m" and i: "frame_Builder_init_audio_frame L b m = (a, m')"
  shows "frame_ok L V b m'" and "audio_frame_ok L V a m'"
    and "audio_frame_value L a m' = audio_frame_zero"
    and "frame_value L b m' = AudioVal (Ok audio_frame_zero)"
    and "child L V frame_STRUCT_SIZE (frame_Builder_builder b) 0 (audio_frame_Builder_builder a) m'"
    and "struct_steps L V (frame_Builder_builder b) m m'"
proof -
  let ?m1 = "sb_set_u16 L (frame_Builder_builder b) 0 0 m"
  note d = frame_disc_write [OF ok, where x = 0]
  note ok1 = d(1) [unfolded frame_ok_def]
  have i1: "audio_frame_Builder_init_pointer L (sb_get_pointer_field L (frame_Builder_builder b) 0) 0 ?m1 =
      (a, m')"
    using i by (simp add: frame_Builder_init_audio_frame_def)
  note w = frame_audio.init_write [OF capnp_builder_axioms ok1 i1]
  have c: "cobj L V m' (CStruct (audio_frame_Builder_builder a)) =
      struct_obj V (audio_frame_Reader_into_internal_struct_reader (audio_frame_Builder_into_reader L a m'))"
    by (simp add: cobj_def audio_frame_Reader_into_internal_struct_reader_def
        audio_frame_Builder_into_reader_def audio_frame_Reader_new_def)
  note s = frame_pointer_write(1,2) [OF d(1) w(1) d(2)]
  note fresh = audio_frame_fresh [OF w(2)]
  show "frame_ok L V b m'" by (rule s(1))
  show "audio_frame_ok L V a m'" "audio_frame_value L a m' = audio_frame_zero" using fresh by simp_all
  show "frame_value L b m' = AudioVal (Ok audio_frame_zero)"
    using s(2) [OF _ c] fresh(2) by (simp add: audio_frame_value_def)
  show "child L V frame_STRUCT_SIZE (frame_Builder_builder b) 0 (audio_frame_Builder_builder a) m'"
    using s(1) w(1) by (simp add: child_def frame_ok_def slot_write_def frame_STRUCT_SIZE_def)
  show "struct_steps L V (frame_Builder_builder b) m m'"
    by (rule frame_writes_steps [OF ok w(1)])
qed

text \<open>\<open>which\<close> of the builder: the member's struct, made first when the pointer is null.\<close>

lemma frame_which_audio:
  assumes ok: "frame_ok L V b m" and x: "sb_get_u16 L (frame_Builder_builder b) 0 m = 0"
    and s: "struct_slot V m (sb_get_pointer_field L (frame_Builder_builder b) 0) audio_frame_STRUCT_SIZE"
  shows "\<exists>a m'. frame_Builder_which L b m = (Ok (AudioFrame (Ok a)), m') \<and>
    content V m' (sb_get_pointer_field L (frame_Builder_builder b) 0) =
      CStruct (audio_frame_Builder_builder a) \<and>
    frame_value L b m' = frame_value L b m \<and>
    frame_value L b m = AudioVal (Ok (audio_frame_value L a m'))"
proof -
  let ?pb = "sb_get_pointer_field L (frame_Builder_builder b) 0"
  let ?pr = "sr_get_pointer_field L (sb_into_reader L (frame_Builder_builder b) m) 0"
  note b = ok [unfolded frame_ok_def]
  note live = frame_audio.slot_is_live [OF capnp_builder_axioms b]
  note obj = pointer_obj [OF b frame_audio.slot_bound]
  have d: "read_field (rdata V (sb_into_reader L (frame_Builder_builder b) m)) 0 = (0 :: u16)"
    using builder_reads(1) [OF b, of 0] x by (simp add: frame_STRUCT_SIZE_def get_u16)
  then have v: "frame_value L b m =
      AudioVal (map_result (audio_frame_read L) id (audio_frame_Reader_get_from_pointer L ?pr))"
    by (simp add: frame_value_data frame_read_data [OF capnp_reader_axioms])
  show ?thesis
  proof (cases rule: audio_frame_m.b_get_cases [unfolded audio_frame_Builder_struct_size_def, OF capnp_builder_axioms live s, case_names kept made])
    case (kept a)
    have "robj V ?pr = cobj L V m (CStruct (audio_frame_Builder_builder a))" using obj kept(1) by simp
    from audio_frame_m.value_slot [OF capnp_reader_axioms this] show ?thesis
      using kept v x by (intro exI [of _ a] exI [of _ m])
        (simp add: frame_Builder_which_def audio_frame_value_def)
  next
    case (made a m')
    note w = frame_audio.init_write [OF capnp_builder_axioms b made(2)]
    have "robj V ?pr = ONull" using obj made(1) by (simp add: cobj_def)
    then have z: "frame_value L b m = AudioVal (Ok audio_frame_zero)"
      using audio_frame_null [OF capnp_reader_axioms] v by simp
    have c: "cobj L V m' (CStruct (audio_frame_Builder_builder a)) =
        struct_obj V (audio_frame_Reader_into_internal_struct_reader (audio_frame_Builder_into_reader L a m'))"
      by (simp add: cobj_def audio_frame_Reader_into_internal_struct_reader_def
          audio_frame_Builder_into_reader_def audio_frame_Reader_new_def)
    have "frame_value L b m' = AudioVal (Ok audio_frame_zero)"
      using frame_pointer_write(2) [OF ok w(1) d refl c] audio_frame_fresh [OF w(2)] by (simp add: audio_frame_value_def)
    then show ?thesis
      using made(3) w(1) z x audio_frame_fresh [OF w(2)]
      by (intro exI [of _ a] exI [of _ m']) (simp add: frame_Builder_which_def slot_write_def)
  qed
qed

lemma frame_which_video:
  assumes ok: "frame_ok L V b m" and x: "sb_get_u16 L (frame_Builder_builder b) 0 m = 1"
    and s: "struct_slot V m (sb_get_pointer_field L (frame_Builder_builder b) 0) video_frame_STRUCT_SIZE"
  shows "\<exists>a m'. frame_Builder_which L b m = (Ok (VideoFrame (Ok a)), m') \<and>
    content V m' (sb_get_pointer_field L (frame_Builder_builder b) 0) =
      CStruct (video_frame_Builder_builder a) \<and>
    frame_value L b m' = frame_value L b m \<and>
    frame_value L b m = VideoVal (Ok (video_frame_value L a m'))"
proof -
  let ?pb = "sb_get_pointer_field L (frame_Builder_builder b) 0"
  let ?pr = "sr_get_pointer_field L (sb_into_reader L (frame_Builder_builder b) m) 0"
  note b = ok [unfolded frame_ok_def]
  note live = frame_audio.slot_is_live [OF capnp_builder_axioms b]
  note obj = pointer_obj [OF b frame_audio.slot_bound]
  have d: "read_field (rdata V (sb_into_reader L (frame_Builder_builder b) m)) 0 = (1 :: u16)"
    using builder_reads(1) [OF b, of 0] x by (simp add: frame_STRUCT_SIZE_def get_u16)
  then have v: "frame_value L b m =
      VideoVal (map_result (video_frame_read L) id (video_frame_Reader_get_from_pointer L ?pr))"
    by (simp add: frame_value_data frame_read_data [OF capnp_reader_axioms])
  show ?thesis
  proof (cases rule: video_frame_m.b_get_cases [unfolded video_frame_Builder_struct_size_def, OF capnp_builder_axioms live s, case_names kept made])
    case (kept a)
    have "robj V ?pr = cobj L V m (CStruct (video_frame_Builder_builder a))" using obj kept(1) by simp
    from video_frame_m.value_slot [OF capnp_reader_axioms this] show ?thesis
      using kept v x by (intro exI [of _ a] exI [of _ m])
        (simp add: frame_Builder_which_def video_frame_value_def)
  next
    case (made a m')
    note w = frame_video.init_write [OF capnp_builder_axioms b made(2)]
    have "robj V ?pr = ONull" using obj made(1) by (simp add: cobj_def)
    then have z: "frame_value L b m = VideoVal (Ok video_frame_zero)"
      using video_frame_null [OF capnp_reader_axioms] v by simp
    have c: "cobj L V m' (CStruct (video_frame_Builder_builder a)) =
        struct_obj V (video_frame_Reader_into_internal_struct_reader (video_frame_Builder_into_reader L a m'))"
      by (simp add: cobj_def video_frame_Reader_into_internal_struct_reader_def
          video_frame_Builder_into_reader_def video_frame_Reader_new_def)
    have "frame_value L b m' = VideoVal (Ok video_frame_zero)"
      using frame_pointer_write(3) [OF ok w(1) d refl c] video_frame_fresh [OF w(2)] by (simp add: video_frame_value_def)
    then show ?thesis
      using made(3) w(1) z x video_frame_fresh [OF w(2)]
      by (intro exI [of _ a] exI [of _ m']) (simp add: frame_Builder_which_def slot_write_def)
  qed
qed

lemma frame_which_builder:
  assumes ok: "frame_ok L V b m"
    and s: "sb_get_u16 L (frame_Builder_builder b) 0 m = 0 \<Longrightarrow>
        struct_slot V m (sb_get_pointer_field L (frame_Builder_builder b) 0) audio_frame_STRUCT_SIZE"
      "sb_get_u16 L (frame_Builder_builder b) 0 m = 1 \<Longrightarrow>
        struct_slot V m (sb_get_pointer_field L (frame_Builder_builder b) 0) video_frame_STRUCT_SIZE"
  shows "case frame_value L b m of
       AudioVal x \<Rightarrow> \<exists>a m'. frame_Builder_which L b m = (Ok (AudioFrame (Ok a)), m') \<and>
         content V m' (sb_get_pointer_field L (frame_Builder_builder b) 0) =
           CStruct (audio_frame_Builder_builder a) \<and>
         frame_value L b m' = frame_value L b m \<and> x = Ok (audio_frame_value L a m')
     | VideoVal x \<Rightarrow> \<exists>a m'. frame_Builder_which L b m = (Ok (VideoFrame (Ok a)), m') \<and>
         content V m' (sb_get_pointer_field L (frame_Builder_builder b) 0) =
           CStruct (video_frame_Builder_builder a) \<and>
         frame_value L b m' = frame_value L b m \<and> x = Ok (video_frame_value L a m')
     | UnknownVal x \<Rightarrow> frame_Builder_which L b m = (Err (NotInSchema x), m)"
proof -
  let ?x = "sb_get_u16 L (frame_Builder_builder b) 0 m"
  consider "?x = 0" | "?x = 1" | "?x \<noteq> 0" "?x \<noteq> 1" by blast
  then show ?thesis
  proof cases
    case 1
    then show ?thesis using frame_which_audio [OF ok 1 s(1)] by auto
  next
    case 2
    then show ?thesis using frame_which_video [OF ok 2 s(2)] by auto
  next
    case 3
    have "?x = read_field (rdata V (sb_into_reader L (frame_Builder_builder b) m)) 0"
      using builder_reads(1) [OF ok [unfolded frame_ok_def], of 0] by (simp add: frame_STRUCT_SIZE_def get_u16)
    then have "frame_value L b m = UnknownVal ?x"
      using 3 by (simp add: frame_value_data frame_read_data [OF capnp_reader_axioms])
    then show ?thesis using 3 by (simp add: frame_Builder_which_def)
  qed
qed

lemma frame_set_audio:
  assumes ok: "frame_ok L V b m"
    and "sound (struct_obj V (audio_frame_Reader_into_internal_struct_reader r))"
  obtains m' where "frame_Builder_set_audio_frame L b r m = (Ok (), m')" "frame_ok L V b m'"
    "frame_value L b m' = AudioVal (Ok (audio_frame_read L r))"
    "struct_steps L V (frame_Builder_builder b) m m'"
proof -
  let ?m1 = "sb_set_u16 L (frame_Builder_builder b) 0 0 m"
  note d = frame_disc_write [OF ok, where x = 0]
  note ok1 = d(1) [unfolded frame_ok_def]
  obtain sb m' where p: "audio_frame_Reader_set_pointer_builder L
      (sb_get_pointer_field L (frame_Builder_builder b) 0) r False ?m1 = (Ok (), m')"
    and w: "slot_write V ?m1 m' (sb_get_pointer_field L (frame_Builder_builder b) 0) (CStruct sb)"
    and c: "cobj L V m' (CStruct sb) = struct_obj V (audio_frame_Reader_into_internal_struct_reader r)"
    by (rule frame_audio.put_write [OF capnp_builder_axioms ok1 assms(2)])
  have "frame_Builder_set_audio_frame L b r m = (Ok (), m')"
    using p by (simp add: frame_Builder_set_audio_frame_def)
  then show ?thesis
    using that frame_pointer_write(1,2) [OF d(1) w d(2)] c frame_writes_steps [OF ok w] by simp
qed

lemma frame_init_video:
  assumes ok: "frame_ok L V b m" and i: "frame_Builder_init_video_frame L b m = (a, m')"
  shows "frame_ok L V b m'" and "video_frame_ok L V a m'"
    and "video_frame_value L a m' = video_frame_zero"
    and "frame_value L b m' = VideoVal (Ok video_frame_zero)"
    and "child L V frame_STRUCT_SIZE (frame_Builder_builder b) 0 (video_frame_Builder_builder a) m'"
    and "struct_steps L V (frame_Builder_builder b) m m'"
proof -
  let ?m1 = "sb_set_u16 L (frame_Builder_builder b) 0 1 m"
  note d = frame_disc_write [OF ok, where x = 1]
  note ok1 = d(1) [unfolded frame_ok_def]
  have i1: "video_frame_Builder_init_pointer L (sb_get_pointer_field L (frame_Builder_builder b) 0) 0 ?m1 =
      (a, m')"
    using i by (simp add: frame_Builder_init_video_frame_def)
  note w = frame_video.init_write [OF capnp_builder_axioms ok1 i1]
  have c: "cobj L V m' (CStruct (video_frame_Builder_builder a)) =
      struct_obj V (video_frame_Reader_into_internal_struct_reader (video_frame_Builder_into_reader L a m'))"
    by (simp add: cobj_def video_frame_Reader_into_internal_struct_reader_def
        video_frame_Builder_into_reader_def video_frame_Reader_new_def)
  note s = frame_pointer_write(1,3) [OF d(1) w(1) d(2)]
  note fresh = video_frame_fresh [OF w(2)]
  show "frame_ok L V b m'" by (rule s(1))
  show "video_frame_ok L V a m'" "video_frame_value L a m' = video_frame_zero" using fresh by simp_all
  show "frame_value L b m' = VideoVal (Ok video_frame_zero)"
    using s(2) [OF _ c] fresh(2) by (simp add: video_frame_value_def)
  show "child L V frame_STRUCT_SIZE (frame_Builder_builder b) 0 (video_frame_Builder_builder a) m'"
    using s(1) w(1) by (simp add: child_def frame_ok_def slot_write_def frame_STRUCT_SIZE_def)
  show "struct_steps L V (frame_Builder_builder b) m m'"
    by (rule frame_writes_steps [OF ok w(1)])
qed

lemma frame_set_video:
  assumes ok: "frame_ok L V b m"
    and "sound (struct_obj V (video_frame_Reader_into_internal_struct_reader r))"
  obtains m' where "frame_Builder_set_video_frame L b r m = (Ok (), m')" "frame_ok L V b m'"
    "frame_value L b m' = VideoVal (Ok (video_frame_read L r))"
    "struct_steps L V (frame_Builder_builder b) m m'"
proof -
  let ?m1 = "sb_set_u16 L (frame_Builder_builder b) 0 1 m"
  note d = frame_disc_write [OF ok, where x = 1]
  note ok1 = d(1) [unfolded frame_ok_def]
  obtain sb m' where p: "video_frame_Reader_set_pointer_builder L
      (sb_get_pointer_field L (frame_Builder_builder b) 0) r False ?m1 = (Ok (), m')"
    and w: "slot_write V ?m1 m' (sb_get_pointer_field L (frame_Builder_builder b) 0) (CStruct sb)"
    and c: "cobj L V m' (CStruct sb) = struct_obj V (video_frame_Reader_into_internal_struct_reader r)"
    by (rule frame_video.put_write [OF capnp_builder_axioms ok1 assms(2)])
  have "frame_Builder_set_video_frame L b r m = (Ok (), m')"
    using p by (simp add: frame_Builder_set_video_frame_def)
  then show ?thesis
    using that frame_pointer_write(1,3) [OF d(1) w d(2)] c frame_writes_steps [OF ok w] by simp
qed

lemma frame_step:
  assumes ok: "frame_ok L V b m" and x: "frame_allowed V x"
  shows "frame_ok L V b (frame_run L b x m) \<and>
    frame_value L b (frame_run L b x m) = frame_spec L x (frame_value L b m)"
  using x frame_init_audio [OF ok prod.collapse [symmetric]] frame_init_video [OF ok prod.collapse [symmetric]]
  by (cases x) (auto elim!: frame_set_audio [OF ok] frame_set_video [OF ok])

lemma frame_steps:
  assumes ok: "frame_ok L V b m" and x: "frame_allowed V x"
  shows "struct_steps L V (frame_Builder_builder b) m (frame_run L b x m)"
  using x frame_init_audio(6) [OF ok prod.collapse [symmetric]]
    frame_init_video(6) [OF ok prod.collapse [symmetric]]
  by (cases x) (auto elim!: frame_set_audio [OF ok] frame_set_video [OF ok])

end

interpretation frame_ops: op_refinement frame_ok frame_value frame_allowed frame_run frame_spec
  frame_Builder_builder
  by unfold_locales (simp_all add: capnp_builder.frame_step capnp_builder.frame_steps)

context capnp_builder
begin

text \<open>A frame whose pointer refers to the struct of an audio (video) builder.\<close>

lemma frame_audio_child:
  assumes "child L V frame_STRUCT_SIZE (frame_Builder_builder b) 0 (audio_frame_Builder_builder a) m'"
    and "same_but_slot L V frame_STRUCT_SIZE (frame_Builder_builder b) 0 m m'"
    and "frame_value L b m = AudioVal x"
  shows "frame_value L b m' = AudioVal (Ok (audio_frame_value L a m'))"
  using assms(2,3) audio_frame_m.value_slot [OF capnp_reader_axioms child_obj [OF assms(1)]]
  by (simp add: frame_value_data frame_read_data [OF capnp_reader_axioms] same_but_slot_def
      audio_frame_value_def split: if_splits)

lemma frame_video_child:
  assumes "child L V frame_STRUCT_SIZE (frame_Builder_builder b) 0 (video_frame_Builder_builder a) m'"
    and "same_but_slot L V frame_STRUCT_SIZE (frame_Builder_builder b) 0 m m'"
    and "frame_value L b m = VideoVal x"
  shows "frame_value L b m' = VideoVal (Ok (video_frame_value L a m'))"
  using assms(2,3) video_frame_m.value_slot [OF capnp_reader_axioms child_obj [OF assms(1)]]
  by (simp add: frame_value_data frame_read_data [OF capnp_reader_axioms] same_but_slot_def
      video_frame_value_def split: if_splits)

end

section \<open>Properties\<close>

text \<open>
  C5. Any sequence of \<open>set_audio_frame\<close>, \<open>init_audio_frame\<close>, \<open>set_video_frame\<close> and
  \<open>init_video_frame\<close> on a \<open>frame::Builder\<close> leaves the union in the member chosen last, with the value
  given to it: \<open>which()\<close> of a reader never reports a member outside of the schema, and never the
  pointer of one member under the discriminant of the other.
\<close>

theorem frame_ops_refine:
  assumes "capnp_builder L V" and "frame_ok L V b m" and "list_all (frame_allowed V) xs"
  shows "frame_ok L V b (fold (frame_run L b) xs m) \<and>
    frame_value L b (fold (frame_run L b) xs m) = fold (frame_spec L) xs (frame_value L b m)"
  by (rule frame_ops.runs_refine [OF assms])

theorem frame_ops_refine_witness:
  "frame_value tree_capnp (frame_Builder (StructBuilder []))
     (fold (frame_run tree_capnp (frame_Builder (StructBuilder [])))
       [InitAudioFrame, InitVideoFrame] (zero_struct frame_STRUCT_SIZE)) = VideoVal (Ok video_frame_zero)"
  using frame_ops_refine [OF tree_builder.capnp_builder_axioms,
      of "frame_Builder (StructBuilder [])" "zero_struct frame_STRUCT_SIZE" "[InitAudioFrame, InitVideoFrame]"]
    tree_builder.frame_fresh [of "zero_struct frame_STRUCT_SIZE" "frame_Builder (StructBuilder [])"]
  by (simp add: tree_root_fresh)

text \<open>
  C19. The builder that \<open>init_audio_frame\<close> returns writes into the frame: after any
  sequence of setter calls on it the frame reads as an audio frame with the values set last.
\<close>

theorem frame_audio_builder:
  assumes L: "capnp_builder L V" and ok: "frame_ok L V b m"
    and i: "frame_Builder_init_audio_frame L b m = (a, m')" and xs: "list_all (audio_frame_allowed V) xs"
  shows "frame_value L b (fold (audio_frame_run L a) xs m') =
    AudioVal (Ok (fold (audio_frame_spec L) xs audio_frame_zero))"
proof -
  note init = capnp_builder.frame_init_audio [OF L ok i]
  note in_child = audio_frame_ops.runs_in_child [OF L init(2) xs init(5)]
  show ?thesis
    using capnp_builder.frame_audio_child [OF L in_child init(4)]
      audio_frame_ops.runs_refine [OF L init(2) xs] init(3) by simp
qed

theorem frame_audio_builder_witness:
  "frame_value tree_capnp (frame_Builder (StructBuilder []))
     (fold (audio_frame_run tree_capnp (audio_frame_Builder (StructBuilder [0])))
       [AfSetChannels 2, AfSetData [7]]
       (snd (frame_Builder_init_audio_frame tree_capnp (frame_Builder (StructBuilder []))
         (zero_struct frame_STRUCT_SIZE)))) =
   AudioVal (Ok (audio_frame_zero\<lparr>af_channels := 2, af_data := Ok [7]\<rparr>))"
proof -
  let ?b = "frame_Builder (StructBuilder [])" and ?m = "zero_struct frame_STRUCT_SIZE"
  have ok: "frame_ok tree_capnp tree_view ?b ?m"
    using tree_builder.frame_fresh [of ?m ?b] by (simp add: tree_root_fresh)
  have i: "frame_Builder_init_audio_frame tree_capnp ?b ?m =
      (audio_frame_Builder (StructBuilder [0]), snd (frame_Builder_init_audio_frame tree_capnp ?b ?m))"
    by (simp add: frame_Builder_init_audio_frame_def audio_frame_defs tree_capnp_def tree_init_struct_def)
  show ?thesis
    using frame_audio_builder [OF tree_builder.capnp_builder_axioms ok i,
        of "[AfSetChannels 2, AfSetData [7]]"] by simp
qed

text \<open>
  C14. \<open>which()\<close> on any reader, well-formed or not: it is \<open>Err(NotInSchema(x))\<close> exactly when the
  discriminant \<open>x\<close> is neither 0 nor 1; otherwise it names the member of the discriminant, and
  \<open>has_audio_frame\<close> and \<open>has_video_frame\<close> say that this member's pointer is not null.
\<close>

theorem frame_which_total:
  "case frame_Reader_which L r of
     Ok (AudioFrame a) \<Rightarrow> sr_get_u16 L (frame_Reader_reader r) 0 = 0 \<and>
       a = audio_frame_Reader_get_from_pointer L (sr_get_pointer_field L (frame_Reader_reader r) 0) \<and>
       frame_Reader_has_audio_frame L r =
         (\<not> pr_is_null L (sr_get_pointer_field L (frame_Reader_reader r) 0)) \<and>
       \<not> frame_Reader_has_video_frame L r
   | Ok (VideoFrame v) \<Rightarrow> sr_get_u16 L (frame_Reader_reader r) 0 = 1 \<and>
       v = video_frame_Reader_get_from_pointer L (sr_get_pointer_field L (frame_Reader_reader r) 0) \<and>
       frame_Reader_has_video_frame L r =
         (\<not> pr_is_null L (sr_get_pointer_field L (frame_Reader_reader r) 0)) \<and>
       \<not> frame_Reader_has_audio_frame L r
   | Err (NotInSchema x) \<Rightarrow> x = sr_get_u16 L (frame_Reader_reader r) 0 \<and> 2 \<le> unat x \<and>
       \<not> frame_Reader_has_audio_frame L r \<and> \<not> frame_Reader_has_video_frame L r"
proof -
  have "2 \<le> unat x" if "x \<noteq> 0" "x \<noteq> 1" for x :: u16
  proof -
    have "unat x \<noteq> 0" "unat x \<noteq> 1" using that by (simp_all add: word_unat_eq_iff)
    then show ?thesis by simp
  qed
  then show ?thesis
    by (simp add: frame_Reader_which_def frame_Reader_has_audio_frame_def
        frame_Reader_has_video_frame_def Let_def)
qed

end
