(* ===== verification/Frames_Root.thy ===== *)
theory Frames_Root
  imports Frames_Frame
begin

text \<open>
  The module \<open>frames\<close> of \<open>rust/src/schema/frames_capnp.rs\<close>: the root struct of \<open>data.bin\<close>, a
  list of frames.
\<close>

named_theorems frames_defs

section \<open>The module \<open>frames\<close>\<close>

definition frames_STRUCT_SIZE :: "StructSize" where [frames_defs]:
  "frames_STRUCT_SIZE = \<lparr>ss_data = 0, ss_pointers = 1\<rparr>"

definition frames_TYPE_ID :: "u64" where [frames_defs]:
  "frames_TYPE_ID = 0x8983a81aef3335c6"

datatype 'm frames_Reader = frames_Reader (frames_Reader_reader: "'m StructReader")

definition frames_Reader_type_id :: "u64" where [frames_defs]:
  "frames_Reader_type_id = frames_TYPE_ID"

definition frames_Reader_new ::
  "'m StructReader \<Rightarrow> 'm frames_Reader" where [frames_defs]:
  "frames_Reader_new reader = frames_Reader reader"

definition frames_Reader_get_from_pointer ::
  "('m, 'h, 'e) capnp \<Rightarrow> 'm PointerReader \<Rightarrow>
     ('m frames_Reader, 'e) result" where [frames_defs]:
  "frames_Reader_get_from_pointer L reader =
     result_bind (pr_get_struct L reader) (\<lambda>s. Ok (frames_Reader_new s))"

definition frames_Reader_into_internal_struct_reader ::
  "'m frames_Reader \<Rightarrow> 'm StructReader" where [frames_defs]:
  "frames_Reader_into_internal_struct_reader self = frames_Reader_reader self"

definition frames_Reader_imbue ::
  "('m, 'h, 'e) capnp \<Rightarrow> 'm frames_Reader \<Rightarrow>
     'h CapTable \<Rightarrow> 'm frames_Reader" where [frames_defs]:
  "frames_Reader_imbue L self cap_table =
     frames_Reader (sr_imbue L (frames_Reader_reader self) cap_table)"

definition frames_Reader_reborrow ::
  "'m frames_Reader \<Rightarrow> 'm frames_Reader" where [frames_defs]:
  "frames_Reader_reborrow self = frames_Reader (frames_Reader_reader self)"

definition frames_Reader_total_size ::
  "('m, 'h, 'e) capnp \<Rightarrow> 'm frames_Reader \<Rightarrow>
     (MessageSize, 'e) result" where [frames_defs]:
  "frames_Reader_total_size L self = sr_total_size L (frames_Reader_reader self)"

definition frames_Reader_get_frames ::
  "('m, 'h, 'e) capnp \<Rightarrow> 'm frames_Reader \<Rightarrow>
     ('m StructListReader, 'e) result" where [frames_defs]:
  "frames_Reader_get_frames L self =
     pr_get_struct_list L (sr_get_pointer_field L (frames_Reader_reader self) 0)"

definition frames_Reader_has_frames ::
  "('m, 'h, 'e) capnp \<Rightarrow> 'm frames_Reader \<Rightarrow> bool" where [frames_defs]:
  "frames_Reader_has_frames L self \<longleftrightarrow>
     \<not> pr_is_null L (sr_get_pointer_field L (frames_Reader_reader self) 0)"

datatype frames_Builder = frames_Builder (frames_Builder_builder: "StructBuilder")

definition frames_Builder_struct_size :: "StructSize" where [frames_defs]:
  "frames_Builder_struct_size = frames_STRUCT_SIZE"

definition frames_Builder_type_id :: "u64" where [frames_defs]:
  "frames_Builder_type_id = frames_TYPE_ID"

definition frames_Builder_new :: "StructBuilder \<Rightarrow> frames_Builder" where [frames_defs]:
  "frames_Builder_new builder = frames_Builder builder"

definition frames_Builder_imbue_mut ::
  "('m, 'h, 'e) capnp \<Rightarrow> frames_Builder \<Rightarrow> 'h CapTable \<Rightarrow>
     frames_Builder" where [frames_defs]:
  "frames_Builder_imbue_mut L self cap_table =
     frames_Builder (sb_imbue L (frames_Builder_builder self) cap_table)"

definition frames_Builder_init_pointer ::
  "('m, 'h, 'e) capnp \<Rightarrow> PointerBuilder \<Rightarrow> u32 \<Rightarrow>
     'm \<Rightarrow> frames_Builder \<times> 'm" where [frames_defs]:
  "frames_Builder_init_pointer L builder sz m =
     (case pb_init_struct L builder frames_STRUCT_SIZE m of (s, m') \<Rightarrow> (frames_Builder_new s, m'))"

definition frames_Builder_get_from_pointer ::
  "('m, 'h, 'e) capnp \<Rightarrow> PointerBuilder \<Rightarrow> 'm \<Rightarrow>
     (frames_Builder, 'e) result \<times> 'm" where [frames_defs]:
  "frames_Builder_get_from_pointer L builder m =
     (case pb_get_struct L builder frames_STRUCT_SIZE m of
        (r, m') \<Rightarrow> (result_bind r (\<lambda>s. Ok (frames_Builder_new s)), m'))"

definition frames_Reader_set_pointer_builder ::
  "('m, 'h, 'e) capnp \<Rightarrow> PointerBuilder \<Rightarrow>
     'm frames_Reader \<Rightarrow> bool \<Rightarrow> 'm \<Rightarrow> (unit, 'e) result \<times> 'm" where [frames_defs]:
  "frames_Reader_set_pointer_builder L pointer value canonicalize m =
     pb_set_struct L pointer (frames_Reader_reader value) canonicalize m"

definition frames_Builder_into_reader ::
  "('m, 'h, 'e) capnp \<Rightarrow> frames_Builder \<Rightarrow> 'm \<Rightarrow>
     'm frames_Reader" where [frames_defs]:
  "frames_Builder_into_reader L self m =
     frames_Reader_new (sb_into_reader L (frames_Builder_builder self) m)"

definition frames_Builder_as_reader ::
  "('m, 'h, 'e) capnp \<Rightarrow> frames_Builder \<Rightarrow> 'm \<Rightarrow>
     'm frames_Reader" where [frames_defs]:
  "frames_Builder_as_reader L self m = frames_Builder_into_reader L self m"

definition frames_Builder_reborrow ::
  "frames_Builder \<Rightarrow> frames_Builder" where [frames_defs]:
  "frames_Builder_reborrow self = frames_Builder (frames_Builder_builder self)"

definition frames_Builder_reborrow_as_reader ::
  "('m, 'h, 'e) capnp \<Rightarrow> frames_Builder \<Rightarrow> 'm \<Rightarrow>
     'm frames_Reader" where [frames_defs]:
  "frames_Builder_reborrow_as_reader L self m =
     frames_Reader_new (sb_into_reader L (frames_Builder_builder self) m)"

definition frames_Builder_total_size ::
  "('m, 'h, 'e) capnp \<Rightarrow> frames_Builder \<Rightarrow> 'm \<Rightarrow>
     (MessageSize, 'e) result" where [frames_defs]:
  "frames_Builder_total_size L self m =
     sr_total_size L (sb_into_reader L (frames_Builder_builder self) m)"

definition frames_Builder_get_frames ::
  "('m, 'h, 'e) capnp \<Rightarrow> frames_Builder \<Rightarrow> 'm \<Rightarrow>
     (StructListBuilder, 'e) result \<times> 'm" where [frames_defs]:
  "frames_Builder_get_frames L self m =
     pb_get_struct_list L frame_Builder_struct_size (sb_get_pointer_field L (frames_Builder_builder self) 0) m"

definition frames_Builder_set_frames ::
  "('m, 'h, 'e) capnp \<Rightarrow> frames_Builder \<Rightarrow>
     'm StructListReader \<Rightarrow> 'm \<Rightarrow> (unit, 'e) result \<times> 'm" where [frames_defs]:
  "frames_Builder_set_frames L self value m =
     pb_set_struct_list L (sb_get_pointer_field L (frames_Builder_builder self) 0) value False m"

definition frames_Builder_init_frames ::
  "('m, 'h, 'e) capnp \<Rightarrow> frames_Builder \<Rightarrow> u32 \<Rightarrow>
     'm \<Rightarrow> StructListBuilder \<times> 'm" where [frames_defs]:
  "frames_Builder_init_frames L self sz m =
     pb_init_struct_list L frame_Builder_struct_size (sb_get_pointer_field L (frames_Builder_builder self) 0) sz m"

definition frames_Builder_has_frames ::
  "('m, 'h, 'e) capnp \<Rightarrow> frames_Builder \<Rightarrow> 'm \<Rightarrow>
     bool" where [frames_defs]:
  "frames_Builder_has_frames L self m \<longleftrightarrow>
     \<not> pb_is_null L (sb_get_pointer_field L (frames_Builder_builder self) 0) m"

datatype frames_Pipeline = frames_Pipeline (frames_Pipeline_typeless: "AnyPipeline")

definition frames_Pipeline_new :: "AnyPipeline \<Rightarrow> frames_Pipeline" where [frames_defs]:
  "frames_Pipeline_new typeless = frames_Pipeline typeless"

section \<open>The value of the root struct\<close>

definition frames_read ::
  "('m, 'h, 'e) capnp \<Rightarrow> 'm frames_Reader \<Rightarrow> ('e frame_val list, 'e) result" where
  "frames_read L r =
     map_result (list_map L (\<lambda>sr. frame_read L (frame_Reader_new sr))) id (frames_Reader_get_frames L r)"

lemma frame_read_new_tree:
  "capnp_reader L V \<Longrightarrow> struct_obj V sr = struct_obj V sr' \<Longrightarrow>
     frame_read L (frame_Reader_new sr) = frame_read L (frame_Reader_new sr')"
  using frame_read_tree [of L V "frame_Reader_new sr" "frame_Reader_new sr'"]
  by (simp add: frame_Reader_new_def)

lemma frames_read_tree:
  assumes L: "capnp_reader L V"
    and t: "struct_obj V (frames_Reader_reader r) = struct_obj V (frames_Reader_reader r')"
  shows "frames_read L r = frames_read L r'"
  unfolding frames_read_def frames_Reader_get_frames_def
  using t capnp_reader.get_pointer [OF L]
  by (intro capnp_reader.struct_list_cong [OF L] frame_read_new_tree [OF L]) (simp_all add: struct_obj_def)

section \<open>The module keeps its contract\<close>

interpretation frames_m: struct_value frames_Builder_struct_size
  frames_Reader_type_id frames_Builder_type_id frames_Reader_new
  frames_Reader_into_internal_struct_reader frames_Builder_new frames_Builder_builder
  frames_Reader_get_from_pointer frames_Builder_init_pointer frames_Builder_get_from_pointer
  frames_Reader_set_pointer_builder frames_Builder_into_reader frames_Reader_total_size
  frames_Builder_total_size frames_read
  by unfold_locales
    (simp add: frames_defs frames_Reader_new_def [abs_def] frames_Builder_new_def [abs_def]
      result_bind_map prod.case_eq_if map_prod_def | erule frames_read_tree)+

interpretation frames_slot: struct_list_pointer frames_STRUCT_SIZE 0 frames_Builder_builder
  frame_STRUCT_SIZE frames_Builder_set_frames frames_Builder_init_frames
  by unfold_locales (simp_all add: frames_defs frame_Builder_struct_size_def)

section \<open>Writing the list of frames\<close>

definition frames_value ::
  "('m, 'h, 'e) capnp \<Rightarrow> frames_Builder \<Rightarrow> 'm \<Rightarrow> ('e frame_val list, 'e) result" where
  "frames_value L b m = frames_read L (frames_Builder_into_reader L b m)"

definition frames_ok ::
  "('m, 'h, 'e) capnp \<Rightarrow> ('m, 'h, 'e) view \<Rightarrow> frames_Builder \<Rightarrow> 'm \<Rightarrow> bool" where
  "frames_ok L V b m \<longleftrightarrow> struct_ok V m (frames_Builder_builder b) frames_STRUCT_SIZE"

text \<open>The element \<open>i\<close> of a list of frames under construction.\<close>

definition frame_elem :: "('m, 'h, 'e) capnp \<Rightarrow> StructListBuilder \<Rightarrow> nat \<Rightarrow> frame_Builder" where
  "frame_elem L lb i = frame_Builder_new (slb_get L lb (of_nat i))"

text \<open>The list \<open>lb\<close> is what the struct's pointer refers to, and all its elements are frames.\<close>

definition frames_list_ok ::
  "('m, 'h, 'e) capnp \<Rightarrow> ('m, 'h, 'e) view \<Rightarrow> frames_Builder \<Rightarrow> StructListBuilder \<Rightarrow> 'm \<Rightarrow> bool" where
  "frames_list_ok L V b lb m \<longleftrightarrow>
     frames_ok L V b m \<and> lblen V lb < 2 ^ 29 \<and>
     content V m (sb_get_pointer_field L (frames_Builder_builder b) 0) = CStructs lb \<and>
     (\<forall>i < lblen V lb. frame_ok L V (frame_elem L lb i) m)"

context capnp_builder
begin

lemma frames_list_slot:
  assumes "frames_list_ok L V b lb m"
  shows "plive V m (sb_get_pointer_field L (frames_Builder_builder b) 0)"
    and "content V m (sb_get_pointer_field L (frames_Builder_builder b) 0) = CStructs lb"
    and "\<not> pinside V m (sb_get_pointer_field L (frames_Builder_builder b) 0)
      (sb_get_pointer_field L (frames_Builder_builder b) 0)"
  using assms frames_slot.slot_is_live [OF capnp_builder_axioms] slot_irrefl frames_slot.slot_bound
  by (auto simp: frames_list_ok_def frames_ok_def)

lemma frame_elem_raw: "frame_Builder_builder (frame_elem L lb i) = slb_get L lb (of_nat i)"
  by (simp add: frame_elem_def frame_Builder_new_def)

lemma frames_list_value:
  assumes ok: "frames_list_ok L V b lb m"
  shows "frames_value L b m = Ok (map (\<lambda>i. frame_value L (frame_elem L lb i) m) [0..<lblen V lb])"
  using struct_list_built [OF _ frames_slot.slot_bound _ _ frame_read_new_tree [OF capnp_reader_axioms],
      of m "frames_Builder_builder b" lb] ok
  by (simp add: frames_value_def frames_read_def frames_defs frame_value_data frame_elem_raw
      frames_list_ok_def frames_ok_def frame_Reader_new_def)

lemma frames_get_frames:
  assumes ok: "frames_list_ok L V b lb m"
  shows "frames_Builder_get_frames L b m = (Ok lb, m)"
  using bget_structs [OF frames_list_slot(1,2) [OF ok], of frame_STRUCT_SIZE] ok
  by (simp add: frames_Builder_get_frames_def frame_Builder_struct_size_def frames_list_ok_def
      frame_ok_def frame_elem_raw)

lemma frames_init:
  assumes ok: "frames_ok L V b m" and n: "unat n < 2 ^ 29"
    and i: "frames_Builder_init_frames L b n m = (lb, m')"
  shows "frames_list_ok L V b lb m'" and "lblen V lb = unat n"
    and "frames_value L b m' = Ok (replicate (unat n) (AudioVal (Ok audio_frame_zero)))"
proof -
  note b = ok [unfolded frames_ok_def]
  note w = frames_slot.init_write [OF capnp_builder_axioms b n i]
  show len: "lblen V lb = unat n" by (rule w(2))
  have fresh: "fresh_struct L V m' (frame_Builder_builder (frame_elem L lb i)) frame_STRUCT_SIZE"
    if "i < unat n" for i
    using w(3) [OF that] by (simp add: frame_elem_raw)
  have "struct_ok V m' (frames_Builder_builder b) frames_STRUCT_SIZE"
    by (rule frames_slot.write_ok [OF capnp_builder_axioms b w(1)])
  then show list_ok: "frames_list_ok L V b lb m'"
    using w n frame_fresh(1) [OF fresh] by (simp add: frames_list_ok_def frames_ok_def slot_write_def)
  show "frames_value L b m' = Ok (replicate (unat n) (AudioVal (Ok audio_frame_zero)))"
    using frames_list_value [OF list_ok] frame_fresh(2) [OF fresh] len
    by (simp add: list_eq_iff_nth_eq)
qed

end

context capnp_builder
begin

text \<open>A write in one element of the list.\<close>

lemma frames_elem_update:
  assumes ok: "frames_list_ok L V b lb m" and i: "i < lblen V lb"
    and w: "below V m m' (sb_get_pointer_field L (frames_Builder_builder b) 0)"
    and e: "frame_ok L V (frame_elem L lb i) m'"
    and other: "\<And>j. j < lblen V lb \<Longrightarrow> j \<noteq> i \<Longrightarrow>
      struct_obj V (sb_into_reader L (slb_get L lb (of_nat j)) m') =
        struct_obj V (sb_into_reader L (slb_get L lb (of_nat j)) m) \<and>
      frame_ok L V (frame_elem L lb j) m'"
  shows "frames_list_ok L V b lb m'"
    and "frames_value L b m' = map_result (\<lambda>vs. vs[i := frame_value L (frame_elem L lb i) m']) id
      (frames_value L b m)"
proof -
  have "struct_ok V m (frames_Builder_builder b) frames_STRUCT_SIZE"
    using ok by (simp add: frames_list_ok_def frames_ok_def)
  from within_parent [OF this frames_slot.slot_bound] w
  have "struct_ok V m' (frames_Builder_builder b) frames_STRUCT_SIZE"
    by (simp add: below_def same_but_slot_def)
  moreover have "frame_ok L V (frame_elem L lb j) m'" if "j < lblen V lb" for j
    using e other that by (cases "j = i") auto
  ultimately show ok': "frames_list_ok L V b lb m'"
    using ok w by (simp add: frames_list_ok_def frames_ok_def below_def)
  have "frame_value L (frame_elem L lb j) m' = frame_value L (frame_elem L lb j) m"
    if "j < lblen V lb" "j \<noteq> i" for j
    using other [OF that] frame_read_tree [OF capnp_reader_axioms]
    by (simp add: frame_value_data frame_elem_raw)
  then show "frames_value L b m' = map_result (\<lambda>vs. vs[i := frame_value L (frame_elem L lb i) m']) id
      (frames_value L b m)"
    using i by (simp add: frames_list_value [OF ok] frames_list_value [OF ok'] list_eq_iff_nth_eq
        nth_list_update)
qed

lemma frames_elem_inside:
  assumes "frames_list_ok L V b lb m" and "i < lblen V lb"
  shows "inside V m (sb_get_pointer_field L (frames_Builder_builder b) 0)
    (frame_Builder_builder (frame_elem L lb i))"
  using content_list_inside [OF frames_list_slot(1,2) [OF assms(1)] assms(2)]
  by (simp add: frame_elem_raw)

text \<open>Steps of the builder of one element.\<close>

lemma frames_elem_steps:
  assumes ok: "frames_list_ok L V b lb m" and i: "i < lblen V lb"
    and st: "struct_steps L V (frame_Builder_builder (frame_elem L lb i)) m m'"
    and e: "frame_ok L V (frame_elem L lb i) m'"
  shows "frames_list_ok L V b lb m'"
    and "frames_value L b m' = map_result (\<lambda>vs. vs[i := frame_value L (frame_elem L lb i) m']) id
      (frames_value L b m)"
proof -
  note slot = frames_list_slot [OF ok]
  have w: "below V m m' (sb_get_pointer_field L (frames_Builder_builder b) 0)"
    using struct_steps_below [OF st slot(1,3) frames_elem_inside [OF ok i]] by simp
  have other: "struct_obj V (sb_into_reader L (slb_get L lb (of_nat j)) m') =
        struct_obj V (sb_into_reader L (slb_get L lb (of_nat j)) m) \<and>
      frame_ok L V (frame_elem L lb j) m'" if "j < lblen V lb" "j \<noteq> i" for j
    using struct_steps_element [OF st [unfolded frame_elem_raw] slot(1,3,2) i that(1),
        of frame_STRUCT_SIZE] that ok
    by (simp add: frames_list_ok_def frame_ok_def frame_elem_raw)
  show "frames_list_ok L V b lb m'" by (rule frames_elem_update(1) [OF ok i w e other])
  show "frames_value L b m' = map_result (\<lambda>vs. vs[i := frame_value L (frame_elem L lb i) m']) id
      (frames_value L b m)" by (rule frames_elem_update(2) [OF ok i w e other])
qed

end

context capnp_builder
begin

lemma frames_audio_builders:
  assumes ok: "frames_list_ok L V b lb m" and i: "i < lblen V lb"
    and a: "frame_Builder_init_audio_frame L (frame_elem L lb i) m = (a, m2)"
    and xs: "list_all (audio_frame_allowed V) xs"
    and p: "audio_frame_Builder_init_pts L a (fold (audio_frame_run L a) xs m2) = (p, m4)"
  shows "frames_value L b (fold (rational_run L p) ys m4) =
    map_result (\<lambda>vs. vs[i := AudioVal (Ok ((fold (audio_frame_spec L) xs audio_frame_zero)
      \<lparr>af_pts := Ok (fold (rational_spec L) ys \<lparr>num = 0, den = 0\<rparr>)\<rparr>))]) id (frames_value L b m)"
proof -
  let ?e = "frame_elem L lb i" and ?m5 = "fold (rational_run L p) ys m4"
  let ?m3 = "fold (audio_frame_run L a) xs m2"
  have e: "frame_ok L V ?e m" using ok i by (simp add: frames_list_ok_def)
  note init = frame_init_audio [OF e a]
  have runs: "audio_frame_ok L V a ?m3"
    "audio_frame_value L a ?m3 = fold (audio_frame_spec L) xs audio_frame_zero"
    using audio_frame_ops.runs_refine [OF capnp_builder_axioms init(2) xs] init(3) by simp_all
  note child3 = audio_frame_ops.runs_in_child [OF capnp_builder_axioms init(2) xs init(5)]
  have st: "struct_steps L V (audio_frame_Builder_builder a) ?m3 ?m5"
    by (rule audio_frame_pts_steps [OF runs(1) p])
  have slot: "below V ?m3 ?m5 (sb_get_pointer_field L (frame_Builder_builder ?e) 0)"
    using struct_steps_below [OF st child_slot [OF child3(1)]] by simp
  note child5 = child_below [OF child3(1) slot]
  have same: "same_but_slot L V frame_STRUCT_SIZE (frame_Builder_builder ?e) 0 m2 ?m5"
    using child3(2) child5(2) by (simp add: same_but_slot_def)
  have e5: "frame_ok L V ?e ?m5" using same by (simp add: same_but_slot_def frame_ok_def)
  have "struct_steps L V (frame_Builder_builder ?e) m2 ?m5"
    by (rule struct_steps_trans [OF child_steps [OF child3(1) st]
          child_steps [OF init(5) audio_frame_ops.runs_steps [OF capnp_builder_axioms init(2) xs]]])
  then have "struct_steps L V (frame_Builder_builder ?e) m ?m5"
    by (rule struct_steps_trans [OF _ init(6)])
  note upd = frames_elem_steps(2) [OF ok i this e5]
  have "frame_value L ?e ?m5 = AudioVal (Ok (audio_frame_value L a ?m5))"
    by (rule frame_audio_child [OF child5(1) same init(4)])
  then show ?thesis
    using upd audio_frame_pts_runs [OF runs(1) p] runs(2) by simp
qed

end

context capnp_builder
begin

lemma frames_elem_ops:
  assumes "frames_list_ok L V b lb m" and i: "i < lblen V lb" and "list_all (frame_allowed V) xs"
  shows "frames_list_ok L V b lb (fold (frame_run L (frame_elem L lb i)) xs m) \<and>
    frames_value L b (fold (frame_run L (frame_elem L lb i)) xs m) =
      map_result (\<lambda>vs. vs[i := fold (frame_spec L) xs (frame_value L (frame_elem L lb i) m)]) id
        (frames_value L b m)"
  using assms(1,3)
proof (induction xs arbitrary: m)
  case Nil
  then show ?case using i by (simp add: frames_list_value list_eq_iff_nth_eq nth_list_update)
next
  case (Cons x xs)
  let ?e = "frame_elem L lb i"
  have x: "frame_allowed V x" using Cons.prems by simp
  have e: "frame_ok L V ?e m" using Cons.prems(1) i by (simp add: frames_list_ok_def)
  note st = frame_step [OF e x]
  note op = frames_elem_steps [OF Cons.prems(1) i frame_steps [OF e x] conjunct1 [OF st]]
  show ?case
    using Cons.IH [OF op(1)] Cons.prems(2) op(2) st by (cases "frames_value L b m") simp_all
qed

end

context capnp_builder
begin

text \<open>One call on one element, on the list of values.\<close>

lemma frames_elem_op:
  assumes ok: "frames_list_ok L V b lb m" and i: "i < lblen V lb" and x: "frame_allowed V x"
  shows "frames_list_ok L V b lb (frame_run L (frame_elem L lb i) x m)"
    and "frames_value L b (frame_run L (frame_elem L lb i) x m) =
      map_result (\<lambda>vs. vs[i := frame_spec L x (vs ! i)]) id (frames_value L b m)"
  using frames_elem_ops [OF ok i, of "[x]"] x i by (simp_all add: frames_list_value [OF ok])

lemma frames_ops_interleaved:
  assumes "frames_list_ok L V b lb m" and "list_all (\<lambda>(i, x). i < lblen V lb \<and> frame_allowed V x) xs"
  shows "frames_list_ok L V b lb (fold (\<lambda>(i, x). frame_run L (frame_elem L lb i) x) xs m) \<and>
    frames_value L b (fold (\<lambda>(i, x). frame_run L (frame_elem L lb i) x) xs m) =
      map_result (fold (\<lambda>(i, x) vs. vs[i := frame_spec L x (vs ! i)]) xs) id (frames_value L b m)"
  using assms
proof (induction xs arbitrary: m)
  case Nil
  then show ?case by (cases "frames_value L b m") simp_all
next
  case (Cons ix xs)
  obtain i x where ix: "ix = (i, x)" by fastforce
  then have "i < lblen V lb" "frame_allowed V x" using Cons.prems(2) by simp_all
  note op = frames_elem_op [OF Cons.prems(1) this]
  show ?case
    using Cons.IH [OF op(1)] Cons.prems(2) op(2) ix by (cases "frames_value L b m") simp_all
qed

text \<open>A copy of the list of another message.\<close>

lemma frames_set_copy:
  assumes b: "frames_ok L V b m" and lr: "frames_Reader_get_frames L r = Ok lr"
    and s: "sound (OList (rstructs V lr))" and p: "frames_Builder_set_frames L b lr m = (res, m')"
  shows "res = Ok ()" and "frames_value L b m' = frames_read L r"
proof -
  note b = b [unfolded frames_ok_def]
  obtain lb m'' where w: "frames_Builder_set_frames L b lr m = (Ok (), m'')"
    "slot_write V m m'' (sb_get_pointer_field L (frames_Builder_builder b) 0) (CStructs lb)"
    "cobj L V m'' (CStructs lb) = OList (rstructs V lr)"
    by (rule frames_slot.put_write [OF capnp_builder_axioms b s])
  then have m: "m'' = m'" and "res = Ok ()" using p by simp_all
  then show "res = Ok ()" by simp
  have "robj V (sr_get_pointer_field L (sb_into_reader L (frames_Builder_builder b) m') 0) =
      OList (rstructs V lr)"
    using frames_slot.write_same [OF capnp_builder_axioms b w(2)] w(3) m by simp
  from struct_list_copy [OF lr [unfolded frames_Reader_get_frames_def] this _
      frame_read_new_tree [OF capnp_reader_axioms]] s
  show "frames_value L b m' = frames_read L r"
    using lr by (simp add: frames_value_def frames_read_def frames_defs)
qed

end

section \<open>Properties\<close>

lemma replicate_two: "replicate 2 x = [x, x]"
  by (simp add: numeral_2_eq_2)

text \<open>
  C23. \<open>init_frames(n)\<close> allocates a list that a reader sees as \<open>n\<close> frames, each an audio frame with
  every field zero or empty; every element is a struct with room for a \<open>Frame\<close>.
\<close>

theorem frames_init_frames:
  assumes "capnp_builder L V" and "frames_ok L V b m" and "unat n < 2 ^ 29"
    and "frames_Builder_init_frames L b n m = (lb, m')"
  shows "frames_list_ok L V b lb m' \<and> lblen V lb = unat n \<and>
    frames_value L b m' = Ok (replicate (unat n) (AudioVal (Ok audio_frame_zero)))"
  using capnp_builder.frames_init [OF assms] by simp

theorem frames_init_frames_witness:
  "frames_value tree_capnp (frames_Builder (StructBuilder []))
     (snd (frames_Builder_init_frames tree_capnp (frames_Builder (StructBuilder [])) 2
       (zero_struct frames_STRUCT_SIZE))) =
   Ok [AudioVal (Ok audio_frame_zero), AudioVal (Ok audio_frame_zero)]"
proof -
  have "frames_ok tree_capnp tree_view (frames_Builder (StructBuilder [])) (zero_struct frames_STRUCT_SIZE)"
    using fresh_struct_ok [OF tree_root_fresh] by (simp add: frames_ok_def)
  from frames_init_frames [OF tree_builder.capnp_builder_axioms this _ prod.collapse [symmetric], of 2]
  show ?thesis by (simp add: replicate_two)
qed

definition two_frames :: "StructListBuilder \<times> nat tree" where
  "two_frames = frames_Builder_init_frames tree_capnp (frames_Builder (StructBuilder [])) 2
     (zero_struct frames_STRUCT_SIZE)"

lemma two_frames_ok:
  "frames_list_ok tree_capnp tree_view (frames_Builder (StructBuilder [])) (fst two_frames) (snd two_frames)"
  "lblen tree_view (fst two_frames) = 2"
  "frames_value tree_capnp (frames_Builder (StructBuilder [])) (snd two_frames) =
     Ok [AudioVal (Ok audio_frame_zero), AudioVal (Ok audio_frame_zero)]"
proof -
  have "frames_ok tree_capnp tree_view (frames_Builder (StructBuilder [])) (zero_struct frames_STRUCT_SIZE)"
    using fresh_struct_ok [OF tree_root_fresh] by (simp add: frames_ok_def)
  note f = tree_builder.frames_init [OF this _ prod.collapse [symmetric], of 2, folded two_frames_def]
  show "frames_list_ok tree_capnp tree_view (frames_Builder (StructBuilder [])) (fst two_frames)
      (snd two_frames)" "lblen tree_view (fst two_frames) = 2"
    "frames_value tree_capnp (frames_Builder (StructBuilder [])) (snd two_frames) =
     Ok [AudioVal (Ok audio_frame_zero), AudioVal (Ok audio_frame_zero)]"
    using f by (simp_all add: replicate_two del: tree_view_simps)
qed

text \<open>
  C3. A whole message written with the generated builders: allocate a list of frames, initialise
  the element \<open>i\<close> as an audio frame, set its fields in any order, initialise its \<open>pts\<close> and set that.
  A reader of the root then sees exactly the values set, through all four levels of pointers, and
  the default value in every other element.
\<close>

theorem frames_audio_message:
  assumes "capnp_builder L V" and "frames_list_ok L V b lb m" and "i < lblen V lb"
    and "frame_Builder_init_audio_frame L (frame_elem L lb i) m = (a, m2)"
    and "list_all (audio_frame_allowed V) xs"
    and "audio_frame_Builder_init_pts L a (fold (audio_frame_run L a) xs m2) = (p, m4)"
  shows "frames_value L b (fold (rational_run L p) ys m4) =
    map_result (\<lambda>vs. vs[i := AudioVal (Ok ((fold (audio_frame_spec L) xs audio_frame_zero)
      \<lparr>af_pts := Ok (fold (rational_spec L) ys \<lparr>num = 0, den = 0\<rparr>)\<rparr>))]) id (frames_value L b m)"
  by (rule capnp_builder.frames_audio_builders [OF assms])

theorem frames_audio_message_witness:
  "\<exists>m. frames_value tree_capnp (frames_Builder (StructBuilder [])) m =
     Ok [AudioVal (Ok \<lparr>af_num_samples = 0, af_channels = 2, af_data = Ok [1, 2, 3], af_stream_id = 9,
           af_pts = Ok \<lparr>num = 1, den = 4\<rparr>\<rparr>),
         AudioVal (Ok audio_frame_zero)]"
proof -
  let ?lb = "fst two_frames" and ?m = "snd two_frames" and ?L = tree_capnp
  let ?xs = "[AfSetChannels 2, AfSetStreamId 9, AfSetData [1, 2, 3]]"
  obtain a m2 where a: "frame_Builder_init_audio_frame ?L (frame_elem ?L ?lb 0) ?m = (a, m2)" by fastforce
  obtain p m4 where p: "audio_frame_Builder_init_pts ?L a (fold (audio_frame_run ?L a) ?xs m2) = (p, m4)"
    by fastforce
  show ?thesis
    using frames_audio_message [OF tree_builder.capnp_builder_axioms two_frames_ok(1) _ a _ p,
        of "[SetNum 1, SetDen 4]"] two_frames_ok(2,3)
    by (intro exI [of _ "fold (rational_run ?L p) [SetNum 1, SetDen 4] m4"]) (simp del: tree_view_simps)
qed

text \<open>
  C10. Calls on the builders of several elements of the list in any interleaving: the list stays a well-formed
  list of frames after every call, and each call changes the element it was made on, as the union's
  specification says, and no other.
\<close>

theorem frames_interleaved:
  assumes "capnp_builder L V" and "frames_list_ok L V b lb m"
    and "list_all (\<lambda>(i, x). i < lblen V lb \<and> frame_allowed V x) xs"
  shows "frames_list_ok L V b lb (fold (\<lambda>(i, x). frame_run L (frame_elem L lb i) x) xs m) \<and>
    frames_value L b (fold (\<lambda>(i, x). frame_run L (frame_elem L lb i) x) xs m) =
      map_result (fold (\<lambda>(i, x) vs. vs[i := frame_spec L x (vs ! i)]) xs) id (frames_value L b m)"
  by (rule capnp_builder.frames_ops_interleaved [OF assms])

theorem frames_interleaved_witness:
  "frames_value tree_capnp (frames_Builder (StructBuilder []))
     (fold (\<lambda>(i, x). frame_run tree_capnp (frame_elem tree_capnp (fst two_frames) i) x)
       [(1, InitVideoFrame), (0, InitVideoFrame), (1, InitAudioFrame)] (snd two_frames)) =
   Ok [VideoVal (Ok video_frame_zero), AudioVal (Ok audio_frame_zero)]"
  using frames_interleaved [OF tree_builder.capnp_builder_axioms two_frames_ok(1),
      of "[(1, InitVideoFrame), (0, InitVideoFrame), (1, InitAudioFrame)]"] two_frames_ok(2,3)
  by (simp del: tree_view_simps)

text \<open>
  C18. \<open>set_frames\<close> with the list that \<open>get_frames\<close> of a reader returned copies it: the call succeeds, and a
  reader of the new message sees the same list of frames as the reader of the old one.
\<close>

theorem frames_copied:
  assumes "capnp_builder L V" and "frames_ok L V b m" and "frames_Reader_get_frames L r = Ok lr"
    and "sound (OList (rstructs V lr))" and "frames_Builder_set_frames L b lr m = (res, m')"
  shows "res = Ok () \<and> frames_value L b m' = frames_read L r"
  using capnp_builder.frames_set_copy [OF assms] by simp

theorem frames_copied_witness:
  "frames_value tree_capnp (frames_Builder (StructBuilder []))
     (snd (frames_Builder_set_frames tree_capnp (frames_Builder (StructBuilder []))
       (StructListReader (OStruct [] [OList [OStruct [1, 0, 0, 0, 0, 0, 0, 0] [ONull]]]) [0])
       (zero_struct frames_STRUCT_SIZE :: nat tree))) =
   frames_read tree_capnp
     (frames_Reader_new (StructReader (OStruct [] [OList [OStruct [1, 0, 0, 0, 0, 0, 0, 0] [ONull]]]) []))"
proof -
  let ?t = "OStruct [] [OList [OStruct [1, 0, 0, 0, 0, 0, 0, 0] [ONull]]] :: nat tree"
  have b: "frames_ok tree_capnp tree_view (frames_Builder (StructBuilder [])) (zero_struct frames_STRUCT_SIZE)"
    using fresh_struct_ok [OF tree_root_fresh] by (simp add: frames_ok_def)
  have "frames_Reader_get_frames tree_capnp (frames_Reader_new (StructReader ?t [])) =
      Ok (StructListReader ?t [0])"
    by (simp add: frames_defs tree_capnp_def list_ok_def)
  from frames_copied [OF tree_builder.capnp_builder_axioms b this _ prod.collapse [symmetric]]
  show ?thesis by (simp add: list_ok_def)
qed

text \<open>
  C35. The getters of a builder agree with those of a reader made from it, on every scalar field and on every
  \<open>has_\<close> function of the five structs, those of the union of \<open>frame\<close> included.
\<close>

theorem builders_agree:
  assumes L: "capnp_builder L V"
    and p: "struct_ok V m (rational_Builder_builder p) rational_STRUCT_SIZE"
    and a: "struct_ok V m (audio_frame_Builder_builder a) audio_frame_STRUCT_SIZE"
    and v: "struct_ok V m (video_frame_Builder_builder v) video_frame_STRUCT_SIZE"
    and u: "struct_ok V m (frame_Builder_builder u) frame_STRUCT_SIZE"
    and f: "struct_ok V m (frames_Builder_builder f) frames_STRUCT_SIZE"
  shows "(let r = rational_Builder_into_reader L p m in
      rational_Builder_get_num L p m = rational_Reader_get_num L r \<and>
      rational_Builder_get_den L p m = rational_Reader_get_den L r) \<and>
    (let r = audio_frame_Builder_into_reader L a m in
      audio_frame_Builder_get_num_samples L a m = audio_frame_Reader_get_num_samples L r \<and>
      audio_frame_Builder_get_channels L a m = audio_frame_Reader_get_channels L r \<and>
      audio_frame_Builder_get_stream_id L a m = audio_frame_Reader_get_stream_id L r \<and>
      audio_frame_Builder_has_data L a m = audio_frame_Reader_has_data L r \<and>
      audio_frame_Builder_has_pts L a m = audio_frame_Reader_has_pts L r) \<and>
    (let r = video_frame_Builder_into_reader L v m in
      video_frame_Builder_get_width L v m = video_frame_Reader_get_width L r \<and>
      video_frame_Builder_get_height L v m = video_frame_Reader_get_height L r \<and>
      video_frame_Builder_get_pixel_format L v m = video_frame_Reader_get_pixel_format L r \<and>
      video_frame_Builder_get_stream_id L v m = video_frame_Reader_get_stream_id L r \<and>
      video_frame_Builder_has_data L v m = video_frame_Reader_has_data L r \<and>
      video_frame_Builder_has_pts L v m = video_frame_Reader_has_pts L r) \<and>
    (let r = frame_Builder_into_reader L u m in
      frame_Builder_has_audio_frame L u m = frame_Reader_has_audio_frame L r \<and>
      frame_Builder_has_video_frame L u m = frame_Reader_has_video_frame L r) \<and>
    frames_Builder_has_frames L f m = frames_Reader_has_frames L (frames_Builder_into_reader L f m)"
proof -
  have pr: "rational_Reader_reader (rational_Builder_into_reader L p m) =
      sb_into_reader L (rational_Builder_builder p) m" by (simp add: rational_defs)
  have ar: "audio_frame_Reader_reader (audio_frame_Builder_into_reader L a m) =
      sb_into_reader L (audio_frame_Builder_builder a) m" by (simp add: audio_frame_defs)
  have vr: "video_frame_Reader_reader (video_frame_Builder_into_reader L v m) =
      sb_into_reader L (video_frame_Builder_builder v) m" by (simp add: video_frame_defs)
  have ur: "frame_Reader_reader (frame_Builder_into_reader L u m) =
      sb_into_reader L (frame_Builder_builder u) m" by (simp add: frame_defs)
  have fr: "frames_Reader_reader (frames_Builder_into_reader L f m) =
      sb_into_reader L (frames_Builder_builder f) m" by (simp add: frames_defs)
  show ?thesis
    using rational_num.get_agrees [OF L p pr] rational_den.get_agrees [OF L p pr]
      audio_num_samples.get_agrees [OF L a ar] audio_channels.get_agrees [OF L a ar]
      audio_stream_id.get_agrees [OF L a ar] audio_data.has_agrees [OF L a] audio_pts.has_agrees [OF L a]
      video_width.get_agrees [OF L v vr] video_height.get_agrees [OF L v vr]
      video_pixel_format.get_agrees [OF L v vr] video_stream_id.get_agrees [OF L v vr]
      video_data.has_agrees [OF L v] video_pts.has_agrees [OF L v]
      frame_disc.get_agrees [OF L u ur] frame_audio.has_agrees [OF L u] frames_slot.has_agrees [OF L f]
    unfolding Let_def
    by (simp add: audio_frame_Builder_has_data_def audio_frame_Reader_has_data_def
        audio_frame_Builder_has_pts_def audio_frame_Reader_has_pts_def ar
        video_frame_Builder_has_data_def video_frame_Reader_has_data_def
        video_frame_Builder_has_pts_def video_frame_Reader_has_pts_def
        video_frame_Builder_get_pixel_format_def video_frame_Reader_get_pixel_format_def vr
        frame_Builder_has_audio_frame_def frame_Reader_has_audio_frame_def
        frame_Builder_has_video_frame_def frame_Reader_has_video_frame_def ur
        frames_Builder_has_frames_def frames_Reader_has_frames_def fr)
qed

theorem builders_agree_witness:
  "let m = OStruct (replicate 4 1 @ replicate 36 2) [ONull, OStruct [] []] :: nat tree;
       b = audio_frame_Builder (StructBuilder []); r = audio_frame_Builder_into_reader tree_capnp b m in
   audio_frame_Builder_get_channels tree_capnp b m = audio_frame_Reader_get_channels tree_capnp r \<and>
   audio_frame_Builder_has_pts tree_capnp b m = audio_frame_Reader_has_pts tree_capnp r \<and>
   audio_frame_Reader_has_pts tree_capnp r"
proof -
  let ?m = "OStruct (replicate 4 1 @ replicate 36 2) [ONull, OStruct [] []] :: nat tree"
  have ok: "struct_ok tree_view ?m (StructBuilder []) sz"
    if "ss_data sz \<in> {0, 1, 2}" "ss_pointers sz \<in> {0, 1, 2}" for sz
    using that by (auto simp: struct_ok_def tree_live_def)
  have "audio_frame_Reader_has_pts tree_capnp (audio_frame_Builder_into_reader tree_capnp
      (audio_frame_Builder (StructBuilder [])) ?m)"
    by (simp add: audio_frame_defs tree_capnp_def)
  with builders_agree [OF tree_builder.capnp_builder_axioms, of ?m "rational_Builder (StructBuilder [])"
      "audio_frame_Builder (StructBuilder [])" "video_frame_Builder (StructBuilder [])"
      "frame_Builder (StructBuilder [])" "frames_Builder (StructBuilder [])"] ok
  show ?thesis
    by (simp add: Let_def rational_STRUCT_SIZE_def audio_frame_STRUCT_SIZE_def video_frame_STRUCT_SIZE_def
        frame_STRUCT_SIZE_def frames_STRUCT_SIZE_def)
qed

text \<open>
  C36. The getters of builders that return builders.  \<open>get_pts\<close> of an audio or a video frame, \<open>which\<close> of a
  frame and \<open>get_frames\<close> of the root return builders of the structs the message holds there: the
  value read from the builder they return is the value that a reader of the message finds in the
  field, a null \<open>pts\<close> or union member is made first, and this changes nothing a reader sees.
  \<open>which\<close> reports an unknown discriminant as a reader does, and leaves the message alone.
\<close>

theorem builder_pointers_agree:
  assumes L: "capnp_builder L V"
    and a: "audio_frame_ok L V a m"
      "struct_slot V m (sb_get_pointer_field L (audio_frame_Builder_builder a) 1) rational_STRUCT_SIZE"
    and v: "video_frame_ok L V v m"
      "struct_slot V m (sb_get_pointer_field L (video_frame_Builder_builder v) 1) rational_STRUCT_SIZE"
    and u: "frame_ok L V u m"
      "sb_get_u16 L (frame_Builder_builder u) 0 m = 0 \<Longrightarrow>
        struct_slot V m (sb_get_pointer_field L (frame_Builder_builder u) 0) audio_frame_STRUCT_SIZE"
      "sb_get_u16 L (frame_Builder_builder u) 0 m = 1 \<Longrightarrow>
        struct_slot V m (sb_get_pointer_field L (frame_Builder_builder u) 0) video_frame_STRUCT_SIZE"
    and f: "frames_list_ok L V f lb m"
  shows "(\<exists>p m'. audio_frame_Builder_get_pts L a m = (Ok p, m') \<and>
      content V m' (sb_get_pointer_field L (audio_frame_Builder_builder a) 1) =
        CStruct (rational_Builder_builder p) \<and>
      audio_frame_value L a m' = audio_frame_value L a m \<and>
      af_pts (audio_frame_value L a m) = Ok (rational_value L p m')) \<and>
    (\<exists>p m'. video_frame_Builder_get_pts L v m = (Ok p, m') \<and>
      content V m' (sb_get_pointer_field L (video_frame_Builder_builder v) 1) =
        CStruct (rational_Builder_builder p) \<and>
      video_frame_value L v m' = video_frame_value L v m \<and>
      vf_pts (video_frame_value L v m) = Ok (rational_value L p m')) \<and>
    (case frame_value L u m of
       AudioVal x \<Rightarrow> \<exists>a' m'. frame_Builder_which L u m = (Ok (AudioFrame (Ok a')), m') \<and>
         content V m' (sb_get_pointer_field L (frame_Builder_builder u) 0) =
           CStruct (audio_frame_Builder_builder a') \<and>
         frame_value L u m' = frame_value L u m \<and> x = Ok (audio_frame_value L a' m')
     | VideoVal x \<Rightarrow> \<exists>v' m'. frame_Builder_which L u m = (Ok (VideoFrame (Ok v')), m') \<and>
         content V m' (sb_get_pointer_field L (frame_Builder_builder u) 0) =
           CStruct (video_frame_Builder_builder v') \<and>
         frame_value L u m' = frame_value L u m \<and> x = Ok (video_frame_value L v' m')
     | UnknownVal x \<Rightarrow> frame_Builder_which L u m = (Err (NotInSchema x), m)) \<and>
    frames_Builder_get_frames L f m = (Ok lb, m) \<and>
    frames_value L f m = Ok (map (\<lambda>i. frame_value L (frame_elem L lb i) m) [0..<lblen V lb])"
  using capnp_builder.audio_frame_get_pts [OF L a] capnp_builder.video_frame_get_pts [OF L v]
    capnp_builder.frame_which_builder [OF L u] capnp_builder.frames_get_frames [OF L f]
    capnp_builder.frames_list_value [OF L f]
  by (intro conjI)

definition one_frame :: "nat tree" where
  "one_frame = OStruct [] [OList [OStruct (replicate 8 0)
     [OStruct (replicate 16 0) [ONull, OStruct [1, 0, 0, 0, 4, 0, 0, 0] []]]]]"

lemma one_frame_ok:
  "frames_list_ok tree_capnp tree_view (frames_Builder (StructBuilder [])) (StructListBuilder [1, 0]) one_frame"
  by (simp add: frames_list_ok_def frames_ok_def frame_ok_def frame_elem_def frame_Builder_new_def
      struct_ok_def tree_live_def one_frame_def list_ok_def frame_STRUCT_SIZE_def frames_STRUCT_SIZE_def)

lemma one_frame_value:
  "frames_value tree_capnp (frames_Builder (StructBuilder [])) one_frame =
     Ok [AudioVal (Ok \<lparr>af_num_samples = 0, af_channels = 0, af_data = Ok [], af_stream_id = 0,
       af_pts = Ok \<lparr>num = 1, den = 4\<rparr>\<rparr>)]"
proof -
  have "frame_value tree_capnp (frame_elem tree_capnp (StructListBuilder [1, 0]) 0) one_frame =
      AudioVal (Ok \<lparr>af_num_samples = 0, af_channels = 0, af_data = Ok [], af_stream_id = 0,
        af_pts = Ok \<lparr>num = 1, den = 4\<rparr>\<rparr>)"
    by code_simp
  then show ?thesis using tree_builder.frames_list_value [OF one_frame_ok] by simp
qed

theorem builder_pointers_agree_witness:
  "(\<exists>p m'. audio_frame_Builder_get_pts tree_capnp (audio_frame_Builder (StructBuilder [0, 0, 0])) one_frame =
      (Ok p, m') \<and> rational_value tree_capnp p m' = \<lparr>num = 1, den = 4\<rparr>) \<and>
   frames_Builder_get_frames tree_capnp (frames_Builder (StructBuilder [])) one_frame =
      (Ok (StructListBuilder [1, 0]), one_frame)"
proof -
  let ?a = "audio_frame_Builder (StructBuilder [0, 0, 0])" and ?v = "video_frame_Builder (StructBuilder [0, 0, 0])"
  let ?u = "frame_Builder (StructBuilder [0, 0])" and ?f = "frames_Builder (StructBuilder [])"
  note sizes = rational_STRUCT_SIZE_def audio_frame_STRUCT_SIZE_def video_frame_STRUCT_SIZE_def
    frame_STRUCT_SIZE_def frames_STRUCT_SIZE_def
  have ok: "audio_frame_ok tree_capnp tree_view ?a one_frame" "video_frame_ok tree_capnp tree_view ?v one_frame"
    "frame_ok tree_capnp tree_view ?u one_frame"
    by (simp_all add: audio_frame_ok_def video_frame_ok_def frame_ok_def struct_ok_def tree_live_def
        one_frame_def sizes list_ok_def)
  have slots: "struct_slot tree_view one_frame (sb_get_pointer_field tree_capnp (audio_frame_Builder_builder ?a) 1)
      rational_STRUCT_SIZE"
    "struct_slot tree_view one_frame (sb_get_pointer_field tree_capnp (video_frame_Builder_builder ?v) 1)
      rational_STRUCT_SIZE"
    "struct_slot tree_view one_frame (sb_get_pointer_field tree_capnp (frame_Builder_builder ?u) 0)
      audio_frame_STRUCT_SIZE"
    "struct_slot tree_view one_frame (sb_get_pointer_field tree_capnp (frame_Builder_builder ?u) 0)
      video_frame_STRUCT_SIZE"
    by (simp_all add: struct_slot_def struct_ok_def tree_live_def one_frame_def sizes list_ok_def)
  note t = builder_pointers_agree [OF tree_builder.capnp_builder_axioms ok(1) slots(1) ok(2) slots(2)
      ok(3) slots(3,4) one_frame_ok]
  have "af_pts (audio_frame_value tree_capnp ?a one_frame) = Ok \<lparr>num = 1, den = 4\<rparr>"
    by code_simp
  then show ?thesis using t by (auto simp del: tree_view_simps)
qed

end
