(* ===== verification/Rust_Float.thy ===== *)
theory Rust_Float
  imports Prelude Complex_Main "HOL-Library.Log_Nat"
begin

text \<open>
  The floating point arithmetic of \<open>rust/src/main.rs\<close>: the cast \<open>u32 as f64\<close> and the division of two
  \<open>f64\<close>, on the bit patterns of IEEE 754 binary64, executable and with rounding to the nearest value,
  ties to even.  The lemmas show that a rounded quotient is finite in the range that occurs and that
  no other \<open>f64\<close> is closer to the exact quotient.
\<close>

section \<open>Bit patterns\<close>

definition f64_exp :: "f64 \<Rightarrow> nat" where
  "f64_exp w = (unat w div 2 ^ 52) mod 2 ^ 11"

definition f64_frac :: "f64 \<Rightarrow> nat" where
  "f64_frac w = unat w mod 2 ^ 52"

definition f64_neg :: "f64 \<Rightarrow> bool" where
  "f64_neg w \<longleftrightarrow> 2 ^ 63 \<le> unat w"

definition f64_finite :: "f64 \<Rightarrow> bool" where
  "f64_finite w \<longleftrightarrow> f64_exp w < 2047"

definition f64_is_nan :: "f64 \<Rightarrow> bool" where
  "f64_is_nan w \<longleftrightarrow> f64_exp w = 2047 \<and> f64_frac w \<noteq> 0"

definition f64_is_inf :: "f64 \<Rightarrow> bool" where
  "f64_is_inf w \<longleftrightarrow> f64_exp w = 2047 \<and> f64_frac w = 0"

definition f64_is_zero :: "f64 \<Rightarrow> bool" where
  "f64_is_zero w \<longleftrightarrow> f64_exp w = 0 \<and> f64_frac w = 0"

text \<open>
  The magnitude of a finite value is \<open>f64_mag w\<close> over \<open>2 ^ 1075\<close>: significand times the power of two of the
  exponent field, where subnormal numbers share the exponent of the smallest normal ones.
\<close>

definition f64_scale :: nat where
  "f64_scale = 2 ^ 1075"

definition f64_mag :: "f64 \<Rightarrow> nat" where
  "f64_mag w = (if f64_exp w = 0 then f64_frac w * 2 else (2 ^ 52 + f64_frac w) * 2 ^ f64_exp w)"

definition f64_value :: "f64 \<Rightarrow> real" where
  "f64_value w = (if f64_neg w then - 1 else 1) * (real (f64_mag w) / real f64_scale)"

abbreviation f64_INFINITY :: f64 where
  "f64_INFINITY \<equiv> 0x7FF0000000000000"

abbreviation f64_NAN :: f64 where
  "f64_NAN \<equiv> 0x7FF8000000000000"

section \<open>Rounding and division\<close>

text \<open>The quotient of two naturals as the nearest natural, ties to even.\<close>

definition div_even :: "nat \<Rightarrow> nat \<Rightarrow> nat" where
  "div_even n d = (let q = n div d; r = n mod d in
     if d < 2 * r \<or> 2 * r = d \<and> odd q then q + 1 else q)"

text \<open>
  The exponent field with which \<open>n / d\<close> is rounded: \<open>n * f64_scale div d\<close> keeps its 53 leading bits,
  and never less than the subnormal exponent.
\<close>

definition round_exp :: "nat \<Rightarrow> nat \<Rightarrow> nat" where
  "round_exp n d = max 1 (floorlog 2 (n * f64_scale div d) - 53)"

definition round_bits :: "nat \<Rightarrow> nat \<Rightarrow> nat" where
  "round_bits n d =
     (let e = round_exp n d in (e - 1) * 2 ^ 52 + div_even (n * f64_scale) (d * 2 ^ e))"

definition f64_round :: "nat \<Rightarrow> nat \<Rightarrow> f64" where
  "f64_round n d = (if 2047 * 2 ^ 52 \<le> round_bits n d then f64_INFINITY else of_nat (round_bits n d))"

definition f64_of_u32 :: "u32 \<Rightarrow> f64" where
  "f64_of_u32 n = f64_round (unat n) 1"

definition f64_signed :: "bool \<Rightarrow> f64 \<Rightarrow> f64" where
  "f64_signed s w = (if s then w + 0x8000000000000000 else w)"

text \<open>Which not-a-number a division gives is left open by the language; it is displayed as \<open>NaN\<close>.\<close>

definition f64_div :: "f64 \<Rightarrow> f64 \<Rightarrow> f64" where
  "f64_div x y =
     (if f64_is_nan x \<or> f64_is_nan y \<or> f64_is_zero x \<and> f64_is_zero y \<or> f64_is_inf x \<and> f64_is_inf y
      then f64_NAN
      else f64_signed (f64_neg x \<noteq> f64_neg y)
        (if f64_is_inf x \<or> f64_is_zero y then f64_INFINITY
         else if f64_is_zero x \<or> f64_is_inf y then 0
         else f64_round (f64_mag x) (f64_mag y)))"

section \<open>Nearest naturals\<close>

lemma div_even_le:
  "div_even n d \<le> n div d + 1"
  by (simp add: div_even_def Let_def)

lemma div_even_ge:
  "n div d \<le> div_even n d"
  by (simp add: div_even_def Let_def)

lemma div_even_exact: "0 < d \<Longrightarrow> d dvd n \<Longrightarrow> div_even n d * d = n"
  by (auto simp: div_even_def Let_def)

lemma div_even_half:
  assumes "0 < d"
  shows "2 * \<bar>int (div_even n d) * int d - int n\<bar> \<le> int d"
proof -
  have "n = n div d * d + n mod d" and "n mod d < d" using assms by simp_all
  then have "int n = int (n div d) * int d + int (n mod d)" and "int (n mod d) < int d"
    by (metis of_nat_add of_nat_mult, linarith)
  then show ?thesis by (auto simp: div_even_def Let_def algebra_simps)
qed

lemma abs_closer: "d \<le> \<bar>a - b\<bar> \<Longrightarrow> 2 * \<bar>b\<bar> \<le> d \<Longrightarrow> \<bar>b\<bar> \<le> \<bar>a\<bar>"
  for a b d :: int
  by linarith

lemma div_even_nearest:
  assumes "0 < d"
  shows "\<bar>int (div_even n d) * int d - int n\<bar> \<le> \<bar>k * int d - int n\<bar>"
proof (cases "k = int (div_even n d)")
  case False
  then have "1 \<le> \<bar>k - int (div_even n d)\<bar>" by linarith
  then have "int d \<le> \<bar>k - int (div_even n d)\<bar> * \<bar>int d\<bar>"
    using assms by (simp add: mult_le_cancel_right1)
  also have "\<dots> = \<bar>(k * int d - int n) - (int (div_even n d) * int d - int n)\<bar>"
    unfolding abs_mult [symmetric] by (simp add: algebra_simps)
  finally show ?thesis by (rule abs_closer [OF _ div_even_half [OF assms]])
qed simp

section \<open>The significand\<close>

lemma floorlog2_bounds:
  "0 < x \<Longrightarrow> 2 ^ (floorlog 2 x - 1) \<le> x \<and> x < 2 ^ floorlog 2 x"
  using floorlog_bounds [of x 2] by simp

lemma scale_pos [simp]: "0 < f64_scale" "f64_scale \<noteq> 0"
  by (simp_all add: f64_scale_def)

lemma round_exp_pos [simp]: "1 \<le> round_exp n d" "0 < round_exp n d" "round_exp n d \<noteq> 0"
  by (simp_all add: round_exp_def)

lemma quotient_upper: "n * f64_scale div (d * 2 ^ round_exp n d) < 2 ^ 53"
proof -
  let ?q = "n * f64_scale div d"
  have "?q < 2 ^ (53 + round_exp n d)"
  proof (cases "?q = 0")
    case False
    then have "?q < 2 ^ floorlog 2 ?q" using floorlog2_bounds by simp
    also have "(2 :: nat) ^ floorlog 2 ?q \<le> 2 ^ (53 + round_exp n d)"
      by (intro power_increasing) (simp_all add: round_exp_def)
    finally show ?thesis .
  qed simp
  then have "?q div 2 ^ round_exp n d < 2 ^ 53"
    by (subst div_less_iff_less_mult) (simp_all only: power_add, simp)
  then show ?thesis by (simp only: div_mult2_eq)
qed

lemma quotient_lower:
  assumes "1 < round_exp n d"
  shows "2 ^ 52 * 2 ^ round_exp n d \<le> n * f64_scale div d"
proof -
  let ?q = "n * f64_scale div d"
  have e: "round_exp n d = floorlog 2 ?q - 53" and f: "54 < floorlog 2 ?q"
    using assms by (simp_all add: round_exp_def max_def split: if_splits)
  then have "0 < ?q" by (cases "?q = 0") (simp_all add: floorlog_def)
  then have "2 ^ (floorlog 2 ?q - 1) \<le> ?q" using floorlog2_bounds by blast
  moreover have "floorlog 2 ?q - 1 = 52 + round_exp n d" using e f by simp
  ultimately show ?thesis by (simp only: power_add)
qed

text \<open>The rounded significand, and the number that the bits stand for.\<close>

abbreviation round_mant :: "nat \<Rightarrow> nat \<Rightarrow> nat" where
  "round_mant n d \<equiv> div_even (n * f64_scale) (d * 2 ^ round_exp n d)"

lemma round_mant_upper: "round_mant n d \<le> 2 ^ 53"
  using quotient_upper [of n d] div_even_le [of "n * f64_scale" "d * 2 ^ round_exp n d"] by linarith

lemma round_mant_lower:
  assumes "1 < round_exp n d"
  shows "2 ^ 52 \<le> round_mant n d"
proof -
  have "2 ^ 52 \<le> n * f64_scale div d div 2 ^ round_exp n d"
    using quotient_lower [OF assms] by (simp add: less_eq_div_iff_mult_less_eq)
  then show ?thesis using div_even_ge [of "n * f64_scale" "d * 2 ^ round_exp n d"]
    by (simp only: div_mult2_eq)
qed

lemma bits_unat:
  assumes "round_bits n d < 2047 * 2 ^ 52"
  shows "unat (f64_round n d) = round_bits n d"
  using assms by (simp add: f64_round_def unat_of_nat_small)

lemma decode_bits:
  fixes e m :: nat
  assumes "1 \<le> e" and "m \<le> 2 ^ 53" and "1 < e \<Longrightarrow> 2 ^ 52 \<le> m"
    and b: "b = (e - 1) * 2 ^ 52 + m"
  shows "(if b div 2 ^ 52 = 0 then b mod 2 ^ 52 * 2 else (2 ^ 52 + b mod 2 ^ 52) * 2 ^ (b div 2 ^ 52)) =
    m * 2 ^ e"
proof -
  obtain e' where e: "e = Suc e'" using assms(1) by (cases e) auto
  consider "m < 2 ^ 52" "e' = 0" | "2 ^ 52 \<le> m" "m < 2 ^ 53" | "m = 2 ^ 53"
    using assms(2,3) e by force
  then show ?thesis
  proof cases
    case 1
    then show ?thesis using b e by simp
  next
    case 2
    then obtain k where k: "m = 2 ^ 52 + k" "k < 2 ^ 52" by (auto simp: le_iff_add)
    then have "b = k + Suc e' * 2 ^ 52" using b e by simp
    then have "b div 2 ^ 52 = Suc e'" "b mod 2 ^ 52 = k"
      using k(2) by (simp_all only: div_mult_self1 mod_mult_self1 div_less mod_less)
    then show ?thesis using k e by simp
  next
    case 3
    then have "b = 0 + Suc (Suc e') * 2 ^ 52" using b e by simp
    then have "b div 2 ^ 52 = Suc (Suc e')" "b mod 2 ^ 52 = 0" by simp_all
    then show ?thesis using 3 e by simp
  qed
qed

lemma round_decoded:
  assumes "round_bits n d < 2047 * 2 ^ 52"
  shows "f64_mag (f64_round n d) = round_mant n d * 2 ^ round_exp n d"
    and "f64_finite (f64_round n d)" and "\<not> f64_neg (f64_round n d)"
proof -
  have b: "round_bits n d = (round_exp n d - 1) * 2 ^ 52 + round_mant n d"
    by (simp add: round_bits_def Let_def)
  have d: "round_bits n d div 2 ^ 52 < 2047" using assms by (simp add: less_mult_imp_div_less)
  then have x: "f64_exp (f64_round n d) = round_bits n d div 2 ^ 52"
    by (simp add: f64_exp_def bits_unat [OF assms])
  show "f64_mag (f64_round n d) = round_mant n d * 2 ^ round_exp n d"
    using decode_bits [OF round_exp_pos(1) round_mant_upper round_mant_lower b]
    by (simp only: f64_mag_def x f64_frac_def bits_unat [OF assms])
  show "f64_finite (f64_round n d)" using d x by (simp add: f64_finite_def)
  show "\<not> f64_neg (f64_round n d)" using assms by (simp add: f64_neg_def bits_unat)
qed

section \<open>Correct rounding\<close>

text \<open>The value of every finite number, times the scale, is an integer with 53 significant bits.\<close>

lemma mag_form:
  obtains k e where "f64_mag w = k * 2 ^ e" and "k < 2 ^ 53" and "1 \<le> e"
proof (cases "f64_exp w = 0")
  case True
  then show ?thesis using that [of "f64_frac w" 1] by (simp add: f64_mag_def f64_frac_def)
next
  case False
  have "f64_frac w < 2 ^ 52" by (simp add: f64_frac_def)
  then show ?thesis using that [of "2 ^ 52 + f64_frac w" "f64_exp w"] False by (simp add: f64_mag_def)
qed

text \<open>No other number of this form is closer: first on integers, scaled by \<open>d\<close>.\<close>

lemma round_nearest_int:
  assumes d: "0 < d" and k: "k < 2 ^ 53" and e: "1 \<le> e"
  shows "\<bar>int (round_mant n d * 2 ^ round_exp n d) * int d - int (n * f64_scale)\<bar> \<le>
    \<bar>int (k * 2 ^ e) * int d - int (n * f64_scale)\<bar>"
proof -
  let ?E = "round_exp n d" and ?N = "int (n * f64_scale)"
  have near: "\<bar>int (round_mant n d * 2 ^ ?E) * int d - ?N\<bar> \<le> \<bar>j * (2 ^ ?E * int d) - ?N\<bar>" for j
    using div_even_nearest [of "d * 2 ^ ?E" "n * f64_scale" j] d by (simp add: mult.commute mult.left_commute)
  show ?thesis
  proof (cases "?E \<le> e")
    case True
    then obtain f where "e = ?E + f" by (auto simp: le_iff_add)
    then show ?thesis using near [of "int k * 2 ^ f"] by (simp add: power_add mult_ac)
  next
    case False
    then obtain f where f: "?E = Suc (e + f)" by (metis less_iff_Suc_add not_le)
    have "2 ^ 52 * 2 ^ ?E \<le> n * f64_scale div d" using False e by (intro quotient_lower) simp
    then have top: "2 ^ 52 * 2 ^ ?E * d \<le> n * f64_scale" using d by (simp add: less_eq_div_iff_mult_less_eq)
    have "k * 2 ^ e \<le> 2 ^ 53 * 2 ^ e" using k by simp
    also have "\<dots> \<le> 2 ^ 53 * 2 ^ (e + f)" by simp
    also have "\<dots> = 2 ^ 52 * 2 ^ ?E" by (simp add: f)
    finally have "k * 2 ^ e * d \<le> 2 ^ 52 * 2 ^ ?E * d" by (rule mult_le_mono1)
    then have "\<bar>int (2 ^ 52 * 2 ^ ?E * d) - ?N\<bar> \<le> \<bar>int (k * 2 ^ e * d) - ?N\<bar>" using top by linarith
    then show ?thesis using near [of "2 ^ 52"] by (simp add: mult.assoc)
  qed
qed

text \<open>Then on the values.\<close>

lemma value_diff:
  assumes "0 < d"
  shows "\<bar>real_of_int z / real f64_scale - real n / real d\<bar> =
    real_of_int \<bar>z * int d - int (n * f64_scale)\<bar> / (real f64_scale * real d)"
proof -
  have "real_of_int z / real f64_scale - real n / real d =
      real_of_int (z * int d - int (n * f64_scale)) / (real f64_scale * real d)"
    using assms by (simp add: field_simps)
  then show ?thesis by (simp only: abs_divide) (simp add: abs_mult)
qed

lemma round_nearest:
  assumes d: "0 < d" and b: "round_bits n d < 2047 * 2 ^ 52" and w: "\<not> f64_neg w"
  shows "\<bar>f64_value (f64_round n d) - real n / real d\<bar> \<le> \<bar>f64_value w - real n / real d\<bar>"
proof -
  obtain k e where k: "f64_mag w = k * 2 ^ e" "k < 2 ^ 53" "1 \<le> e" by (rule mag_form)
  have v: "f64_value w = real_of_int (int (k * 2 ^ e)) / real f64_scale"
    using k w by (simp add: f64_value_def)
  have r: "f64_value (f64_round n d) =
      real_of_int (int (round_mant n d * 2 ^ round_exp n d)) / real f64_scale"
    using round_decoded [OF b] by (simp add: f64_value_def)
  show ?thesis unfolding v r value_diff [OF d]
    using round_nearest_int [OF d k(2,3)] by (intro divide_right_mono of_int_le_iff [THEN iffD2]) simp_all
qed

text \<open>A negative number is further away than zero.\<close>

lemma round_is_nearest:
  assumes d: "0 < d" and b: "round_bits n d < 2047 * 2 ^ 52"
  shows "\<bar>f64_value (f64_round n d) - real n / real d\<bar> \<le> \<bar>f64_value w - real n / real d\<bar>"
proof (cases "f64_neg w")
  case True
  have "f64_value w \<le> 0" using True by (simp add: f64_value_def)
  moreover have "f64_value 0 = 0" "\<not> f64_neg 0"
    by (simp_all add: f64_value_def f64_neg_def f64_mag_def f64_exp_def f64_frac_def)
  moreover have "0 \<le> real n / real d" by simp
  ultimately show ?thesis using round_nearest [OF d b, of 0] by linarith
qed (rule round_nearest [OF d b])

section \<open>Quotients of 32-bit numbers\<close>

lemma floorlog2_le:
  assumes "x < 2 ^ k"
  shows "floorlog 2 x \<le> k"
proof (cases "x = 0")
  case False
  then have "(2 :: nat) ^ (floorlog 2 x - 1) < 2 ^ k" using floorlog2_bounds [of x] assms by linarith
  then have "floorlog 2 x - 1 < k" by (rule power_less_imp_less_exp [rotated]) simp
  then show ?thesis by simp
qed (simp add: floorlog_def)

lemma floorlog2_ge:
  assumes "2 ^ k \<le> x"
  shows "k < floorlog 2 x"
proof -
  have "0 < x" using assms by (cases x) simp_all
  then have "(2 :: nat) ^ k < 2 ^ floorlog 2 x" using floorlog2_bounds [of x] assms by linarith
  then show ?thesis by (rule power_less_imp_less_exp [rotated]) simp
qed

lemma round_exp_le:
  assumes "n < 2 ^ 32"
  shows "round_exp n d \<le> 1054"
proof -
  have "n * f64_scale div d \<le> n * f64_scale" by (rule div_le_dividend)
  also have "\<dots> < 2 ^ 32 * f64_scale" using assms by simp
  also have "2 ^ 32 * f64_scale = 2 ^ 1107" unfolding f64_scale_def power_add [symmetric] by simp
  finally have "floorlog 2 (n * f64_scale div d) \<le> 1107" by (rule floorlog2_le)
  then show ?thesis by (simp add: round_exp_def)
qed

lemma round_exp_ge:
  assumes "0 < n" and "0 < d" and "d < 2 ^ 32"
  shows "1 < round_exp n d"
proof -
  have "2 ^ 1043 * d \<le> 2 ^ 1043 * 2 ^ 32" using assms by simp
  also have "\<dots> = f64_scale" unfolding f64_scale_def power_add [symmetric] by simp
  also have "\<dots> \<le> n * f64_scale" using assms by simp
  finally have "2 ^ 1043 \<le> n * f64_scale div d" using assms by (simp only: less_eq_div_iff_mult_less_eq)
  from floorlog2_ge [OF this] show ?thesis by (simp add: round_exp_def)
qed

lemma round_bits_finite:
  assumes "n < 2 ^ 32"
  shows "round_bits n d < 2047 * 2 ^ 52"
proof -
  have "(round_exp n d - 1) * 2 ^ 52 \<le> 1053 * 2 ^ 52"
    using round_exp_le [OF assms, of d] by (intro mult_le_mono1) simp
  then show ?thesis using round_mant_upper [of n d] by (simp add: round_bits_def Let_def)
qed

lemma unat_u32: "unat (n :: u32) < 2 ^ 32"
  using unsigned_less [of n] by simp

text \<open>The cast is exact.\<close>

lemma f64_of_u32_mag:
  "f64_mag (f64_of_u32 n) = unat n * f64_scale" "f64_finite (f64_of_u32 n)" "\<not> f64_neg (f64_of_u32 n)"
proof -
  note b = round_bits_finite [OF unat_u32, of n 1]
  have "(2 :: nat) ^ round_exp (unat n) 1 dvd unat n * f64_scale"
    using round_exp_le [OF unat_u32, of n 1] unfolding f64_scale_def
    by (intro dvd_mult le_imp_power_dvd) simp
  then show "f64_mag (f64_of_u32 n) = unat n * f64_scale"
    using round_decoded(1) [OF b] by (simp add: f64_of_u32_def div_even_exact)
  show "f64_finite (f64_of_u32 n)" "\<not> f64_neg (f64_of_u32 n)"
    using round_decoded(2,3) [OF b] by (simp_all add: f64_of_u32_def)
qed

lemma f64_of_u32_value: "f64_value (f64_of_u32 n) = real (unat n)"
  by (simp add: f64_value_def f64_of_u32_mag)

lemma is_zero_mag: "f64_is_zero w \<longleftrightarrow> f64_mag w = 0"
  by (simp add: f64_is_zero_def f64_mag_def)

lemma finite_not_special: "f64_finite w \<Longrightarrow> \<not> f64_is_nan w \<and> \<not> f64_is_inf w"
  by (simp add: f64_finite_def f64_is_nan_def f64_is_inf_def)

lemma div_even_scale: "0 < c \<Longrightarrow> div_even (n * c) (d * c) = div_even n d"
  by (simp add: div_even_def Let_def mult_mod_left [symmetric] mult.left_commute
      flip: mult.assoc)

lemma f64_round_scale:
  assumes "0 < c"
  shows "f64_round (n * c) (d * c) = f64_round n d"
proof -
  have "n * c * f64_scale = n * f64_scale * c" by simp
  then have e: "round_exp (n * c) (d * c) = round_exp n d"
    using assms by (simp only: round_exp_def div_mult_mult2)
  have "div_even (n * c * f64_scale) (d * c * 2 ^ round_exp n d) = round_mant n d"
    using div_even_scale [OF assms, of "n * f64_scale" "d * 2 ^ round_exp n d"] by (simp add: mult_ac)
  then have "round_bits (n * c) (d * c) = round_bits n d" by (simp only: round_bits_def e Let_def)
  then show ?thesis by (simp only: f64_round_def)
qed

lemma f64_div_u32:
  "f64_div (f64_of_u32 a) (f64_of_u32 b) =
     (if b = 0 then if a = 0 then f64_NAN else f64_INFINITY
      else if a = 0 then 0 else f64_round (unat a) (unat b))"
proof -
  have s: "\<not> f64_is_nan (f64_of_u32 n)" "\<not> f64_is_inf (f64_of_u32 n)" for n
    using finite_not_special f64_of_u32_mag(2) by blast+
  have z: "f64_is_zero (f64_of_u32 n) \<longleftrightarrow> n = 0" for n
    by (simp add: is_zero_mag f64_of_u32_mag unat_eq_0)
  show ?thesis by (simp add: f64_div_def s z f64_of_u32_mag f64_signed_def f64_round_scale)
qed

text \<open>The relative error is at most half a unit in the last place.\<close>

lemma round_relative:
  assumes d: "0 < d" and e: "1 < round_exp n d" and b: "round_bits n d < 2047 * 2 ^ 52"
  shows "\<bar>f64_value (f64_round n d) - real n / real d\<bar> \<le> real n / real d / 2 ^ 53"
proof -
  let ?E = "round_exp n d" and ?z = "int (round_mant n d * 2 ^ round_exp n d)"
  have r: "f64_value (f64_round n d) = real_of_int ?z / real f64_scale"
    using round_decoded [OF b] by (simp add: f64_value_def)
  have half: "2 * \<bar>?z * int d - int (n * f64_scale)\<bar> \<le> int (d * 2 ^ ?E)"
    using div_even_half [of "d * 2 ^ ?E" "n * f64_scale"] d by (simp add: mult_ac)
  have "2 ^ 52 * 2 ^ ?E * d \<le> n * f64_scale"
    using quotient_lower [OF e] d by (simp add: less_eq_div_iff_mult_less_eq)
  then have "2 ^ 52 * int (d * 2 ^ ?E) \<le> int (n * f64_scale)"
    by (simp only: of_nat_le_iff [where 'a = int, symmetric]) (simp add: mult_ac)
  with half have "2 ^ 53 * \<bar>?z * int d - int (n * f64_scale)\<bar> \<le> int (n * f64_scale)" by simp
  then have "real_of_int (2 ^ 53 * \<bar>?z * int d - int (n * f64_scale)\<bar>) \<le> real_of_int (int (n * f64_scale))"
    by (rule of_int_le_iff [THEN iffD2])
  then have "2 ^ 53 * real_of_int \<bar>?z * int d - int (n * f64_scale)\<bar> \<le> real (n * f64_scale)"
    by (simp only: of_int_mult of_int_power of_int_numeral of_int_of_nat_eq)
  then have "real_of_int \<bar>?z * int d - int (n * f64_scale)\<bar> / (real f64_scale * real d) \<le>
      real (n * f64_scale) / 2 ^ 53 / (real f64_scale * real d)"
    by (intro divide_right_mono) (simp_all add: field_simps)
  also have "\<dots> = real n / real d / 2 ^ 53" by simp
  finally show ?thesis unfolding r value_diff [OF d] .
qed

text \<open>How the exponent of a concrete quotient is found.\<close>

lemma round_exp_eq:
  assumes "2 ^ (52 + e) \<le> n * f64_scale div d" and "n * f64_scale div d < 2 ^ (53 + e)" and "1 \<le> e"
  shows "round_exp n d = e"
  using floorlog2_ge [OF assms(1)] floorlog2_le [OF assms(2)] assms(3) by (simp add: round_exp_def)

lemma round_one_sixtieth: "f64_round 1 60 = 0x3F91111111111111"
proof -
  have "1 * f64_scale = 2 ^ (52 + 1017) * 2 ^ 6" "1 * f64_scale = 2 ^ (53 + 1017) * 2 ^ 5"
    unfolding f64_scale_def power_add [symmetric] by simp_all
  then have "round_exp 1 60 = 1017"
    by (intro round_exp_eq) (simp_all only: less_eq_div_iff_mult_less_eq div_less_iff_less_mult
        zero_less_numeral mult_le_mono2 mult_less_cancel1, simp_all)
  moreover have "1 * f64_scale = 2 ^ 58 * 2 ^ 1017"
    unfolding f64_scale_def power_add [symmetric] by simp
  then have "div_even (1 * f64_scale) (60 * 2 ^ 1017) = div_even (2 ^ 58) 60"
    by (simp only: div_even_scale zero_less_power zero_less_numeral)
  moreover have "div_even (2 ^ 58) 60 = 4803839602528529" by (simp add: div_even_def)
  ultimately have "round_bits 1 60 = 0x3F91111111111111" by (simp only: round_bits_def Let_def) simp
  then show ?thesis by (simp add: f64_round_def del: One_nat_def)
qed

section \<open>The quotient of two casts\<close>

text \<open>
  \<open>num as f64 / den as f64\<close>: the casts lose nothing, and for a non-zero denominator the quotient is finite, no
  \<open>f64\<close> at all is closer to the exact rational, and its relative error is at most \<open>2 ^ -53\<close>.  A zero
  denominator gives infinity, or not-a-number for \<open>0 / 0\<close>.
\<close>

definition rounded_quotient :: "u32 \<Rightarrow> u32 \<Rightarrow> f64 \<Rightarrow> bool" where
  "rounded_quotient x y q \<longleftrightarrow>
     (if y = 0 then if x = 0 then f64_is_nan q else q = f64_INFINITY
      else f64_finite q \<and>
        (\<forall>w. \<bar>f64_value q - real (unat x) / real (unat y)\<bar> \<le> \<bar>f64_value w - real (unat x) / real (unat y)\<bar>) \<and>
        \<bar>f64_value q - real (unat x) / real (unat y)\<bar> \<le> real (unat x) / real (unat y) / 2 ^ 53)"

lemma u32_quotient:
  fixes num den :: u32
  defines "q \<equiv> f64_div (f64_of_u32 num) (f64_of_u32 den)"
    and "exact \<equiv> real (unat num) / real (unat den)"
  shows "f64_value (f64_of_u32 num) = real (unat num) \<and> f64_value (f64_of_u32 den) = real (unat den) \<and>
    (den \<noteq> 0 \<longrightarrow> f64_finite q \<and> (\<forall>w. \<bar>f64_value q - exact\<bar> \<le> \<bar>f64_value w - exact\<bar>) \<and>
      \<bar>f64_value q - exact\<bar> \<le> exact / 2 ^ 53) \<and>
    (den = 0 \<longrightarrow> (if num = 0 then f64_is_nan q else q = f64_INFINITY))"
proof -
  have n: "f64_is_nan f64_NAN" by (simp add: f64_is_nan_def f64_exp_def f64_frac_def)
  have z: "f64_finite 0" "f64_value 0 = 0"
    by (simp_all add: f64_finite_def f64_value_def f64_mag_def f64_exp_def f64_frac_def)
  have "f64_finite q \<and> (\<forall>w. \<bar>f64_value q - exact\<bar> \<le> \<bar>f64_value w - exact\<bar>) \<and>
      \<bar>f64_value q - exact\<bar> \<le> exact / 2 ^ 53" if "den \<noteq> 0"
  proof (cases "num = 0")
    case True
    then show ?thesis using that z by (simp add: q_def exact_def f64_div_u32)
  next
    case False
    then have p: "0 < unat num" "0 < unat den" using that by (simp_all add: unat_gt_0)
    note b = round_bits_finite [OF unat_u32, of num "unat den"]
    show ?thesis
      using False that round_decoded(2) [OF b] round_is_nearest [OF p(2) b]
        round_relative [OF p(2) round_exp_ge [OF p unat_u32] b]
      by (simp add: q_def exact_def f64_div_u32)
  qed
  then show ?thesis using n by (simp add: f64_of_u32_value q_def f64_div_u32)
qed

lemma quotient_rounded: "rounded_quotient x y (f64_div (f64_of_u32 x) (f64_of_u32 y))"
  using u32_quotient [of x y] by (cases "x = 0"; cases "y = 0") (simp_all add: rounded_quotient_def)

end
