(* ===== verification/Main_Frames.thy ===== *)
theory Main_Frames
  imports Frames_Root Rust_Effects Rust_Float
begin

text \<open>
  The command \<open>frames\<close> of \<open>rust/src/main.rs\<close>: it reads \<open>data.bin\<close> and prints the first frame.  The file
  system and the message reader of the \<open>capnp\<close> crate are parameters; everything from the root
  pointer of the message on is the generated code of \<open>frames_capnp.rs\<close>.
\<close>

section \<open>The command\<close>

text \<open>What \<open>Box<dyn std::error::Error>\<close> holds.\<close>

datatype ('i, 'e) boxed_error =
    Io_Error 'i
  | Capnp_Error 'e
  | Addr_Parse_Error

text \<open>
  The environment of the command: \<open>std::fs::File::open\<close>, \<open>capnp::serialize::read_message\<close> with the default
  options and the root pointer of a message.  \<open>get_root\<close> of the crate applies \<open>get_from_pointer\<close> of
  the reader's type to that pointer.
\<close>

record ('f, 'g, 'm, 'i, 'e) files =
  File_open :: "string \<Rightarrow> ('f, 'i) result"
  read_message :: "'f \<Rightarrow> ('g, 'e) result"
  root_pointer :: "'g \<Rightarrow> ('m PointerReader, 'e) result"

definition get_root_frames ::
  "('m, 'h, 'e) capnp \<Rightarrow> ('f, 'g, 'm, 'i, 'e) files \<Rightarrow> 'g \<Rightarrow> ('m frames_Reader, 'e) result" where
  "get_root_frames L F msg = result_bind (root_pointer F msg) (frames_Reader_get_from_pointer L)"

text \<open>\<open>iter().nth(k)\<close> of a list of frames.\<close>

definition frame_list_nth :: "('m, 'h, 'e) capnp \<Rightarrow> 'm StructListReader \<Rightarrow> nat \<Rightarrow> 'm frame_Reader option" where
  "frame_list_nth L lr k =
     (if k < unat (slr_len L lr) then Some (frame_Reader_new (slr_get L lr (of_nat k))) else None)"

definition frames_main ::
  "('m, 'h, 'e) capnp \<Rightarrow> ('f, 'g, 'm, 'i, 'e) files \<Rightarrow> (unit, 'e, ('i, 'e) boxed_error) prog" where
  "frames_main L F =
     prog_bind (try_op Io_Error (File_open F ''data.bin'')) (\<lambda>f.
     prog_bind (try_op Capnp_Error (read_message F f)) (\<lambda>message_reader.
     prog_bind (try_op Capnp_Error (get_root_frames L F message_reader)) (\<lambda>rt.
     prog_bind (try_op Capnp_Error (frames_Reader_get_frames L rt)) (\<lambda>frames.
     prog_bind (expect_some ''wanted at least one frame'' (frame_list_nth L frames 0)) (\<lambda>frame.
     case frame_Reader_which L frame of
       Ok (AudioFrame af) \<Rightarrow>
         prog_bind (try_op Capnp_Error af) (\<lambda>af.
         prog_bind (println [Text ''stream ID: '', Display_u32 (audio_frame_Reader_get_stream_id L af)]) (\<lambda>_.
         prog_bind (println [Text ''channels: '', Display_u16 (audio_frame_Reader_get_channels L af)]) (\<lambda>_.
         prog_bind (try_op Capnp_Error (audio_frame_Reader_get_pts L af)) (\<lambda>pts.
         prog_bind (println [Text ''pts: '',
             Display_f64 (f64_div (f64_of_u32 (rational_Reader_get_num L pts))
               (f64_of_u32 (rational_Reader_get_den L pts)))]) (\<lambda>_.
         prog_bind (try_op Capnp_Error (audio_frame_Reader_get_data L af)) (\<lambda>data.
         println [Text ''data: '', Debug_bytes data]))))))
     | _ \<Rightarrow> println [Text ''Was not an audio frame''])))))"

section \<open>What it prints, in terms of the values in the message\<close>

definition audio_report :: "'e audio_frame_val \<Rightarrow> (unit, 'e, ('i, 'e) boxed_error) prog" where
  "audio_report a =
     (let ls = [[Text ''stream ID: '', Display_u32 (af_stream_id a)], [Text ''channels: '', Display_u16 (af_channels a)]]
      in case af_pts a of
           Err e \<Rightarrow> (ls, Returned (Err (Capnp_Error e)))
         | Ok p \<Rightarrow>
             (let ls' = ls @ [[Text ''pts: '', Display_f64 (f64_div (f64_of_u32 (num p)) (f64_of_u32 (den p)))]]
              in case af_data a of
                   Err e \<Rightarrow> (ls', Returned (Err (Capnp_Error e)))
                 | Ok bs \<Rightarrow> (ls' @ [[Text ''data: '', Debug_bytes bs]], Returned (Ok ()))))"

fun frames_report :: "'e frame_val list \<Rightarrow> (unit, 'e, ('i, 'e) boxed_error) prog" where
  "frames_report [] = ([], Panicked (Expect_Failed ''wanted at least one frame''))"
| "frames_report (AudioVal (Ok a) # vs) = audio_report a"
| "frames_report (AudioVal (Err e) # vs) = ([], Returned (Err (Capnp_Error e)))"
| "frames_report (v # vs) = ([[Text ''Was not an audio frame'']], Returned (Ok ()))"

lemma audio_report_main:
  "prog_bind (println [Text ''stream ID: '', Display_u32 (audio_frame_Reader_get_stream_id L af)]) (\<lambda>_.
   prog_bind (println [Text ''channels: '', Display_u16 (audio_frame_Reader_get_channels L af)]) (\<lambda>_.
   prog_bind (try_op Capnp_Error (audio_frame_Reader_get_pts L af)) (\<lambda>pts.
   prog_bind (println [Text ''pts: '',
       Display_f64 (f64_div (f64_of_u32 (rational_Reader_get_num L pts))
         (f64_of_u32 (rational_Reader_get_den L pts)))]) (\<lambda>_.
   prog_bind (try_op Capnp_Error (audio_frame_Reader_get_data L af)) (\<lambda>data.
   println [Text ''data: '', Debug_bytes data]))))) = audio_report (audio_frame_read L af)"
  by (cases "audio_frame_Reader_get_pts L af"; cases "audio_frame_Reader_get_data L af")
    (simp_all add: prog_simps audio_report_def audio_frame_read_def rational_read_def println_def)

lemma frame_list_nth_read:
  "list_map L (\<lambda>sr. frame_read L (frame_Reader_new sr)) lr = [] \<longleftrightarrow> frame_list_nth L lr 0 = None"
  "frame_list_nth L lr 0 = Some r \<Longrightarrow>
     \<exists>vs. list_map L (\<lambda>sr. frame_read L (frame_Reader_new sr)) lr = frame_read L r # vs"
  by (auto simp: list_map_def frame_list_nth_def upt_conv_Cons split: if_splits)

lemma audio_try:
  "prog_bind (try_op Capnp_Error x) (\<lambda>af. audio_report (audio_frame_read L af)) =
     frames_report (AudioVal (map_result (audio_frame_read L) id x) # vs)"
  by (cases x) (simp_all add: prog_simps)

lemma frame_report_main:
  "(case frame_Reader_which L r of
       Ok (AudioFrame af) \<Rightarrow>
         prog_bind (try_op Capnp_Error af) (\<lambda>af. audio_report (audio_frame_read L af))
     | _ \<Rightarrow> println [Text ''Was not an audio frame'']) = frames_report (frame_read L r # vs)"
  using audio_try [of _ L vs]
  by (auto simp: frame_read_def println_def split: result.splits frame_Which.splits NotInSchema.splits)

lemma frames_main_report:
  assumes "File_open F ''data.bin'' = Ok f" and "read_message F f = Ok msg"
    and "get_root_frames L F msg = Ok rt"
  shows "frames_main L F = (case frames_read L rt of
     Ok vs \<Rightarrow> frames_report vs | Err e \<Rightarrow> ([], Returned (Err (Capnp_Error e))))"
proof (cases "frames_Reader_get_frames L rt")
  case (Ok lr)
  note main = frames_main_def [of L F, unfolded audio_report_main]
  show ?thesis
  proof (cases "frame_list_nth L lr 0")
    case None
    then show ?thesis
      using assms Ok frame_list_nth_read(1) [of L lr] by (simp add: main frames_read_def prog_simps)
  next
    case (Some r)
    then obtain vs where "list_map L (\<lambda>sr. frame_read L (frame_Reader_new sr)) lr = frame_read L r # vs"
      using frame_list_nth_read(2) by blast
    then show ?thesis
      using assms Ok Some frame_report_main [of L r vs] by (simp add: main frames_read_def prog_simps)
  qed
next
  case (Err e)
  then show ?thesis using assms by (simp add: frames_main_def frames_read_def prog_simps)
qed

text \<open>
  \<open>data.bin\<close> holds the message \<open>m\<close> with the root struct \<open>sb\<close>: the crate reads back the tree of objects
  that was written.
\<close>

definition file_holds ::
  "('m, 'h, 'e) capnp \<Rightarrow> ('m, 'h, 'e) view \<Rightarrow> ('f, 'g, 'm, 'i, 'e) files \<Rightarrow> StructBuilder \<Rightarrow> 'm \<Rightarrow> bool" where
  "file_holds L V F sb m \<longleftrightarrow> (\<exists>f msg pr. File_open F ''data.bin'' = Ok f \<and> read_message F f = Ok msg \<and>
     root_pointer F msg = Ok pr \<and> robj V pr = struct_obj V (sb_into_reader L sb m))"

context capnp_builder
begin

lemma frames_main_holds:
  assumes "file_holds L V F (frames_Builder_builder b) m"
  shows "frames_main L F = (case frames_value L b m of
     Ok vs \<Rightarrow> frames_report vs | Err e \<Rightarrow> ([], Returned (Err (Capnp_Error e))))"
proof -
  obtain f msg pr where f: "File_open F ''data.bin'' = Ok f" "read_message F f = Ok msg"
    and pr: "root_pointer F msg = Ok pr"
    "robj V pr = struct_obj V (sb_into_reader L (frames_Builder_builder b) m)"
    using assms by (auto simp: file_holds_def)
  have "map_result (frames_read L) id (frames_Reader_get_from_pointer L pr) =
      Ok (frames_read L (frames_Builder_into_reader L b m))"
    using pr(2)
    by (intro frames_m.value_copy [OF capnp_reader_axioms]) (simp add: frames_defs)
  then obtain rt where "frames_Reader_get_from_pointer L pr = Ok rt"
    and v: "frames_read L rt = frames_value L b m"
    by (auto simp: frames_value_def)
  then have "get_root_frames L F msg = Ok rt" using pr(1) by (simp add: get_root_frames_def)
  from frames_main_report [OF f this] v show ?thesis by simp
qed

text \<open>A first frame written as an audio frame.\<close>

lemma frames_main_audio:
  assumes b: "frames_ok L V b m" and n: "0 < unat n" "unat n < 2 ^ 29"
    and l: "frames_Builder_init_frames L b n m = (lb, m1)"
    and a: "frame_Builder_init_audio_frame L (frame_elem L lb 0) m1 = (a, m2)"
    and xs: "list_all (audio_frame_allowed V) xs"
    and p: "audio_frame_Builder_init_pts L a (fold (audio_frame_run L a) xs m2) = (p, m4)"
    and F: "file_holds L V F (frames_Builder_builder b) (fold (rational_run L p) ys m4)"
  shows "frames_main L F = audio_report ((fold (audio_frame_spec L) xs audio_frame_zero)
    \<lparr>af_pts := Ok (fold (rational_spec L) ys \<lparr>num = 0, den = 0\<rparr>)\<rparr>)"
proof -
  note init = frames_init [OF b n(2) l]
  have "0 < lblen V lb" using init(2) n(1) by simp
  note w = frames_audio_builders [OF init(1) this a xs p, of ys]
  obtain k where "unat n = Suc k" using n(1) by (cases "unat n") auto
  then show ?thesis
    using frames_main_holds [OF F] by (simp add: w init(3))
qed

end

section \<open>Properties\<close>

text \<open>
  C9. The command on every input: an error of the file system, of the message or of the list of
  frames ends it with that error and no output, and otherwise it reports on the list of values that
  the message holds, as \<open>frames_report\<close> says: a panic for the empty list, one line for a first frame
  that is no audio frame (a video frame or an unknown member), and up to four lines for an audio frame,
  ending early with the error when the pointer to \<open>pts\<close> or to \<open>data\<close> cannot be read.
\<close>

theorem frames_main_behaviour:
  "frames_main L F = (case File_open F ''data.bin'' of
     Err i \<Rightarrow> ([], Returned (Err (Io_Error i)))
   | Ok f \<Rightarrow> (case result_bind (read_message F f) (get_root_frames L F) of
       Err e \<Rightarrow> ([], Returned (Err (Capnp_Error e)))
     | Ok rt \<Rightarrow> (case frames_read L rt of
         Err e \<Rightarrow> ([], Returned (Err (Capnp_Error e)))
       | Ok vs \<Rightarrow> frames_report vs)))"
proof (cases "File_open F ''data.bin''")
  case (Ok f)
  show ?thesis
  proof (cases "read_message F f")
    case r: (Ok msg)
    show ?thesis
    proof (cases "get_root_frames L F msg")
      case (Ok rt)
      then show ?thesis using frames_main_report [OF \<open>File_open F ''data.bin'' = Ok f\<close> r Ok] \<open>File_open F ''data.bin'' = Ok f\<close> r
        by (simp split: result.splits)
    qed (simp add: frames_main_def prog_simps Ok r)
  qed (simp add: frames_main_def prog_simps Ok)
qed (simp add: frames_main_def prog_simps)

text \<open>
  C16. From the builders to the screen: a message whose list of frames was allocated and whose first
  frame was written as an audio frame with the generated builders, stored in \<open>data.bin\<close> and read back,
  is printed by the command with the values that were set, and the command succeeds or fails as those
  values say.
\<close>

theorem frames_main_written:
  assumes L: "capnp_builder L V" and b: "frames_ok L V b m" and n: "0 < unat n" "unat n < 2 ^ 29"
    and l: "frames_Builder_init_frames L b n m = (lb, m1)"
    and a: "frame_Builder_init_audio_frame L (frame_elem L lb 0) m1 = (a, m2)"
    and xs: "list_all (audio_frame_allowed V) xs"
    and p: "audio_frame_Builder_init_pts L a (fold (audio_frame_run L a) xs m2) = (p, m4)"
    and F: "file_holds L V F (frames_Builder_builder b) (fold (rational_run L p) ys m4)"
  shows "frames_main L F = audio_report ((fold (audio_frame_spec L) xs audio_frame_zero)
    \<lparr>af_pts := Ok (fold (rational_spec L) ys \<lparr>num = 0, den = 0\<rparr>)\<rparr>)"
  by (rule capnp_builder.frames_main_audio [OF L b n l a xs p F])

text \<open>A file that holds a message of the executable instance.\<close>

definition tree_file :: "nat tree \<Rightarrow> (unit, nat tree, nat tree, unit, string) files" where
  "tree_file m = \<lparr>File_open = \<lambda>_. Ok (), read_message = \<lambda>_. Ok m,
     root_pointer = \<lambda>m. Ok (PointerReader (struct_obj tree_view (StructReader m [])) [])\<rparr>"

lemma tree_file_holds: "file_holds tree_capnp tree_view (tree_file m) (StructBuilder []) m"
  by (simp add: file_holds_def tree_file_def struct_obj_def)

theorem frames_main_written_witness:
  "\<exists>m. frames_main tree_capnp (tree_file m) =
     ([[Text ''stream ID: '', Display_u32 69], [Text ''channels: '', Display_u16 2],
       [Text ''pts: '', Display_f64 0x3F91111111111111], [Text ''data: '', Debug_bytes [1, 2, 3]]],
      Returned (Ok ()))"
proof -
  let ?b = "frames_Builder (StructBuilder [])" and ?m = "zero_struct frames_STRUCT_SIZE :: nat tree"
    and ?xs = "[AfSetChannels 2, AfSetStreamId 69, AfSetData [1, 2, 3]]" and ?ys = "[SetNum 1, SetDen 60]"
  have b: "frames_ok tree_capnp tree_view ?b ?m"
    using fresh_struct_ok [OF tree_root_fresh] by (simp add: frames_ok_def)
  obtain lb m1 where l: "frames_Builder_init_frames tree_capnp ?b 1 ?m = (lb, m1)" by fastforce
  obtain a m2 where a: "frame_Builder_init_audio_frame tree_capnp (frame_elem tree_capnp lb 0) m1 = (a, m2)"
    by fastforce
  obtain p m4 where p: "audio_frame_Builder_init_pts tree_capnp a
      (fold (audio_frame_run tree_capnp a) ?xs m2) = (p, m4)" by fastforce
  let ?m5 = "fold (rational_run tree_capnp p) ?ys m4"
  have F: "file_holds tree_capnp tree_view (tree_file ?m5) (frames_Builder_builder ?b) ?m5"
    using tree_file_holds by simp
  have "frames_main tree_capnp (tree_file ?m5) = audio_report ((fold (audio_frame_spec tree_capnp) ?xs audio_frame_zero)
    \<lparr>af_pts := Ok (fold (rational_spec tree_capnp) ?ys \<lparr>num = 0, den = 0\<rparr>)\<rparr>)"
    by (rule frames_main_written [OF tree_builder.capnp_builder_axioms b _ _ l a _ p F])
      (simp_all del: tree_view_simps)
  then show ?thesis
    by (intro exI [of _ ?m5])
      (simp add: audio_report_def f64_div_u32 round_one_sixtieth del: One_nat_def)
qed

text \<open>
  C7. The presentation time that the command prints: when the message holds an audio frame in the first place,
  with a readable \<open>pts\<close>, the third line shows the numerator over the denominator, in this order, as an \<open>f64\<close> that is
  finite and than which no other is closer to the exact rational, with a relative error of at most \<open>2 ^ -53\<close>; and infinity,
  or not-a-number, when the denominator is zero.  Exactly two lines come before it.
\<close>

theorem frames_main_pts:
  assumes "File_open F ''data.bin'' = Ok f" and "read_message F f = Ok msg"
    and "get_root_frames L F msg = Ok rt" and "frames_read L rt = Ok (AudioVal (Ok a) # vs)"
    and "af_pts a = Ok p"
  shows "\<exists>q ls. fst (frames_main L F) =
      [[Text ''stream ID: '', Display_u32 (af_stream_id a)], [Text ''channels: '', Display_u16 (af_channels a)],
       [Text ''pts: '', Display_f64 q]] @ ls \<and> length ls \<le> 1 \<and> rounded_quotient (num p) (den p) q"
  using frames_main_report [OF assms(1-3)] assms(4,5) quotient_rounded [of "num p" "den p"]
  by (cases "af_data a") (auto simp: audio_report_def)

theorem frames_main_pts_witness:
  "\<exists>q ls. fst (frames_main tree_capnp (tree_file one_frame)) =
     [[Text ''stream ID: '', Display_u32 0], [Text ''channels: '', Display_u16 0],
      [Text ''pts: '', Display_f64 q]] @ ls \<and> length ls \<le> 1 \<and> rounded_quotient 1 4 q"
proof -
  let ?r = "frames_Reader_new (StructReader one_frame [])"
  let ?a = "\<lparr>af_num_samples = 0, af_channels = 0, af_data = Ok [], af_stream_id = 0,
      af_pts = Ok \<lparr>num = 1, den = 4\<rparr>\<rparr>"
  have "get_root_frames tree_capnp (tree_file one_frame) one_frame = Ok ?r" by code_simp
  moreover have "frames_read tree_capnp ?r = Ok [AudioVal (Ok ?a)]"
    using one_frame_value by (simp add: frames_value_def frames_Builder_into_reader_def tree_capnp_def)
  ultimately show ?thesis
    using frames_main_pts [of "tree_file one_frame" "()" one_frame tree_capnp ?r ?a "[]" "\<lparr>num = 1, den = 4\<rparr>"]
    by (simp add: tree_file_def)
qed

end
