(* ===== verification/Main_Client.thy ===== *)
theory Main_Client
  imports Calc_Interface Main_Frames
begin

text \<open>
  The command \<open>client\<close> of \<open>rust/src/main.rs\<close>: it connects to a calculator server, asks it to evaluate the
  literal 123 and reads the value back.  The runtime, the socket and the RPC system are parameters;
  requests are made, and responses are read, by the generated code of \<open>calculator_capnp.rs\<close>.
\<close>

section \<open>Parsing a socket address\<close>

text \<open>The part of \<open>std::net::SocketAddr::from_str\<close> that reads an IPv4 address and a port.\<close>

definition read_digit :: "char \<Rightarrow> nat option" where
  "read_digit c = (let k = of_char c :: nat in if 48 \<le> k \<and> k \<le> 57 then Some (k - 48) else None)"

fun read_number :: "nat \<Rightarrow> nat \<Rightarrow> nat \<Rightarrow> nat \<Rightarrow> string \<Rightarrow> (nat \<times> string) option" where
  "read_number max_digits limit k r [] = (if k = 0 then None else Some (r, []))"
| "read_number max_digits limit k r (c # cs) = (case read_digit c of
     None \<Rightarrow> if k = 0 then None else Some (r, c # cs)
   | Some d \<Rightarrow>
       if max_digits < k + 1 \<or> limit \<le> r * 10 + d then None
       else read_number max_digits limit (k + 1) (r * 10 + d) cs)"

fun read_given_char :: "char \<Rightarrow> string \<Rightarrow> string option" where
  "read_given_char c [] = None"
| "read_given_char c (d # ds) = (if c = d then Some ds else None)"

definition read_octet :: "string \<Rightarrow> (nat \<times> string) option" where
  "read_octet s = read_number 3 0x100 0 0 s"

definition read_ipv4_addr :: "string \<Rightarrow> (nat list \<times> string) option" where
  "read_ipv4_addr s0 =
     Option.bind (read_octet s0) (\<lambda>(a, s1).
     Option.bind (read_given_char CHR ''.'' s1) (\<lambda>s2.
     Option.bind (read_octet s2) (\<lambda>(b, s3).
     Option.bind (read_given_char CHR ''.'' s3) (\<lambda>s4.
     Option.bind (read_octet s4) (\<lambda>(c, s5).
     Option.bind (read_given_char CHR ''.'' s5) (\<lambda>s6.
     Option.bind (read_octet s6) (\<lambda>(d, s7). Some ([a, b, c, d], s7))))))))"

definition parse_socket_addr :: "string \<Rightarrow> (nat list \<times> nat, unit) result" where
  "parse_socket_addr s =
     (case Option.bind (read_ipv4_addr s) (\<lambda>(ip, s1).
         Option.bind (read_given_char CHR '':'' s1) (\<lambda>s2.
         Option.bind (read_number 5 0x10000 0 0 s2) (\<lambda>(port, s3).
         if s3 = [] then Some (ip, port) else None))) of
       Some a \<Rightarrow> Ok a | None \<Rightarrow> Err ())"

section \<open>The environment\<close>

text \<open>
  The runtime, the network and the RPC system, on a state \<open>'w\<close> of the outside world.
  \<^item> \<open>rpc_bootstrap\<close> stands for splitting the stream, building the two-party network and the RPC system and
    asking it for the bootstrap capability of the server.
  \<^item> \<open>block_on\<close> sends a request and runs the runtime until its promise resolves, which may never happen
    (\<open>None\<close>).  The RPC system runs in the background meanwhile, and may end with an error.
  \<^item> \<open>request_params\<close> are the parameters of a request under construction, \<open>with_message\<close> stores them.
\<close>

record ('w, 's, 'h, 'q, 'a, 'm, 'e, 'i) client_env =
  Runtime_new :: "'w \<Rightarrow> (unit, 'i) result \<times> 'w"
  block_on_connect :: "nat list \<times> nat \<Rightarrow> 'w \<Rightarrow> ('s, 'i) result option \<times> 'w"
  set_nodelay :: "'s \<Rightarrow> bool \<Rightarrow> 'w \<Rightarrow> (unit, 'i) result \<times> 'w"
  rpc_bootstrap :: "'s \<Rightarrow> 'w \<Rightarrow> 'h \<times> 'w"
  block_on :: "'q \<Rightarrow> 'w \<Rightarrow> ('e option \<times> ('a, 'e) result option) \<times> 'w"
  request_params :: "'q \<Rightarrow> StructBuilder \<times> 'm"
  with_message :: "'q \<Rightarrow> 'm \<Rightarrow> 'q"
  response_get :: "'a \<Rightarrow> ('m StructReader, 'e) result"

text \<open>The result of a call of the environment, with \<open>?\<close> applied to it.\<close>

definition step_try ::
  "('k \<Rightarrow> 'x) \<Rightarrow> ('a, 'k) result option \<times> 'w \<Rightarrow> ('a \<times> 'w, 'e, 'x) prog" where
  "step_try box rw = (case rw of
     (None, w) \<Rightarrow> ([], Stuck)
   | (Some r, w) \<Rightarrow> try_op box (map_result (\<lambda>a. (a, w)) id r))"

text \<open>
  The task spawned in the background prints the error that ends the RPC system, once: \<open>pending\<close> says
  that the task has not ended yet.
\<close>

definition background_lines :: "bool \<Rightarrow> 'e option \<Rightarrow> 'e line list" where
  "background_lines pending bg = (case bg of
     Some e \<Rightarrow> if pending then [[Text ''Encountered error: '', Display_error e]] else []
   | None \<Rightarrow> [])"

definition run_request ::
  "('w, 's, 'h, 'q, 'a, 'm, 'e, 'i) client_env \<Rightarrow> bool \<Rightarrow> 'q \<Rightarrow> 'w \<Rightarrow>
     ('a \<times> bool \<times> 'w, 'e, ('i, 'e) boxed_error) prog" where
  "run_request E pending q w = (case block_on E q w of
     ((bg, r), w') \<Rightarrow>
       prog_bind (background_lines pending bg, Returned (Ok ())) (\<lambda>_.
       prog_bind (step_try Capnp_Error (r, w')) (\<lambda>(a, w'').
       prog_return (a, pending \<and> bg = None, w''))))"

section \<open>The command\<close>

text \<open>\<open>request.get().init_expression().set_literal(123.0)\<close> on a new request of \<open>evaluate\<close>.\<close>

definition literal_request ::
  "('m, 'h, 'e) capnp \<Rightarrow> ('h, 'q, 'p, 'r, 't, 'x) rpc \<Rightarrow>
     ('w, 's, 'h, 'q, 'a, 'm, 'e, 'i) client_env \<Rightarrow> 'h calculator_Client \<Rightarrow> 'q" where
  "literal_request L R E calculator =
     (let request = calculator_Client_evaluate_request R calculator in
      case request_params E request of
        (sb, m) \<Rightarrow> (case evaluate_params_Builder_init_expression L (evaluate_params_Builder_new sb) m of
          (expression, m') \<Rightarrow>
            with_message E request (expression_Builder_set_literal L expression 0x405EC00000000000 m')))"

definition client_calls ::
  "('m, 'h, 'e) capnp \<Rightarrow> ('h, 'q, 'p, 'r, 't, 'x) rpc \<Rightarrow>
     ('w, 's, 'h, 'q, 'a, 'm, 'e, 'i) client_env \<Rightarrow> 'h calculator_Client \<Rightarrow> 'w \<Rightarrow>
     (unit, 'e, ('i, 'e) boxed_error) prog" where
  "client_calls L R E calculator w =
     prog_bind (run_request E True (literal_request L R E calculator) w) (\<lambda>(response, pending, w).
     prog_bind (println [Text ''Got an (opaque) response!'']) (\<lambda>_.
     prog_bind (try_op Capnp_Error (response_get E response)) (\<lambda>results.
     prog_bind (try_op Capnp_Error (evaluate_results_Reader_get_value L (evaluate_results_Reader_new results))) (\<lambda>val.
     prog_bind (run_request E pending (value_Client_read_request R val) w) (\<lambda>(response, pending, w).
     prog_bind (try_op Capnp_Error (response_get E response)) (\<lambda>results.
     println [Text ''Value = '',
       Display_f64 (value_read_results_Reader_get_value L (value_read_results_Reader_new results))]))))))"

definition client_main ::
  "('m, 'h, 'e) capnp \<Rightarrow> ('h, 'q, 'p, 'r, 't, 'x) rpc \<Rightarrow>
     ('w, 's, 'h, 'q, 'a, 'm, 'e, 'i) client_env \<Rightarrow> 'w \<Rightarrow> (unit, 'e, ('i, 'e) boxed_error) prog" where
  "client_main L R E w =
     prog_bind (step_try Io_Error (map_prod Some id (Runtime_new E w))) (\<lambda>(_, w).
     prog_bind (println [Text ''Connecting to server on '', Display_str ''127.0.0.1:9494'']) (\<lambda>_.
     prog_bind (try_op (\<lambda>_. Addr_Parse_Error) (parse_socket_addr ''127.0.0.1:9494'')) (\<lambda>addr.
     prog_bind (step_try Io_Error (block_on_connect E addr w)) (\<lambda>(stream, w).
     prog_bind (step_try Io_Error (map_prod Some id (set_nodelay E stream True w))) (\<lambda>(_, w).
     case rpc_bootstrap E stream w of
       (hk, w) \<Rightarrow>
         prog_bind (client_calls L R E (calculator_Client_new hk) w) (\<lambda>_.
         println [Text ''All done!'']))))))"

section \<open>Lemmas\<close>

lemma server_addr: "parse_socket_addr ''127.0.0.1:9494'' = Ok ([127, 0, 0, 1], 9494)"
  by (simp add: parse_socket_addr_def read_ipv4_addr_def read_octet_def read_digit_def)

lemma step_try_simps [prog_simps]:
  "prog_bind (step_try box (Some (Ok a), w)) f = f (a, w)"
  "prog_bind (step_try box (Some (Err k), w)) f = ([], Returned (Err (box k)))"
  "prog_bind (step_try box (None, w)) f = ([], Stuck)"
  by (simp_all add: step_try_def prog_simps)

lemma run_request_simps [prog_simps]:
  "block_on E q w = ((bg, Some (Ok a)), w') \<Longrightarrow>
     run_request E pending q w = (background_lines pending bg, Returned (Ok (a, pending \<and> bg = None, w')))"
  "block_on E q w = ((bg, Some (Err e)), w') \<Longrightarrow>
     run_request E pending q w = (background_lines pending bg, Returned (Err (Capnp_Error e)))"
  "block_on E q w = ((bg, None), w') \<Longrightarrow>
     run_request E pending q w = (background_lines pending bg, Stuck)"
  by (simp_all add: run_request_def prog_simps prog_return_def)

lemma client_main_connected:
  assumes "Runtime_new E w = (Ok (), w1)" and "block_on_connect E ([127, 0, 0, 1], 9494) w1 = (Some (Ok s), w2)"
    and "set_nodelay E s True w2 = (Ok (), w3)" and "rpc_bootstrap E s w3 = (hk, w4)"
  shows "client_main L R E w =
    prog_bind (println [Text ''Connecting to server on '', Display_str ''127.0.0.1:9494'']) (\<lambda>_.
    prog_bind (client_calls L R E (calculator_Client_new hk) w4) (\<lambda>_. println [Text ''All done!'']))"
  using assms by (simp add: client_main_def prog_simps server_addr)

text \<open>The lines of a run that ends well, with the number that the server sends.\<close>

definition client_lines :: "f64 \<Rightarrow> 'e line list" where
  "client_lines v = [[Text ''Connecting to server on '', Display_str ''127.0.0.1:9494''],
     [Text ''Got an (opaque) response!''], [Text ''Value = '', Display_f64 v], [Text ''All done!'']]"

fun background_line :: "'e line \<Rightarrow> bool" where
  "background_line [Text t, Display_error e] = True"
| "background_line l = False"

text \<open>A run of the block of calls: its own lines are a prefix of two, and it prints at most one error.\<close>

definition calls_ok :: "(unit, 'e, ('i, 'e) boxed_error) prog \<Rightarrow> bool" where
  "calls_ok p \<longleftrightarrow> (case p of (out, oc) \<Rightarrow>
     length (filter background_line out) \<le> 1 \<and>
     (case oc of
        Returned (Ok u) \<Rightarrow> (\<exists>v. filter (\<lambda>l. \<not> background_line l) out =
          [[Text ''Got an (opaque) response!''], [Text ''Value = '', Display_f64 v]])
      | Returned (Err x) \<Rightarrow> filter (\<lambda>l. \<not> background_line l) out \<in>
          {[], [[Text ''Got an (opaque) response!'']]} \<and> x \<noteq> Addr_Parse_Error
      | Panicked e \<Rightarrow> False
      | Stuck \<Rightarrow> filter (\<lambda>l. \<not> background_line l) out \<in> {[], [[Text ''Got an (opaque) response!'']]}))"

lemma background_lines_simps [simp]:
  "filter background_line (background_lines pending bg) = background_lines pending bg"
  "filter (\<lambda>l. \<not> background_line l) (background_lines pending bg) = []"
  "length (background_lines pending bg) \<le> Suc 0"
  "background_lines False bg = []"
  "background_lines True (Some e) = [[Text ''Encountered error: '', Display_error e]]"
  "background_lines pending None = []"
  by (simp_all add: background_lines_def split: option.splits)

lemma run_request_cases:
  obtains (Done) bg a w' where "run_request E pending q w =
      (background_lines pending bg, Returned (Ok (a, pending \<and> bg = None, w')))"
  | (Failed) bg e where "run_request E pending q w =
      (background_lines pending bg, Returned (Err (Capnp_Error e)))"
  | (Waiting) bg where "run_request E pending q w = (background_lines pending bg, Stuck)"
proof -
  obtain bg r w' where b: "block_on E q w = ((bg, r), w')" by (metis surj_pair)
  show ?thesis
  proof (cases r)
    case None
    then show ?thesis using b that(3) by (simp add: run_request_simps)
  next
    case (Some x)
    then show ?thesis using b that(1,2) by (cases x) (simp_all add: run_request_simps)
  qed
qed

lemma client_calls_ok: "calls_ok (client_calls L R E c w)"
proof (cases rule: run_request_cases [of E True "literal_request L R E c" w])
  case (Done bg resp w')
  note first = Done
  show ?thesis
  proof (cases "result_bind (response_get E resp) (\<lambda>sr. evaluate_results_Reader_get_value L (evaluate_results_Reader_new sr))")
    case (Ok val)
    then obtain sr where sr: "response_get E resp = Ok sr"
      "evaluate_results_Reader_get_value L (evaluate_results_Reader_new sr) = Ok val" by auto
    show ?thesis
    proof (cases rule: run_request_cases [of E "bg = None" "value_Client_read_request R val" w'])
      case (Done bg' resp' w'')
      then show ?thesis using first sr
        by (cases "response_get E resp'"; cases bg)
          (auto simp: client_calls_def prog_simps calls_ok_def println_def)
    qed (use first sr in \<open>cases bg; auto simp: client_calls_def prog_simps calls_ok_def\<close>)+
  next
    case (Err e)
    then show ?thesis using first
      by (cases "response_get E resp"; cases bg) (auto simp: client_calls_def prog_simps calls_ok_def)
  qed
qed (auto simp: client_calls_def prog_simps calls_ok_def)

section \<open>The request and the server\<close>

text \<open>
  What the RPC library promises of a request under construction.  \<open>target\<close> is what a request is addressed
  to: a capability, the id of an interface and the ordinal of a method, those that \<open>new_call\<close> was given.
  The parameters of a request of \<open>evaluate\<close> are a struct with room for the parameters of that method, and
  a message written through their builder is the one sent, to the same target.
\<close>

definition requests_ok ::
  "('m, 'h, 'e) view \<Rightarrow> ('h, 'q, 'p, 'r, 't, 'x) rpc \<Rightarrow> ('w, 's, 'h, 'q, 'a, 'm, 'e, 'i) client_env \<Rightarrow>
     ('q \<Rightarrow> 'h \<times> u64 \<times> u16) \<Rightarrow> bool" where
  "requests_ok V R E target \<longleftrightarrow>
     (\<forall>c. struct_ok V (snd (request_params E (calculator_Client_evaluate_request R c)))
       (fst (request_params E (calculator_Client_evaluate_request R c))) evaluate_params_STRUCT_SIZE) \<and>
     (\<forall>c i k n. target (new_call R c i k n) = (hook c, i, k)) \<and>
     (\<forall>q m. request_params E (with_message E q m) = (fst (request_params E q), m) \<and>
       target (with_message E q m) = target q)"

text \<open>
  What is sent, as any implementation of the schema sees it: in the parameters of \<open>evaluate\<close> the first
  pointer refers to an \<open>Expression\<close>, a struct whose discriminant, the 16 bits at byte 8, is 0 for a
  literal, which is then the 64 bits at byte 0.
\<close>

fun wire_literal :: "('h, 'e) obj \<Rightarrow> f64 option" where
  "wire_literal (OStruct ds (OStruct d ps # qs)) =
     (if read_field d 4 = (0 :: u16) then Some (read_field d 0) else None)"
| "wire_literal t = None"

text \<open>
  A request to the calculator \<open>h\<close> to evaluate the literal \<open>x\<close>.  The schema compiler gave the interface
  \<open>Calculator\<close> the id \<open>0x97983392df35cc36\<close> and \<open>Value\<close> the id \<open>0xc3e69d34d3ee48d2\<close>, also in the
  code it generated for the server (\<open>go/calculator/calculator.capnp.go\<close>); the ordinals of \<open>evaluate\<close> and
  of \<open>read\<close> are 0.
\<close>

definition asks_literal ::
  "('m, 'h, 'e) capnp \<Rightarrow> ('m, 'h, 'e) view \<Rightarrow> ('w, 's, 'h, 'q, 'a, 'm, 'e, 'i) client_env \<Rightarrow>
     ('q \<Rightarrow> 'h \<times> u64 \<times> u16) \<Rightarrow> 'h \<Rightarrow> 'q \<Rightarrow> f64 \<Rightarrow> bool" where
  "asks_literal L V E target h q x \<longleftrightarrow> target q = (h, 0x97983392df35cc36, 0) \<and>
     wire_literal (struct_obj V (sb_into_reader L (fst (request_params E q)) (snd (request_params E q)))) =
       Some x"

text \<open>
  A calculator server behind the capability \<open>h\<close>, as far as literals go, in terms of what is sent: it
  answers such a request with a struct whose first pointer is a capability \<open>v\<close>, and from then on a request to
  \<open>v\<close> for the method \<open>read\<close> with a struct whose first 64 bits are the number.
\<close>

definition serves_literals ::
  "('m, 'h, 'e) capnp \<Rightarrow> ('m, 'h, 'e) view \<Rightarrow> ('w, 's, 'h, 'q, 'a, 'm, 'e, 'i) client_env \<Rightarrow>
     ('q \<Rightarrow> 'h \<times> u64 \<times> u16) \<Rightarrow> 'h \<Rightarrow> bool" where
  "serves_literals L V E target h \<longleftrightarrow>
     (\<forall>q x w. asks_literal L V E target h q x \<longrightarrow>
       (\<exists>resp sr v ps w'. block_on E q w = ((None, Some (Ok resp)), w') \<and>
          response_get E resp = Ok sr \<and> rptrs V sr = OCap v # ps \<and>
          (\<forall>q'. target q' = (v, 0xc3e69d34d3ee48d2, 0) \<longrightarrow>
             (\<exists>resp' sr' w''. block_on E q' w' = ((None, Some (Ok resp')), w'') \<and>
                response_get E resp' = Ok sr' \<and> read_field (rdata V sr') 0 = x))))"

context capnp_builder
begin

text \<open>A literal written through \<open>init_expression\<close> is the one the parameters carry.\<close>

lemma wire_literal_set:
  assumes b: "struct_ok V m (evaluate_params_Builder_builder b) evaluate_params_STRUCT_SIZE"
    and i: "evaluate_params_Builder_init_expression L b m = (e, m')"
  shows "wire_literal (struct_obj V (sb_into_reader L (evaluate_params_Builder_builder b)
    (expression_Builder_set_literal L e x m'))) = Some x"
proof -
  let ?m = "expression_Builder_set_literal L e x m'" and ?sb = "evaluate_params_Builder_builder b"
  note init = evaluate_init_expression [OF b i]
  note c = child_below(1) [OF init(1) conjunct1 [OF struct_steps_below
        [OF expression_set_literal(3) [OF init(2)] child_slot [OF init(1)]]]]
  have "robj V (sr_get_pointer_field L (sb_into_reader L ?sb ?m) 0) =
      struct_obj V (sb_into_reader L (expression_Builder_builder e) ?m)"
    using child_obj [OF c] by (simp add: cobj_def)
  then obtain ps where "rptrs V (sb_into_reader L ?sb ?m) =
      struct_obj V (sb_into_reader L (expression_Builder_builder e) ?m) # ps"
    by (cases "rptrs V (sb_into_reader L ?sb ?m)") (simp_all add: get_pointer struct_obj_def)
  then show ?thesis
    using expression_literal_data [OF init(2), of x] by (simp add: struct_obj_def)
qed

lemma literal_request_asks:
  assumes "requests_ok V R E target"
  shows "asks_literal L V E target h (literal_request L R E (calculator_Client_new h)) 0x405EC00000000000"
proof -
  let ?q = "calculator_Client_evaluate_request R (calculator_Client_new h)"
  obtain sb m where q: "request_params E ?q = (sb, m)" by fastforce
  obtain e m' where i: "evaluate_params_Builder_init_expression L (evaluate_params_Builder_new sb) m = (e, m')"
    by fastforce
  have "struct_ok V (snd (request_params E ?q)) (fst (request_params E ?q)) evaluate_params_STRUCT_SIZE"
    using assms by (simp add: requests_ok_def)
  then have "struct_ok V m (evaluate_params_Builder_builder (evaluate_params_Builder_new sb))
      evaluate_params_STRUCT_SIZE"
    by (simp add: q evaluate_params_Builder_new_def)
  note wire_literal_set [OF this i]
  moreover have "target ?q = (h, 0x97983392df35cc36, 0)"
    using assms by (simp add: requests_ok_def calculator_Client_evaluate_request_def
        calculator_Client_new_def calculator_TYPE_ID_def)
  ultimately show ?thesis
    using assms q i
    by (simp add: literal_request_def asks_literal_def requests_ok_def evaluate_params_Builder_new_def)
qed

text \<open>The getters of the client find what the server sends.\<close>

lemma evaluate_results_wire:
  assumes "rptrs V sr = OCap v # ps"
  shows "evaluate_results_Reader_get_value L (evaluate_results_Reader_new sr) = Ok (value_Client_new v)"
  using get_cap [of "sr_get_pointer_field L sr 0" v] assms
  by (simp add: evaluate_results_defs value_iface_defs get_pointer)

lemma read_results_wire:
  "value_read_results_Reader_get_value L (value_read_results_Reader_new sr) = read_field (rdata V sr) 0"
  by (simp add: value_read_results_defs get_f64)

lemma read_request_target:
  assumes "requests_ok V R E target"
  shows "target (value_Client_read_request R (value_Client_new v)) = (v, 0xc3e69d34d3ee48d2, 0)"
  using assms by (simp add: requests_ok_def value_Client_read_request_def value_Client_new_def value_TYPE_ID_def)

lemma client_calls_literal:
  assumes r: "requests_ok V R E target" and "serves_literals L V E target h"
  shows "client_calls L R E (calculator_Client_new h) w = ([[Text ''Got an (opaque) response!''],
    [Text ''Value = '', Display_f64 0x405EC00000000000]], Returned (Ok ()))"
proof -
  from assms(2) [unfolded serves_literals_def, rule_format, OF literal_request_asks [OF r], of w]
  obtain resp sr v ps w' where first: "block_on E (literal_request L R E (calculator_Client_new h)) w =
      ((None, Some (Ok resp)), w')" "response_get E resp = Ok sr" "rptrs V sr = OCap v # ps"
    and serves: "\<And>q'. target q' = (v, 0xc3e69d34d3ee48d2, 0) \<Longrightarrow>
      \<exists>resp' sr' w''. block_on E q' w' = ((None, Some (Ok resp')), w'') \<and>
        response_get E resp' = Ok sr' \<and> read_field (rdata V sr') 0 = (0x405EC00000000000 :: f64)"
    by blast
  from serves [OF read_request_target [OF r]]
  obtain resp' sr' w'' where "block_on E (value_Client_read_request R (value_Client_new v)) w' =
      ((None, Some (Ok resp')), w'')" "response_get E resp' = Ok sr'"
    "read_field (rdata V sr') 0 = (0x405EC00000000000 :: f64)"
    by blast
  with first show ?thesis
    by (simp add: client_calls_def prog_simps println_def evaluate_results_wire [OF first(3)] read_results_wire)
qed

end

section \<open>Properties\<close>

text \<open>
  C4. The whole exchange: when the connection is made and the server keeps the contract of the schema for
  literals, stated on what is sent over the wire, the command sends the literal 123 to the method
  \<open>evaluate\<close> of the bootstrap capability, calls \<open>read\<close> on the capability in the answer, prints its four lines
  with the number it gets back, which is 123, and succeeds.
\<close>

theorem client_prints_literal:
  assumes L: "capnp_builder L V" and r: "requests_ok V R E target" and s: "serves_literals L V E target h"
    and "Runtime_new E w = (Ok (), w1)" and "block_on_connect E ([127, 0, 0, 1], 9494) w1 = (Some (Ok st), w2)"
    and "set_nodelay E st True w2 = (Ok (), w3)" and "rpc_bootstrap E st w3 = (h, w4)"
  shows "asks_literal L V E target h (literal_request L R E (calculator_Client_new h)) 0x405EC00000000000 \<and>
    client_main L R E w = (client_lines 0x405EC00000000000, Returned (Ok ())) \<and>
    f64_value 0x405EC00000000000 = 123"
proof -
  have "f64_mag 0x405EC00000000000 = 123 * 2 ^ 1075"
    by (simp add: f64_mag_def f64_exp_def f64_frac_def)
  then have "f64_value 0x405EC00000000000 = 123"
    by (simp add: f64_value_def f64_neg_def f64_scale_def)
  then show ?thesis
    using capnp_builder.literal_request_asks [OF L r] client_main_connected [OF assms(4-7), of L R]
    by (simp add: capnp_builder.client_calls_literal [OF L r s] prog_simps client_lines_def println_def)
qed

text \<open>
  An environment that runs: the capability of a value is named by the bits of the number, and requests are answered at
  once from the message they carry.
\<close>

definition loop_rpc :: "(nat, nat \<times> u64 \<times> u16 \<times> nat tree, unit, unit, unit, unit) rpc" where
  "loop_rpc = \<lparr>new_call = \<lambda>c i n s. (hook c, i, n, zero_struct evaluate_params_STRUCT_SIZE),
     promise_err = id, error_unimplemented = \<lambda>s. (), internal_get_typed_params = id,
     internal_get_typed_results = id\<rparr>"

definition loop_answer :: "nat \<times> u64 \<times> u16 \<times> nat tree \<Rightarrow> nat tree" where
  "loop_answer q = (case q of (h, i, n, m) \<Rightarrow>
     if i = 0x97983392df35cc36 \<and> n = 0 then
       (case wire_literal (struct_obj tree_view (StructReader m [])) of Some x \<Rightarrow> OStruct [] [OCap (unat x)] | None \<Rightarrow> OStruct [] [])
     else if i = 0xc3e69d34d3ee48d2 \<and> n = 0 then OStruct (word_le (of_nat h :: f64)) []
     else OStruct [] [])"

definition loop_env ::
  "(unit, unit, nat, nat \<times> u64 \<times> u16 \<times> nat tree, nat tree, nat tree, string, unit) client_env" where
  "loop_env = \<lparr>Runtime_new = \<lambda>w. (Ok (), w), block_on_connect = \<lambda>a w. (Some (Ok ()), w),
     set_nodelay = \<lambda>s b w. (Ok (), w), rpc_bootstrap = \<lambda>s w. (0, w),
     block_on = \<lambda>q w. ((None, Some (Ok (loop_answer q))), w),
     request_params = \<lambda>(h, i, n, m). (StructBuilder [], m), with_message = \<lambda>(h, i, n, m) m'. (h, i, n, m'),
     response_get = \<lambda>t. Ok (StructReader t [])\<rparr>"

lemma loop_requests: "requests_ok tree_view loop_rpc loop_env (\<lambda>(h, i, n, m). (h, i, n))"
  using fresh_struct_ok [OF tree_root_fresh, of evaluate_params_STRUCT_SIZE]
  by (simp add: requests_ok_def loop_rpc_def loop_env_def calculator_Client_evaluate_request_def
      split: prod.splits del: tree_view_simps)

lemma loop_serves: "serves_literals tree_capnp tree_view loop_env (\<lambda>(h, i, n, m). (h, i, n)) 0"
  unfolding serves_literals_def
proof (intro allI impI)
  fix q x w
  assume "asks_literal tree_capnp tree_view loop_env (\<lambda>(h, i, n, m). (h, i, n)) 0 q x"
  then have first: "block_on loop_env q w = ((None, Some (Ok (OStruct [] [OCap (unat x)]))), w)"
    by (auto simp: asks_literal_def loop_env_def loop_answer_def split: prod.splits)
  have second: "block_on loop_env q' w = ((None, Some (Ok (OStruct (word_le x) []))), w)"
    if "(\<lambda>(h, i, n, m). (h, i, n)) q' = (unat x, 0xc3e69d34d3ee48d2, 0)" for q'
    using that by (auto simp: loop_env_def loop_answer_def split: prod.splits)
  have get: "response_get loop_env t = Ok (StructReader t [])" for t by (simp add: loop_env_def)
  have number: "read_field (word_le x) 0 = x"
    using le_word_word_le [of x] by (simp add: read_field_def field_in_def get_field_def)
  show "\<exists>resp sr v ps w'. block_on loop_env q w = ((None, Some (Ok resp)), w') \<and>
      response_get loop_env resp = Ok sr \<and> rptrs tree_view sr = OCap v # ps \<and>
      (\<forall>q'. (\<lambda>(h, i, n, m). (h, i, n)) q' = (v, 0xc3e69d34d3ee48d2, 0) \<longrightarrow>
         (\<exists>resp' sr' w''. block_on loop_env q' w' = ((None, Some (Ok resp')), w'') \<and>
            response_get loop_env resp' = Ok sr' \<and> read_field (rdata tree_view sr') 0 = x))"
    using first second number by (simp add: get)
qed

theorem client_prints_literal_witness:
  "client_main tree_capnp loop_rpc loop_env () = (client_lines 0x405EC00000000000, Returned (Ok ()))"
  using client_prints_literal [OF tree_builder.capnp_builder_axioms loop_requests loop_serves, of "()" "()" "()" "()" "()" "()"]
  by (simp add: loop_env_def)

text \<open>The lines of the block of calls, between the first and the last line of the command.\<close>

lemma client_calls_trace:
  assumes "client_calls L R E c w = (out, oc)"
  defines "own \<equiv> filter (\<lambda>l. \<not> background_line l) out"
  shows "length (filter background_line out) \<le> 1" and "oc \<noteq> Panicked p"
    and "oc \<noteq> Returned (Err Addr_Parse_Error)"
    and "oc = Returned (Ok ()) \<Longrightarrow> \<exists>v. own = [[Text ''Got an (opaque) response!''], [Text ''Value = '', Display_f64 v]]"
    and "oc \<noteq> Returned (Ok ()) \<Longrightarrow> own = [] \<or> own = [[Text ''Got an (opaque) response!'']]"
  using client_calls_ok [of L R E c w] assms(1)
  by (auto simp: calls_ok_def own_def split: outcome.splits result.splits)

lemma client_main_failed:
  "Runtime_new E w = (Err i, w1) \<Longrightarrow> client_main L R E w = ([], Returned (Err (Io_Error i)))"
  "Runtime_new E w = (Ok (), w1) \<Longrightarrow> block_on_connect E ([127, 0, 0, 1], 9494) w1 = (None, w2) \<Longrightarrow>
     client_main L R E w = (take 1 (client_lines 0), Stuck)"
  "Runtime_new E w = (Ok (), w1) \<Longrightarrow> block_on_connect E ([127, 0, 0, 1], 9494) w1 = (Some (Err i), w2) \<Longrightarrow>
     client_main L R E w = (take 1 (client_lines 0), Returned (Err (Io_Error i)))"
  "Runtime_new E w = (Ok (), w1) \<Longrightarrow> block_on_connect E ([127, 0, 0, 1], 9494) w1 = (Some (Ok s), w2) \<Longrightarrow>
     set_nodelay E s True w2 = (Err i, w3) \<Longrightarrow>
     client_main L R E w = (take 1 (client_lines 0), Returned (Err (Io_Error i)))"
  by (simp_all add: client_main_def prog_simps server_addr client_lines_def)

lemma client_main_cases:
  obtains (Calls) c w' where "client_main L R E w =
      prog_bind (println [Text ''Connecting to server on '', Display_str ''127.0.0.1:9494'']) (\<lambda>_.
      prog_bind (client_calls L R E c w') (\<lambda>_. println [Text ''All done!'']))"
  | (Failed) k i where "k \<le> 1" "client_main L R E w = (take k (client_lines 0), Returned (Err (Io_Error i)))"
  | (Waiting) "client_main L R E w = (take 1 (client_lines 0), Stuck)"
proof -
  obtain r w1 where r: "Runtime_new E w = (r, w1)" by fastforce
  obtain c w2 where c: "block_on_connect E ([127, 0, 0, 1], 9494) w1 = (c, w2)" by fastforce
  show ?thesis
  proof (cases r)
    case (Err i)
    then show ?thesis using that(2) [of 0 i] client_main_failed(1) [of E w i w1 L R] r by simp
  next
    case (Ok u)
    note r = r [unfolded Ok, simplified]
    show ?thesis
    proof (cases c)
      case None
      then show ?thesis using that(3) client_main_failed(2) [OF r] c by blast
    next
      case (Some x)
      note c = c [unfolded Some]
      show ?thesis
      proof (cases x)
        case (Err i)
        then show ?thesis using that(2) [of 1 i] client_main_failed(3) [OF r] c by blast
      next
        case (Ok s)
        note c = c [unfolded Ok]
        obtain n w3 where n: "set_nodelay E s True w2 = (n, w3)" by fastforce
        obtain hk w4 where h: "rpc_bootstrap E s w3 = (hk, w4)" by fastforce
        show ?thesis
        proof (cases n)
          case (Ok u)
          then have "set_nodelay E s True w2 = (Ok (), w3)" using n by simp
          from client_main_connected [OF r c this h] show ?thesis by (rule that(1))
        next
          case (Err i)
          then show ?thesis using that(2) [of 1 i] client_main_failed(4) [OF r c] n by blast
        qed
      qed
    qed
  qed
qed

text \<open>
  C8. In every environment, whatever the network and the server do and in whatever order they fail: the
  command never panics, never fails on its own address, prints at most one error of the background task,
  and its other lines are a prefix of the four lines of a good run; all four are printed exactly when
  the command succeeds.
\<close>

theorem client_main_trace:
  "case client_main L R E w of (out, oc) \<Rightarrow>
     length (filter background_line out) \<le> 1 \<and>
     (\<forall>p. oc \<noteq> Panicked p) \<and> oc \<noteq> Returned (Err Addr_Parse_Error) \<and>
     (\<exists>v. filter (\<lambda>l. \<not> background_line l) out = take (length (filter (\<lambda>l. \<not> background_line l) out)) (client_lines v)) \<and>
     (oc = Returned (Ok ()) \<longleftrightarrow> length (filter (\<lambda>l. \<not> background_line l) out) = 4)"
proof (cases rule: client_main_cases [of L R E w])
  case (Calls c w')
  obtain out oc where c: "client_calls L R E c w' = (out, oc)" by fastforce
  note t = client_calls_trace [OF c]
  show ?thesis
  proof (cases "oc = Returned (Ok ())")
    case True
    then obtain v where "filter (\<lambda>l. \<not> background_line l) out =
        [[Text ''Got an (opaque) response!''], [Text ''Value = '', Display_f64 v]]" using t(4) by blast
    then show ?thesis using True c t(1)
      by (simp add: Calls prog_simps println_def client_lines_def)
  next
    case False
    then have "client_main L R E w =
        ([Text ''Connecting to server on '', Display_str ''127.0.0.1:9494''] # out, oc)"
      using c t(2) Calls by (auto simp: prog_bind_def println_def split: outcome.splits result.splits)
    then show ?thesis using False t(1,2,3,5) by (auto simp: client_lines_def)
  qed
next
  case (Failed k i)
  then have "k = 0 \<or> k = 1" by auto
  then show ?thesis using Failed by (auto simp: client_lines_def)
next
  case Waiting
  then show ?thesis by (auto simp: client_lines_def)
qed

end
