(* ===== verification/Main_Program.thy ===== *)
theory Main_Program
  imports Main_Client
begin

text \<open>
  The entry point of \<open>rust/src/main.rs\<close>: it chooses the command by the first argument and turns an error of
  the command into a panic.
\<close>

section \<open>The entry point\<close>

text \<open>\<open>Result::expect\<close> on the result of a command.\<close>

definition expect_ok :: "string \<Rightarrow> ('a, 'e, 'x) prog \<Rightarrow> 'e line list \<times> 'a outcome" where
  "expect_ok msg p = (case p of (out, oc) \<Rightarrow>
     (out, case oc of
        Returned (Ok a) \<Rightarrow> Returned a
      | Returned (Err x) \<Rightarrow> Panicked (Expect_Failed msg)
      | Panicked e \<Rightarrow> Panicked e
      | Stuck \<Rightarrow> Stuck))"

definition main_rs ::
  "('m, 'h, 'e) capnp \<Rightarrow> ('h, 'q, 'p, 'r, 't, 'x) rpc \<Rightarrow> ('f, 'g, 'm, 'i, 'e) files \<Rightarrow>
     ('w, 's, 'h, 'q, 'a, 'm, 'e, 'i) client_env \<Rightarrow> 'w \<Rightarrow> string list \<Rightarrow> 'e line list \<times> unit outcome" where
  "main_rs L R F E w args =
     (if length args \<le> 1 then ([], Panicked Index_Out_Of_Bounds)
      else let cmd = args ! 1 in
        if cmd = ''frames'' then expect_ok ''command failed'' (frames_main L F)
        else if cmd = ''client'' then expect_ok ''command failed'' (client_main L R E w)
        else ([], Panicked (Explicit_Panic (''unknown command '' @ cmd))))"

lemma expect_ok_cases:
  "fst (expect_ok msg p) = fst p"
  "snd (expect_ok msg p) = Returned a \<longleftrightarrow> snd p = Returned (Ok a)"
  "snd (expect_ok msg p) = Stuck \<longleftrightarrow> snd p = Stuck"
  by (auto simp: expect_ok_def split: prod.splits outcome.splits result.splits)

section \<open>Properties\<close>

text \<open>
  C17. The process ends normally exactly when it was started with a known command and that command
  succeeded.  It prints what the command prints and nothing else, and nothing at all without a known command;
  every error of a command becomes a panic, with the message of \<open>expect\<close>.
\<close>

theorem main_exit:
  "(snd (main_rs L R F E w args) = Returned () \<longleftrightarrow> 2 \<le> length args \<and>
      (args ! 1 = ''frames'' \<and> snd (frames_main L F) = Returned (Ok ()) \<or>
       args ! 1 = ''client'' \<and> snd (client_main L R E w) = Returned (Ok ()))) \<and>
   fst (main_rs L R F E w args) =
     (if length args < 2 then [] else if args ! 1 = ''frames'' then fst (frames_main L F)
      else if args ! 1 = ''client'' then fst (client_main L R E w) else []) \<and>
   (2 \<le> length args \<and> args ! 1 = ''frames'' \<and> snd (frames_main L F) = Returned (Err x) \<or>
    2 \<le> length args \<and> args ! 1 = ''client'' \<and> snd (client_main L R E w) = Returned (Err x) \<longrightarrow>
      snd (main_rs L R F E w args) = Panicked (Expect_Failed ''command failed''))"
  by (auto simp: main_rs_def Let_def expect_ok_cases) (auto simp: expect_ok_def split: prod.splits)

theorem main_exit_witness:
  "snd (main_rs tree_capnp loop_rpc
     \<lparr>File_open = \<lambda>_. Err () :: (unit, unit) result, read_message = \<lambda>_. Err '''' :: (unit, string) result,
      root_pointer = \<lambda>m. Err ''''\<rparr> loop_env () [''capnproto-test-rust'', ''frames'']) =
   Panicked (Expect_Failed ''command failed'')"
  using main_exit [of tree_capnp loop_rpc
     "\<lparr>File_open = \<lambda>_. Err () :: (unit, unit) result, read_message = \<lambda>_. Err '''' :: (unit, string) result,
      root_pointer = \<lambda>m. Err ''''\<rparr>" loop_env "()" "[''capnproto-test-rust'', ''frames'']" "Io_Error ()"]
  by (simp add: frames_main_def prog_simps)

end
