(* ===== verification/Spec2Isabelle.thy ===== *)
theory Spec2Isabelle
  imports Main_Program
begin

text \<open>
  A verification of the Rust program of this repository, an interoperability test of Cap'n Proto:
  \<open>rust/src/main.rs\<close> and the code generated for its two schemas, \<open>rust/src/schema/frames_capnp.rs\<close> and
  \<open>rust/src/schema/calculator_capnp.rs\<close>.

  \<^bold>\<open>The program.\<close>  \<open>main\<close> chooses between two commands.  \<open>frames_main\<close> reads a message from \<open>data.bin\<close> and prints its
  first frame.  \<open>client_main\<close> connects to a calculator server, asks it to evaluate a literal and prints the
  answer.  Both work on messages through the generated modules, one per struct, union, group, enum and
  interface of the schemas: a \<open>Reader\<close> gets fields of a message, a \<open>Builder\<close> sets them, a \<open>Client\<close> makes requests
  of an interface and a \<open>ServerDispatch\<close> hands them to the methods of a server.  The generated code is
  written against the \<open>capnp\<close> crate, which allocates, follows pointers and checks bounds.

  \<^bold>\<open>What is a parameter.\<close>  The crates \<open>capnp\<close>, \<open>capnp-rpc\<close>, \<open>tokio\<close> and \<open>futures\<close> are not part of the repository.  Their
  functions are the fields of the records \<open>capnp\<close> (theory \<open>Capnp_Runtime\<close>), \<open>rpc\<close> (\<open>Capnp_Rpc\<close>), \<open>files\<close>
  (\<open>Main_Frames\<close>) and \<open>client_env\<close> (\<open>Main_Client\<close>), and every definition takes the records it uses.  What the
  \<open>capnp\<close> crate documents of readers and builders is stated by the locales \<open>capnp_reader\<close> and \<open>capnp_builder\<close>:
  a reader sees a tree of objects, a builder a heap of structs whose slots are written one at a time.
  \<open>Capnp_Tree\<close> gives an executable instance of these laws, messages as trees with handles as paths, on which
  the witnesses evaluate.

  \<^bold>\<open>Theories.\<close>
  \<^item> \<open>Prelude\<close>: results of fallible functions, little-endian fields of a byte section.
  \<^item> \<open>Rust_Effects\<close>: panics, printed lines, early return by \<open>?\<close>.
  \<^item> \<open>Rust_Float\<close>: the cast \<open>u32 as f64\<close> and the division of \<open>f64\<close>, on bit patterns.
  \<^item> \<open>Capnp_Runtime\<close>, \<open>Capnp_Tree\<close>: the crate's contract and its instance.
  \<^item> \<open>Capnp_Traits\<close>: the contracts of generated code, as locales: a data field (\<open>data_field\<close>), a pointer slot
    (\<open>pointer_slot\<close> with its extensions for blobs, structs and lists of structs), a module (\<open>struct_module\<close>,
    \<open>struct_value\<close>) and a set of operations that refines an update of values (\<open>op_refinement\<close>).
  \<^item> \<open>Capnp_Rpc\<close>: the same for client types, capability fields and dispatchers.
  \<^item> \<open>Frames_Rational\<close>, \<open>Frames_Audio\<close>, \<open>Frames_Video\<close>, \<open>Frames_Frame\<close>, \<open>Frames_Root\<close>: the modules of
    \<open>frames_capnp.rs\<close>, bottom up.
  \<^item> \<open>Calc_Value\<close>, \<open>Calc_Function\<close>, \<open>Calc_Expression\<close>, \<open>Calc_Methods\<close>, \<open>Calc_Interface\<close>: the modules of
    \<open>calculator_capnp.rs\<close>; the parameters and results of the calculator's methods are in \<open>Calc_Methods\<close>.
  \<^item> \<open>Main_Frames\<close>, \<open>Main_Client\<close>, \<open>Main_Program\<close>: the three functions of \<open>main.rs\<close>.

  \<^bold>\<open>Names.\<close>  The function \<open>f\<close> of \<open>Reader\<close> (\<open>Builder\<close>, \<open>Client\<close>, and so on) in the module \<open>m\<close> is the definition \<open>m_Reader_f\<close>.
  A method that borrows the message mutably takes the message and returns it; a reader carries the message
  it borrows.  The trait functions of a module (\<open>get_from_pointer\<close>, \<open>init_pointer\<close>, \<open>set_pointer_builder\<close>, and so on) are
  definitions like the others, and its contract is interpreted on them in the same theory.

  \<^bold>\<open>What is shown.\<close>  For each struct, any sequence of setter calls refines the updates of the schema's record, read
  back through the generated readers, and a nested builder writes into its own slot only.  For each union, the
  member chosen last wins, and \<open>which\<close> reports an unknown discriminant as such.  For the list of frames, writes
  to one element leave the others alone, in any interleaving.  Nested expressions of any depth are written and
  read back.  The getters of builders agree with those of the readers made from them; where they return a
  builder they return one of the struct in the message, made first when there is none, with the value that a reader finds.
  Requests reach the method of their name, unknown calls change nothing.  \<open>frames_main\<close> prints exactly the values
  in the message, or fails as the message says, and the presentation time it prints is the correctly rounded quotient of
  numerator and denominator.  \<open>client_main\<close> prints a prefix of its four lines in every environment, and all of them with a
  server that keeps the schema's contract for literals, which is stated on interface ids, method ordinals and the layout
  of the structs sent, not on the client's own code.  \<open>main\<close> succeeds exactly when its command does.

  \<^bold>\<open>Specification functions.\<close>  Not everything defined here is code of the program.  The values of structs
  (\<open>rational_read\<close>, \<open>audio_frame_read\<close>, and so on) collect what the getters return; \<open>expression_read\<close> walks an
  expression with \<open>which\<close>, \<open>get_function\<close> and \<open>get_params\<close>, and \<open>build\<close> writes one.  \<open>expression_read\<close> takes
  the nesting depth as fuel, and every fuel from the depth of a built expression on gives the whole expression.
  \<open>Rust_Float\<close> defines operations of the language, as IEEE 754 describes them.

  \<^bold>\<open>Bounds.\<close>  Integers are words of their width.  A list has fewer than \<open>2 ^ 29\<close> elements, the limit of the list
  pointer, wherever a length is a hypothesis.

  \<^bold>\<open>Not modelled.\<close>  The panic of \<open>env::args\<close> on an argument that is not Unicode: arguments are strings.  What a \<open>DataBuilder\<close> or a builder
  of a list of numbers does with the bytes it refers to, which only the crate's code can say.  The digits that \<open>std::fmt\<close> chooses for a floating point number: a printed line keeps its arguments as
  values.  The blanket implementations of \<open>Owned\<close> types, which only relate types.  The server in Go, the writer
  and client in TypeScript and the reader in Python, which are other programs that speak the same schemas.
\<close>

section \<open>The program as a whole\<close>

text \<open>
  C1. The process started with the command \<open>frames\<close>, on a file whose only frame was written with the generated
  builders as an audio frame (channels, stream id and data, then the presentation time): it prints four lines, with the values written and the nearest \<open>f64\<close> to the
  presentation time, and ends normally.
\<close>

theorem frames_command:
  assumes L: "capnp_builder L V" and b: "frames_ok L V b m"
    and l: "frames_Builder_init_frames L b 1 m = (lb, m1)"
    and a: "frame_Builder_init_audio_frame L (frame_elem L lb 0) m1 = (a, m2)"
    and p: "audio_frame_Builder_init_pts L a (fold (audio_frame_run L a)
      [AfSetChannels c, AfSetStreamId s, AfSetData bs] m2) = (p, m4)"
    and F: "file_holds L V F (frames_Builder_builder b) (fold (rational_run L p) [SetNum x, SetDen y] m4)"
    and n: "length bs < 2 ^ 29"
  shows "main_rs L R F E w [prog, ''frames''] =
    ([[Text ''stream ID: '', Display_u32 s], [Text ''channels: '', Display_u16 c],
      [Text ''pts: '', Display_f64 (f64_div (f64_of_u32 x) (f64_of_u32 y))], [Text ''data: '', Debug_bytes bs]],
     Returned ())"
proof -
  have "list_all (audio_frame_allowed V) [AfSetChannels c, AfSetStreamId s, AfSetData bs]"
    using n by simp
  from capnp_builder.frames_main_audio [OF L b _ _ l a this p F] show ?thesis
    by (simp add: main_rs_def expect_ok_def audio_report_def)
qed

theorem frames_command_witness:
  "\<exists>m. main_rs tree_capnp loop_rpc (tree_file m) loop_env () [''capnproto-test-rust'', ''frames''] =
     ([[Text ''stream ID: '', Display_u32 69], [Text ''channels: '', Display_u16 2],
       [Text ''pts: '', Display_f64 0x3F91111111111111], [Text ''data: '', Debug_bytes [1, 2, 3]]],
      Returned ())"
proof -
  let ?b = "frames_Builder (StructBuilder [])" and ?m = "zero_struct frames_STRUCT_SIZE :: nat tree"
    and ?xs = "[AfSetChannels 2, AfSetStreamId 69, AfSetData [1, 2, 3]]"
  have b: "frames_ok tree_capnp tree_view ?b ?m"
    using fresh_struct_ok [OF tree_root_fresh] by (simp add: frames_ok_def)
  obtain lb m1 where l: "frames_Builder_init_frames tree_capnp ?b 1 ?m = (lb, m1)" by fastforce
  obtain a m2 where a: "frame_Builder_init_audio_frame tree_capnp (frame_elem tree_capnp lb 0) m1 = (a, m2)"
    by fastforce
  obtain p m4 where p: "audio_frame_Builder_init_pts tree_capnp a
      (fold (audio_frame_run tree_capnp a) ?xs m2) = (p, m4)" by fastforce
  let ?m5 = "fold (rational_run tree_capnp p) [SetNum 1, SetDen 60] m4"
  have "file_holds tree_capnp tree_view (tree_file ?m5) (frames_Builder_builder ?b) ?m5"
    using tree_file_holds by simp
  from frames_command [OF tree_builder.capnp_builder_axioms b l a p this, of loop_rpc loop_env "()"]
  show ?thesis
    by (intro exI [of _ ?m5]) (simp add: f64_div_u32 round_one_sixtieth del: One_nat_def)
qed

end
